(* ===== verification/Prelude.thy ===== *)
theory Prelude
  imports Main "HOL-Library.Word"
begin

text \<open>
  The shared vocabulary of the development.  Rust's \<open>Result<T, E>\<close> is the sum type \<open>'e + 'a\<close>
  with \<open>Inl\<close> the error; the \<open>?\<close> operator is \<open>and_then\<close>, an early return under a condition is
  \<open>require\<close>, and a validator that is a sequence of early returns is \<open>first_error\<close> of its checks in
  source order.  A Rust \<open>str\<close> is its UTF-8 byte sequence, a HOL \<open>string\<close> (a \<open>char\<close> has exactly 256
  values); raw bytes are \<open>8 word\<close>.  A PostgreSQL table with an identity column is a \<open>table\<close>: rows
  in insertion order keyed by identifier, and the next value of its sequence.
\<close>

section \<open>Collections of facts\<close>

named_theorems result_simps \<open>characterisations of successful and failing computations\<close>
named_theorems table_simps \<open>what reads of a table return after writes\<close>

section \<open>Results\<close>

type_synonym ('e, 'a) result = "'e + 'a"
type_synonym byte = "8 word"

fun and_then :: "('e, 'a) result \<Rightarrow> ('a \<Rightarrow> ('e, 'b) result) \<Rightarrow> ('e, 'b) result" where
  "and_then (Inl e) f = Inl e"
| "and_then (Inr x) f = f x"

definition require :: "bool \<Rightarrow> 'e \<Rightarrow> ('e, unit) result" where
  "require b e = (if b then Inr () else Inl e)"

fun ok_or :: "'a option \<Rightarrow> 'e \<Rightarrow> ('e, 'a) result" where
  "ok_or None e = Inl e"
| "ok_or (Some x) e = Inr x"

fun map_err :: "('e \<Rightarrow> 'f) \<Rightarrow> ('e, 'a) result \<Rightarrow> ('f, 'a) result" where
  "map_err g (Inl e) = Inl (g e)"
| "map_err g (Inr x) = Inr x"

fun is_ok :: "('e, 'a) result \<Rightarrow> bool" where
  "is_ok (Inl e) = False"
| "is_ok (Inr x) = True"

text \<open>The first failing check of a sequence, in order; success when every check succeeds.\<close>

fun first_error :: "('e, unit) result list \<Rightarrow> ('e, unit) result" where
  "first_error [] = Inr ()"
| "first_error (c # cs) = and_then c (\<lambda>_. first_error cs)"

text \<open>A \<open>for\<close> loop whose body may return early: the results in order, or the first error.\<close>

fun try_map :: "('a \<Rightarrow> ('e, 'b) result) \<Rightarrow> 'a list \<Rightarrow> ('e, 'b list) result" where
  "try_map f [] = Inr []"
| "try_map f (x # xs) = and_then (f x) (\<lambda>y. and_then (try_map f xs) (\<lambda>ys. Inr (y # ys)))"

definition try_each :: "('a \<Rightarrow> ('e, unit) result) \<Rightarrow> 'a list \<Rightarrow> ('e, unit) result" where
  "try_each f xs = first_error (map f xs)"

text \<open>
  A loop that validates each element and inserts its key into a set, failing when the key was there:
  \<open>for x in xs { x.validate()?; if !seen.insert(x.key) { return Err(duplicate) } }\<close>.
\<close>

fun validate_unique :: "('a \<Rightarrow> ('e, unit) result) \<Rightarrow> ('a \<Rightarrow> 'k) \<Rightarrow> 'e \<Rightarrow> 'k list \<Rightarrow> 'a list \<Rightarrow> ('e, unit) result" where
  "validate_unique v key duplicate seen [] = Inr ()"
| "validate_unique v key duplicate seen (x # xs) =
     and_then (v x) (\<lambda>_.
       if key x \<in> set seen then Inl duplicate
       else validate_unique v key duplicate (key x # seen) xs)"

lemma and_then_eq_Inr [simp, result_simps]:
  "and_then m f = Inr y \<longleftrightarrow> (\<exists>x. m = Inr x \<and> f x = Inr y)"
  by (cases m) auto

lemma and_then_eq_Inl [result_simps]:
  "and_then m f = Inl e \<longleftrightarrow> m = Inl e \<or> (\<exists>x. m = Inr x \<and> f x = Inl e)"
  by (cases m) auto

lemma and_then_assoc: "and_then (and_then m f) g = and_then m (\<lambda>x. and_then (f x) g)"
  by (cases m) auto

lemma require_eq_Inr [simp, result_simps]: "require b e = Inr u \<longleftrightarrow> b"
  by (simp add: require_def)

lemma require_eq_Inl [simp, result_simps]: "require b e = Inl e' \<longleftrightarrow> \<not> b \<and> e' = e"
  by (auto simp: require_def)

lemma require_True [simp]: "require True e = Inr ()"
  by (simp add: require_def)

lemma require_False [simp]: "require False e = Inl e"
  by (simp add: require_def)

lemma ok_or_eq_Inr [simp, result_simps]: "ok_or m e = Inr x \<longleftrightarrow> m = Some x"
  by (cases m) auto

lemma ok_or_eq_Inl [simp, result_simps]: "ok_or m e = Inl e' \<longleftrightarrow> m = None \<and> e' = e"
  by (cases m) auto

lemma map_err_eq_Inr [simp, result_simps]: "map_err g m = Inr x \<longleftrightarrow> m = Inr x"
  by (cases m) auto

lemma map_err_eq_Inl [result_simps]: "map_err g m = Inl e \<longleftrightarrow> (\<exists>e'. m = Inl e' \<and> e = g e')"
  by (cases m) auto

lemma is_ok_iff: "is_ok m \<longleftrightarrow> (\<exists>x. m = Inr x)"
  by (cases m) auto

lemma first_error_eq_Inr [simp, result_simps]:
  "first_error cs = Inr u \<longleftrightarrow> (\<forall>c \<in> set cs. c = Inr ())"
  by (induction cs) auto

lemma first_error_append:
  "first_error (cs @ ds) = and_then (first_error cs) (\<lambda>_. first_error ds)"
  by (induction cs) (auto simp: and_then_assoc)

lemma first_error_at:
  "(\<forall>d \<in> set pre. d = Inr ()) \<Longrightarrow> first_error (pre @ Inl e # post) = Inl e"
  by (induction pre) auto

lemma try_each_eq_Inr [simp, result_simps]: "try_each f xs = Inr u \<longleftrightarrow> (\<forall>x \<in> set xs. f x = Inr ())"
  by (simp add: try_each_def)

lemma validate_unique_seen:
  "validate_unique v key d seen xs = Inr u \<longleftrightarrow>
     (\<forall>x \<in> set xs. v x = Inr ()) \<and> distinct (map key xs) \<and> set (map key xs) \<inter> set seen = {}"
  by (induction xs arbitrary: seen) auto

lemma validate_unique_ok [simp, result_simps]:
  "validate_unique v key d [] xs = Inr u \<longleftrightarrow> (\<forall>x \<in> set xs. v x = Inr ()) \<and> distinct (map key xs)"
  by (simp add: validate_unique_seen)

lemma try_map_eq_Inr [result_simps]: "try_map f xs = Inr ys \<longleftrightarrow> list_all2 (\<lambda>x y. f x = Inr y) xs ys"
proof (induction xs arbitrary: ys)
  case (Cons x xs)
  then show ?case by (cases ys) auto
qed auto

lemma try_map_length: "try_map f xs = Inr ys \<Longrightarrow> length ys = length xs"
  by (simp add: try_map_eq_Inr list_all2_lengthD)

section \<open>Checked machine arithmetic\<close>

text \<open>\<open>u64::checked_add\<close> and \<open>u64::checked_mul\<close>.\<close>

definition checked_add :: "'a::len word \<Rightarrow> 'a word \<Rightarrow> 'a word option" where
  "checked_add a b = (if uint a + uint b < 2 ^ LENGTH('a) then Some (a + b) else None)"

definition checked_mul :: "'a::len word \<Rightarrow> 'a word \<Rightarrow> 'a word option" where
  "checked_mul a b = (if uint a * uint b < 2 ^ LENGTH('a) then Some (a * b) else None)"

lemma checked_add_uint:
  "checked_add a b = Some c \<longleftrightarrow> uint c = uint a + uint b"
proof
  assume "checked_add a b = Some c"
  then have c: "c = a + b" and bound: "uint a + uint b < 2 ^ LENGTH('a)"
    by (auto simp: checked_add_def split: if_splits)
  have "uint (a + b) = (uint a + uint b) mod 2 ^ LENGTH('a)"
    by (simp add: uint_word_ariths)
  with c bound show "uint c = uint a + uint b" by simp
next
  assume u: "uint c = uint a + uint b"
  have bound: "uint a + uint b < 2 ^ LENGTH('a)"
    using uint_lt2p [of c] u by simp
  have "c = a + b"
    using u bound by (simp add: word_uint_eq_iff uint_word_ariths)
  then show "checked_add a b = Some c"
    using bound by (simp add: checked_add_def)
qed

lemma checked_mul_uint:
  "checked_mul a b = Some c \<longleftrightarrow> uint c = uint a * uint b"
proof
  assume "checked_mul a b = Some c"
  then have c: "c = a * b" and bound: "uint a * uint b < 2 ^ LENGTH('a)"
    by (auto simp: checked_mul_def split: if_splits)
  have "uint (a * b) = (uint a * uint b) mod 2 ^ LENGTH('a)"
    by (simp add: uint_word_ariths)
  with c bound show "uint c = uint a * uint b" by simp
next
  assume u: "uint c = uint a * uint b"
  have bound: "uint a * uint b < 2 ^ LENGTH('a)"
    using uint_lt2p [of c] u by simp
  have "c = a * b"
    using u bound by (simp add: word_uint_eq_iff uint_word_ariths)
  then show "checked_mul a b = Some c"
    using bound by (simp add: checked_mul_def)
qed

lemma checked_add_None: "checked_add a b = None \<longleftrightarrow> 2 ^ LENGTH('a) \<le> uint a + uint (b :: 'a::len word)"
  by (auto simp: checked_add_def)

lemma checked_mul_None: "checked_mul a b = None \<longleftrightarrow> 2 ^ LENGTH('a) \<le> uint a * uint (b :: 'a::len word)"
  by (auto simp: checked_mul_def)

section \<open>Strings\<close>

definition char_byte :: "char \<Rightarrow> byte" where
  "char_byte c = of_char c"

definition bytes_of :: "string \<Rightarrow> byte list" where
  "bytes_of s = map char_byte s"

lemma of_char_inj_byte: "(of_char c :: byte) = of_char d \<longleftrightarrow> c = d"
proof
  assume "(of_char c :: byte) = of_char d"
  then have "unat (of_char c :: byte) = unat (of_char d :: byte)" by simp
  moreover have "unat (of_char x :: byte) = (of_char x :: nat)" for x
  proof -
    have "(of_char x :: byte) = of_nat (of_char x)" by (simp add: of_nat_of_char)
    moreover have "(of_char x :: nat) < 2 ^ LENGTH(8)" by (simp add: nat_of_char_less_256)
    ultimately show ?thesis by (simp add: unat_of_nat take_bit_nat_eq_self)
  qed
  ultimately show "c = d" by (simp add: of_char_eq_iff)
qed simp

lemma bytes_of_inject [simp]: "bytes_of s = bytes_of t \<longleftrightarrow> s = t"
  by (auto simp: bytes_of_def char_byte_def inj_on_def of_char_inj_byte map_injective
           intro!: injI dest: map_injective [OF _ injI, rotated])

lemma length_bytes_of [simp]: "length (bytes_of s) = length s"
  by (simp add: bytes_of_def)

text \<open>\<open>str::split\<close> on one separator character: always at least one segment.\<close>

fun split_on :: "'a \<Rightarrow> 'a list \<Rightarrow> 'a list list" where
  "split_on c [] = [[]]"
| "split_on c (x # xs) =
     (if x = c then [] # split_on c xs
      else (case split_on c xs of [] \<Rightarrow> [[x]] | s # ss \<Rightarrow> (x # s) # ss))"

fun join_with :: "'a \<Rightarrow> 'a list list \<Rightarrow> 'a list" where
  "join_with c [] = []"
| "join_with c [s] = s"
| "join_with c (s # ss) = s @ c # join_with c ss"

lemma split_on_ne [simp]: "split_on c xs \<noteq> []"
  by (induction xs) (auto split: list.splits)

lemma join_split [simp]: "join_with c (split_on c xs) = xs"
proof (induction xs)
  case (Cons x xs)
  then show ?case by (cases "split_on c xs"; cases "tl (split_on c xs)") auto
qed simp

lemma split_on_no_sep: "s \<in> set (split_on c xs) \<Longrightarrow> c \<notin> set s"
proof (induction xs arbitrary: s)
  case (Cons x xs)
  then show ?case
    by (cases "split_on c xs") (auto split: if_splits)
qed simp

text \<open>\<open>str::split_once\<close>.\<close>

fun split_once :: "'a \<Rightarrow> 'a list \<Rightarrow> ('a list \<times> 'a list) option" where
  "split_once c [] = None"
| "split_once c (x # xs) =
     (if x = c then Some ([], xs)
      else (case split_once c xs of None \<Rightarrow> None | Some (a, b) \<Rightarrow> Some (x # a, b)))"

lemma split_once_Some: "split_once c xs = Some (a, b) \<Longrightarrow> xs = a @ c # b \<and> c \<notin> set a"
  by (induction xs arbitrary: a b) (auto split: if_splits option.splits)

lemma split_once_None: "split_once c xs = None \<longleftrightarrow> c \<notin> set xs"
  by (induction xs) (auto split: option.splits)

lemma split_once_append: "c \<notin> set a \<Longrightarrow> split_once c (a @ c # b) = Some (a, b)"
  by (induction a) auto

text \<open>\<open>str::strip_prefix\<close>, \<open>str::starts_with\<close> and \<open>str::ends_with\<close>.\<close>

definition strip_prefix :: "'a list \<Rightarrow> 'a list \<Rightarrow> 'a list option" where
  "strip_prefix p s = (if take (length p) s = p then Some (drop (length p) s) else None)"

definition starts_with :: "'a list \<Rightarrow> 'a list \<Rightarrow> bool" where
  "starts_with p s = (take (length p) s = p)"

definition ends_with :: "'a list \<Rightarrow> 'a list \<Rightarrow> bool" where
  "ends_with q s = (length q \<le> length s \<and> drop (length s - length q) s = q)"

text \<open>The decimal rendering of an integer in \<open>format!\<close>.\<close>

fun decimal_of_nat :: "nat \<Rightarrow> string" where
  "decimal_of_nat n =
     (if n < 10 then [char_of (48 + n)] else decimal_of_nat (n div 10) @ [char_of (48 + n mod 10)])"

declare decimal_of_nat.simps [simp del]

definition decimal_of_int :: "int \<Rightarrow> string" where
  "decimal_of_int i = (if i < 0 then CHR ''-'' # decimal_of_nat (nat (- i)) else decimal_of_nat (nat i))"

text \<open>
  \<open>value.trim().is_empty()\<close> on the UTF-8 bytes of a \<open>str\<close>: the text is a sequence of characters with
  the Unicode property \<open>White_Space\<close> (ASCII 9 to 13 and 32, U+0085, U+00A0, U+1680, U+2000 to
  U+200A, U+2028, U+2029, U+202F, U+205F, U+3000).
\<close>

fun blank_codes :: "nat list \<Rightarrow> bool" where
  "blank_codes [] = True"
| "blank_codes (a # ns) =
    (if 9 \<le> a \<and> a \<le> 13 \<or> a = 32 then blank_codes ns
     else (case ns of
         [] \<Rightarrow> False
       | b # ns' \<Rightarrow>
           if a = 0xC2 \<and> (b = 0x85 \<or> b = 0xA0) then blank_codes ns'
           else (case ns' of
               [] \<Rightarrow> False
             | c # ns'' \<Rightarrow>
                 if a = 0xE1 \<and> b = 0x9A \<and> c = 0x80
                  \<or> a = 0xE2 \<and> b = 0x80 \<and> (0x80 \<le> c \<and> c \<le> 0x8A \<or> c = 0xA8 \<or> c = 0xA9 \<or> c = 0xAF)
                  \<or> a = 0xE2 \<and> b = 0x81 \<and> c = 0x9F
                  \<or> a = 0xE3 \<and> b = 0x80 \<and> c = 0x80
                 then blank_codes ns'' else False)))"

definition is_blank :: "string \<Rightarrow> bool" where
  "is_blank s = blank_codes (map of_char s)"

lemma is_blank_Nil [simp]: "is_blank []"
  by (simp add: is_blank_def)

text \<open>\<open>value.chars().any(char::is_control)\<close>: U+0000 to U+001F and U+007F to U+009F.\<close>

fun control_codes :: "nat list \<Rightarrow> bool" where
  "control_codes [] = False"
| "control_codes (a # ns) =
    (a < 32 \<or> a = 127 \<or> (a = 0xC2 \<and> (case ns of [] \<Rightarrow> False | b # _ \<Rightarrow> 0x80 \<le> b \<and> b \<le> 0x9F))
     \<or> control_codes ns)"

definition has_control :: "string \<Rightarrow> bool" where
  "has_control s = control_codes (map of_char s)"

text \<open>
  \<open>std::str::from_utf8(..).is_ok()\<close>: the well-formed byte sequences of the Unicode standard (no overlong
  forms, no surrogates, nothing above U+10FFFF).
\<close>

definition utf8_tail :: "nat \<Rightarrow> bool" where
  "utf8_tail b = (0x80 \<le> b \<and> b \<le> 0xBF)"

fun utf8_codes :: "nat list \<Rightarrow> bool" where
  "utf8_codes [] = True"
| "utf8_codes (a # ns) =
    (if a \<le> 0x7F then utf8_codes ns
     else if 0xC2 \<le> a \<and> a \<le> 0xDF then
       (case ns of b # r \<Rightarrow> utf8_tail b \<and> utf8_codes r | _ \<Rightarrow> False)
     else if 0xE0 \<le> a \<and> a \<le> 0xEF then
       (case ns of b # c # r \<Rightarrow>
            utf8_tail b \<and> (a = 0xE0 \<longrightarrow> 0xA0 \<le> b) \<and> (a = 0xED \<longrightarrow> b \<le> 0x9F)
            \<and> utf8_tail c \<and> utf8_codes r
        | _ \<Rightarrow> False)
     else if 0xF0 \<le> a \<and> a \<le> 0xF4 then
       (case ns of b # c # d # r \<Rightarrow>
            utf8_tail b \<and> (a = 0xF0 \<longrightarrow> 0x90 \<le> b) \<and> (a = 0xF4 \<longrightarrow> b \<le> 0x8F)
            \<and> utf8_tail c \<and> utf8_tail d \<and> utf8_codes r
        | _ \<Rightarrow> False)
     else False)"

definition utf8_valid :: "byte list \<Rightarrow> bool" where
  "utf8_valid bs = utf8_codes (map unat bs)"

section \<open>Big-endian integers\<close>

text \<open>\<open>u64::to_be_bytes\<close> of a value given as a natural number below \<open>2^64\<close>, most significant byte first.\<close>

fun be_bytes :: "nat \<Rightarrow> nat \<Rightarrow> byte list" where
  "be_bytes 0 n = []"
| "be_bytes (Suc w) n = be_bytes w (n div 256) @ [of_nat n]"

lemma length_be_bytes [simp]: "length (be_bytes w n) = w"
  by (induction w arbitrary: n) auto

lemma of_nat_byte_eq: "(of_nat m :: byte) = of_nat n \<longleftrightarrow> m mod 256 = n mod 256"
proof -
  have "(of_nat m :: byte) = of_nat n \<longleftrightarrow> unat (of_nat m :: byte) = unat (of_nat n :: byte)"
    by (simp add: word_unat_eq_iff)
  then show ?thesis by (simp add: unat_of_nat)
qed

lemma be_bytes_inject:
  "be_bytes w m = be_bytes w n \<longleftrightarrow> m mod 256 ^ w = n mod 256 ^ w"
proof (induction w arbitrary: m n)
  case (Suc w)
  have split: "k mod 256 ^ Suc w = 256 * (k div 256 mod 256 ^ w) + k mod 256" for k :: nat
    by (simp add: mod_mult2_eq)
  have digits: "(256 * a + r = 256 * b + t) \<longleftrightarrow> (a = b \<and> r = t)" if "r < 256" "t < 256" for a b r t :: nat
    using that by (cases a b rule: linorder_cases) auto
  have "m mod 256 ^ Suc w = n mod 256 ^ Suc w \<longleftrightarrow>
      m div 256 mod 256 ^ w = n div 256 mod 256 ^ w \<and> m mod 256 = n mod 256"
    unfolding split by (rule digits) simp_all
  then show ?case by (simp add: Suc of_nat_byte_eq)
qed simp

section \<open>Tables\<close>

record 'r table =
  rows :: "(int \<times> 'r) list"
  next_id :: int

definition empty_table :: "'r table" where
  "empty_table = \<lparr>rows = [], next_id = 1\<rparr>"

definition get_row :: "'r table \<Rightarrow> int \<Rightarrow> 'r option" where
  "get_row t i = map_of (rows t) i"

text \<open>\<open>INSERT ... RETURNING id\<close>: the identity column takes the next value of its sequence.\<close>

definition insert_row :: "'r \<Rightarrow> 'r table \<Rightarrow> 'r table" where
  "insert_row r t = t\<lparr>rows := rows t @ [(next_id t, r)], next_id := next_id t + 1\<rparr>"

text \<open>\<open>UPDATE ... WHERE id = $1\<close>.\<close>

definition update_row :: "int \<Rightarrow> ('r \<Rightarrow> 'r) \<Rightarrow> 'r table \<Rightarrow> 'r table" where
  "update_row i f t = t\<lparr>rows := map (\<lambda>(k, r). (k, if k = i then f r else r)) (rows t)\<rparr>"

text \<open>\<open>UPDATE ... WHERE <condition>\<close> over every row.\<close>

definition update_where :: "(int \<Rightarrow> 'r \<Rightarrow> bool) \<Rightarrow> ('r \<Rightarrow> 'r) \<Rightarrow> 'r table \<Rightarrow> 'r table" where
  "update_where p f t = t\<lparr>rows := map (\<lambda>(k, r). (k, if p k r then f r else r)) (rows t)\<rparr>"

text \<open>\<open>SELECT EXISTS (...)\<close> and \<open>SELECT count( * )\<close>.\<close>

definition exists_row :: "(int \<Rightarrow> 'r \<Rightarrow> bool) \<Rightarrow> 'r table \<Rightarrow> bool" where
  "exists_row p t = list_ex (\<lambda>(k, r). p k r) (rows t)"

definition count_rows :: "(int \<Rightarrow> 'r \<Rightarrow> bool) \<Rightarrow> 'r table \<Rightarrow> nat" where
  "count_rows p t = length (filter (\<lambda>(k, r). p k r) (rows t))"

definition find_row :: "(int \<Rightarrow> 'r \<Rightarrow> bool) \<Rightarrow> 'r table \<Rightarrow> (int \<times> 'r) option" where
  "find_row p t = find (\<lambda>(k, r). p k r) (rows t)"

definition table_ok :: "'r table \<Rightarrow> bool" where
  "table_ok t \<longleftrightarrow> distinct (map fst (rows t)) \<and> 0 < next_id t
     \<and> (\<forall>k \<in> fst ` set (rows t). 0 < k \<and> k < next_id t)"

text \<open>
  A partial key that identifies its row: the shape of every \<open>UNIQUE\<close> constraint of the schema, with
  \<open>None\<close> for the rows a partial index leaves out.
\<close>

definition unique_key :: "(int \<Rightarrow> 'r option) \<Rightarrow> ('r \<Rightarrow> 'k option) \<Rightarrow> bool" where
  "unique_key get key \<longleftrightarrow> (\<forall>i j r s k. get i = Some r \<longrightarrow> get j = Some s
      \<longrightarrow> key r = Some k \<longrightarrow> key s = Some k \<longrightarrow> i = j)"

lemma unique_keyD:
  "unique_key get key \<Longrightarrow> get i = Some r \<Longrightarrow> get j = Some s \<Longrightarrow> key r = Some k \<Longrightarrow> key s = Some k \<Longrightarrow> i = j"
  by (auto simp: unique_key_def)

text \<open>
  The interface the stores use: reading by identifier, inserting under a fresh identifier, updating
  one row, and the two existence queries.  Its laws are what the stores' proofs rest on.
\<close>

locale keyed_table =
  fixes get :: "'t \<Rightarrow> int \<Rightarrow> 'r option"
    and ins :: "'r \<Rightarrow> 't \<Rightarrow> 't"
    and upd :: "int \<Rightarrow> ('r \<Rightarrow> 'r) \<Rightarrow> 't \<Rightarrow> 't"
    and ex :: "(int \<Rightarrow> 'r \<Rightarrow> bool) \<Rightarrow> 't \<Rightarrow> bool"
    and fresh :: "'t \<Rightarrow> int"
    and wf :: "'t \<Rightarrow> bool"
  assumes wf_ins: "wf t \<Longrightarrow> wf (ins r t)"
    and wf_upd: "wf t \<Longrightarrow> wf (upd i f t)"
    and get_fresh: "wf t \<Longrightarrow> get t (fresh t) = None"
    and get_pos: "wf t \<Longrightarrow> get t i = Some r \<Longrightarrow> 0 < i \<and> i < fresh t"
    and fresh_pos: "wf t \<Longrightarrow> 0 < fresh t"
    and get_ins: "wf t \<Longrightarrow> get (ins r t) i = (if i = fresh t then Some r else get t i)"
    and get_upd: "get (upd i f t) j = (if i = j then map_option f (get t j) else get t j)"
    and ex_get: "wf t \<Longrightarrow> ex p t \<longleftrightarrow> (\<exists>i r. get t i = Some r \<and> p i r)"
begin

lemma get_ins_old: "wf t \<Longrightarrow> get t i = Some r \<Longrightarrow> get (ins r' t) i = Some r"
  using get_fresh [of t] by (auto simp: get_ins)

lemma get_ins_new: "wf t \<Longrightarrow> get (ins r t) (fresh t) = Some r"
  by (simp add: get_ins)

lemma ex_ins:
  assumes "wf t"
  shows "ex p (ins r t) \<longleftrightarrow> p (fresh t) r \<or> ex p t"
proof -
  have "ex p (ins r t) \<longleftrightarrow> (\<exists>i r'. get (ins r t) i = Some r' \<and> p i r')"
    by (simp add: assms ex_get wf_ins)
  also have "\<dots> \<longleftrightarrow> p (fresh t) r \<or> (\<exists>i r'. get t i = Some r' \<and> p i r')"
    using get_fresh [OF assms] by (simp add: get_ins assms) (metis option.distinct(1) option.inject)
  finally show ?thesis by (simp add: assms ex_get)
qed

lemma unique_key_ins:
  assumes "wf t" "unique_key (get t) key"
    and new: "\<And>k. key r = Some k \<Longrightarrow> \<not> ex (\<lambda>_ s. key s = Some k) t"
  shows "unique_key (get (ins r t)) key"
  unfolding unique_key_def
proof (intro allI impI)
  fix i j x y k
  assume x: "get (ins r t) i = Some x" "key x = Some k" and y: "get (ins r t) j = Some y" "key y = Some k"
  have clash: False if "key r = Some k" "get t l = Some z" "key z = Some k" for l z
    using new [OF that(1)] that(2,3) by (auto simp: ex_get assms(1))
  show "i = j"
    using x y clash unique_keyD [OF assms(2)]
    by (auto simp: get_ins assms(1) split: if_splits)
qed

lemma unique_key_upd:
  assumes "unique_key (get t) key"
    and keep: "\<And>r. get t i = Some r \<Longrightarrow> key (f r) = key r \<or> key (f r) = None"
  shows "unique_key (get (upd i f t)) key"
  unfolding unique_key_def
proof (intro allI impI)
  fix j l x y k
  assume "get (upd i f t) j = Some x" "get (upd i f t) l = Some y" "key x = Some k" "key y = Some k"
  moreover have "\<exists>z. get t m = Some z \<and> key z = Some k" if "get (upd i f t) m = Some w" "key w = Some k" for m w
    using that keep by (cases "m = i") (force simp: get_upd)+
  ultimately obtain x' y' where "get t j = Some x'" "get t l = Some y'" "key x' = Some k" "key y' = Some k"
    by blast
  then show "j = l" using unique_keyD [OF assms(1)] by blast
qed

end

lemma map_of_map_snd:
  "map_of (map (\<lambda>(k, r). (k, g k r)) xs) i = map_option (g i) (map_of xs i)"
  by (induction xs) auto

lemma map_of_eq_mem: "distinct (map fst xs) \<Longrightarrow> (k, r) \<in> set xs \<longleftrightarrow> map_of xs k = Some r"
  by (simp add: map_of_eq_Some_iff)

lemma table_ok_empty [simp]: "table_ok empty_table"
  by (simp add: table_ok_def empty_table_def)

interpretation tbl: keyed_table get_row insert_row update_row exists_row next_id table_ok
proof unfold_locales
  show "table_ok t \<Longrightarrow> table_ok (insert_row r t)" for t :: "'a table" and r
    by (force simp: table_ok_def insert_row_def)
  have keys: "fst ` set (map (\<lambda>(k, r). (k, g k r)) xs) = fst ` set xs"
    "map fst (map (\<lambda>(k, r). (k, g k r)) xs) = map fst xs" for g :: "int \<Rightarrow> 'a \<Rightarrow> 'a" and xs
    by (force, induction xs, auto)
  show "table_ok t \<Longrightarrow> table_ok (update_row i f t)" for t :: "'a table" and i f
    by (simp add: table_ok_def update_row_def keys del: set_map map_map)
  show "table_ok t \<Longrightarrow> get_row t (next_id t) = None" for t :: "'a table"
    by (auto simp: table_ok_def get_row_def map_of_eq_None_iff)
  show "table_ok t \<Longrightarrow> get_row t i = Some r \<Longrightarrow> 0 < i \<and> i < next_id t" for t :: "'a table" and i r
    by (auto simp: table_ok_def get_row_def dest!: map_of_SomeD)
  show "table_ok t \<Longrightarrow> 0 < next_id t" for t :: "'a table"
    by (simp add: table_ok_def)
  show "table_ok t \<Longrightarrow> get_row (insert_row r t) i = (if i = next_id t then Some r else get_row t i)"
    for t :: "'a table" and i r
    by (auto simp: table_ok_def get_row_def insert_row_def map_add_def split: option.splits
        dest!: map_of_SomeD)
  show "get_row (update_row i f t) j = (if i = j then map_option f (get_row t j) else get_row t j)"
    for t :: "'a table" and i j f
    by (auto simp: get_row_def update_row_def map_of_map_snd option.map_ident)
  show "table_ok t \<Longrightarrow> exists_row p t \<longleftrightarrow> (\<exists>i r. get_row t i = Some r \<and> p i r)" for t :: "'a table" and p
    by (auto simp: table_ok_def exists_row_def get_row_def list_ex_iff map_of_eq_mem [symmetric])
qed

lemmas tbl_simps [table_simps] = tbl.get_upd tbl.wf_ins tbl.wf_upd tbl.get_ins_new

lemma next_id_update_row [simp]: "next_id (update_row i f t) = next_id t"
  by (simp add: update_row_def)

lemma next_id_insert_row [simp]: "next_id (insert_row r t) = next_id t + 1"
  by (simp add: insert_row_def)

end
