(* ===== verification/Values.thy ===== *)
theory Values
  imports Prelude
begin

text \<open>
  The scalar contracts of \<open>factory-protocol\<close>: \<open>error.rs\<close>, \<open>identifier.rs\<close>, \<open>revision.rs\<close>,
  \<open>state.rs\<close>, \<open>value.rs\<close> and \<open>path.rs\<close>.  The money parser is proved to be exact decimal arithmetic
  rounded up, the digest parser to be the inverse of lower-case hexadecimal encoding, and the path
  parser to admit only paths that cannot leave the directory they are resolved in.
\<close>

unbundle bit_operations_syntax

section \<open>Errors\<close>

datatype contract_error =
    NonPositiveIdentifier string
  | InvalidValue string string
  | ByteLimitExceeded string nat
  | UnsafeRelativePath string string
  | RevisionOverflow
  | BundleInvariant string string

type_synonym 'a contract = "(contract_error, 'a) result"

section \<open>Identifiers and revisions\<close>

text \<open>Every numeric identifier is a transparent \<open>i64\<close>; the label is the one of its macro instance.\<close>

type_synonym ident = int

definition identifier_new :: "string \<Rightarrow> int \<Rightarrow> ident contract" where
  "identifier_new kind v = (if v \<le> 0 then Inl (NonPositiveIdentifier kind) else Inr v)"

type_synonym aggregate_revision = "64 word"

definition revision_initial :: aggregate_revision where
  "revision_initial = 0"

definition revision_next :: "aggregate_revision \<Rightarrow> aggregate_revision contract" where
  "revision_next r = ok_or (checked_add r 1) RevisionOverflow"

section \<open>States\<close>

datatype assignment_role = ProductResearch | Engineering | Quality

definition assignment_role_ALL :: "assignment_role list" where
  "assignment_role_ALL = [ProductResearch, Engineering, Quality]"

datatype campaign_state = CampaignRunning | CampaignCompleted | CampaignFailed | CampaignCancelled

datatype ticket_state =
    TicketProposed | TicketSponsored | TicketInFlight | TicketDelivered
  | TicketBlocked | TicketResolved | TicketSuperseded | TicketRejected

datatype attempt_stage =
    StageEngineering | StageHardValidation | StageQuality | StageAwaitingArchitect
  | StageReworkEngineering | StageReworkValidation | StageReworkQuality
  | StageDelivered | StageFailed | StageCancelled

datatype assignment_state =
    AssignmentPrepared | AssignmentRunning | AssignmentSucceeded
  | AssignmentFailed | AssignmentCancelled | AssignmentInterrupted

datatype session_state =
    SessionPrepared | SessionRunning | SessionSucceeded
  | SessionFailed | SessionCancelled | SessionInterrupted

datatype candidate_state =
    CandidateSubmitted | CandidateValidated | CandidateRejected | CandidateAccepted | CandidateDelivered

datatype validation_state = ValidationRunning | ValidationPassed | ValidationFailed | ValidationInterrupted

datatype review_verdict = VerdictAccept | VerdictReject

datatype delivery_state = DeliveryPending | DeliveryDelivered | DeliveryFailed

section \<open>Money\<close>

type_synonym micro_usd = "64 word"

definition micro_usd_checked_add :: "micro_usd \<Rightarrow> micro_usd \<Rightarrow> micro_usd contract" where
  "micro_usd_checked_add a b =
     ok_or (checked_add a b) (InvalidValue ''micro_usd'' ''sum exceeds u64'')"

definition is_ascii_digit :: "char \<Rightarrow> bool" where
  "is_ascii_digit c = (48 \<le> (of_char c :: nat) \<and> (of_char c :: nat) \<le> 57)"

definition digit_value :: "char \<Rightarrow> nat" where
  "digit_value c = of_char c - 48"

text \<open>
  \<open>str::parse::<u64>\<close> on a non-empty string of ASCII digits: the standard library multiplies by the
  radix and adds the digit, each step checked.
\<close>

fun parse_u64_from :: "64 word \<Rightarrow> string \<Rightarrow> 64 word option" where
  "parse_u64_from acc [] = Some acc"
| "parse_u64_from acc (c # cs) =
     (case checked_mul acc 10 of
        None \<Rightarrow> None
      | Some m \<Rightarrow> (case checked_add m (of_nat (digit_value c)) of
                      None \<Rightarrow> None
                    | Some a \<Rightarrow> parse_u64_from a cs))"

definition parse_u64 :: "string \<Rightarrow> 64 word option" where
  "parse_u64 s = parse_u64_from 0 s"

text \<open>The two loops of \<open>parse_decimal_usd\<close> over the fraction, in 64-bit arithmetic.\<close>

definition fractional_micro_usd :: "string \<Rightarrow> 64 word" where
  "fractional_micro_usd fraction =
     ((\<lambda>n. n * 10) ^^ (6 - length fraction))
       (foldl (\<lambda>n c. n * 10 + of_nat (digit_value c)) 0 (take 6 fraction))"

definition rounds_up :: "string \<Rightarrow> bool" where
  "rounds_up fraction = list_ex (\<lambda>c. c \<noteq> CHR ''0'') (drop 6 fraction)"

definition split_decimal :: "string \<Rightarrow> string \<times> string option" where
  "split_decimal v = (case split_once (CHR ''.'') v of
       None \<Rightarrow> (v, None) | Some (w, f) \<Rightarrow> (w, Some f))"

definition parse_decimal_usd :: "string \<Rightarrow> micro_usd contract" where
  "parse_decimal_usd v =
     (let (whole, fraction) = split_decimal v;
          overflow = InvalidValue ''USD decimal'' ''exceeds u64 micro-USD'' in
      if whole = [] \<or> \<not> list_all is_ascii_digit whole
         \<or> (case fraction of None \<Rightarrow> False | Some f \<Rightarrow> f = [] \<or> \<not> list_all is_ascii_digit f)
      then Inl (InvalidValue ''USD decimal''
                 ''must be an unsigned decimal with an optional fractional part'')
      else and_then (ok_or (parse_u64 whole) overflow) (\<lambda>w.
        let f = (case fraction of None \<Rightarrow> [] | Some f \<Rightarrow> f) in
        and_then (ok_or (checked_mul w 1000000) overflow) (\<lambda>m.
        and_then (ok_or (checked_add m (fractional_micro_usd f)) overflow) (\<lambda>a.
        ok_or (checked_add a (if rounds_up f then 1 else 0)) overflow))))"

section \<open>Digests\<close>

text \<open>A content digest is 32 bytes; \<open>of_bytes\<close> is BLAKE3, a parameter of the definitions that hash.\<close>

type_synonym content_digest = "byte list"

definition digest_ok :: "content_digest \<Rightarrow> bool" where
  "digest_ok d = (length d = 32)"

definition hex_nibble :: "byte \<Rightarrow> byte option" where
  "hex_nibble b =
     (if 48 \<le> b \<and> b \<le> 57 then Some (b - 48)
      else if 97 \<le> b \<and> b \<le> 102 then Some (b - 97 + 10)
      else None)"

fun hex_pairs :: "byte list \<Rightarrow> (contract_error, byte list) result" where
  "hex_pairs (h # l # rest) =
     (let bad = InvalidValue ''blake3 digest'' ''must use lower-case hexadecimal characters'' in
      and_then (ok_or (hex_nibble h) bad) (\<lambda>high.
      and_then (ok_or (hex_nibble l) bad) (\<lambda>low.
      and_then (hex_pairs rest) (\<lambda>bytes. Inr ((push_bit 4 high OR low) # bytes)))))"
| "hex_pairs _ = Inr []"

definition digest_from_str :: "string \<Rightarrow> content_digest contract" where
  "digest_from_str v =
     (if length v \<noteq> 64
      then Inl (InvalidValue ''blake3 digest'' ''must contain exactly 64 hexadecimal characters'')
      else hex_pairs (bytes_of v))"

section \<open>Paths\<close>

definition validate_safe_relative :: "string \<Rightarrow> string \<Rightarrow> bool \<Rightarrow> string contract" where
  "validate_safe_relative field v allow_root =
     (let bad = UnsafeRelativePath field in
      and_then (first_error
        [require (v \<noteq> []) (bad ''path is empty''),
         require (CHR 0x00 \<notin> set v) (bad ''path contains NUL''),
         require (hd v \<noteq> CHR ''/'') (bad ''path is absolute''),
         require (CHR 0x5C \<notin> set v) (bad ''backslash is not a canonical separator''),
         require (\<not> list_ex (\<lambda>s. s = []) (split_on (CHR ''/'') v))
           (bad ''path contains an empty segment'')])
      (\<lambda>_. if v = ''.'' \<and> allow_root then Inr v
           else and_then (require (\<not> list_ex (\<lambda>s. s = ''.'' \<or> s = ''..'') (split_on (CHR ''/'') v))
                   (bad ''path contains traversal''))
                (\<lambda>_. Inr v)))"

definition runtime_relative_path_parse :: "string \<Rightarrow> string contract" where
  "runtime_relative_path_parse v = validate_safe_relative ''runtime-relative path'' v False"

definition repository_relative_path_parse :: "string \<Rightarrow> string contract" where
  "repository_relative_path_parse v = validate_safe_relative ''repository-relative path'' v True"

definition application_relative_path_parse :: "string \<Rightarrow> string contract" where
  "application_relative_path_parse v = validate_safe_relative ''application-relative path'' v False"

definition absolute_host_path_parse :: "string \<Rightarrow> string contract" where
  "absolute_host_path_parse v =
     (if v = [] \<or> CHR 0x00 \<in> set v
      then Inl (InvalidValue ''absolute host path'' ''must be non-empty UTF-8 without NUL'')
      else if hd v \<noteq> CHR ''/''
      then Inl (InvalidValue ''absolute host path'' ''must start with a slash'')
      else Inr v)"

section \<open>Identifier and revision laws\<close>

lemma identifier_new_ok [simp]: "identifier_new k v = Inr i \<longleftrightarrow> 0 < v \<and> i = v"
  by (auto simp: identifier_new_def)

lemma revision_next_ok: "revision_next r = Inr r' \<longleftrightarrow> uint r' = uint r + 1"
  by (simp add: revision_next_def checked_add_uint)

lemma revision_next_gt: "revision_next r = Inr r' \<Longrightarrow> r < r'"
  by (simp add: revision_next_ok word_less_def)

lemma micro_usd_checked_add_ok: "micro_usd_checked_add a b = Inr c \<longleftrightarrow> uint c = uint a + uint b"
  by (simp add: micro_usd_checked_add_def checked_add_uint)

section \<open>Money is exact decimal arithmetic, rounded up\<close>

text \<open>The reference reading of a decimal numeral.\<close>

definition decimal_digits :: "string \<Rightarrow> nat" where
  "decimal_digits s = foldl (\<lambda>n c. n * 10 + digit_value c) 0 s"

definition well_formed_usd :: "string \<Rightarrow> bool" where
  "well_formed_usd v = (case split_decimal v of (w, f) \<Rightarrow>
     w \<noteq> [] \<and> list_all is_ascii_digit w
     \<and> (case f of None \<Rightarrow> True | Some f \<Rightarrow> f \<noteq> [] \<and> list_all is_ascii_digit f))"

text \<open>The numeral denotes \<open>usd_numerator v / 10 ^ usd_scale v\<close> dollars.\<close>

definition usd_scale :: "string \<Rightarrow> nat" where
  "usd_scale v = (case split_decimal v of (w, None) \<Rightarrow> 0 | (w, Some f) \<Rightarrow> length f)"

definition usd_numerator :: "string \<Rightarrow> nat" where
  "usd_numerator v = (case split_decimal v of (w, None) \<Rightarrow> decimal_digits w
     | (w, Some f) \<Rightarrow> decimal_digits (w @ f))"

definition ceil_micro_usd :: "string \<Rightarrow> nat" where
  "ceil_micro_usd v = (usd_numerator v * 10 ^ 6 + (10 ^ usd_scale v - 1)) div 10 ^ usd_scale v"

lemma foldl_digits:
  "foldl (\<lambda>n c. n * 10 + digit_value c) a s = a * 10 ^ length s + decimal_digits s"
proof (induction s arbitrary: a)
  case (Cons c s)
  have "foldl (\<lambda>n c. n * 10 + digit_value c) (digit_value c) s = digit_value c * 10 ^ length s + decimal_digits s"
    by (rule Cons.IH)
  then show ?case
    using Cons.IH [of "a * 10 + digit_value c"] by (simp add: decimal_digits_def algebra_simps)
qed (simp add: decimal_digits_def)

lemma decimal_digits_append: "decimal_digits (s @ t) = decimal_digits s * 10 ^ length t + decimal_digits t"
  using foldl_digits [of "decimal_digits s" t] by (simp add: decimal_digits_def)

lemma decimal_digits_Cons: "decimal_digits (c # s) = digit_value c * 10 ^ length s + decimal_digits s"
  using decimal_digits_append [of "[c]" s] by (simp add: decimal_digits_def)

lemma digit_value_le: "is_ascii_digit c \<Longrightarrow> digit_value c \<le> 9"
  unfolding is_ascii_digit_def digit_value_def by linarith

lemma digit_value_zero:
  assumes "is_ascii_digit c"
  shows "digit_value c = 0 \<longleftrightarrow> c = CHR ''0''"
proof -
  have "of_char c = (48::nat) \<longleftrightarrow> c = CHR ''0''"
    using of_char_eq_iff [of c "CHR ''0''", where 'a = nat] by simp
  then show ?thesis
    using assms by (auto simp: is_ascii_digit_def digit_value_def)
qed

lemma decimal_digits_bound: "list_all is_ascii_digit s \<Longrightarrow> decimal_digits s < 10 ^ length s"
proof (induction s)
  case (Cons c s)
  then have d: "digit_value c \<le> 9" "decimal_digits s < 10 ^ length s" by (auto dest: digit_value_le)
  then have "digit_value c * 10 ^ length s \<le> 9 * 10 ^ length s" by (intro mult_right_mono) simp_all
  then have "digit_value c * 10 ^ length s + decimal_digits s < 10 * 10 ^ length s"
    using d(2) by linarith
  then show ?case by (simp add: decimal_digits_Cons)
qed (simp add: decimal_digits_def)

lemma decimal_digits_zero:
  "list_all is_ascii_digit s \<Longrightarrow> decimal_digits s = 0 \<longleftrightarrow> \<not> list_ex (\<lambda>c. c \<noteq> CHR ''0'') s"
proof (induction s)
  case (Cons c s)
  then show ?case by (simp add: decimal_digits_Cons digit_value_zero)
qed (simp add: decimal_digits_def)

lemma uint_of_nat_small: "n < 2 ^ 64 \<Longrightarrow> uint (of_nat n :: 64 word) = int n"
  by (simp add: uint_nat unat_of_nat)

lemma checked_mul_add:
  fixes a k d x :: "'a::len word"
  shows "(case checked_mul a k of None \<Rightarrow> None | Some m \<Rightarrow> checked_add m d) = Some x
     \<longleftrightarrow> uint x = uint a * uint k + uint d"
proof
  assume x: "uint x = uint a * uint k + uint d"
  then have "uint a * uint k < 2 ^ LENGTH('a)"
    using uint_lt2p [of x] uint_ge_0 [of d] by linarith
  then obtain m where m: "checked_mul a k = Some m" by (auto simp: checked_mul_def)
  then show "(case checked_mul a k of None \<Rightarrow> None | Some m \<Rightarrow> checked_add m d) = Some x"
    using x checked_mul_uint [of a k m] by (simp add: checked_add_uint)
qed (auto simp: checked_add_uint checked_mul_uint split: option.splits)

lemma uint_eq_exists: "(\<exists>x :: 'a::len word. uint x = n) \<longleftrightarrow> 0 \<le> n \<and> n < 2 ^ LENGTH('a)"
  by (metis uint_ge_0 uint_lt2p uint_word_of_int_eq take_bit_int_eq_self)

lemma parse_u64_from_ok:
  assumes "list_all is_ascii_digit s"
  shows "parse_u64_from a s = Some b \<longleftrightarrow> uint b = uint a * 10 ^ length s + int (decimal_digits s)"
  using assms
proof (induction s arbitrary: a)
  case Nil
  then show ?case by (auto simp: decimal_digits_def word_uint_eq_iff)
next
  case (Cons c s)
  let ?d = "of_nat (digit_value c) :: 64 word"
  let ?n = "uint a * 10 + int (digit_value c)"
  have d: "uint ?d = int (digit_value c)"
    using Cons.prems digit_value_le [of c] by (intro uint_of_nat_small) auto
  have "parse_u64_from a (c # s) = Some b \<longleftrightarrow>
      (\<exists>x. (case checked_mul a 10 of None \<Rightarrow> None | Some m \<Rightarrow> checked_add m ?d) = Some x
            \<and> parse_u64_from x s = Some b)"
    by (auto split: option.splits)
  also have "\<dots> \<longleftrightarrow> (\<exists>x :: 64 word. uint x = ?n) \<and> uint b = ?n * 10 ^ length s + int (decimal_digits s)"
    using Cons by (auto simp: checked_mul_add d)
  also have "\<dots> \<longleftrightarrow> uint b = ?n * 10 ^ length s + int (decimal_digits s)"
  proof -
    have "?n * 1 \<le> ?n * 10 ^ length s" by (intro mult_left_mono) auto
    then show ?thesis using uint_lt2p [of b] by (auto simp: uint_eq_exists)
  qed
  also have "?n * 10 ^ length s + int (decimal_digits s)
      = uint a * 10 ^ length (c # s) + int (decimal_digits (c # s))"
    by (simp add: decimal_digits_Cons algebra_simps)
  finally show ?case .
qed

lemma parse_u64_ok: "list_all is_ascii_digit s \<Longrightarrow> parse_u64 s = Some b \<longleftrightarrow> uint b = int (decimal_digits s)"
  by (simp add: parse_u64_def parse_u64_from_ok)

lemma word_foldl_digits:
  "foldl (\<lambda>n c. n * 10 + of_nat (digit_value c)) (of_nat a) s
     = (of_nat (foldl (\<lambda>n c. n * 10 + digit_value c) a s) :: 64 word)"
proof (induction s arbitrary: a)
  case (Cons c s)
  then show ?case using Cons [of "a * 10 + digit_value c"] by simp
qed simp

lemma funpow_mult_ten: "((\<lambda>n. n * 10) ^^ k) (of_nat a :: 64 word) = of_nat (a * 10 ^ k)"
  by (induction k) (auto simp: algebra_simps)

lemma fractional_micro_usd_exact:
  assumes "list_all is_ascii_digit f"
  shows "uint (fractional_micro_usd f) = int (decimal_digits (take 6 f) * 10 ^ (6 - length f))"
proof -
  have "fractional_micro_usd f = of_nat (decimal_digits (take 6 f) * 10 ^ (6 - length f))"
    using word_foldl_digits [of 0 "take 6 f"] funpow_mult_ten
    by (simp add: fractional_micro_usd_def decimal_digits_def)
  moreover have "decimal_digits (take 6 f) * 10 ^ (6 - length f) < 10 ^ 6"
  proof -
    have "list_all is_ascii_digit (take 6 f)"
      using assms by (auto simp: list_all_iff dest: in_set_takeD)
    then have "decimal_digits (take 6 f) < 10 ^ length (take 6 f)" by (rule decimal_digits_bound)
    then have "decimal_digits (take 6 f) * 10 ^ (6 - length f) < 10 ^ length (take 6 f) * 10 ^ (6 - length f)"
      by simp
    also have "\<dots> = 10 ^ 6" by (cases "length f \<le> 6") (simp_all add: power_add [symmetric])
    finally show ?thesis .
  qed
  then have "uint (of_nat (decimal_digits (take 6 f) * 10 ^ (6 - length f)) :: 64 word)
      = int (decimal_digits (take 6 f) * 10 ^ (6 - length f))"
    by (intro uint_of_nat_small) simp
  ultimately show ?thesis by (simp only:)
qed

lemma ceil_div_split:
  fixes n d p q :: nat
  assumes "n = d * q + p" "p < q"
  shows "(n + (q - 1)) div q = d + (if p = 0 then 0 else 1)"
proof -
  have "n + (q - 1) = (p + (q - 1)) + d * q" using assms by simp
  then have "(n + (q - 1)) div q = d + (p + (q - 1)) div q"
    using assms by (simp only: div_mult_self1)
  moreover have "(p + (q - 1)) div q = (if p = 0 then 0 else 1)"
    using assms by (auto intro!: div_nat_eqI)
  ultimately show ?thesis by simp
qed

lemma ceil_div_bounds:
  fixes n q :: nat
  assumes "0 < q"
  shows "n \<le> (n + (q - 1)) div q * q" "(n + (q - 1)) div q * q < n + q"
proof -
  define d p where "d = n div q" and "p = n mod q"
  have n: "n = d * q + p" and p: "p < q" using assms by (simp_all add: d_def p_def)
  show "n \<le> (n + (q - 1)) div q * q" "(n + (q - 1)) div q * q < n + q"
    unfolding ceil_div_split [OF n p] using n p by (auto simp: algebra_simps)
qed

text \<open>The numerator split at six fractional digits: what the two loops compute, and the rounding.\<close>

lemma ceil_fraction:
  assumes "list_all is_ascii_digit f"
  shows "(decimal_digits (w @ f) * 10 ^ 6 + (10 ^ length f - 1)) div 10 ^ length f
     = decimal_digits w * 10 ^ 6 + decimal_digits (take 6 f) * 10 ^ (6 - length f)
       + (if rounds_up f then 1 else 0)"
proof (cases "length f \<le> 6")
  case True
  have pow: "(10::nat) ^ 6 = 10 ^ (6 - length f) * 10 ^ length f"
    using True by (simp only: power_add [symmetric]) simp
  have "decimal_digits (w @ f) * 10 ^ 6
      = (decimal_digits w * 10 ^ 6 + decimal_digits f * 10 ^ (6 - length f)) * 10 ^ length f + 0"
    unfolding decimal_digits_append pow by (simp only: algebra_simps add_0_right)
  from ceil_div_split [OF this] show ?thesis using True by (simp add: rounds_up_def)
next
  case False
  let ?g = "drop 6 f"
  have g: "list_all is_ascii_digit ?g" using assms by (auto simp: list_all_iff dest: in_set_dropD)
  have len: "(10::nat) ^ length f = 10 ^ 6 * 10 ^ length ?g"
    using False by (simp only: power_add [symmetric]) simp
  have "decimal_digits f = decimal_digits (take 6 f) * 10 ^ length ?g + decimal_digits ?g"
    by (metis append_take_drop_id decimal_digits_append)
  then have "decimal_digits (w @ f) * 10 ^ 6
      = (decimal_digits w * 10 ^ 6 + decimal_digits (take 6 f)) * 10 ^ length f + decimal_digits ?g * 10 ^ 6"
    unfolding decimal_digits_append by (simp add: len algebra_simps)
  moreover have "decimal_digits ?g * 10 ^ 6 < 10 ^ length f"
    using decimal_digits_bound [OF g] unfolding len by simp
  ultimately show ?thesis
    using ceil_div_split [of _ _ "10 ^ length f" "decimal_digits ?g * 10 ^ 6"] decimal_digits_zero [OF g] False
    by (simp add: rounds_up_def)
qed

lemma ceil_micro_usd_split:
  assumes "well_formed_usd v" "split_decimal v = (w, fo)"
  defines "f \<equiv> case fo of None \<Rightarrow> [] | Some f \<Rightarrow> f"
  shows "list_all is_ascii_digit w" "list_all is_ascii_digit f"
    and "ceil_micro_usd v = decimal_digits w * 10 ^ 6
       + decimal_digits (take 6 f) * 10 ^ (6 - length f) + (if rounds_up f then 1 else 0)"
proof -
  show f: "list_all is_ascii_digit f" and "list_all is_ascii_digit w"
    using assms by (auto simp: well_formed_usd_def f_def split: option.splits)
  have "ceil_micro_usd v = (decimal_digits (w @ f) * 10 ^ 6 + (10 ^ length f - 1)) div 10 ^ length f"
    using assms by (auto simp: ceil_micro_usd_def usd_scale_def usd_numerator_def split: option.splits)
  then show "ceil_micro_usd v = decimal_digits w * 10 ^ 6
       + decimal_digits (take 6 f) * 10 ^ (6 - length f) + (if rounds_up f then 1 else 0)"
    using ceil_fraction [OF f] by simp
qed

lemma checked_chain:
  fixes w k x y c :: "64 word"
  shows "(\<exists>m. checked_mul w k = Some m \<and> (\<exists>a. checked_add m x = Some a \<and> checked_add a y = Some c))
     \<longleftrightarrow> uint c = uint w * uint k + uint x + uint y"
proof
  assume c: "uint c = uint w * uint k + uint x + uint y"
  then have "uint w * uint k + uint x < 2 ^ 64" "uint w * uint k < 2 ^ 64"
    using uint_lt2p [of c] uint_ge_0 [of x] uint_ge_0 [of y] by (simp, linarith, simp, linarith)
  then obtain m where m: "checked_mul w k = Some m" "uint m = uint w * uint k"
    by (auto simp: checked_mul_def checked_mul_uint [symmetric])
  then have "checked_add m x \<noteq> None"
    using \<open>uint w * uint k + uint x < 2 ^ 64\<close> by (simp add: checked_add_None)
  then obtain a where "checked_add m x = Some a" by blast
  then have a: "checked_add m x = Some a" "uint a = uint m + uint x" by (simp_all add: checked_add_uint)
  then have "checked_add a y = Some c" using c m by (simp add: checked_add_uint)
  with m a show "\<exists>m. checked_mul w k = Some m \<and> (\<exists>a. checked_add m x = Some a \<and> checked_add a y = Some c)"
    by blast
qed (auto simp: checked_add_uint checked_mul_uint)

lemma parse_decimal_usd_exact:
  "parse_decimal_usd v = Inr m \<longleftrightarrow> well_formed_usd v \<and> int (ceil_micro_usd v) = uint m"
proof (cases "well_formed_usd v")
  case True
  obtain w fo where s: "split_decimal v = (w, fo)" by fastforce
  define f where "f = (case fo of None \<Rightarrow> [] | Some f \<Rightarrow> f)"
  note facts = ceil_micro_usd_split [OF True s, folded f_def]
  have round: "uint (if rounds_up f then 1 else 0 :: 64 word) = (if rounds_up f then 1 else 0)" by simp
  have "parse_decimal_usd v = Inr m \<longleftrightarrow> (\<exists>u. parse_u64 w = Some u \<and> (\<exists>n. checked_mul u 1000000 = Some n
      \<and> (\<exists>a. checked_add n (fractional_micro_usd f) = Some a
          \<and> checked_add a (if rounds_up f then 1 else 0) = Some m)))"
    using True s unfolding parse_decimal_usd_def Let_def f_def
    by (auto simp: well_formed_usd_def split: option.splits)
  also have "\<dots> \<longleftrightarrow> (\<exists>u :: 64 word. uint u = int (decimal_digits w)) \<and> int (ceil_micro_usd v) = uint m"
    unfolding checked_chain round fractional_micro_usd_exact [OF facts(2)] parse_u64_ok [OF facts(1)] facts(3)
    by auto
  also have "\<dots> \<longleftrightarrow> int (ceil_micro_usd v) = uint m"
  proof -
    have "decimal_digits w \<le> ceil_micro_usd v" unfolding facts(3) by simp
    then show ?thesis using uint_lt2p [of m] by (auto simp: uint_eq_exists)
  qed
  finally show ?thesis using True by simp
next
  case False
  then show ?thesis by (auto simp: parse_decimal_usd_def well_formed_usd_def split: option.splits prod.splits)
qed

text \<open>
  C33. \<open>MicroUsd::parse_decimal_usd\<close> is total and exact.  A string that is not an unsigned decimal is
  refused; a decimal denoting \<open>N / 10^k\<close> dollars gives the least number of micro-dollars that is not
  below it, so a charge is never understated and is overstated by less than one micro-dollar; and
  when that number does not fit in \<open>u64\<close> the overflow error is returned, never a wrapped amount.
\<close>

theorem parse_decimal_usd_never_understates:
  "parse_decimal_usd v =
     (if \<not> well_formed_usd v
      then Inl (InvalidValue ''USD decimal''
             ''must be an unsigned decimal with an optional fractional part'')
      else if ceil_micro_usd v < 2 ^ 64 then Inr (of_nat (ceil_micro_usd v))
      else Inl (InvalidValue ''USD decimal'' ''exceeds u64 micro-USD''))
   \<and> usd_numerator v * 10 ^ 6 \<le> ceil_micro_usd v * 10 ^ usd_scale v
   \<and> ceil_micro_usd v * 10 ^ usd_scale v < usd_numerator v * 10 ^ 6 + 10 ^ usd_scale v"
proof (intro conjI)
  show "usd_numerator v * 10 ^ 6 \<le> ceil_micro_usd v * 10 ^ usd_scale v"
    "ceil_micro_usd v * 10 ^ usd_scale v < usd_numerator v * 10 ^ 6 + 10 ^ usd_scale v"
    unfolding ceil_micro_usd_def by (rule ceil_div_bounds, simp)+
  show "parse_decimal_usd v =
     (if \<not> well_formed_usd v
      then Inl (InvalidValue ''USD decimal''
             ''must be an unsigned decimal with an optional fractional part'')
      else if ceil_micro_usd v < 2 ^ 64 then Inr (of_nat (ceil_micro_usd v))
      else Inl (InvalidValue ''USD decimal'' ''exceeds u64 micro-USD''))"
  proof (cases "well_formed_usd v \<and> ceil_micro_usd v < 2 ^ 64")
    case True
    then have "parse_decimal_usd v = Inr (of_nat (ceil_micro_usd v))"
      by (simp add: parse_decimal_usd_exact uint_of_nat_small)
    then show ?thesis using True by simp
  next
    case False
    then have "parse_decimal_usd v \<noteq> Inr m" for m
      using uint_lt2p [of m] by (auto simp: parse_decimal_usd_exact)
    then obtain e where e: "parse_decimal_usd v = Inl e" by (cases "parse_decimal_usd v") auto
    then show ?thesis using False
      by (auto simp: parse_decimal_usd_def well_formed_usd_def Let_def and_then_eq_Inl
          split: option.splits prod.splits if_splits)
  qed
qed

section \<open>Digest text is lower-case hexadecimal, exactly\<close>

text \<open>The reference encoding.\<close>

definition hex_digit :: "byte \<Rightarrow> byte" where
  "hex_digit n = (if n < 10 then n + 48 else n + 87)"

definition hex_encode :: "byte list \<Rightarrow> byte list" where
  "hex_encode bs = concat (map (\<lambda>b. [hex_digit (drop_bit 4 b), hex_digit (b AND 15)]) bs)"

lemma word_in_upto: "unat n < k \<Longrightarrow> n \<in> set (map (of_nat :: nat \<Rightarrow> 'a::len word) [0..<k])"
proof -
  assume "unat n < k"
  then have "of_nat (unat n) \<in> set (map (of_nat :: nat \<Rightarrow> 'a word) [0..<k])"
    unfolding set_map by (intro imageI) simp
  then show ?thesis by simp
qed

lemma byte_all:
  assumes "list_all P (map of_nat [0..<256])"
  shows "P (b :: byte)"
proof -
  have "unat b < 256" using unsigned_less [of b, where 'a = nat] by simp
  then show ?thesis using assms word_in_upto [of b 256] unfolding list_all_iff by blast
qed

lemma hex_nibble_digit: "hex_nibble c = Some v \<Longrightarrow> v < 16 \<and> c = hex_digit v"
proof -
  have "case hex_nibble c of None \<Rightarrow> True | Some v \<Rightarrow> v < 16 \<and> c = hex_digit v"
    by (rule byte_all [where P = "\<lambda>c. case hex_nibble c of None \<Rightarrow> True | Some v \<Rightarrow> v < 16 \<and> c = hex_digit v"])
      code_simp
  then show "hex_nibble c = Some v \<Longrightarrow> v < 16 \<and> c = hex_digit v" by simp
qed

lemma hex_digit_nibble: "v < 16 \<Longrightarrow> hex_nibble (hex_digit v) = Some v"
proof -
  have "v < 16 \<longrightarrow> hex_nibble (hex_digit v) = Some v"
    by (rule byte_all [where P = "\<lambda>v. v < 16 \<longrightarrow> hex_nibble (hex_digit v) = Some v"]) code_simp
  then show "v < 16 \<Longrightarrow> hex_nibble (hex_digit v) = Some v" by simp
qed

lemma nibbles_of_byte:
  "push_bit 4 (drop_bit 4 b) OR (b AND 15) = (b :: byte)" "drop_bit 4 b < 16" "b AND 15 < (16 :: byte)"
proof -
  have "push_bit 4 (drop_bit 4 b) OR (b AND 15) = b \<and> drop_bit 4 b < 16 \<and> b AND 15 < 16"
    by (rule byte_all [where P = "\<lambda>b. push_bit 4 (drop_bit 4 b) OR (b AND 15) = b \<and> drop_bit 4 b < 16 \<and> b AND 15 < 16"])
      code_simp
  then show "push_bit 4 (drop_bit 4 b) OR (b AND 15) = b" "drop_bit 4 b < 16" "b AND 15 < 16" by simp_all
qed

lemma byte_of_nibbles:
  assumes "h < 16" "l < (16 :: byte)"
  shows "drop_bit 4 (push_bit 4 h OR l) = h" "(push_bit 4 h OR l) AND 15 = l"
proof -
  have all: "list_all (\<lambda>h. list_all (\<lambda>l. drop_bit 4 (push_bit 4 h OR l) = h \<and> (push_bit 4 h OR l) AND 15 = l)
      (map of_nat [0..<16])) (map (of_nat :: nat \<Rightarrow> byte) [0..<16])" by code_simp
  have mem: "n \<in> set (map (of_nat :: nat \<Rightarrow> byte) [0..<16])" if "n < 16" for n
    using that by (intro word_in_upto) (simp add: word_less_nat_alt)
  show "drop_bit 4 (push_bit 4 h OR l) = h" "(push_bit 4 h OR l) AND 15 = l"
    using all mem [OF assms(1)] mem [OF assms(2)] unfolding list_all_iff by blast+
qed

lemma hex_pairs_encode: "hex_pairs (hex_encode bs) = Inr bs"
  by (induction bs) (simp_all add: hex_encode_def hex_digit_nibble nibbles_of_byte)

lemma hex_pairs_ok: "hex_pairs cs = Inr bs \<Longrightarrow> even (length cs) \<Longrightarrow> cs = hex_encode bs"
proof (induction cs arbitrary: bs rule: hex_pairs.induct)
  case (1 h l rest)
  then obtain high low bytes where
    "hex_nibble h = Some high" "hex_nibble l = Some low" "hex_pairs rest = Inr bytes"
    "bs = (push_bit 4 high OR low) # bytes" by (auto simp: Let_def)
  moreover from this 1 have "rest = hex_encode bytes" by (auto simp: Let_def)
  ultimately show ?case
    by (auto simp: hex_encode_def byte_of_nibbles simp del: drop_bit_or dest!: hex_nibble_digit)
qed (auto simp: hex_encode_def)

lemma length_hex_encode [simp]: "length (hex_encode bs) = 2 * length bs"
  by (induction bs) (simp_all add: hex_encode_def)

lemma digest_parses_hex:
  "digest_from_str v = Inr d \<longleftrightarrow> digest_ok d \<and> bytes_of v = hex_encode d"
proof
  assume "digest_from_str v = Inr d"
  then have "length v = 64" "hex_pairs (bytes_of v) = Inr d"
    by (auto simp: digest_from_str_def split: if_splits)
  moreover from this have "bytes_of v = hex_encode d" by (intro hex_pairs_ok) auto
  moreover from this have "length v = 2 * length d" by (metis length_bytes_of length_hex_encode)
  ultimately show "digest_ok d \<and> bytes_of v = hex_encode d" by (simp add: digest_ok_def)
next
  assume d: "digest_ok d \<and> bytes_of v = hex_encode d"
  then have "length v = 64" by (metis digest_ok_def length_bytes_of length_hex_encode mult_2 numeral_Bit0)
  then show "digest_from_str v = Inr d" using d by (simp add: digest_from_str_def hex_pairs_encode)
qed

text \<open>
  C34. Parsing a digest accepts exactly the 64-character lower-case hexadecimal encodings of 32 bytes
  and returns the bytes encoded: upper-case, short, long or non-hexadecimal text never names a digest,
  two different texts never name the same one, and encoding a digest and parsing it gives it back.
\<close>

theorem digest_from_str_roundtrip:
  "digest_from_str v = Inr d \<longleftrightarrow> digest_ok d \<and> bytes_of v = hex_encode d"
  by (rule digest_parses_hex)

section \<open>Relative paths cannot escape\<close>

text \<open>
  The reference semantics of resolving a path: the segments are pushed on a stack, \<open>.\<close> and empty
  segments are skipped and \<open>..\<close> pops.
\<close>

fun resolve :: "string list \<Rightarrow> string list \<Rightarrow> string list" where
  "resolve dir [] = dir"
| "resolve dir (s # ss) =
     (if s = '''' \<or> s = ''.'' then resolve dir ss
      else if s = ''..'' then resolve (butlast dir) ss
      else resolve (dir @ [s]) ss)"

lemma resolve_plain: "\<forall>s \<in> set ss. s \<noteq> '''' \<and> s \<noteq> ''.'' \<and> s \<noteq> ''..'' \<Longrightarrow> resolve dir ss = dir @ ss"
  by (induction ss arbitrary: dir) auto

lemma validate_safe_relative_ok:
  "validate_safe_relative field v root = Inr p \<longleftrightarrow> p = v \<and> v \<noteq> [] \<and> CHR 0x00 \<notin> set v
     \<and> hd v \<noteq> CHR ''/'' \<and> CHR 0x5C \<notin> set v
     \<and> (v = ''.'' \<and> root \<or> (\<forall>s \<in> set (split_on (CHR ''/'') v). s \<noteq> '''' \<and> s \<noteq> ''.'' \<and> s \<noteq> ''..''))"
  by (auto simp: validate_safe_relative_def Let_def list_ex_iff split: if_splits)

text \<open>
  C35. A path the safe-relative validator accepts is returned unchanged and, resolved under any
  directory with the meaning \<open>.\<close> and \<open>..\<close> have on the host, names exactly the directory followed by
  its own segments (the directory itself for \<open>.\<close>, which only the repository-relative parser allows):
  it never climbs out, and its text is its canonical form.
\<close>

theorem safe_relative_path_stays_inside:
  assumes "validate_safe_relative field v allow_root = Inr p"
  shows "p = v
    \<and> resolve dir (split_on (CHR ''/'') p)
        = (if p = ''.'' then dir else dir @ split_on (CHR ''/'') p)
    \<and> (p = ''.'' \<longrightarrow> allow_root)
    \<and> join_with (CHR ''/'') (split_on (CHR ''/'') p) = p"
proof -
  note ok = assms [unfolded validate_safe_relative_ok]
  show ?thesis
  proof (cases "v = ''.''")
    case True
    then show ?thesis using ok by auto
  next
    case False
    then show ?thesis using ok resolve_plain by auto
  qed
qed

theorem safe_relative_path_stays_inside_witness:
  "resolve [''srv''] (split_on (CHR ''/'') ''a/b'') = [''srv'', ''a'', ''b'']"
proof -
  have "validate_safe_relative ''f'' ''a/b'' False = Inr ''a/b''" by code_simp
  from safe_relative_path_stays_inside [OF this, of "[''srv'']"] show ?thesis by simp
qed

end
