(* ===== verification/Ticket_Contract.thy ===== *)
theory Ticket_Contract
  imports Values
begin

text \<open>
  The Product proposal contract, \<open>factory-protocol/src/ticket.rs\<close>: sealed artifact references,
  command observations, the two-run reproducer, and the proposal with every bound it is checked
  against.  The validators keep the order of the early returns of the source; the lemmas say what an
  accepted value satisfies, and the theorem on the reproducer is the reason two runs are asked for.
\<close>

section \<open>Definitions\<close>

definition EXACT_OBSERVATION_COMPARISON_V2 :: "16 word" where
  "EXACT_OBSERVATION_COMPARISON_V2 = 2"
definition PRODUCT_TICKET_TITLE_BYTE_LIMIT :: nat where
  "PRODUCT_TICKET_TITLE_BYTE_LIMIT = 240"
definition PRODUCT_TICKET_MISSION_VALUE_BYTE_LIMIT :: nat where
  "PRODUCT_TICKET_MISSION_VALUE_BYTE_LIMIT = 4096"
definition PRODUCT_TICKET_SCOPE_BYTE_LIMIT :: nat where
  "PRODUCT_TICKET_SCOPE_BYTE_LIMIT = 4096"
definition PRODUCT_TICKET_CONTRACT_OWNER_BYTE_LIMIT :: nat where
  "PRODUCT_TICKET_CONTRACT_OWNER_BYTE_LIMIT = 240"
definition PRODUCT_TICKET_RISK_BYTE_LIMIT :: nat where
  "PRODUCT_TICKET_RISK_BYTE_LIMIT = 4096"
definition PRODUCT_TICKET_ACCEPTANCE_ITEM_BYTE_LIMIT :: nat where
  "PRODUCT_TICKET_ACCEPTANCE_ITEM_BYTE_LIMIT = 4096"
definition PRODUCT_TICKET_CONTRACT_READ_REASON_BYTE_LIMIT :: nat where
  "PRODUCT_TICKET_CONTRACT_READ_REASON_BYTE_LIMIT = 240"
definition PRODUCT_TICKET_EVIDENCE_BYTE_LIMIT :: "64 word" where
  "PRODUCT_TICKET_EVIDENCE_BYTE_LIMIT = 64 * 1024"
definition PRODUCT_REPRODUCER_COMMAND_BYTE_LIMIT :: "64 word" where
  "PRODUCT_REPRODUCER_COMMAND_BYTE_LIMIT = 64 * 1024"
definition PRODUCT_REPRODUCER_STDIN_BYTE_LIMIT :: "64 word" where
  "PRODUCT_REPRODUCER_STDIN_BYTE_LIMIT = 256 * 1024"
definition PRODUCT_REPRODUCER_STREAM_BYTE_LIMIT :: "64 word" where
  "PRODUCT_REPRODUCER_STREAM_BYTE_LIMIT = 4 * 1024 * 1024"
definition PRODUCT_REPRODUCER_PROFILE_BYTE_LIMIT :: nat where
  "PRODUCT_REPRODUCER_PROFILE_BYTE_LIMIT = 160"
definition PRODUCT_DUPLICATE_SEARCH_QUERY_BYTE_LIMIT :: nat where
  "PRODUCT_DUPLICATE_SEARCH_QUERY_BYTE_LIMIT = 4096"
definition PRODUCT_DUPLICATE_SEARCH_LIMIT_MAXIMUM :: "8 word" where
  "PRODUCT_DUPLICATE_SEARCH_LIMIT_MAXIMUM = 20"

lemmas ticket_limits =
  EXACT_OBSERVATION_COMPARISON_V2_def PRODUCT_TICKET_TITLE_BYTE_LIMIT_def
  PRODUCT_TICKET_MISSION_VALUE_BYTE_LIMIT_def PRODUCT_TICKET_SCOPE_BYTE_LIMIT_def
  PRODUCT_TICKET_CONTRACT_OWNER_BYTE_LIMIT_def PRODUCT_TICKET_RISK_BYTE_LIMIT_def
  PRODUCT_TICKET_ACCEPTANCE_ITEM_BYTE_LIMIT_def PRODUCT_TICKET_CONTRACT_READ_REASON_BYTE_LIMIT_def
  PRODUCT_TICKET_EVIDENCE_BYTE_LIMIT_def PRODUCT_REPRODUCER_COMMAND_BYTE_LIMIT_def
  PRODUCT_REPRODUCER_STDIN_BYTE_LIMIT_def PRODUCT_REPRODUCER_STREAM_BYTE_LIMIT_def
  PRODUCT_REPRODUCER_PROFILE_BYTE_LIMIT_def PRODUCT_DUPLICATE_SEARCH_QUERY_BYTE_LIMIT_def
  PRODUCT_DUPLICATE_SEARCH_LIMIT_MAXIMUM_def

record sealed_artifact_reference =
  artifact_id :: ident
  digest :: content_digest
  byte_length :: "64 word"

definition sealed_artifact_validate ::
  "sealed_artifact_reference \<Rightarrow> string \<Rightarrow> 64 word \<Rightarrow> bool \<Rightarrow> unit contract" where
  "sealed_artifact_validate a field maximum allow_empty =
     (if byte_length a > maximum then Inl (ByteLimitExceeded field (unat maximum))
      else if \<not> allow_empty \<and> byte_length a = 0 then Inl (InvalidValue field ''must not be empty'')
      else Inr ())"

record command_observation =
  exit_status :: int
  obs_stdout :: sealed_artifact_reference
  obs_stderr :: sealed_artifact_reference

definition command_observation_validate :: "command_observation \<Rightarrow> string \<Rightarrow> unit contract" where
  "command_observation_validate o1 field =
     and_then (sealed_artifact_validate (obs_stdout o1) field PRODUCT_REPRODUCER_STREAM_BYTE_LIMIT True)
       (\<lambda>_. sealed_artifact_validate (obs_stderr o1) field PRODUCT_REPRODUCER_STREAM_BYTE_LIMIT True)"

definition same_outcome_as :: "command_observation \<Rightarrow> command_observation \<Rightarrow> bool" where
  "same_outcome_as a b \<longleftrightarrow>
     exit_status a = exit_status b
     \<and> digest (obs_stdout a) = digest (obs_stdout b)
     \<and> byte_length (obs_stdout a) = byte_length (obs_stdout b)
     \<and> digest (obs_stderr a) = digest (obs_stderr b)
     \<and> byte_length (obs_stderr a) = byte_length (obs_stderr b)"

record two_run_reproducer =
  comparison_rule_version :: "16 word"
  rep_command :: sealed_artifact_reference
  rep_stdin :: "sealed_artifact_reference option"
  expected_observation :: command_observation
  first_observation :: command_observation
  second_observation :: command_observation

definition two_run_reproducer_validate :: "two_run_reproducer \<Rightarrow> unit contract" where
  "two_run_reproducer_validate r = first_error
     [require (comparison_rule_version r = EXACT_OBSERVATION_COMPARISON_V2)
        (InvalidValue ''reproducer comparison rule version'' ''is not the exact-observation V2 rule''),
      sealed_artifact_validate (rep_command r) ''reproducer command''
        PRODUCT_REPRODUCER_COMMAND_BYTE_LIMIT False,
      (case rep_stdin r of
         None \<Rightarrow> Inr ()
       | Some a \<Rightarrow> sealed_artifact_validate a ''reproducer stdin'' PRODUCT_REPRODUCER_STDIN_BYTE_LIMIT False),
      command_observation_validate (expected_observation r) ''expected reproducer observation'',
      command_observation_validate (first_observation r) ''first reproducer observation'',
      command_observation_validate (second_observation r) ''second reproducer observation'',
      require (same_outcome_as (first_observation r) (second_observation r))
        (InvalidValue ''reproducer observations'' ''the two discovery runs do not match''),
      require (\<not> same_outcome_as (first_observation r) (expected_observation r))
        (InvalidValue ''reproducer observations''
           ''the observed failure already matches the expected behavior'')]"

definition ticket_validate_text :: "string \<Rightarrow> string \<Rightarrow> nat \<Rightarrow> unit contract" where
  "ticket_validate_text field v maximum =
     require (\<not> (v = [] \<or> length v > maximum \<or> CHR 0x00 \<in> set v))
       (InvalidValue field ''must be nonempty, bounded UTF-8 without NUL'')"

record duplicate_search_input =
  query :: string
  search_limit :: "8 word"

definition duplicate_search_validate :: "duplicate_search_input \<Rightarrow> unit contract" where
  "duplicate_search_validate d = first_error
     [ticket_validate_text ''duplicate search query'' (query d) PRODUCT_DUPLICATE_SEARCH_QUERY_BYTE_LIMIT,
      require (\<not> (search_limit d = 0 \<or> search_limit d > PRODUCT_DUPLICATE_SEARCH_LIMIT_MAXIMUM))
        (InvalidValue ''duplicate search limit'' ''must be between 1 and 20'')]"

record ticket_contract_read =
  read_path :: string
  read_reason :: string

definition ticket_contract_read_validate :: "ticket_contract_read \<Rightarrow> unit contract" where
  "ticket_contract_read_validate r =
     ticket_validate_text ''ticket contract read reason'' (read_reason r)
       PRODUCT_TICKET_CONTRACT_READ_REASON_BYTE_LIMIT"

text \<open>\<open>TicketBoundsV2\<close> of \<open>application.rs\<close>, pinned in the application revision.\<close>

record ticket_bounds =
  narrative_byte_limit :: "32 word"
  acceptance_criteria_limit :: "16 word"
  contract_read_limit :: "16 word"

definition ticket_bounds_validate :: "ticket_bounds \<Rightarrow> unit contract" where
  "ticket_bounds_validate b =
     require (\<not> (narrative_byte_limit b = 0 \<or> acceptance_criteria_limit b = 0 \<or> contract_read_limit b = 0))
       (BundleInvariant ''ticket bounds'' ''all bounds must be positive'')"

record product_ticket_proposal =
  title :: string
  mission_value :: string
  ticket_scope :: string
  contract_owner :: string
  risk :: string
  narrative :: sealed_artifact_reference
  evidence :: sealed_artifact_reference
  acceptance_criteria :: "string list"
  contract_reads :: "ticket_contract_read list"
  duplicate_search :: duplicate_search_input
  reproducer_profile :: string
  reproducer :: two_run_reproducer

definition product_ticket_proposal_validate :: "product_ticket_proposal \<Rightarrow> ticket_bounds \<Rightarrow> unit contract" where
  "product_ticket_proposal_validate p bounds = first_error
     [ticket_validate_text ''ticket title'' (title p) PRODUCT_TICKET_TITLE_BYTE_LIMIT,
      ticket_validate_text ''ticket mission value'' (mission_value p) PRODUCT_TICKET_MISSION_VALUE_BYTE_LIMIT,
      ticket_validate_text ''ticket scope'' (ticket_scope p) PRODUCT_TICKET_SCOPE_BYTE_LIMIT,
      ticket_validate_text ''ticket contract owner'' (contract_owner p) PRODUCT_TICKET_CONTRACT_OWNER_BYTE_LIMIT,
      ticket_validate_text ''ticket risk'' (risk p) PRODUCT_TICKET_RISK_BYTE_LIMIT,
      sealed_artifact_validate (narrative p) ''ticket narrative'' (ucast (narrative_byte_limit bounds)) False,
      sealed_artifact_validate (evidence p) ''ticket evidence'' PRODUCT_TICKET_EVIDENCE_BYTE_LIMIT False,
      require (\<not> (acceptance_criteria p = []
                 \<or> length (acceptance_criteria p) > unat (acceptance_criteria_limit bounds)))
        (InvalidValue ''ticket acceptance criteria'' ''count is outside the application bound''),
      try_each (\<lambda>c. ticket_validate_text ''ticket acceptance criterion'' c
                      PRODUCT_TICKET_ACCEPTANCE_ITEM_BYTE_LIMIT) (acceptance_criteria p),
      require (\<not> (contract_reads p = []
                 \<or> length (contract_reads p) > unat (contract_read_limit bounds)))
        (InvalidValue ''ticket contract reads'' ''count is outside the application bound''),
      validate_unique ticket_contract_read_validate read_path
        (InvalidValue ''ticket contract reads'' ''paths must be unique'') [] (contract_reads p),
      duplicate_search_validate (duplicate_search p),
      ticket_validate_text ''reproducer profile'' (reproducer_profile p) PRODUCT_REPRODUCER_PROFILE_BYTE_LIMIT,
      two_run_reproducer_validate (reproducer p)]"

definition sealed_artifact_reference_of :: "int \<Rightarrow> string \<Rightarrow> 64 word \<Rightarrow> sealed_artifact_reference contract" where
  "sealed_artifact_reference_of i d len =
     and_then (identifier_new ''artifact ID'' i) (\<lambda>a.
     and_then (digest_from_str d) (\<lambda>dg.
     Inr \<lparr>artifact_id = a, digest = dg, byte_length = len\<rparr>))"

section \<open>What validation guarantees\<close>

lemma sealed_artifact_validate_ok [simp]:
  "sealed_artifact_validate a f m e = Inr u \<longleftrightarrow> byte_length a \<le> m \<and> (e \<or> byte_length a \<noteq> 0)"
  by (auto simp: sealed_artifact_validate_def)

lemma ticket_validate_text_ok [simp]:
  "ticket_validate_text f v m = Inr u \<longleftrightarrow> v \<noteq> [] \<and> length v \<le> m \<and> CHR 0x00 \<notin> set v"
  by (auto simp: ticket_validate_text_def)

lemma same_outcome_as_refl [simp]: "same_outcome_as a a"
  by (simp add: same_outcome_as_def)

lemma same_outcome_as_sym: "same_outcome_as a b \<Longrightarrow> same_outcome_as b a"
  by (simp add: same_outcome_as_def)

lemma same_outcome_as_trans: "same_outcome_as a b \<Longrightarrow> same_outcome_as b c \<Longrightarrow> same_outcome_as a c"
  by (simp add: same_outcome_as_def)

lemma two_run_reproducer_validate_ok:
  "two_run_reproducer_validate r = Inr () \<Longrightarrow>
     same_outcome_as (first_observation r) (second_observation r)
     \<and> \<not> same_outcome_as (first_observation r) (expected_observation r)"
  by (simp add: two_run_reproducer_validate_def)

lemma product_ticket_proposal_validate_ok:
  "product_ticket_proposal_validate p b = Inr () \<Longrightarrow>
     two_run_reproducer_validate (reproducer p) = Inr ()
     \<and> (\<forall>r \<in> set (contract_reads p). ticket_contract_read_validate r = Inr ())
     \<and> distinct (map read_path (contract_reads p))
     \<and> contract_reads p \<noteq> [] \<and> acceptance_criteria p \<noteq> []
     \<and> length (contract_reads p) \<le> unat (contract_read_limit b)
     \<and> length (acceptance_criteria p) \<le> unat (acceptance_criteria_limit b)
     \<and> byte_length (narrative p) \<le> ucast (narrative_byte_limit b)"
  by (simp add: product_ticket_proposal_validate_def linorder_not_less)

text \<open>
  C36. An accepted proposal carries a reproducible defect: neither of its two discovery runs has the
  expected outcome, and every observation with the outcome of either run also fails to be the
  expected one, whichever artifact identifiers the streams were adopted under.
\<close>

theorem proposal_reproducer_is_a_reproducible_failure:
  assumes "product_ticket_proposal_validate p bounds = Inr ()"
    and "same_outcome_as obs (first_observation (reproducer p))
       \<or> same_outcome_as obs (second_observation (reproducer p))"
  shows "same_outcome_as obs (first_observation (reproducer p))
    \<and> same_outcome_as obs (second_observation (reproducer p))
    \<and> \<not> same_outcome_as obs (expected_observation (reproducer p))"
proof -
  let ?r = "reproducer p"
  have "same_outcome_as (first_observation ?r) (second_observation ?r)"
    "\<not> same_outcome_as (first_observation ?r) (expected_observation ?r)"
    using assms(1) two_run_reproducer_validate_ok product_ticket_proposal_validate_ok by blast+
  then show ?thesis using assms(2) same_outcome_as_sym same_outcome_as_trans by blast
qed

definition sample_artifact :: "byte \<Rightarrow> sealed_artifact_reference" where
  "sample_artifact b = \<lparr>artifact_id = 1, digest = replicate 32 b, byte_length = 5\<rparr>"

definition sample_observation :: "int \<Rightarrow> command_observation" where
  "sample_observation n = \<lparr>exit_status = n, obs_stdout = sample_artifact 1, obs_stderr = sample_artifact 2\<rparr>"

definition sample_proposal :: product_ticket_proposal where
  "sample_proposal =
     \<lparr>title = ''t'', mission_value = ''m'', ticket_scope = ''s'', contract_owner = ''o'', risk = ''r'',
      narrative = sample_artifact 3, evidence = sample_artifact 4, acceptance_criteria = [''a''],
      contract_reads = [\<lparr>read_path = ''README'', read_reason = ''why''\<rparr>],
      duplicate_search = \<lparr>query = ''q'', search_limit = 5\<rparr>, reproducer_profile = ''p'',
      reproducer = \<lparr>comparison_rule_version = 2, rep_command = sample_artifact 5, rep_stdin = None,
        expected_observation = sample_observation 0, first_observation = sample_observation 1,
        second_observation = sample_observation 1\<rparr>\<rparr>"

definition sample_bounds :: ticket_bounds where
  "sample_bounds = \<lparr>narrative_byte_limit = 4096, acceptance_criteria_limit = 8, contract_read_limit = 8\<rparr>"

lemma sample_proposal_valid: "product_ticket_proposal_validate sample_proposal sample_bounds = Inr ()"
  by code_simp

theorem proposal_reproducer_is_a_reproducible_failure_witness:
  "\<not> same_outcome_as (sample_observation 1) (expected_observation (reproducer sample_proposal))"
  using proposal_reproducer_is_a_reproducible_failure
      [OF sample_proposal_valid, of "first_observation (reproducer sample_proposal)"]
  by (simp add: sample_proposal_def)

end
