(* ===== verification/Assignment_Contract.thy ===== *)
theory Assignment_Contract
  imports Ticket_Contract
begin

text \<open>
  The assignment packet and the terminal report of one supervised session,
  \<open>factory-protocol/src/process.rs\<close>, with the model, limit and policy values of \<open>application.rs\<close> the
  packet carries.  \<open>ContentDigest::of_bytes\<close> is BLAKE3, outside the repository: the parameter \<open>hash\<close>.
\<close>

section \<open>Definitions\<close>

definition ASSIGNMENT_PACKET_V2_FORMAT :: "16 word" where
  "ASSIGNMENT_PACKET_V2_FORMAT = 2"
definition PROTOCOL_VERSION_V2 :: "16 word" where
  "PROTOCOL_VERSION_V2 = 2"
definition MAX_POLICY_ARTIFACT_BYTES :: nat where
  "MAX_POLICY_ARTIFACT_BYTES = 1024 * 1024"
definition MAX_SESSION_OUTPUT_BYTES :: "64 word" where
  "MAX_SESSION_OUTPUT_BYTES = 16 * 1024 * 1024"

text \<open>\<open>byte.is_ascii_hexdigit() && !byte.is_ascii_uppercase()\<close>.\<close>

definition is_ascii_uppercase :: "char \<Rightarrow> bool" where
  "is_ascii_uppercase c = (65 \<le> (of_char c :: nat) \<and> (of_char c :: nat) \<le> 90)"

definition is_ascii_hexdigit :: "char \<Rightarrow> bool" where
  "is_ascii_hexdigit c = (is_ascii_digit c
     \<or> 65 \<le> (of_char c :: nat) \<and> (of_char c :: nat) \<le> 70
     \<or> 97 \<le> (of_char c :: nat) \<and> (of_char c :: nat) \<le> 102)"

definition lower_hex :: "char \<Rightarrow> bool" where
  "lower_hex c = (is_ascii_hexdigit c \<and> \<not> is_ascii_uppercase c)"

record session_admission_frame =
  frame_type :: string
  protocol_version :: "16 word"
  frame_assignment_id :: string
  frame_session_id :: int
  session_revision :: "64 word"
  frame_packet_digest :: string
  packet_b64 :: string

definition session_admission_frame_validate :: "session_admission_frame \<Rightarrow> unit contract" where
  "session_admission_frame_validate f = first_error
     [require (\<not> (frame_type f \<noteq> ''session.admitted'' \<or> protocol_version f \<noteq> PROTOCOL_VERSION_V2))
        (InvalidValue ''session admission frame'' ''type or protocol version is unsupported''),
      require (\<not> (frame_assignment_id f = [] \<or> frame_session_id f < 1
                 \<or> length (frame_packet_digest f) \<noteq> 64
                 \<or> \<not> list_all lower_hex (frame_packet_digest f)
                 \<or> packet_b64 f = []))
        (InvalidValue ''session admission frame'' ''identity, digest, and packet bytes are invalid'')]"

datatype evidence_role =
    TicketProposal | TicketNarrative | TicketEvidence
  | ReproducerCommand | ReproducerStdin
  | ReproducerExpectedStdout | ReproducerExpectedStderr
  | ReproducerFirstActualStdout | ReproducerFirstActualStderr
  | ReproducerSecondActualStdout | ReproducerSecondActualStderr
  | RegressionPatch | RegressionCommandSet | RegressionLog
  | ChangedPaths | CandidatePatch | EngineeringReport | EngineeringRisks
  | HardValidationCommandSet | HardValidationLog
  | QualityAdditionalProbes | QualityRationale | QualityRisks
  | ExternalDecisionRationale

fun wire_name :: "evidence_role \<Rightarrow> string" where
  "wire_name TicketProposal = ''ticket_proposal''"
| "wire_name TicketNarrative = ''ticket_narrative''"
| "wire_name TicketEvidence = ''ticket_evidence''"
| "wire_name ReproducerCommand = ''reproducer_command''"
| "wire_name ReproducerStdin = ''reproducer_stdin''"
| "wire_name ReproducerExpectedStdout = ''reproducer_expected_stdout''"
| "wire_name ReproducerExpectedStderr = ''reproducer_expected_stderr''"
| "wire_name ReproducerFirstActualStdout = ''reproducer_first_actual_stdout''"
| "wire_name ReproducerFirstActualStderr = ''reproducer_first_actual_stderr''"
| "wire_name ReproducerSecondActualStdout = ''reproducer_second_actual_stdout''"
| "wire_name ReproducerSecondActualStderr = ''reproducer_second_actual_stderr''"
| "wire_name RegressionPatch = ''regression_patch''"
| "wire_name RegressionCommandSet = ''regression_command_set''"
| "wire_name RegressionLog = ''regression_log''"
| "wire_name ChangedPaths = ''changed_paths''"
| "wire_name CandidatePatch = ''candidate_patch''"
| "wire_name EngineeringReport = ''engineering_report''"
| "wire_name EngineeringRisks = ''engineering_risks''"
| "wire_name HardValidationCommandSet = ''hard_validation_command_set''"
| "wire_name HardValidationLog = ''hard_validation_log''"
| "wire_name QualityAdditionalProbes = ''quality_additional_probes''"
| "wire_name QualityRationale = ''quality_rationale''"
| "wire_name QualityRisks = ''quality_risks''"
| "wire_name ExternalDecisionRationale = ''external_decision_rationale''"

definition parse_wire_name :: "string \<Rightarrow> evidence_role contract" where
  "parse_wire_name v =
     (if v = ''ticket_proposal'' then Inr TicketProposal
      else if v = ''ticket_narrative'' then Inr TicketNarrative
      else if v = ''ticket_evidence'' then Inr TicketEvidence
      else if v = ''reproducer_command'' then Inr ReproducerCommand
      else if v = ''reproducer_stdin'' then Inr ReproducerStdin
      else if v = ''reproducer_expected_stdout'' then Inr ReproducerExpectedStdout
      else if v = ''reproducer_expected_stderr'' then Inr ReproducerExpectedStderr
      else if v = ''reproducer_first_actual_stdout'' then Inr ReproducerFirstActualStdout
      else if v = ''reproducer_first_actual_stderr'' then Inr ReproducerFirstActualStderr
      else if v = ''reproducer_second_actual_stdout'' then Inr ReproducerSecondActualStdout
      else if v = ''reproducer_second_actual_stderr'' then Inr ReproducerSecondActualStderr
      else if v = ''regression_patch'' then Inr RegressionPatch
      else if v = ''regression_command_set'' then Inr RegressionCommandSet
      else if v = ''regression_log'' then Inr RegressionLog
      else if v = ''changed_paths'' then Inr ChangedPaths
      else if v = ''candidate_patch'' then Inr CandidatePatch
      else if v = ''engineering_report'' then Inr EngineeringReport
      else if v = ''engineering_risks'' then Inr EngineeringRisks
      else if v = ''hard_validation_command_set'' then Inr HardValidationCommandSet
      else if v = ''hard_validation_log'' then Inr HardValidationLog
      else if v = ''quality_additional_probes'' then Inr QualityAdditionalProbes
      else if v = ''quality_rationale'' then Inr QualityRationale
      else if v = ''quality_risks'' then Inr QualityRisks
      else if v = ''external_decision_rationale'' then Inr ExternalDecisionRationale
      else Inl (InvalidValue ''assignment evidence role'' ''is not a closed assignment evidence role''))"

record assignment_evidence =
  ev_role :: evidence_role
  ev_artifact_id :: ident
  ev_digest :: content_digest
  ev_byte_length :: "64 word"

definition assignment_evidence_validate :: "assignment_evidence \<Rightarrow> unit contract" where
  "assignment_evidence_validate e = Inr ()"

record read_exact_file =
  rx_path :: string
  rx_digest :: content_digest
  rx_reason :: string

definition read_exact_file_validate :: "read_exact_file \<Rightarrow> unit contract" where
  "read_exact_file_validate r =
     require (\<not> (rx_reason r = [] \<or> length (rx_reason r) > 240 \<or> CHR 0x00 \<in> set (rx_reason r)))
       (InvalidValue ''required read reason'' ''must be 1 through 240 bytes without NUL'')"

record read_observation =
  ro_path :: string
  ro_digest :: content_digest

definition read_observation_validate :: "read_observation \<Rightarrow> unit contract" where
  "read_observation_validate r =
     require (CHR 0x00 \<notin> set (ro_path r))
       (InvalidValue ''required read observation path'' ''must not contain NUL'')"

datatype credential_descriptor = Environment string

fun credential_name_valid :: "string \<Rightarrow> bool" where
  "credential_name_valid [] = False"
| "credential_name_valid (c # cs) =
     (length (c # cs) \<le> 160 \<and> (is_ascii_uppercase c \<or> c = CHR ''_'')
      \<and> list_all (\<lambda>b. is_ascii_uppercase b \<or> is_ascii_digit b \<or> b = CHR ''_'') cs)"

fun credential_descriptor_validate :: "credential_descriptor \<Rightarrow> unit contract" where
  "credential_descriptor_validate (Environment name) =
     require (credential_name_valid name)
       (InvalidValue ''credential environment name''
          ''must use 1 through 160 upper-case environment-name bytes'')"

record runtime_identity =
  host_executable :: string
  core_head :: string
  core_source_digest :: content_digest
  rust_toolchain :: string
  credential_env :: string

definition runtime_identity_validate :: "runtime_identity \<Rightarrow> unit contract" where
  "runtime_identity_validate r = first_error
     [require (\<not> (length (core_head r) \<noteq> 40 \<or> \<not> list_all lower_hex (core_head r)))
        (InvalidValue ''Tea HEAD'' ''must be exactly 40 lower-case hexadecimal characters''),
      try_each (\<lambda>(field, v). require (\<not> (v = [] \<or> length v > 240 \<or> CHR 0x00 \<in> set v))
                   (InvalidValue field ''must be 1 through 240 bytes without NUL''))
        [(''Rust toolchain'', rust_toolchain r)],
      credential_descriptor_validate (Environment (credential_env r))]"

datatype terminal_operation = OpWorkComplete | OpCandidateSubmit | OpQualitySubmitReview

datatype stop_reason =
    StopCompleted | StopCancelled | StopDeadline | StopDaemonDisconnected | StopNonZeroExit
  | StopOutputLimit | StopProtocolError | StopUnknownCost | StopCostLimit

record usage_totals =
  input_tokens :: "64 word option"
  output_tokens :: "64 word option"
  cache_read_tokens :: "64 word option"
  cache_write_tokens :: "64 word option"
  reasoning_tokens :: "64 word option"
  reported_cost_micro_usd :: "micro_usd option"

definition provider_cost :: "usage_totals \<Rightarrow> micro_usd contract" where
  "provider_cost u = ok_or (reported_cost_micro_usd u)
     (InvalidValue ''session cost'' ''complete provider-reported terminal cost is absent'')"

datatype terminal_cost = CostKnown micro_usd | CostUnknown | CostExceeded micro_usd

datatype policy_entrypoint = FactoryPolicy

definition policy_entrypoint_parse :: "string \<Rightarrow> policy_entrypoint contract" where
  "policy_entrypoint_parse v =
     (if v = ''factory_policy'' then Inr FactoryPolicy
      else Inl (InvalidValue ''policy entrypoint'' ''only factory_policy is admitted''))"

datatype model_capability = Reasoning
datatype thinking_level = ThinkingNone | ThinkingLow | ThinkingMedium | ThinkingHigh | ThinkingXHigh

record model_profile =
  provider :: string
  model_id :: string
  thinking_level :: thinking_level
  context_token_limit :: "32 word"
  output_token_limit :: "32 word"
  price_input :: micro_usd
  price_output :: micro_usd
  price_cache_read :: micro_usd
  price_cache_write :: micro_usd
  capability_flags :: "model_capability list"

record session_limits =
  wall_limit :: "64 word"
  output_byte_limit :: "32 word"

record assignment_packet =
  format_version :: "16 word"
  pk_campaign_id :: ident
  pk_assignment_id :: ident
  pk_kernel_build_id :: content_digest
  pk_application_revision_id :: ident
  assignment_role :: assignment_role
  target :: string
  pk_ticket_attempt_id :: "ident option"
  pk_candidate_id :: "ident option"
  system_prompt_artifact_id :: ident
  assignment_prompt_artifact_id :: ident
  required_read_manifest_artifact_id :: ident
  policy_digest :: content_digest
  policy_byte_limit :: "32 word"
  policy_bytes :: "byte list"
  policy_entrypoint :: policy_entrypoint
  workspace_root :: string
  staging_root :: string
  model :: model_profile
  limits :: session_limits
  runtime :: runtime_identity
  required_reads :: "read_exact_file list"
  assignment_evidence :: "assignment_evidence list"
  terminal_operations :: "terminal_operation list"
  remaining_campaign_allowance :: micro_usd
  pk_revision :: aggregate_revision
  packet_digest :: content_digest

fun target_shape :: "assignment_role \<Rightarrow> 'a option \<Rightarrow> 'b option \<Rightarrow> bool" where
  "target_shape ProductResearch None None = True"
| "target_shape Engineering (Some a) None = True"
| "target_shape Quality (Some a) (Some c) = True"
| "target_shape _ _ _ = False"

definition assignment_packet_validate :: "(byte list \<Rightarrow> content_digest) \<Rightarrow> assignment_packet \<Rightarrow> unit contract" where
  "assignment_packet_validate hash p = first_error
     [require (format_version p = ASSIGNMENT_PACKET_V2_FORMAT)
        (InvalidValue ''assignment packet format'' ''unsupported assignment packet version''),
      require (\<not> (target p = [] \<or> length (target p) > 4096 \<or> CHR 0x00 \<in> set (target p)))
        (InvalidValue ''assignment target'' ''must be 1 through 4096 bytes without NUL''),
      require (\<not> (wall_limit (limits p) = 0 \<or> output_byte_limit (limits p) = 0
                 \<or> ucast (output_byte_limit (limits p)) > MAX_SESSION_OUTPUT_BYTES))
        (InvalidValue ''assignment session limits'' ''must be positive and output must fit one CAS object''),
      require (\<not> (policy_byte_limit p = 0 \<or> unat (policy_byte_limit p) > MAX_POLICY_ARTIFACT_BYTES))
        (InvalidValue ''assignment policy byte limit'' ''must be positive and within the policy ceiling''),
      require (\<not> (policy_bytes p = [] \<or> length (policy_bytes p) > unat (policy_byte_limit p)))
        (ByteLimitExceeded ''assignment policy bytes'' (unat (policy_byte_limit p))),
      require (\<not> (0 \<in> set (policy_bytes p) \<or> \<not> utf8_valid (policy_bytes p)))
        (InvalidValue ''assignment policy bytes'' ''must be nonempty UTF-8 without NUL''),
      require (hash (policy_bytes p) = policy_digest p)
        (InvalidValue ''assignment policy digest'' ''does not match sealed policy bytes''),
      require (target_shape (assignment_role p) (pk_ticket_attempt_id p) (pk_candidate_id p))
        (InvalidValue ''assignment target identity'' ''office requires its exact durable target shape''),
      require (\<not> length (assignment_evidence p) > 24)
        (InvalidValue ''assignment evidence'' ''exceeds the closed evidence reference limit''),
      require (\<not> (assignment_role p = ProductResearch \<and> assignment_evidence p \<noteq> []))
        (InvalidValue ''assignment evidence'' ''Product has no upstream assignment evidence''),
      require (\<not> (assignment_role p \<noteq> ProductResearch \<and> assignment_evidence p = []))
        (InvalidValue ''assignment evidence'' ''Engineering and Quality require upstream evidence''),
      validate_unique assignment_evidence_validate ev_role
        (InvalidValue ''assignment evidence'' ''roles must be unique'') [] (assignment_evidence p),
      require (required_reads p \<noteq> [])
        (InvalidValue ''assignment required reads'' ''at least one required read is required''),
      validate_unique read_exact_file_validate rx_path
        (InvalidValue ''assignment required reads'' ''paths must be unique'') [] (required_reads p),
      require (terminal_operations p \<noteq> [])
        (InvalidValue ''assignment terminal operations'' ''at least one terminal operation is required''),
      runtime_identity_validate (runtime p)]"

record terminal_report =
  tr_packet_digest :: content_digest
  tr_expected_session_revision :: aggregate_revision
  tr_operation :: "terminal_operation option"
  tr_stop_reason :: stop_reason
  tr_report_digest :: content_digest

record process_custody =
  pid :: "32 word"
  pgid :: "32 word"
  started_at_unix_millis :: "64 word"

section \<open>Properties\<close>

lemma wire_name_parses: "parse_wire_name v = Inr r \<longleftrightarrow> v = wire_name r"
proof
  show "parse_wire_name v = Inr r \<Longrightarrow> v = wire_name r"
    by (auto simp: parse_wire_name_def split: if_splits)
  have "parse_wire_name (wire_name r) = Inr r"
    by (cases r) (simp_all add: parse_wire_name_def)
  then show "v = wire_name r \<Longrightarrow> parse_wire_name v = Inr r" by simp
qed

text \<open>
  C37. The wire name of an evidence role and its parser are inverse to each other: a name parses to a
  role exactly when it is the name of that role, so the 24 names are distinct and no other text names
  a role.
\<close>

theorem evidence_role_wire_roundtrip: "parse_wire_name v = Inr r \<longleftrightarrow> v = wire_name r"
  by (rule wire_name_parses)

lemma read_exact_file_validate_ok [simp]:
  "read_exact_file_validate r = Inr u \<longleftrightarrow>
     rx_reason r \<noteq> [] \<and> length (rx_reason r) \<le> 240 \<and> CHR 0x00 \<notin> set (rx_reason r)"
  by (auto simp: read_exact_file_validate_def)

lemma target_shape_iff:
  "target_shape role a c \<longleftrightarrow>
     (role = ProductResearch \<longrightarrow> a = None \<and> c = None)
     \<and> (role = Engineering \<longrightarrow> a \<noteq> None \<and> c = None)
     \<and> (role = Quality \<longrightarrow> a \<noteq> None \<and> c \<noteq> None)"
  by (cases role; cases a; cases c) auto


definition sample_runtime :: runtime_identity where
  "sample_runtime = \<lparr>host_executable = ''/bin/host'', core_head = replicate 40 (CHR ''a''),
     core_source_digest = replicate 32 0, rust_toolchain = ''nightly'', credential_env = ''KEY''\<rparr>"

definition sample_model :: model_profile where
  "sample_model = \<lparr>provider = ''p'', model_id = ''m'', thinking_level = ThinkingLow,
     context_token_limit = 1, output_token_limit = 1, price_input = 0, price_output = 0,
     price_cache_read = 0, price_cache_write = 0, capability_flags = []\<rparr>"

definition sample_packet :: assignment_packet where
  "sample_packet =
     \<lparr>format_version = 2, pk_campaign_id = 1, pk_assignment_id = 1, pk_kernel_build_id = replicate 32 0,
      pk_application_revision_id = 1, assignment_role = Engineering, target = ''t'',
      pk_ticket_attempt_id = Some 1, pk_candidate_id = None, system_prompt_artifact_id = 1,
      assignment_prompt_artifact_id = 2, required_read_manifest_artifact_id = 3,
      policy_digest = replicate 32 7, policy_byte_limit = 10, policy_bytes = [65],
      policy_entrypoint = FactoryPolicy, workspace_root = ''/w'', staging_root = ''/s'',
      model = sample_model, limits = \<lparr>wall_limit = 1, output_byte_limit = 1\<rparr>, runtime = sample_runtime,
      required_reads = [\<lparr>rx_path = ''README'', rx_digest = replicate 32 0, rx_reason = ''why''\<rparr>],
      assignment_evidence = [\<lparr>ev_role = TicketProposal, ev_artifact_id = 1, ev_digest = replicate 32 0,
        ev_byte_length = 1\<rparr>],
      terminal_operations = [OpCandidateSubmit], remaining_campaign_allowance = 0, pk_revision = 0,
      packet_digest = replicate 32 0\<rparr>"


text \<open>The required reads an assignment packet makes of the contract reads of a ticket.\<close>

definition materialised_reads :: "(string \<Rightarrow> content_digest) \<Rightarrow> product_ticket_proposal \<Rightarrow> read_exact_file list" where
  "materialised_reads dg p =
     map (\<lambda>r. \<lparr>rx_path = read_path r, rx_digest = dg (read_path r), rx_reason = read_reason r\<rparr>) (contract_reads p)"



end
