(* ===== verification/Candidate_Contract.thy ===== *)
theory Candidate_Contract
  imports Assignment_Contract
begin

text \<open>
  The candidate, review, decision and harness contracts: \<open>candidate.rs\<close>, \<open>decision.rs\<close> and
  \<open>harness.rs\<close> of \<open>factory-protocol\<close>, with the closed tool set of \<open>application.rs\<close>.
\<close>

section \<open>Candidates and reviews\<close>

definition CANDIDATE_COMMIT_SUBJECT_BYTE_LIMIT :: nat where
  "CANDIDATE_COMMIT_SUBJECT_BYTE_LIMIT = 120"
definition CANDIDATE_COMMIT_BODY_BYTE_LIMIT :: nat where
  "CANDIDATE_COMMIT_BODY_BYTE_LIMIT = 8 * 1024"
definition CANDIDATE_REGRESSION_IDENTITY_BYTE_LIMIT :: nat where
  "CANDIDATE_REGRESSION_IDENTITY_BYTE_LIMIT = 4 * 1024"
definition CANDIDATE_REPORT_BYTE_LIMIT :: "64 word" where
  "CANDIDATE_REPORT_BYTE_LIMIT = 128 * 1024"
definition QUALITY_RATIONALE_BYTE_LIMIT :: "64 word" where
  "QUALITY_RATIONALE_BYTE_LIMIT = 128 * 1024"
definition QUALITY_RISKS_BYTE_LIMIT :: "64 word" where
  "QUALITY_RISKS_BYTE_LIMIT = 64 * 1024"
definition QUALITY_PROBES_BYTE_LIMIT :: "64 word" where
  "QUALITY_PROBES_BYTE_LIMIT = 128 * 1024"
definition QUALITY_VALIDATION_PROFILE_BYTE_LIMIT :: nat where
  "QUALITY_VALIDATION_PROFILE_BYTE_LIMIT = 160"

type_synonym object_id = string

definition object_id_byte :: "char \<Rightarrow> bool" where
  "object_id_byte c = (is_ascii_digit c \<or> 97 \<le> (of_char c :: nat) \<and> (of_char c :: nat) \<le> 102)"

definition object_id_parse :: "string \<Rightarrow> object_id contract" where
  "object_id_parse v =
     (if \<not> (length v = 40 \<or> length v = 64) \<or> \<not> list_all object_id_byte v
      then Inl (InvalidValue ''repository object identity'' ''must be a lower-case 40- or 64-hex object ID'')
      else Inr v)"

record candidate_packet =
  cp_candidate_id :: ident
  cp_ticket_attempt_id :: ident
  cp_ticket_revision_id :: ident
  cp_base_commit :: object_id
  cp_base_tree :: object_id
  cp_regression_tree :: object_id
  cp_candidate_tree :: object_id
  cp_regression_patch :: sealed_artifact_reference
  cp_regression_command_set :: sealed_artifact_reference
  cp_regression_log :: sealed_artifact_reference
  cp_candidate_patch :: sealed_artifact_reference
  cp_engineering_session_id :: ident
  cp_engineering_report :: sealed_artifact_reference
  cp_hard_validation_id :: ident
  cp_candidate_commit :: object_id
  cp_candidate_revision :: aggregate_revision

definition candidate_packet_validate :: "candidate_packet \<Rightarrow> unit contract" where
  "candidate_packet_validate p = first_error
     [sealed_artifact_validate (cp_regression_patch p) ''regression binary patch'' (16 * 1024 * 1024) True,
      sealed_artifact_validate (cp_regression_command_set p) ''regression checkpoint command set'' (256 * 1024) False,
      sealed_artifact_validate (cp_regression_log p) ''regression checkpoint log'' (16 * 1024 * 1024) True,
      sealed_artifact_validate (cp_candidate_patch p) ''candidate binary patch'' (16 * 1024 * 1024) False,
      sealed_artifact_validate (cp_engineering_report p) ''Engineering report'' CANDIDATE_REPORT_BYTE_LIMIT False]"

definition candidate_validate_text :: "string \<Rightarrow> string \<Rightarrow> nat \<Rightarrow> bool \<Rightarrow> unit contract" where
  "candidate_validate_text field v maximum allow_empty =
     require (\<not> ((\<not> allow_empty \<and> v = []) \<or> length v > maximum \<or> CHR 0x00 \<in> set v))
       (InvalidValue field ''must be bounded UTF-8 without NUL'')"

record candidate_submission =
  commit_subject :: string
  commit_body :: string
  regression_test_identity :: string

definition candidate_submission_validate :: "candidate_submission \<Rightarrow> unit contract" where
  "candidate_submission_validate s = first_error
     [candidate_validate_text ''candidate commit subject'' (commit_subject s)
        CANDIDATE_COMMIT_SUBJECT_BYTE_LIMIT False,
      require (\<not> (CHR 0x0D \<in> set (commit_subject s) \<or> CHR 0x0A \<in> set (commit_subject s)))
        (InvalidValue ''candidate commit subject'' ''must be exactly one line''),
      candidate_validate_text ''candidate commit body'' (commit_body s) CANDIDATE_COMMIT_BODY_BYTE_LIMIT True,
      candidate_validate_text ''candidate regression test identity'' (regression_test_identity s)
        CANDIDATE_REGRESSION_IDENTITY_BYTE_LIMIT False]"

record quality_full_suite_request =
  validation_profile :: string

definition quality_full_suite_request_validate :: "quality_full_suite_request \<Rightarrow> unit contract" where
  "quality_full_suite_request_validate r =
     candidate_validate_text ''Quality full-suite validation profile'' (validation_profile r)
       QUALITY_VALIDATION_PROFILE_BYTE_LIMIT False"

record quality_review_submission =
  full_suite_validation_id :: ident
  verdict :: review_verdict
  rationale :: sealed_artifact_reference
  risks :: sealed_artifact_reference
  additional_probes :: sealed_artifact_reference

definition quality_review_submission_validate :: "quality_review_submission \<Rightarrow> unit contract" where
  "quality_review_submission_validate s = first_error
     [sealed_artifact_validate (rationale s) ''Quality rationale'' QUALITY_RATIONALE_BYTE_LIMIT False,
      sealed_artifact_validate (risks s) ''Quality risks'' QUALITY_RISKS_BYTE_LIMIT False,
      sealed_artifact_validate (additional_probes s) ''Quality additional probes'' QUALITY_PROBES_BYTE_LIMIT False]"

record quality_validation_receipt =
  qv_validation_id :: ident
  qv_candidate_id :: ident
  qv_candidate_tree :: object_id
  qv_log_artifact :: sealed_artifact_reference
  qv_revision :: aggregate_revision

definition quality_validation_receipt_validate :: "quality_validation_receipt \<Rightarrow> unit contract" where
  "quality_validation_receipt_validate r =
     sealed_artifact_validate (qv_log_artifact r) ''Quality full-suite log'' (16 * 1024 * 1024) True"

definition candidate_artifact_reference_of :: "int \<Rightarrow> string \<Rightarrow> 64 word \<Rightarrow> sealed_artifact_reference contract" where
  "candidate_artifact_reference_of i d len = sealed_artifact_reference_of i d len"

section \<open>Architect decisions\<close>

definition ARCHITECT_PRINCIPAL_BYTE_LIMIT :: nat where
  "ARCHITECT_PRINCIPAL_BYTE_LIMIT = 240"
definition ARCHITECT_RATIONALE_BYTE_LIMIT :: "64 word" where
  "ARCHITECT_RATIONALE_BYTE_LIMIT = 128 * 1024"

datatype architect_decision_kind = DecisionSponsor | DecisionRelease | DecisionDeliver | DecisionRework | DecisionReject
datatype candidate_decision = Deliver | Rework | Reject

fun candidate_decision_kind :: "candidate_decision \<Rightarrow> architect_decision_kind" where
  "candidate_decision_kind Deliver = DecisionDeliver"
| "candidate_decision_kind Rework = DecisionRework"
| "candidate_decision_kind Reject = DecisionReject"

definition architect_principal_parse :: "string \<Rightarrow> string contract" where
  "architect_principal_parse v =
     (if v = [] \<or> length v > ARCHITECT_PRINCIPAL_BYTE_LIMIT \<or> CHR 0x00 \<in> set v
      then Inl (InvalidValue ''Architect principal'' ''must be nonempty, bounded UTF-8 without NUL'')
      else Inr v)"

record sponsorship_decision =
  sd_ticket_revision_id :: ident
  sd_rationale :: sealed_artifact_reference
  sd_principal :: string

definition sponsorship_decision_validate :: "sponsorship_decision \<Rightarrow> unit contract" where
  "sponsorship_decision_validate d =
     sealed_artifact_validate (sd_rationale d) ''Architect sponsorship rationale'' ARCHITECT_RATIONALE_BYTE_LIMIT False"

record release_decision =
  rd_ticket_attempt_id :: ident
  rd_rationale :: sealed_artifact_reference
  rd_principal :: string

definition release_decision_validate :: "release_decision \<Rightarrow> unit contract" where
  "release_decision_validate d =
     sealed_artifact_validate (rd_rationale d) ''Architect release rationale'' ARCHITECT_RATIONALE_BYTE_LIMIT False"

record candidate_decision_request =
  cd_candidate_id :: ident
  cd_review_id :: ident
  cd_decision :: candidate_decision
  cd_rationale :: sealed_artifact_reference
  quality_rejection_override :: "ident option"
  cd_principal :: string

definition candidate_decision_request_validate :: "candidate_decision_request \<Rightarrow> unit contract" where
  "candidate_decision_request_validate r = first_error
     [sealed_artifact_validate (cd_rationale r) ''Architect candidate-decision rationale''
        ARCHITECT_RATIONALE_BYTE_LIMIT False,
      require (\<not> (quality_rejection_override r \<noteq> None \<and> cd_decision r \<noteq> Deliver))
        (InvalidValue ''Quality rejection override'' ''is only valid for a deliver decision'')]"

record architect_decision_receipt =
  architect_decision_id :: ident
  decision_kind :: architect_decision_kind

section \<open>Harness compilation\<close>

definition HARNESS_COMPILER_VERSION_V2 :: "16 word" where
  "HARNESS_COMPILER_VERSION_V2 = 2"
definition HARNESS_CONTEXT_REASON_MAX_BYTES :: nat where
  "HARNESS_CONTEXT_REASON_MAX_BYTES = 512"
definition HARNESS_CONTEXT_MAX_ITEMS :: nat where
  "HARNESS_CONTEXT_MAX_ITEMS = 32"

datatype actor_tool =
    WorkspaceRead | WorkspaceWrite | WorkspaceEdit | WorkspaceSearch | WorkspaceList | Shell
  | ForumSearch | ForumListTopics | ForumListThreads | ForumReadThread | PublicationCreate
  | ArtifactSeal | ArtifactRead | ProductSubmitTicket | CandidateCheckpointRegression
  | CandidateSubmit | QualityRunFullSuite | QualitySubmitReview | WorkComplete

definition actor_tool_ALL :: "actor_tool list" where
  "actor_tool_ALL =
     [WorkspaceRead, WorkspaceWrite, WorkspaceEdit, WorkspaceSearch, WorkspaceList, Shell,
      ForumSearch, ForumListTopics, ForumListThreads, ForumReadThread, PublicationCreate,
      ArtifactSeal, ArtifactRead, ProductSubmitTicket, CandidateCheckpointRegression,
      CandidateSubmit, QualityRunFullSuite, QualitySubmitReview, WorkComplete]"

datatype context_inclusion_class = DirectTarget | RequiredConstraint | DirectEvidence | CurrentDecision

datatype context_reference =
    RefArtifact ident | RefProject ident | RefRfc ident | RefRfcRevision ident | RefTicket ident
  | RefTicketRevision ident | RefExperiment ident | RefClaim ident | RefDecision ident | RefOffice ident

record context_item =
  reference :: context_reference
  inclusion :: context_inclusion_class
  ci_reason :: string

definition context_item_validate :: "context_item \<Rightarrow> unit contract" where
  "context_item_validate i =
     require (\<not> (ci_reason i = [] \<or> length (ci_reason i) > HARNESS_CONTEXT_REASON_MAX_BYTES
        \<or> CHR 0x00 \<in> set (ci_reason i) \<or> CHR 0x0A \<in> set (ci_reason i) \<or> CHR 0x0D \<in> set (ci_reason i)))
       (InvalidValue ''harness context reason'' ''must be one bounded nonempty line without NUL'')"

record harness_spec =
  compiler_version :: "16 word"
  hs_application_revision_id :: ident
  hs_office_id :: ident
  hs_assignment_role :: assignment_role
  objective :: string
  context_items :: "context_item list"
  capabilities :: "actor_tool list"
  hs_remaining_campaign_allowance :: micro_usd

definition harness_spec_validate :: "harness_spec \<Rightarrow> unit contract" where
  "harness_spec_validate h = first_error
     [require (compiler_version h = HARNESS_COMPILER_VERSION_V2)
        (InvalidValue ''harness compiler version'' ''is not supported''),
      require (\<not> (objective h = [] \<or> length (objective h) > 4096 \<or> CHR 0x00 \<in> set (objective h)))
        (InvalidValue ''harness objective'' ''must be bounded nonempty UTF-8 without NUL''),
      require (\<not> length (context_items h) > HARNESS_CONTEXT_MAX_ITEMS)
        (InvalidValue ''harness context items'' ''exceeds the fixed context reference limit''),
      validate_unique context_item_validate reference
        (InvalidValue ''harness context items'' ''must not repeat one durable reference'') [] (context_items h),
      require (capabilities h \<noteq> [])
        (InvalidValue ''harness capabilities'' ''must contain at least one admitted tool''),
      validate_unique (\<lambda>_. Inr ()) (\<lambda>t. t)
        (InvalidValue ''harness capabilities'' ''must not repeat an admitted tool'') [] (capabilities h)]"

record harness_compilation =
  hc_id :: ident
  hc_assignment_id :: ident
  hc_application_revision_id :: ident
  hc_office_id :: ident
  hc_assignment_role :: assignment_role
  hc_compiler_version :: "16 word"
  spec_artifact_id :: ident
  hc_system_prompt_artifact_id :: ident
  hc_assignment_prompt_artifact_id :: ident
  packet_artifact_id :: ident
  hc_packet_digest :: content_digest
  hc_context_items :: "context_item list"

section \<open>Properties\<close>

lemma object_id_parse_ok [simp]:
  "object_id_parse v = Inr x \<longleftrightarrow> x = v \<and> (length v = 40 \<or> length v = 64) \<and> list_all object_id_byte v"
  by (auto simp: object_id_parse_def)

lemma candidate_decision_request_validate_ok:
  "candidate_decision_request_validate r = Inr u \<longleftrightarrow>
     byte_length (cd_rationale r) \<le> ARCHITECT_RATIONALE_BYTE_LIMIT \<and> byte_length (cd_rationale r) \<noteq> 0
     \<and> (quality_rejection_override r \<noteq> None \<longrightarrow> cd_decision r = Deliver)"
  by (auto simp: candidate_decision_request_validate_def)

lemma actor_tool_ALL_complete: "t \<in> set actor_tool_ALL" and actor_tool_ALL_distinct: "distinct actor_tool_ALL"
  by (cases t; simp add: actor_tool_ALL_def) (simp add: actor_tool_ALL_def)

lemma length_le_actor_tools:
  assumes "distinct (ts :: actor_tool list)"
  shows "length ts \<le> length actor_tool_ALL"
proof -
  have "card (set ts) \<le> card (set actor_tool_ALL)"
    by (intro card_mono) (auto simp: actor_tool_ALL_complete)
  then show ?thesis using assms by (simp add: distinct_card actor_tool_ALL_distinct)
qed



end
