(* ===== verification/Store.thy ===== *)
theory Store
  imports Candidate_Contract
begin

text \<open>
  The durable relations the ticket and decision authorities read and write: the rows of
  \<open>schema/migrations/0001_initial_authority.sql\<close> as records, the database as a record of tables, the
  lifecycle codes of \<open>ticket_store.rs\<close> and \<open>decision_store.rs\<close>, and the byte strings both files hash
  into command fingerprints.  One database transaction is one function from a database to a result:
  an error is a rollback and leaves no database, success returns the committed one.  Row locks make
  the transactions of these two stores serial on the rows they touch, so a schedule is a sequence of
  such functions.  \<open>SMALLINT\<close>, \<open>INTEGER\<close> and \<open>BIGINT\<close> columns are \<open>int\<close>; a time is an \<open>int\<close> argument.
\<close>

section \<open>Lifecycle codes\<close>

definition TICKET_PROPOSED :: int where [simp]: "TICKET_PROPOSED = 0"
definition TICKET_SPONSORED :: int where [simp]: "TICKET_SPONSORED = 1"
definition TICKET_IN_FLIGHT :: int where [simp]: "TICKET_IN_FLIGHT = 2"
definition TICKET_DELIVERED :: int where [simp]: "TICKET_DELIVERED = 3"
definition TICKET_BLOCKED :: int where [simp]: "TICKET_BLOCKED = 4"
definition TICKET_RESOLVED :: int where [simp]: "TICKET_RESOLVED = 5"
definition TICKET_SUPERSEDED :: int where [simp]: "TICKET_SUPERSEDED = 6"
definition TICKET_REJECTED :: int where [simp]: "TICKET_REJECTED = 7"

definition ATTEMPT_ENGINEERING :: int where [simp]: "ATTEMPT_ENGINEERING = 0"
definition ATTEMPT_HARD_VALIDATION :: int where [simp]: "ATTEMPT_HARD_VALIDATION = 1"
definition ATTEMPT_QUALITY :: int where [simp]: "ATTEMPT_QUALITY = 2"
definition ATTEMPT_AWAITING_ARCHITECT :: int where [simp]: "ATTEMPT_AWAITING_ARCHITECT = 3"
definition ATTEMPT_REWORK_ENGINEERING :: int where [simp]: "ATTEMPT_REWORK_ENGINEERING = 4"
definition ATTEMPT_REWORK_VALIDATION :: int where [simp]: "ATTEMPT_REWORK_VALIDATION = 5"
definition ATTEMPT_REWORK_QUALITY :: int where [simp]: "ATTEMPT_REWORK_QUALITY = 6"
definition ATTEMPT_DELIVERED :: int where [simp]: "ATTEMPT_DELIVERED = 7"
definition ATTEMPT_FAILED :: int where [simp]: "ATTEMPT_FAILED = 8"
definition ATTEMPT_CANCELLED :: int where [simp]: "ATTEMPT_CANCELLED = 9"

definition CANDIDATE_SUBMITTED :: int where [simp]: "CANDIDATE_SUBMITTED = 0"
definition CANDIDATE_VALIDATED :: int where [simp]: "CANDIDATE_VALIDATED = 1"
definition CANDIDATE_REJECTED :: int where [simp]: "CANDIDATE_REJECTED = 2"
definition CANDIDATE_ACCEPTED :: int where [simp]: "CANDIDATE_ACCEPTED = 3"
definition CANDIDATE_DELIVERED :: int where [simp]: "CANDIDATE_DELIVERED = 4"

definition VALIDATION_PASSED :: int where [simp]: "VALIDATION_PASSED = 1"
definition VALIDATION_FAILED :: int where [simp]: "VALIDATION_FAILED = 2"
definition VALIDATION_INTERRUPTED :: int where [simp]: "VALIDATION_INTERRUPTED = 3"

definition REVIEW_ACCEPT :: int where [simp]: "REVIEW_ACCEPT = 0"
definition REVIEW_REJECT :: int where [simp]: "REVIEW_REJECT = 1"

definition DECISION_SPONSOR :: int where [simp]: "DECISION_SPONSOR = 0"
definition DECISION_RELEASE :: int where [simp]: "DECISION_RELEASE = 1"
definition DECISION_DELIVER :: int where [simp]: "DECISION_DELIVER = 2"
definition DECISION_REWORK :: int where [simp]: "DECISION_REWORK = 3"
definition DECISION_REJECT :: int where [simp]: "DECISION_REJECT = 4"

definition SESSION_RUNNING :: int where [simp]: "SESSION_RUNNING = 1"
definition SESSION_SUCCEEDED :: int where [simp]: "SESSION_SUCCEEDED = 2"
definition OFFICE_ENGINEERING :: int where [simp]: "OFFICE_ENGINEERING = 1"
definition OFFICE_QUALITY :: int where [simp]: "OFFICE_QUALITY = 2"
definition CAMPAIGN_RUNNING :: int where [simp]: "CAMPAIGN_RUNNING = 0"
definition CAMPAIGN_COMPLETED :: int where [simp]: "CAMPAIGN_COMPLETED = 1"
definition COST_KNOWN :: int where [simp]: "COST_KNOWN = 0"
definition COST_UNKNOWN :: int where [simp]: "COST_UNKNOWN = 1"
definition COST_EXCEEDED :: int where [simp]: "COST_EXCEEDED = 2"

definition REQUALIFICATION_REPRODUCED :: int where [simp]: "REQUALIFICATION_REPRODUCED = 0"
definition REQUALIFICATION_RESOLVED :: int where [simp]: "REQUALIFICATION_RESOLVED = 1"
definition REQUALIFICATION_DIVERGED :: int where [simp]: "REQUALIFICATION_DIVERGED = 2"

section \<open>Rows\<close>

record artifact_row =
  ar_digest :: content_digest
  ar_byte_length :: int

record kernel_build_row =
  kb_build_digest :: content_digest
  kb_is_current :: bool

record application_revision_row =
  ap_application_key :: string
  ap_aggregate_revision :: int
  ap_ticket_low_water :: int
  ap_ticket_target :: int
  ap_ticket_maximum :: "int option"
  ap_proposal_maximum :: int
  ap_repository_id :: int
  ap_is_active :: bool

record office_row =
  of_application_revision_id :: int
  of_assignment_role :: "int option"
  of_lifecycle :: int

record campaign_row =
  ca_kernel_build_id :: int
  ca_application_revision_id :: int
  ca_lifecycle :: int
  ca_deadline :: int
  ca_delivery_target :: int
  ca_revision :: int
  ca_measured_cost_micro_usd :: int
  ca_cost_state :: int
  ca_repository_id :: int
  ca_aggregate_budget_micro_usd :: int
  ca_failure_reason :: "string option"

text \<open>The model columns an assignment pins and its session copies.\<close>

record model_columns =
  mc_provider :: string
  mc_model_id :: string
  mc_thinking_level :: int
  mc_input_price :: int
  mc_output_price :: int
  mc_cache_read_price :: int
  mc_cache_write_price :: int

record assignment_row =
  as_campaign_id :: int
  as_kernel_build_id :: int
  as_application_revision_id :: int
  as_office_id :: int
  as_assignment_role :: int
  as_target :: string
  as_ticket_attempt_id :: "int option"
  as_candidate_id :: "int option"
  as_packet_artifact_id :: int
  as_packet_digest :: content_digest
  as_system_prompt_artifact_id :: int
  as_assignment_prompt_artifact_id :: int
  as_required_read_manifest_artifact_id :: int
  as_model :: model_columns
  as_context_token_limit :: int
  as_output_token_limit :: int
  as_wall_limit_millis :: int
  as_output_byte_limit :: int
  as_terminal_operations_mask :: int
  as_remaining_campaign_allowance_micro_usd :: int
  as_attempt_ordinal :: int
  as_lifecycle :: int
  as_revision :: int

text \<open>The columns of a session that are null until the one \<open>UPDATE\<close> that makes it terminal writes them together.\<close>

record session_terminal_columns =
  sm_transcript_artifact_id :: int
  sm_execution_summary_artifact_id :: "int option"
  sm_stdout_artifact_id :: int
  sm_stderr_artifact_id :: int
  sm_partial_transcript_artifact_id :: "int option"
  sm_required_read_assertion_artifact_id :: int
  sm_required_read_expected_count :: int
  sm_required_read_satisfied_count :: int
  sm_input_tokens :: "int option"
  sm_output_tokens :: "int option"
  sm_cache_read_tokens :: "int option"
  sm_cache_write_tokens :: "int option"
  sm_reasoning_tokens :: "int option"
  sm_reported_cost_micro_usd :: "int option"
  sm_cost_state :: int
  sm_cost_micro_usd :: "int option"
  sm_stop_reason :: int
  sm_terminal_operation :: "int option"
  sm_failure_class :: "int option"
  sm_terminal_at :: int

record session_row =
  se_assignment_id :: int
  se_campaign_id :: int
  se_kernel_build_id :: int
  se_application_revision_id :: int
  se_office_id :: int
  se_assignment_role :: int
  se_model :: model_columns
  se_pid :: int
  se_pgid :: int
  se_process_started_at_unix_millis :: int
  se_lifecycle :: int
  se_terminal :: "session_terminal_columns option"
  se_started_at :: int
  se_revision :: int

text \<open>The columns a settlement writes; a \<open>CHECK\<close> makes them null exactly while the effect is started.\<close>

record effect_settlement_columns =
  ec_stop_reason :: string
  ec_context_overflow :: bool
  ec_input_tokens :: "int option"
  ec_output_tokens :: "int option"
  ec_cache_read_tokens :: "int option"
  ec_cache_write_tokens :: "int option"
  ec_reasoning_tokens :: "int option"
  ec_reported_cost_micro_usd :: "int option"
  ec_failure_class :: "string option"

record provider_effect_row =
  pe_session_id :: int
  pe_assignment_id :: int
  pe_core_run_id :: string
  pe_effect_id :: int
  pe_harness_snapshot_id :: string
  pe_harness_revision_id :: string
  pe_model_harness_profile_id :: string
  pe_provider_surface_digest :: content_digest
  pe_provider :: string
  pe_model :: string
  pe_request_fingerprint :: content_digest
  pe_state :: int
  pe_settlement :: "effect_settlement_columns option"

text \<open>A compiler receipt; its rows of \<open>harness_context_items\<close>, inserted with it, are the list in ordinal order.\<close>

record harness_row =
  hr_assignment_id :: int
  hr_application_revision_id :: int
  hr_office_id :: int
  hr_assignment_role :: int
  hr_compiler_version :: int
  hr_spec_artifact_id :: int
  hr_system_prompt_artifact_id :: int
  hr_assignment_prompt_artifact_id :: int
  hr_packet_artifact_id :: int
  hr_packet_digest :: content_digest
  hr_context_items :: "(int \<times> string \<times> context_reference) list"

record ticket_row =
  ti_application_revision_id :: int
  ti_lifecycle :: int
  ti_current_ticket_revision_id :: int
  ti_revision :: int

text \<open>The six \<open>last_requalification_*\<close> columns, which a \<open>CHECK\<close> makes null together.\<close>

record requalification_columns =
  rq_outcome :: int
  rq_commit :: string
  rq_tree :: string
  rq_first_observation_artifact_id :: int
  rq_second_observation_artifact_id :: int
  rq_at :: int

record ticket_revision_row =
  tr_ticket_id :: int
  tr_application_revision_id :: int
  tr_revision_ordinal :: int
  tr_lifecycle :: int
  tr_proposal_artifact_id :: int
  tr_reproducer_artifact_id :: int
  tr_expected_observation_artifact_id :: int
  tr_discovery_observation_artifact_id :: int
  tr_discovery_commit :: string
  tr_discovery_tree :: string
  tr_sponsored_at :: "int option"
  tr_sponsorship_reason :: "string option"
  tr_last_requalification :: "requalification_columns option"
  tr_blocked_reason :: "string option"
  tr_revision :: int

text \<open>\<open>failed_at\<close> with \<open>failure_reason\<close>, and \<open>released_at\<close> with \<open>release_reason\<close>, are null together by \<open>CHECK\<close>.\<close>

record ticket_attempt_row =
  ta_ticket_revision_id :: int
  ta_campaign_id :: int
  ta_claimed_commit :: string
  ta_claimed_tree :: string
  ta_stage :: int
  ta_candidate_ordinal :: int
  ta_rework_ordinal :: int
  ta_failed :: "(int \<times> string) option"
  ta_released :: "(int \<times> string) option"
  ta_revision :: int
  ta_created_at :: int

record candidate_row =
  cr_ticket_attempt_id :: int
  cr_application_revision_id :: int
  cr_base_commit :: string
  cr_base_tree :: string
  cr_regression_tree :: string
  cr_candidate_tree :: string
  cr_changed_paths_artifact_id :: int
  cr_regression_patch_artifact_id :: int
  cr_regression_command_set_artifact_id :: int
  cr_regression_log_artifact_id :: int
  cr_patch_artifact_id :: int
  cr_engineering_session_id :: int
  cr_engineering_report_artifact_id :: int
  cr_commit_subject :: string
  cr_commit_body :: string
  cr_regression_test_identity :: string
  cr_risks_artifact_id :: int
  cr_commit :: "string option"
  cr_ref :: "string option"
  cr_lifecycle :: int
  cr_revision :: int
  cr_created_at :: int

record validation_row =
  va_candidate_id :: int
  va_kernel_build_id :: int
  va_performed_by_session_id :: int
  va_scope :: int
  va_profile :: string
  va_pristine_tree :: string
  va_command_set_artifact_id :: int
  va_lifecycle :: int
  va_duration_millis :: int
  va_log_artifact_id :: int
  va_created_at :: int

record review_row =
  re_candidate_id :: int
  re_quality_session_id :: int
  re_full_suite_validation_id :: int
  re_verdict :: int
  re_rationale_artifact_id :: int
  re_risks_artifact_id :: int
  re_additional_probes_artifact_id :: int
  re_revision :: int

record decision_row =
  de_kind :: int
  de_ticket_revision_id :: "int option"
  de_ticket_attempt_id :: "int option"
  de_candidate_id :: "int option"
  de_review_id :: "int option"
  de_rationale_artifact_id :: int
  de_principal :: string
  de_overrides_quality_rejection :: bool
  de_created_at :: int

record delivery_row =
  dl_candidate_id :: int
  dl_candidate_commit :: string
  dl_expected_old_commit :: string
  dl_resulting_commit :: string
  dl_resulting_tree :: string
  dl_factory_cost_micro_usd :: int
  dl_receipt_artifact_id :: int

record audit_row =
  au_principal :: string
  au_command_id :: string
  au_operation :: string
  au_command_fingerprint :: content_digest
  au_subject_kind :: int
  au_subject_id :: int
  au_resulting_revision :: int

record db =
  artifacts :: "artifact_row table"
  kernel_builds :: "kernel_build_row table"
  application_revisions :: "application_revision_row table"
  offices :: "office_row table"
  campaigns :: "campaign_row table"
  assignments :: "assignment_row table"
  sessions :: "session_row table"
  provider_effects :: "provider_effect_row table"
  harness_compilations :: "harness_row table"
  tickets :: "ticket_row table"
  ticket_revisions :: "ticket_revision_row table"
  ticket_attempts :: "ticket_attempt_row table"
  candidates :: "candidate_row table"
  validations :: "validation_row table"
  reviews :: "review_row table"
  architect_decisions :: "decision_row table"
  deliveries :: "delivery_row table"
  audit_log :: "audit_row table"

definition empty_db :: db where
  "empty_db = \<lparr>artifacts = empty_table, kernel_builds = empty_table, application_revisions = empty_table,
     offices = empty_table, campaigns = empty_table, assignments = empty_table, sessions = empty_table,
     provider_effects = empty_table, harness_compilations = empty_table, tickets = empty_table,
     ticket_revisions = empty_table, ticket_attempts = empty_table, candidates = empty_table,
     validations = empty_table, reviews = empty_table, architect_decisions = empty_table,
     deliveries = empty_table, audit_log = empty_table\<rparr>"

section \<open>Columns and machine integers\<close>

definition I64_MAX :: int where
  "I64_MAX = 2 ^ 63 - 1"

text \<open>\<open>u64::try_from(i64)\<close> and \<open>i64::try_from(u64)\<close>, with the error of the caller.\<close>

definition revision_of_sql :: "'e \<Rightarrow> int \<Rightarrow> ('e, aggregate_revision) result" where
  "revision_of_sql e v = (if v < 0 then Inl e else Inr (word_of_int v))"

definition sql_of_revision :: "'e \<Rightarrow> aggregate_revision \<Rightarrow> ('e, int) result" where
  "sql_of_revision e r = (if I64_MAX < uint r then Inl e else Inr (uint r))"

section \<open>The audit log\<close>

record audit_receipt =
  rc_audit_log_id :: int
  rc_subject_kind :: int
  rc_subject_id :: int
  rc_resulting_revision :: aggregate_revision

definition audit_lookup :: "db \<Rightarrow> string \<Rightarrow> string \<Rightarrow> (int \<times> audit_row) option" where
  "audit_lookup d prin command_id =
     find_row (\<lambda>_ a. au_principal a = prin \<and> au_command_id a = command_id) (audit_log d)"

text \<open>
  The lookup both stores make at the head of every command: nothing under this principal and command
  identifier, the receipt of the same command, or a conflict.
\<close>

definition find_audit_entry ::
  "'e \<Rightarrow> 'e \<Rightarrow> db \<Rightarrow> string \<Rightarrow> string \<Rightarrow> string \<Rightarrow> content_digest \<Rightarrow> ('e, audit_receipt option) result" where
  "find_audit_entry conflict out_of_range d prin command_id operation fingerprint =
     (case audit_lookup d prin command_id of
        None \<Rightarrow> Inr None
      | Some (i, a) \<Rightarrow>
          if au_operation a \<noteq> operation \<or> au_command_fingerprint a \<noteq> fingerprint then Inl conflict
          else and_then (revision_of_sql out_of_range (au_resulting_revision a)) (\<lambda>r.
            Inr (Some \<lparr>rc_audit_log_id = i, rc_subject_kind = au_subject_kind a,
                       rc_subject_id = au_subject_id a, rc_resulting_revision = r\<rparr>)))"

text \<open>\<open>UNIQUE (principal, command_id)\<close> makes a second insertion a database error.\<close>

definition insert_audit_entry ::
  "'e \<Rightarrow> 'e \<Rightarrow> db \<Rightarrow> string \<Rightarrow> string \<Rightarrow> string \<Rightarrow> content_digest \<Rightarrow> int \<Rightarrow> int \<Rightarrow> aggregate_revision
     \<Rightarrow> ('e, int \<times> db) result" where
  "insert_audit_entry database out_of_range d prin command_id operation fingerprint kind subject revision =
     and_then (sql_of_revision out_of_range revision) (\<lambda>r.
     if audit_lookup d prin command_id \<noteq> None then Inl database
     else Inr (next_id (audit_log d),
       d\<lparr>audit_log := insert_row
           \<lparr>au_principal = prin, au_command_id = command_id, au_operation = operation,
            au_command_fingerprint = fingerprint, au_subject_kind = kind, au_subject_id = subject,
            au_resulting_revision = r\<rparr> (audit_log d)\<rparr>))"

text \<open>
  The shape of every command of the two stores: look the command up; replay the recorded receipt and
  commit nothing, or run the transition.
\<close>

definition audited ::
  "('e, audit_receipt option) result \<Rightarrow> (audit_receipt \<Rightarrow> ('e, 'r) result) \<Rightarrow> ('e, 'r \<times> db) result
     \<Rightarrow> db \<Rightarrow> ('e, 'r \<times> db) result" where
  "audited found replay fresh d =
     and_then found (\<lambda>f. case f of
        Some receipt \<Rightarrow> and_then (replay receipt) (\<lambda>r. Inr (r, d))
      | None \<Rightarrow> fresh)"

section \<open>Fingerprint preimages\<close>

definition hash_i64 :: "int \<Rightarrow> byte list" where
  "hash_i64 v = be_bytes 8 (nat (v mod 2 ^ 64))"

definition hash_u64 :: "64 word \<Rightarrow> byte list" where
  "hash_u64 v = be_bytes 8 (unat v)"

definition hash_string :: "string \<Rightarrow> byte list" where
  "hash_string s = be_bytes 8 (length s) @ bytes_of s"

definition hash_sealed_artifact :: "sealed_artifact_reference \<Rightarrow> byte list" where
  "hash_sealed_artifact a = hash_i64 (artifact_id a) @ digest a @ hash_u64 (byte_length a)"

section \<open>Command identity\<close>

definition is_ascii_alphanumeric :: "char \<Rightarrow> bool" where
  "is_ascii_alphanumeric c = (is_ascii_digit c \<or> is_ascii_uppercase c
     \<or> 97 \<le> (of_char c :: nat) \<and> (of_char c :: nat) \<le> 122)"

definition command_component_ok :: "string \<Rightarrow> bool" where
  "command_component_ok v =
     (v \<noteq> [] \<and> length v \<le> 160
      \<and> list_all (\<lambda>b. is_ascii_alphanumeric b \<or> b = CHR ''.'' \<or> b = CHR '':'' \<or> b = CHR ''_'' \<or> b = CHR ''-'') v)"

record current_head_requalification =
  current_head_commit :: string
  current_head_tree :: string
  first_actual_observation_artifact_id :: ident
  second_actual_observation_artifact_id :: ident

datatype requalification = Reproduced | Resolved | Diverged

section \<open>Laws of the columns\<close>

lemma revision_of_sql_ok [simp]: "revision_of_sql e v = Inr r \<longleftrightarrow> 0 \<le> v \<and> r = word_of_int v"
  by (auto simp: revision_of_sql_def)

lemma sql_of_revision_ok [simp]: "sql_of_revision e r = Inr v \<longleftrightarrow> uint r \<le> I64_MAX \<and> v = uint r"
  by (auto simp: sql_of_revision_def)

lemma revision_roundtrip: "sql_of_revision e r = Inr v \<Longrightarrow> revision_of_sql e' v = Inr r"
  by simp

section \<open>Laws of the audit log\<close>

definition audit_extends :: "db \<Rightarrow> db \<Rightarrow> bool" where
  "audit_extends d d' \<longleftrightarrow> (\<forall>p c x. audit_lookup d p c = Some x \<longrightarrow> audit_lookup d' p c = Some x)"

lemma audit_extends_refl [simp]: "audit_extends d d"
  by (simp add: audit_extends_def)

lemma audit_extends_trans: "audit_extends a b \<Longrightarrow> audit_extends b c \<Longrightarrow> audit_extends a c"
  by (simp add: audit_extends_def)

lemma audit_lookup_cong: "audit_log d = audit_log d' \<Longrightarrow> audit_lookup d p c = audit_lookup d' p c"
  by (simp add: audit_lookup_def)

lemma find_append: "find p (xs @ ys) = (case find p xs of None \<Rightarrow> find p ys | Some x \<Rightarrow> Some x)"
  by (induction xs) auto

lemma audit_lookup_insert:
  "audit_lookup (d\<lparr>audit_log := insert_row a (audit_log d)\<rparr>) p c =
     (case audit_lookup d p c of
        Some x \<Rightarrow> Some x
      | None \<Rightarrow> if au_principal a = p \<and> au_command_id a = c then Some (next_id (audit_log d), a) else None)"
  by (auto simp: audit_lookup_def find_row_def insert_row_def find_append split: option.splits)

lemma insert_audit_entry_ok:
  assumes "insert_audit_entry e e' d p c op fp k s r = Inr (i, d')"
  shows "audit_lookup d p c = None" "i = next_id (audit_log d)" "uint r \<le> I64_MAX"
    and "d' = d\<lparr>audit_log := insert_row \<lparr>au_principal = p, au_command_id = c, au_operation = op,
            au_command_fingerprint = fp, au_subject_kind = k, au_subject_id = s,
            au_resulting_revision = uint r\<rparr> (audit_log d)\<rparr>"
  using assms by (cases "audit_lookup d p c"; auto simp: insert_audit_entry_def split: if_splits)+

lemma insert_audit_entry_lookup:
  assumes "insert_audit_entry e e' d p c op fp k s r = Inr (i, d')"
  shows "\<exists>a. audit_lookup d' p c = Some (i, a) \<and> au_operation a = op \<and> au_command_fingerprint a = fp"
    and "audit_extends d d'"
  using insert_audit_entry_ok [OF assms]
  by (auto simp: audit_lookup_insert audit_extends_def split: option.splits)

lemma find_audit_entry_None:
  "find_audit_entry e e' d p c op fp = Inr None \<longleftrightarrow> audit_lookup d p c = None"
  by (auto simp: find_audit_entry_def split: option.splits if_splits)

lemma find_audit_entry_Some:
  "find_audit_entry e e' d p c op fp = Inr (Some rc) \<Longrightarrow>
     \<exists>i a. audit_lookup d p c = Some (i, a) \<and> au_operation a = op \<and> au_command_fingerprint a = fp
        \<and> rc = \<lparr>rc_audit_log_id = i, rc_subject_kind = au_subject_kind a, rc_subject_id = au_subject_id a,
               rc_resulting_revision = word_of_int (au_resulting_revision a)\<rparr>"
  by (auto simp: find_audit_entry_def split: option.splits if_splits)

lemma audited_cases:
  assumes "audited (find_audit_entry e e' d p c op fp) replay fresh d = Inr (r, d')"
  obtains (replay) rc where "find_audit_entry e e' d p c op fp = Inr (Some rc)" "replay rc = Inr r" "d' = d"
    | (fresh) "audit_lookup d p c = None" "fresh = Inr (r, d')"
proof -
  from assms obtain f where f: "find_audit_entry e e' d p c op fp = Inr f"
    and rest: "(case f of Some rc \<Rightarrow> and_then (replay rc) (\<lambda>r. Inr (r, d)) | None \<Rightarrow> fresh) = Inr (r, d')"
    by (auto simp: audited_def)
  show thesis
  proof (cases f)
    case None
    show thesis by (rule fresh) (use f rest None in \<open>simp_all add: find_audit_entry_None\<close>)
  next
    case (Some rc)
    show thesis by (rule replay) (use f rest Some in auto)
  qed
qed

text \<open>A committed transition appends the audit row of its command.\<close>

definition audit_commits ::
  "db \<Rightarrow> string \<Rightarrow> string \<Rightarrow> string \<Rightarrow> content_digest \<Rightarrow> db \<Rightarrow> bool" where
  "audit_commits d p c op fp d' \<longleftrightarrow>
     (\<exists>a. audit_log d' = insert_row a (audit_log d) \<and> au_principal a = p \<and> au_command_id a = c
        \<and> au_operation a = op \<and> au_command_fingerprint a = fp \<and> audit_lookup d p c = None)"

lemma audit_commits_insert:
  assumes "insert_audit_entry e e' dm p c op fp k s r = Inr (i, d')" "audit_log dm = audit_log d"
  shows "audit_commits d p c op fp d'"
  using insert_audit_entry_ok [OF assms(1)] assms(2) audit_lookup_cong [OF assms(2)]
  by (auto simp: audit_commits_def)

lemma audit_commits_lookup:
  assumes "audit_commits d p c op fp d'"
  shows "audit_lookup d p c = None \<and> audit_extends d d'
     \<and> (\<exists>i a. audit_lookup d' p c = Some (i, a) \<and> au_operation a = op \<and> au_command_fingerprint a = fp)"
proof -
  from assms obtain a where a: "audit_log d' = insert_row a (audit_log d)" "au_principal a = p"
      "au_command_id a = c" "au_operation a = op" "au_command_fingerprint a = fp" "audit_lookup d p c = None"
    by (auto simp: audit_commits_def)
  have "audit_lookup d' q x = audit_lookup (d\<lparr>audit_log := insert_row a (audit_log d)\<rparr>) q x" for q x
    by (rule audit_lookup_cong) (simp add: a(1))
  then show ?thesis using a by (auto simp: audit_lookup_insert audit_extends_def split: option.splits)
qed

text \<open>
  The contract of an audited command: a retried command is recognised by its own audit row and leaves
  the database as it is, a fresh one finds no row under its identity and leaves one.
\<close>

locale audited_command =
  fixes run :: "int \<Rightarrow> 'c \<Rightarrow> db \<Rightarrow> ('e, 'r \<times> db) result"
    and who :: "'c \<Rightarrow> string"
    and cmd :: "'c \<Rightarrow> string"
    and operation :: string
    and fp :: "'c \<Rightarrow> content_digest"
    and retry :: "'r \<Rightarrow> bool"
  assumes replayed: "run now c d = Inr (r, d') \<Longrightarrow> retry r \<Longrightarrow>
      d' = d \<and> (\<exists>i a. audit_lookup d (who c) (cmd c) = Some (i, a)
                     \<and> au_operation a = operation \<and> au_command_fingerprint a = fp c)"
    and appended: "run now c d = Inr (r, d') \<Longrightarrow> \<not> retry r \<Longrightarrow>
      audit_commits d (who c) (cmd c) operation (fp c) d'"
begin

lemma committed:
  "run now c d = Inr (r, d') \<Longrightarrow> \<not> retry r \<Longrightarrow>
      audit_lookup d (who c) (cmd c) = None \<and> audit_extends d d'
      \<and> (\<exists>i a. audit_lookup d' (who c) (cmd c) = Some (i, a)
             \<and> au_operation a = operation \<and> au_command_fingerprint a = fp c)"
  using appended audit_commits_lookup by blast

lemma log_grows:
  "run now c d = Inr (r, d') \<Longrightarrow> audit_log d' = audit_log d \<or> (\<exists>a. audit_log d' = insert_row a (audit_log d))"
  using replayed [of now c d r d'] appended [of now c d r d'] unfolding audit_commits_def by (cases "retry r") auto

lemma recorded:
  "run now c d = Inr (r, d') \<Longrightarrow>
     \<exists>i a. audit_lookup d' (who c) (cmd c) = Some (i, a)
         \<and> au_operation a = operation \<and> au_command_fingerprint a = fp c"
  using replayed committed by blast

lemma extends: "run now c d = Inr (r, d') \<Longrightarrow> audit_extends d d'"
  using replayed committed by fastforce

lemma exactly_once:
  assumes "run now c d = Inr (r, d')" "audit_extends d' e" "run later c e = Inr (s, e')"
  shows "e' = e \<and> retry s"
proof -
  obtain i a where "audit_lookup d' (who c) (cmd c) = Some (i, a)" using recorded [OF assms(1)] by blast
  then have "audit_lookup e (who c) (cmd c) = Some (i, a)"
    using assms(2) by (simp add: audit_extends_def)
  then have "retry s" using committed [OF assms(3)] by fastforce
  then show ?thesis using replayed [OF assms(3)] by blast
qed

lemma conflicting:
  assumes "audit_lookup d (who c) (cmd c) = Some (i, a)"
    and "au_operation a \<noteq> operation \<or> au_command_fingerprint a \<noteq> fp c"
  shows "\<not> is_ok (run now c d)"
proof
  assume "is_ok (run now c d)"
  then obtain r d' where ok: "run now c d = Inr (r, d')" by (auto simp: is_ok_iff)
  then have "audit_lookup d' (who c) (cmd c) = Some (i, a)"
    using extends assms(1) by (auto simp: audit_extends_def)
  then show False using recorded [OF ok] assms(2) by auto
qed

end

text \<open>
  A command keeps the contract when it is \<open>audited\<close>, its replay reports a retry, and its transition
  ends by inserting its own audit row, all other writes leaving the log alone.
\<close>

lemma audited_commandI:
  assumes run: "\<And>now c d r d'. run now c d = Inr (r, d') \<Longrightarrow>
      audited (find_audit_entry (conflict c) (out_of_range c) d (who c) (cmd c) op (fp c)) (replay c d) (fresh now c d) d = Inr (r, d')"
    and replay: "\<And>c d rc r. replay c d rc = Inr r \<Longrightarrow> retry r"
    and fresh: "\<And>now c d r d'. fresh now c d = Inr (r, d') \<Longrightarrow>
      \<not> retry r \<and> audit_commits d (who c) (cmd c) op (fp c) d'"
  shows "audited_command run who cmd op fp retry"
proof
  fix now c d r d'
  assume ok: "run now c d = Inr (r, d')"
  show "d' = d \<and> (\<exists>i a. audit_lookup d (who c) (cmd c) = Some (i, a)
                     \<and> au_operation a = op \<and> au_command_fingerprint a = fp c)" if "retry r"
    using run [OF ok]
  proof (rule audited_cases)
    fix rc
    assume "find_audit_entry (conflict c) (out_of_range c) d (who c) (cmd c) op (fp c) = Inr (Some rc)" "d' = d"
    then show ?thesis by (auto dest: find_audit_entry_Some)
  qed (use fresh that in blast)
  show "audit_commits d (who c) (cmd c) op (fp c) d'" if "\<not> retry r"
    using run [OF ok] by (rule audited_cases) (use replay fresh that in blast)+
qed

section \<open>Fingerprint preimages determine their commands\<close>

text \<open>Values that fit their Rust types.\<close>

definition i64_ok :: "int \<Rightarrow> bool" where
  "i64_ok v = (- (2 ^ 63) \<le> v \<and> v < 2 ^ 63)"

definition str_ok :: "string \<Rightarrow> bool" where
  "str_ok s = (length s < 2 ^ 64)"

definition sealed_ok :: "sealed_artifact_reference \<Rightarrow> bool" where
  "sealed_ok a = (i64_ok (artifact_id a) \<and> digest_ok (digest a))"

named_theorems preimage_simps \<open>injectivity of the pieces of a fingerprint preimage\<close>

lemma hash_i64_append [preimage_simps]:
  assumes "i64_ok a" "i64_ok b"
  shows "hash_i64 a @ x = hash_i64 b @ y \<longleftrightarrow> a = b \<and> x = y"
proof -
  have "a mod 2 ^ 64 = b mod 2 ^ 64 \<longleftrightarrow> a = b"
  proof
    assume "a mod 2 ^ 64 = b mod 2 ^ 64"
    then have "2 ^ 64 dvd a - b" by (simp add: mod_eq_dvd_iff)
    moreover have "\<bar>a - b\<bar> < 2 ^ 64" using assms by (auto simp: i64_ok_def)
    ultimately show "a = b" using dvd_imp_le_int [of "a - b" "2 ^ 64"] by auto
  qed simp
  moreover have "nat (v mod 2 ^ 64) mod 256 ^ 8 = nat (v mod 2 ^ 64)" for v :: int
    by (simp add: nat_less_iff)
  ultimately have "hash_i64 a = hash_i64 b \<longleftrightarrow> a = b"
    unfolding hash_i64_def be_bytes_inject by (metis eq_nat_nat_iff pos_mod_sign zero_less_numeral zero_less_power)
  then show ?thesis by (auto simp: hash_i64_def)
qed

lemma hash_u64_append [preimage_simps]: "hash_u64 a @ x = hash_u64 b @ y \<longleftrightarrow> a = b \<and> x = y"
proof -
  have "unat v mod 256 ^ 8 = unat v" for v :: "64 word"
    using unsigned_less [of v, where 'a = nat] by simp
  then have "hash_u64 a = hash_u64 b \<longleftrightarrow> a = b"
    unfolding hash_u64_def be_bytes_inject by (simp add: word_unat_eq_iff)
  then show ?thesis by (auto simp: hash_u64_def)
qed

lemma hash_string_append [preimage_simps]:
  assumes "str_ok s" "str_ok t"
  shows "hash_string s @ x = hash_string t @ y \<longleftrightarrow> s = t \<and> x = y"
proof
  assume eq: "hash_string s @ x = hash_string t @ y"
  then have "be_bytes 8 (length s) = be_bytes 8 (length t)"
    by (simp add: hash_string_def append_eq_append_conv)
  then have "length s = length t"
    using assms unfolding be_bytes_inject str_ok_def by simp
  then show "s = t \<and> x = y" using eq by (simp add: hash_string_def append_eq_append_conv)
qed simp

lemma digest_append [preimage_simps]:
  assumes "digest_ok a" "digest_ok b"
  shows "a @ x = b @ y \<longleftrightarrow> a = b \<and> x = y"
  using assms by (simp add: digest_ok_def)

lemma hash_sealed_artifact_append [preimage_simps]:
  assumes "sealed_ok a" "sealed_ok b"
  shows "hash_sealed_artifact a @ x = hash_sealed_artifact b @ y \<longleftrightarrow> a = b \<and> x = y"
  using assms by (auto simp: hash_sealed_artifact_def sealed_ok_def preimage_simps)

end
