(* ===== verification/Decision_Store.thy ===== *)
theory Decision_Store
  imports Store
begin

text \<open>
  The candidate, validation, review, decision and delivery authority,
  \<open>factory-kernel/src/decision_store.rs\<close>.  Each of its eight commands is one definition: the checks in
  the order of the source, the replay of an audited command, and the whole transition.  \<open>hash\<close> is
  BLAKE3 and \<open>now\<close> the transaction's timestamp.
\<close>

section \<open>Errors and small conversions\<close>

datatype validation_scope = HardCandidate | QualityFullSuite
datatype validation_result = ResultPassed | ResultFailed | ResultInterrupted

datatype decision_store_error =
    Database
  | Contract contract_error
  | InvalidCommandIdentity
  | RevisionConflict aggregate_revision aggregate_revision
  | IdempotencyConflict string string
  | UnknownCandidate ident
  | UnknownTicketAttempt ident
  | UnknownValidation ident
  | UnknownReview ident
  | CandidateStateConflict candidate_state candidate_state
  | TicketStateConflict ticket_state ticket_state
  | AttemptStageConflict string int
  | CandidateBaseChanged
  | ValidationTreeChanged
  | ValidationAlreadyRecorded ident validation_scope
  | ReviewAlreadySubmitted ident
  | CandidateCommitMissing
  | CandidateCommitAlreadyAttached
  | HardValidationMissing
  | QualityValidationNotPassed
  | QualityValidationSessionMismatch
  | ReviewCandidateMismatch
  | QualityRejectionOverrideRequired
  | QualityRejectionOverrideForbidden
  | ReworkLimitReached
  | AttemptNotReleasable
  | ArtifactReferenceMismatch
  | ValidationBuildMismatch
  | SessionJurisdictionMismatch
  | InvalidCandidateRef
  | DeliveryReceiptMismatch
  | ArchitectDeliveryDecisionMissing
  | CampaignNotRunning
  | CampaignCostNotKnown
  | DeliveryFactoryCostMismatch
  | PaidSessionStillRunning
  | CorruptState
  | CorruptDecision
  | IntegerOutOfRange

type_synonym 'a decision_result = "(decision_store_error, 'a) result"

definition contract_err :: "'a contract \<Rightarrow> 'a decision_result" where
  "contract_err m = map_err Contract m"

lemma contract_err_ok [simp, result_simps]: "contract_err m = Inr x \<longleftrightarrow> m = Inr x"
  by (simp add: contract_err_def)

fun scope_code :: "validation_scope \<Rightarrow> int" where
  "scope_code HardCandidate = 0"
| "scope_code QualityFullSuite = 1"

fun expected_office :: "validation_scope \<Rightarrow> int" where
  "expected_office HardCandidate = OFFICE_ENGINEERING"
| "expected_office QualityFullSuite = OFFICE_QUALITY"

fun result_code :: "validation_result \<Rightarrow> int" where
  "result_code ResultPassed = VALIDATION_PASSED"
| "result_code ResultFailed = VALIDATION_FAILED"
| "result_code ResultInterrupted = VALIDATION_INTERRUPTED"

fun result_state :: "validation_result \<Rightarrow> validation_state" where
  "result_state ResultPassed = ValidationPassed"
| "result_state ResultFailed = ValidationFailed"
| "result_state ResultInterrupted = ValidationInterrupted"

definition revision_from_sql :: "int \<Rightarrow> aggregate_revision decision_result" where
  "revision_from_sql v = revision_of_sql IntegerOutOfRange v"

definition revision_sql :: "aggregate_revision \<Rightarrow> int decision_result" where
  "revision_sql r = sql_of_revision IntegerOutOfRange r"

definition decode_candidate_state :: "int \<Rightarrow> candidate_state decision_result" where
  "decode_candidate_state v =
     (if v = CANDIDATE_SUBMITTED then Inr CandidateSubmitted
      else if v = CANDIDATE_VALIDATED then Inr CandidateValidated
      else if v = CANDIDATE_REJECTED then Inr CandidateRejected
      else if v = CANDIDATE_ACCEPTED then Inr CandidateAccepted
      else if v = CANDIDATE_DELIVERED then Inr CandidateDelivered
      else Inl CorruptState)"

definition decode_validation_state :: "int \<Rightarrow> validation_state decision_result" where
  "decode_validation_state v =
     (if v = VALIDATION_PASSED then Inr ValidationPassed
      else if v = VALIDATION_FAILED then Inr ValidationFailed
      else if v = VALIDATION_INTERRUPTED then Inr ValidationInterrupted
      else Inl CorruptState)"

definition decode_review_verdict :: "int \<Rightarrow> review_verdict decision_result" where
  "decode_review_verdict v =
     (if v = REVIEW_ACCEPT then Inr VerdictAccept
      else if v = REVIEW_REJECT then Inr VerdictReject
      else Inl CorruptState)"

fun review_verdict_code :: "review_verdict \<Rightarrow> int" where
  "review_verdict_code VerdictAccept = REVIEW_ACCEPT"
| "review_verdict_code VerdictReject = REVIEW_REJECT"

definition decode_ticket_state :: "int \<Rightarrow> ticket_state decision_result" where
  "decode_ticket_state v =
     (if v = TICKET_PROPOSED then Inr TicketProposed
      else if v = TICKET_SPONSORED then Inr TicketSponsored
      else if v = TICKET_IN_FLIGHT then Inr TicketInFlight
      else if v = TICKET_DELIVERED then Inr TicketDelivered
      else if v = TICKET_BLOCKED then Inr TicketBlocked
      else if v = TICKET_RESOLVED then Inr TicketResolved
      else if v = TICKET_REJECTED then Inr TicketRejected
      else Inl CorruptState)"

datatype release_outcome = OutcomeReleased | OutcomeResolved | OutcomeBlocked

definition release_outcome_of :: "ticket_state \<Rightarrow> release_outcome decision_result" where
  "release_outcome_of s =
     (if s = TicketSponsored then Inr OutcomeReleased
      else if s = TicketResolved then Inr OutcomeResolved
      else if s = TicketBlocked then Inr OutcomeBlocked
      else Inl CorruptState)"

fun decision_code :: "candidate_decision \<Rightarrow> int" where
  "decision_code Deliver = DECISION_DELIVER"
| "decision_code Rework = DECISION_REWORK"
| "decision_code Reject = DECISION_REJECT"

definition architect_receipt :: "int \<Rightarrow> architect_decision_kind \<Rightarrow> architect_decision_receipt decision_result" where
  "architect_receipt i kind =
     and_then (contract_err (identifier_new ''architect decision ID'' i)) (\<lambda>i.
     Inr \<lparr>architect_decision_id = i, decision_kind = kind\<rparr>)"

section \<open>Guards\<close>

definition require_revision :: "aggregate_revision \<Rightarrow> aggregate_revision \<Rightarrow> unit decision_result" where
  "require_revision expected current = require (expected = current) (RevisionConflict expected current)"

definition require_candidate_state :: "candidate_state \<Rightarrow> candidate_state \<Rightarrow> unit decision_result" where
  "require_candidate_state required observed =
     require (required = observed) (CandidateStateConflict required observed)"

definition require_ticket_state :: "ticket_state \<Rightarrow> ticket_state \<Rightarrow> unit decision_result" where
  "require_ticket_state required observed =
     require (required = observed) (TicketStateConflict required observed)"

definition require_sponsorable_ticket_state :: "ticket_state \<Rightarrow> unit decision_result" where
  "require_sponsorable_ticket_state observed =
     require (observed = TicketProposed \<or> observed = TicketBlocked) (TicketStateConflict TicketProposed observed)"

definition require_subject :: "audit_receipt \<Rightarrow> int \<Rightarrow> unit decision_result" where
  "require_subject receipt kind = require (rc_subject_kind receipt = kind) CorruptState"

definition validate_command :: "string \<Rightarrow> string \<Rightarrow> unit decision_result" where
  "validate_command prin command_id =
     try_each (\<lambda>v. require (command_component_ok v) InvalidCommandIdentity) [prin, command_id]"

definition validate_architect_command :: "string \<Rightarrow> string \<Rightarrow> unit decision_result" where
  "validate_architect_command prin command_id =
     (if prin = [] \<or> length prin > 160 \<or> CHR 0x00 \<in> set prin then Inl InvalidCommandIdentity
      else validate_command ''architect'' command_id)"

definition ref_number :: "string \<Rightarrow> bool" where
  "ref_number field = (field \<noteq> [] \<and> hd field \<noteq> CHR ''0'' \<and> list_all is_ascii_digit field)"

definition ref_scope :: "string \<Rightarrow> bool" where
  "ref_scope field = (length field = 64 \<and> list_all is_ascii_hexdigit field)"

definition validate_candidate_ref :: "string \<Rightarrow> unit decision_result" where
  "validate_candidate_ref v =
     (let valid = (case strip_prefix ''refs/heads/factory/'' v of
           Some suffix \<Rightarrow>
             (case split_on (CHR ''/'') suffix of
                [a, b] \<Rightarrow> ref_number a \<and> ref_number b
              | [a, b, c] \<Rightarrow> ref_number a \<and> ref_number b \<and> ref_scope c
              | _ \<Rightarrow> False)
         | None \<Rightarrow>
             (case strip_prefix ''refs/heads/factory-scoped/'' v of
                Some suffix \<Rightarrow>
                  (case split_on (CHR ''/'') suffix of
                     [a, b, c] \<Rightarrow> ref_scope a \<and> ref_number b \<and> ref_number c
                   | _ \<Rightarrow> False)
              | None \<Rightarrow> False))
      in require (\<not> (length v > 512 \<or> \<not> valid)) InvalidCandidateRef)"

definition validate_requalification :: "current_head_requalification \<Rightarrow> unit decision_result" where
  "validate_requalification v =
     try_each (\<lambda>f. require ((length f = 40 \<or> length f = 64) \<and> list_all object_id_byte f) CorruptState)
       [current_head_commit v, current_head_tree v]"

section \<open>Reads\<close>

record candidate_view =
  cv_id :: ident
  cv_ticket_attempt_id :: ident
  cv_base_commit :: string
  cv_candidate_tree :: string
  cv_lifecycle :: int
  cv_revision :: aggregate_revision
  cv_candidate_commit :: "string option"

record attempt_view =
  at_id :: ident
  at_campaign_id :: ident
  at_application_revision_id :: ident
  at_kernel_build_database_id :: int
  at_ticket_id :: int
  at_ticket_revision_id :: ident
  at_ticket_state :: ticket_state
  at_ticket_revision :: aggregate_revision
  at_attempt_revision :: aggregate_revision
  at_stage :: int
  at_candidate_ordinal :: int
  at_rework_ordinal :: int
  at_released :: bool
  at_claimed_commit :: string
  at_claimed_tree :: string
  at_expected_observation_artifact_id :: int
  at_discovery_observation_artifact_id :: int

record ticket_view =
  tv_ticket_id :: int
  tv_ticket_revision_id :: ident
  tv_ticket_state :: ticket_state
  tv_ticket_revision :: aggregate_revision

record validation_view =
  vv_candidate_id :: ident
  vv_performed_by_session_id :: int
  vv_lifecycle :: int
  vv_kernel_build_database_id :: int
  vv_pristine_tree :: string

record review_view =
  rw_id :: ident
  rw_candidate_id :: ident
  rw_verdict :: int

record campaign_view =
  cm_lifecycle :: int
  cm_revision :: aggregate_revision
  cm_delivery_target :: int
  cm_cost_state :: int
  cm_factory_cost_micro_usd :: "64 word"

definition lock_candidate :: "db \<Rightarrow> int \<Rightarrow> unit decision_result" where
  "lock_candidate d i = require (get_row (candidates d) i \<noteq> None) (UnknownCandidate i)"

definition lock_attempt :: "db \<Rightarrow> int \<Rightarrow> unit decision_result" where
  "lock_attempt d i = require (get_row (ticket_attempts d) i \<noteq> None) (UnknownTicketAttempt i)"

definition lock_ticket_revision :: "db \<Rightarrow> int \<Rightarrow> unit decision_result" where
  "lock_ticket_revision d i = require (get_row (ticket_revisions d) i \<noteq> None) CorruptState"

definition load_candidate :: "db \<Rightarrow> ident \<Rightarrow> candidate_view decision_result" where
  "load_candidate d i =
     and_then (ok_or (get_row (candidates d) i) (UnknownCandidate i)) (\<lambda>c.
     and_then (contract_err (identifier_new ''candidate ID'' i)) (\<lambda>cid.
     and_then (contract_err (identifier_new ''ticket attempt ID'' (cr_ticket_attempt_id c))) (\<lambda>aid.
     and_then (revision_from_sql (cr_revision c)) (\<lambda>r.
     Inr \<lparr>cv_id = cid, cv_ticket_attempt_id = aid, cv_base_commit = cr_base_commit c,
          cv_candidate_tree = cr_candidate_tree c, cv_lifecycle = cr_lifecycle c, cv_revision = r,
          cv_candidate_commit = cr_commit c\<rparr>))))"

definition load_candidate_for_update :: "db \<Rightarrow> ident \<Rightarrow> candidate_view decision_result" where
  "load_candidate_for_update d i = load_candidate d i"

definition lock_candidate_attempt :: "db \<Rightarrow> ident \<Rightarrow> attempt_view decision_result" where
  "lock_candidate_attempt d i =
     (let unknown = UnknownTicketAttempt i in
      and_then (ok_or (get_row (ticket_attempts d) i) unknown) (\<lambda>ta.
      and_then (ok_or (get_row (campaigns d) (ta_campaign_id ta)) unknown) (\<lambda>c.
      and_then (ok_or (get_row (ticket_revisions d) (ta_ticket_revision_id ta)) unknown) (\<lambda>tr.
      and_then (ok_or (get_row (tickets d) (tr_ticket_id tr)) unknown) (\<lambda>t.
      and_then (contract_err (identifier_new ''ticket revision ID'' (ta_ticket_revision_id ta))) (\<lambda>trid.
      and_then (decode_ticket_state (tr_lifecycle tr)) (\<lambda>state.
      and_then (require (ti_current_ticket_revision_id t = trid) CorruptState) (\<lambda>_.
      and_then (decode_ticket_state (ti_lifecycle t)) (\<lambda>state'.
      and_then (require (state = state' \<and> tr_revision tr = ti_revision t) CorruptState) (\<lambda>_.
      and_then (contract_err (identifier_new ''ticket attempt ID'' i)) (\<lambda>aid.
      and_then (contract_err (identifier_new ''campaign ID'' (ta_campaign_id ta))) (\<lambda>cid.
      and_then (contract_err (identifier_new ''application revision ID'' (ca_application_revision_id c))) (\<lambda>arid.
      and_then (revision_from_sql (tr_revision tr)) (\<lambda>trev.
      and_then (revision_from_sql (ta_revision ta)) (\<lambda>arev.
      Inr \<lparr>at_id = aid, at_campaign_id = cid, at_application_revision_id = arid,
           at_kernel_build_database_id = ca_kernel_build_id c, at_ticket_id = tr_ticket_id tr,
           at_ticket_revision_id = trid, at_ticket_state = state, at_ticket_revision = trev,
           at_attempt_revision = arev, at_stage = ta_stage ta,
           at_candidate_ordinal = ta_candidate_ordinal ta, at_rework_ordinal = ta_rework_ordinal ta,
           at_released = (ta_released ta \<noteq> None), at_claimed_commit = ta_claimed_commit ta,
           at_claimed_tree = ta_claimed_tree ta,
           at_expected_observation_artifact_id = tr_expected_observation_artifact_id tr,
           at_discovery_observation_artifact_id = tr_discovery_observation_artifact_id tr\<rparr>)))))))))))))))"

definition lock_ticket_revision_state :: "db \<Rightarrow> ident \<Rightarrow> ticket_view decision_result" where
  "lock_ticket_revision_state d i =
     and_then (ok_or (get_row (ticket_revisions d) i) CorruptState) (\<lambda>tr.
     and_then (ok_or (get_row (tickets d) (tr_ticket_id tr)) CorruptState) (\<lambda>t.
     and_then (decode_ticket_state (tr_lifecycle tr)) (\<lambda>state.
     and_then (require (ti_current_ticket_revision_id t = i) CorruptState) (\<lambda>_.
     and_then (decode_ticket_state (ti_lifecycle t)) (\<lambda>state'.
     and_then (require (state = state' \<and> tr_revision tr = ti_revision t) CorruptState) (\<lambda>_.
     and_then (revision_from_sql (tr_revision tr)) (\<lambda>r.
     Inr \<lparr>tv_ticket_id = tr_ticket_id tr, tv_ticket_revision_id = i, tv_ticket_state = state,
          tv_ticket_revision = r\<rparr>)))))))"

definition validation_view_of :: "validation_row \<Rightarrow> validation_view decision_result" where
  "validation_view_of v =
     and_then (contract_err (identifier_new ''candidate ID'' (va_candidate_id v))) (\<lambda>c.
     Inr \<lparr>vv_candidate_id = c, vv_performed_by_session_id = va_performed_by_session_id v,
          vv_lifecycle = va_lifecycle v, vv_kernel_build_database_id = va_kernel_build_id v,
          vv_pristine_tree = va_pristine_tree v\<rparr>)"

definition load_validation :: "db \<Rightarrow> ident \<Rightarrow> validation_view decision_result" where
  "load_validation d i =
     and_then (ok_or (get_row (validations d) i) (UnknownValidation i)) validation_view_of"

definition load_quality_validation :: "db \<Rightarrow> ident \<Rightarrow> ident \<Rightarrow> validation_view decision_result" where
  "load_quality_validation d i candidate =
     and_then (ok_or (get_row (validations d) i) (UnknownValidation i)) (\<lambda>v.
     and_then (require (va_candidate_id v = candidate \<and> va_scope v = scope_code QualityFullSuite)
                 (UnknownValidation i)) (\<lambda>_.
     validation_view_of v))"

definition load_review :: "db \<Rightarrow> ident \<Rightarrow> review_view decision_result" where
  "load_review d i =
     and_then (ok_or (get_row (reviews d) i) (UnknownReview i)) (\<lambda>r.
     and_then (contract_err (identifier_new ''review ID'' i)) (\<lambda>rid.
     and_then (contract_err (identifier_new ''candidate ID'' (re_candidate_id r))) (\<lambda>c.
     Inr \<lparr>rw_id = rid, rw_candidate_id = c, rw_verdict = re_verdict r\<rparr>)))"

definition load_decision :: "db \<Rightarrow> int \<Rightarrow> decision_row decision_result" where
  "load_decision d i = ok_or (get_row (architect_decisions d) i) CorruptDecision"

definition load_delivery :: "db \<Rightarrow> int \<Rightarrow> (ident \<times> 64 word) decision_result" where
  "load_delivery d i =
     and_then (ok_or (get_row (deliveries d) i) CorruptState) (\<lambda>r.
     and_then (contract_err (identifier_new ''candidate ID'' (dl_candidate_id r))) (\<lambda>c.
     and_then (revision_of_sql IntegerOutOfRange (dl_factory_cost_micro_usd r)) (\<lambda>cost.
     Inr (c, cost))))"

definition lock_campaign :: "db \<Rightarrow> ident \<Rightarrow> campaign_view decision_result" where
  "lock_campaign d i =
     and_then (ok_or (get_row (campaigns d) i) CampaignNotRunning) (\<lambda>c.
     and_then (require (ca_cost_state c = COST_KNOWN \<or> ca_cost_state c = COST_UNKNOWN
                        \<or> ca_cost_state c = COST_EXCEEDED) CorruptState) (\<lambda>_.
     and_then (revision_from_sql (ca_revision c)) (\<lambda>r.
     and_then (revision_of_sql IntegerOutOfRange (ca_measured_cost_micro_usd c)) (\<lambda>cost.
     Inr \<lparr>cm_lifecycle = ca_lifecycle c, cm_revision = r, cm_delivery_target = ca_delivery_target c,
          cm_cost_state = ca_cost_state c, cm_factory_cost_micro_usd = cost\<rparr>))))"

definition load_campaign :: "db \<Rightarrow> ident \<Rightarrow> campaign_view decision_result" where
  "load_campaign d i = lock_campaign d i"

definition validation_exists :: "db \<Rightarrow> ident \<Rightarrow> validation_scope \<Rightarrow> bool" where
  "validation_exists d c scope =
     exists_row (\<lambda>_ v. va_candidate_id v = c \<and> va_scope v = scope_code scope) (validations d)"

definition validation_passed :: "db \<Rightarrow> ident \<Rightarrow> validation_scope \<Rightarrow> bool" where
  "validation_passed d c scope =
     exists_row (\<lambda>_ v. va_candidate_id v = c \<and> va_scope v = scope_code scope
                       \<and> va_lifecycle v = VALIDATION_PASSED) (validations d)"

definition review_exists :: "db \<Rightarrow> ident \<Rightarrow> bool" where
  "review_exists d c = exists_row (\<lambda>_ r. re_candidate_id r = c) (reviews d)"

definition deliver_decision_exists :: "db \<Rightarrow> ident \<Rightarrow> bool" where
  "deliver_decision_exists d c =
     exists_row (\<lambda>_ x. de_candidate_id x = Some c \<and> de_kind x = DECISION_DELIVER) (architect_decisions d)"

definition paid_session_active :: "db \<Rightarrow> bool" where
  "paid_session_active d = exists_row (\<lambda>_ s. se_lifecycle s = SESSION_RUNNING) (sessions d)"

definition delivered_attempt_count :: "db \<Rightarrow> ident \<Rightarrow> int" where
  "delivered_attempt_count d c =
     int (count_rows (\<lambda>_ a. ta_campaign_id a = c \<and> ta_stage a = ATTEMPT_DELIVERED) (ticket_attempts d))"

definition require_artifact :: "db \<Rightarrow> sealed_artifact_reference \<Rightarrow> unit decision_result" where
  "require_artifact d a =
     and_then (ok_or (get_row (artifacts d) (artifact_id a)) ArtifactReferenceMismatch) (\<lambda>row.
     if ar_digest row \<noteq> digest a then Inl ArtifactReferenceMismatch
     else if ar_byte_length row < 0 then Inl CorruptState
     else require (word_of_int (ar_byte_length row) = byte_length a) ArtifactReferenceMismatch)"

definition require_artifact_unbound :: "db \<Rightarrow> sealed_artifact_reference \<Rightarrow> unit decision_result" where
  "require_artifact_unbound d a = require_artifact d a"

definition artifact_digest :: "db \<Rightarrow> int \<Rightarrow> content_digest decision_result" where
  "artifact_digest d i =
     and_then (ok_or (get_row (artifacts d) i) ArtifactReferenceMismatch) (\<lambda>row.
     and_then (require (digest_ok (ar_digest row)) CorruptState) (\<lambda>_.
     Inr (ar_digest row)))"

definition require_kernel_build :: "db \<Rightarrow> content_digest \<Rightarrow> int \<Rightarrow> int decision_result" where
  "require_kernel_build d build expected =
     and_then (ok_or (find_row (\<lambda>_ k. kb_build_digest k = build) (kernel_builds d)) ValidationBuildMismatch) (\<lambda>(i, _).
     and_then (require (i = expected) ValidationBuildMismatch) (\<lambda>_. Inr i))"

definition require_session :: "db \<Rightarrow> ident \<Rightarrow> ident \<Rightarrow> int \<Rightarrow> unit decision_result" where
  "require_session d i campaign office =
     and_then (ok_or (get_row (sessions d) i) SessionJurisdictionMismatch) (\<lambda>s.
     require (se_campaign_id s = campaign \<and> se_assignment_role s = office
              \<and> (se_lifecycle s = SESSION_RUNNING \<or> se_lifecycle s = SESSION_SUCCEEDED))
       SessionJurisdictionMismatch)"

definition require_session_jurisdiction :: "db \<Rightarrow> ident \<Rightarrow> ident \<Rightarrow> int \<Rightarrow> unit decision_result" where
  "require_session_jurisdiction d i campaign office =
     and_then (ok_or (get_row (sessions d) i) SessionJurisdictionMismatch) (\<lambda>s.
     require (se_campaign_id s = campaign \<and> se_assignment_role s = office) SessionJurisdictionMismatch)"

definition require_hard_and_quality_validation :: "db \<Rightarrow> ident \<Rightarrow> unit decision_result" where
  "require_hard_and_quality_validation d c = first_error
     [require (validation_passed d c HardCandidate) HardValidationMissing,
      require (validation_passed d c QualityFullSuite) QualityValidationNotPassed]"

definition classify_requalification :: "db \<Rightarrow> attempt_view \<Rightarrow> current_head_requalification \<Rightarrow> requalification decision_result" where
  "classify_requalification d attempt v =
     and_then (artifact_digest d (at_expected_observation_artifact_id attempt)) (\<lambda>expected.
     and_then (artifact_digest d (at_discovery_observation_artifact_id attempt)) (\<lambda>discovery.
     and_then (artifact_digest d (first_actual_observation_artifact_id v)) (\<lambda>first.
     and_then (artifact_digest d (second_actual_observation_artifact_id v)) (\<lambda>second.
     Inr (if first \<noteq> second then Diverged
          else if first = expected then Resolved
          else if first = discovery then Reproduced
          else Diverged)))))"

section \<open>Writes\<close>

text \<open>The \<open>CHECK\<close> constraints of \<open>architect_decisions\<close>.\<close>

definition decision_row_ok :: "decision_row \<Rightarrow> bool" where
  "decision_row_ok x \<longleftrightarrow>
     (de_kind x = 0 \<and> de_ticket_revision_id x \<noteq> None \<and> de_ticket_attempt_id x = None
        \<and> de_candidate_id x = None \<and> de_review_id x = None
      \<or> de_kind x = 1 \<and> de_ticket_revision_id x = None \<and> de_ticket_attempt_id x \<noteq> None
        \<and> de_candidate_id x = None \<and> de_review_id x = None
      \<or> 2 \<le> de_kind x \<and> de_kind x \<le> 4 \<and> de_ticket_revision_id x = None \<and> de_ticket_attempt_id x = None
        \<and> de_candidate_id x \<noteq> None \<and> de_review_id x \<noteq> None)
     \<and> 1 \<le> length (de_principal x) \<and> length (de_principal x) \<le> 160
     \<and> (\<not> de_overrides_quality_rejection x \<or> de_kind x = 2)"

definition insert_decision ::
  "db \<Rightarrow> int \<Rightarrow> int option \<Rightarrow> int option \<Rightarrow> int option \<Rightarrow> int option \<Rightarrow> int \<Rightarrow> string \<Rightarrow> bool \<Rightarrow> int
     \<Rightarrow> (int \<times> db) decision_result" where
  "insert_decision d kind ticket_revision attempt candidate review rationale_id prin overrides now =
     (let row = \<lparr>de_kind = kind, de_ticket_revision_id = ticket_revision, de_ticket_attempt_id = attempt,
                 de_candidate_id = candidate, de_review_id = review, de_rationale_artifact_id = rationale_id,
                 de_principal = prin, de_overrides_quality_rejection = overrides, de_created_at = now\<rparr> in
      and_then (require (decision_row_ok row) Database) (\<lambda>_.
      Inr (next_id (architect_decisions d),
           d\<lparr>architect_decisions := insert_row row (architect_decisions d)\<rparr>)))"

text \<open>
  The partial unique index \<open>ticket_revisions_live_reproducer_identity\<close>: moving a revision to a state
  other than blocked fails while another revision that is not blocked has its reproducer.
\<close>

definition live_reproducer_free :: "db \<Rightarrow> int \<Rightarrow> int \<Rightarrow> bool" where
  "live_reproducer_free d i state =
     (state = TICKET_BLOCKED \<or>
      (case get_row (ticket_revisions d) i of
         None \<Rightarrow> True
       | Some tr \<Rightarrow> \<not> exists_row (\<lambda>j r. j \<noteq> i
              \<and> tr_application_revision_id r = tr_application_revision_id tr
              \<and> tr_reproducer_artifact_id r = tr_reproducer_artifact_id tr
              \<and> tr_lifecycle r \<noteq> TICKET_BLOCKED) (ticket_revisions d)))"

definition update_ticket_state_parts ::
  "db \<Rightarrow> int \<Rightarrow> ident \<Rightarrow> int \<Rightarrow> aggregate_revision \<Rightarrow> string option \<Rightarrow> string option \<Rightarrow> int \<Rightarrow> db decision_result" where
  "update_ticket_state_parts d ticket ticket_revision state nxt sponsorship_reason blocked_reason now =
     and_then (revision_sql nxt) (\<lambda>r.
     and_then (require (live_reproducer_free d ticket_revision state) Database) (\<lambda>_.
     Inr (d\<lparr>ticket_revisions := update_row ticket_revision (\<lambda>tr. tr\<lparr>
               tr_lifecycle := state, tr_revision := r,
               tr_sponsored_at := (if sponsorship_reason = None then tr_sponsored_at tr else Some now),
               tr_sponsorship_reason := (case sponsorship_reason of None \<Rightarrow> tr_sponsorship_reason tr | Some s \<Rightarrow> Some s),
               tr_blocked_reason := (if state = 1 then None
                  else (case blocked_reason of None \<Rightarrow> tr_blocked_reason tr | Some s \<Rightarrow> Some s))\<rparr>)
               (ticket_revisions d),
            tickets := update_row ticket (\<lambda>t. t\<lparr>ti_lifecycle := state, ti_revision := r\<rparr>) (tickets d)\<rparr>)))"

definition update_ticket_state ::
  "db \<Rightarrow> attempt_view \<Rightarrow> int \<Rightarrow> aggregate_revision \<Rightarrow> string option \<Rightarrow> string option \<Rightarrow> int \<Rightarrow> db decision_result" where
  "update_ticket_state d attempt state nxt sponsorship_reason blocked_reason now =
     update_ticket_state_parts d (at_ticket_id attempt) (at_ticket_revision_id attempt) state nxt
       sponsorship_reason blocked_reason now"

definition requalification_columns_of :: "int \<Rightarrow> current_head_requalification \<Rightarrow> int \<Rightarrow> requalification_columns" where
  "requalification_columns_of outcome v now =
     \<lparr>rq_outcome = outcome, rq_commit = current_head_commit v, rq_tree = current_head_tree v,
      rq_first_observation_artifact_id = first_actual_observation_artifact_id v,
      rq_second_observation_artifact_id = second_actual_observation_artifact_id v, rq_at = now\<rparr>"

definition update_ticket_requalification ::
  "db \<Rightarrow> attempt_view \<Rightarrow> int \<Rightarrow> aggregate_revision \<Rightarrow> int \<Rightarrow> current_head_requalification \<Rightarrow> string option \<Rightarrow> int
     \<Rightarrow> db decision_result" where
  "update_ticket_requalification d attempt state nxt outcome v blocked_reason now =
     and_then (revision_sql nxt) (\<lambda>r.
     and_then (require (live_reproducer_free d (at_ticket_revision_id attempt) state) Database) (\<lambda>_.
     Inr (d\<lparr>ticket_revisions := update_row (at_ticket_revision_id attempt) (\<lambda>tr. tr\<lparr>
               tr_lifecycle := state, tr_revision := r,
               tr_last_requalification := Some (requalification_columns_of outcome v now),
               tr_blocked_reason := blocked_reason\<rparr>) (ticket_revisions d),
            tickets := update_row (at_ticket_id attempt)
               (\<lambda>t. t\<lparr>ti_lifecycle := state, ti_revision := r\<rparr>) (tickets d)\<rparr>)))"

definition find_audit :: "db \<Rightarrow> string \<Rightarrow> string \<Rightarrow> string \<Rightarrow> content_digest \<Rightarrow> audit_receipt option decision_result" where
  "find_audit d prin command_id operation fingerprint =
     find_audit_entry (IdempotencyConflict prin command_id) IntegerOutOfRange d prin command_id operation fingerprint"

definition insert_audit ::
  "db \<Rightarrow> string \<Rightarrow> string \<Rightarrow> string \<Rightarrow> content_digest \<Rightarrow> int \<Rightarrow> int \<Rightarrow> aggregate_revision \<Rightarrow> (int \<times> db) decision_result" where
  "insert_audit d prin command_id operation fingerprint kind subject revision =
     insert_audit_entry Database IntegerOutOfRange d prin command_id operation fingerprint kind subject revision"

definition CANDIDATE_SUBMIT_OPERATION :: string where "CANDIDATE_SUBMIT_OPERATION = ''candidate.submit''"
definition VALIDATION_RECORD_OPERATION :: string where "VALIDATION_RECORD_OPERATION = ''validation.record''"
definition CANDIDATE_COMMIT_ATTACH_OPERATION :: string where
  "CANDIDATE_COMMIT_ATTACH_OPERATION = ''candidate.commit.attach''"
definition REVIEW_SUBMIT_OPERATION :: string where "REVIEW_SUBMIT_OPERATION = ''quality.review.submit''"
definition SPONSOR_OPERATION :: string where "SPONSOR_OPERATION = ''architect.ticket.sponsor''"
definition RELEASE_OPERATION :: string where "RELEASE_OPERATION = ''architect.ticket.release''"
definition CANDIDATE_DECIDE_OPERATION :: string where "CANDIDATE_DECIDE_OPERATION = ''architect.candidate.decide''"
definition DELIVERY_RECORD_OPERATION :: string where "DELIVERY_RECORD_OPERATION = ''delivery.record''"

definition CANDIDATE_SUBJECT :: int where [simp]: "CANDIDATE_SUBJECT = 40"
definition VALIDATION_SUBJECT :: int where [simp]: "VALIDATION_SUBJECT = 41"
definition REVIEW_SUBJECT :: int where [simp]: "REVIEW_SUBJECT = 42"
definition DECISION_SUBJECT :: int where [simp]: "DECISION_SUBJECT = 43"
definition DELIVERY_SUBJECT :: int where [simp]: "DELIVERY_SUBJECT = 44"

definition fingerprint_prefix :: "string \<Rightarrow> string \<Rightarrow> string \<Rightarrow> byte list" where
  "fingerprint_prefix operation prin command_id = hash_string operation @ hash_string prin @ hash_string command_id"

section \<open>Submitting a candidate\<close>

record submit_candidate =
  sc_principal :: string
  sc_command_id :: string
  sc_ticket_attempt_id :: ident
  sc_expected_attempt_revision :: aggregate_revision
  sc_expected_ticket_revision :: aggregate_revision
  sc_engineering_session_id :: ident
  sc_base_commit :: object_id
  sc_base_tree :: object_id
  sc_regression_tree :: object_id
  sc_candidate_tree :: object_id
  sc_changed_paths :: sealed_artifact_reference
  sc_regression_patch :: sealed_artifact_reference
  sc_regression_command_set :: sealed_artifact_reference
  sc_regression_log :: sealed_artifact_reference
  sc_candidate_patch :: sealed_artifact_reference
  sc_engineering_report :: sealed_artifact_reference
  sc_engineering_risks :: sealed_artifact_reference
  sc_submission :: candidate_submission

record candidate_receipt =
  cr_receipt_candidate_id :: ident
  cr_receipt_state :: candidate_state
  cr_receipt_resulting_revision :: aggregate_revision
  cr_receipt_audit_log_id :: int
  cr_receipt_was_idempotent_retry :: bool

definition submit_candidate_preimage :: "submit_candidate \<Rightarrow> byte list" where
  "submit_candidate_preimage c =
     fingerprint_prefix CANDIDATE_SUBMIT_OPERATION (sc_principal c) (sc_command_id c)
     @ hash_i64 (sc_ticket_attempt_id c)
     @ hash_u64 (sc_expected_attempt_revision c) @ hash_u64 (sc_expected_ticket_revision c)
     @ hash_i64 (sc_engineering_session_id c)
     @ hash_string (sc_base_commit c) @ hash_string (sc_base_tree c)
     @ hash_string (sc_regression_tree c) @ hash_string (sc_candidate_tree c)
     @ hash_sealed_artifact (sc_changed_paths c) @ hash_sealed_artifact (sc_regression_patch c)
     @ hash_sealed_artifact (sc_regression_command_set c) @ hash_sealed_artifact (sc_regression_log c)
     @ hash_sealed_artifact (sc_candidate_patch c) @ hash_sealed_artifact (sc_engineering_report c)
     @ hash_string (commit_subject (sc_submission c)) @ hash_string (commit_body (sc_submission c))
     @ hash_string (regression_test_identity (sc_submission c))
     @ hash_sealed_artifact (sc_engineering_risks c)"

definition candidate_row_of :: "submit_candidate \<Rightarrow> attempt_view \<Rightarrow> int \<Rightarrow> candidate_row" where
  "candidate_row_of c attempt now =
     \<lparr>cr_ticket_attempt_id = sc_ticket_attempt_id c,
      cr_application_revision_id = at_application_revision_id attempt,
      cr_base_commit = sc_base_commit c, cr_base_tree = sc_base_tree c,
      cr_regression_tree = sc_regression_tree c, cr_candidate_tree = sc_candidate_tree c,
      cr_changed_paths_artifact_id = artifact_id (sc_changed_paths c),
      cr_regression_patch_artifact_id = artifact_id (sc_regression_patch c),
      cr_regression_command_set_artifact_id = artifact_id (sc_regression_command_set c),
      cr_regression_log_artifact_id = artifact_id (sc_regression_log c),
      cr_patch_artifact_id = artifact_id (sc_candidate_patch c),
      cr_engineering_session_id = sc_engineering_session_id c,
      cr_engineering_report_artifact_id = artifact_id (sc_engineering_report c),
      cr_commit_subject = commit_subject (sc_submission c),
      cr_commit_body = commit_body (sc_submission c),
      cr_regression_test_identity = regression_test_identity (sc_submission c),
      cr_risks_artifact_id = artifact_id (sc_engineering_risks c),
      cr_commit = None, cr_ref = None, cr_lifecycle = CANDIDATE_SUBMITTED, cr_revision = 0,
      cr_created_at = now\<rparr>"

text \<open>The constraints of \<open>candidates\<close>: two unique keys, distinct trees, hexadecimal object identities.\<close>

definition candidate_row_ok :: "db \<Rightarrow> candidate_row \<Rightarrow> bool" where
  "candidate_row_ok d r \<longleftrightarrow>
     \<not> exists_row (\<lambda>_ x. cr_engineering_session_id x = cr_engineering_session_id r) (candidates d)
     \<and> \<not> exists_row (\<lambda>_ x. cr_ticket_attempt_id x = cr_ticket_attempt_id r
                           \<and> cr_candidate_tree x = cr_candidate_tree r) (candidates d)
     \<and> cr_base_tree r \<noteq> cr_candidate_tree r \<and> cr_regression_tree r \<noteq> cr_candidate_tree r
     \<and> list_all (\<lambda>o1. is_ok (object_id_parse o1))
          [cr_base_commit r, cr_base_tree r, cr_regression_tree r, cr_candidate_tree r]"

definition submit_candidate_checks :: "submit_candidate \<Rightarrow> unit decision_result" where
  "submit_candidate_checks c = first_error
     [validate_command (sc_principal c) (sc_command_id c),
      contract_err (candidate_submission_validate (sc_submission c)),
      contract_err (sealed_artifact_validate (sc_changed_paths c) ''candidate changed paths'' (256 * 1024) False),
      contract_err (sealed_artifact_validate (sc_regression_patch c) ''regression binary patch'' (16 * 1024 * 1024) True),
      contract_err (sealed_artifact_validate (sc_regression_command_set c)
        ''regression checkpoint command set'' (256 * 1024) False),
      contract_err (sealed_artifact_validate (sc_regression_log c) ''regression checkpoint log'' (16 * 1024 * 1024) True),
      contract_err (sealed_artifact_validate (sc_candidate_patch c) ''candidate binary patch'' (16 * 1024 * 1024) False),
      contract_err (sealed_artifact_validate (sc_engineering_report c) ''kernel Engineering report'' (128 * 1024) False),
      contract_err (sealed_artifact_validate (sc_engineering_risks c) ''kernel Engineering risks'' (64 * 1024) False)]"

definition submit_candidate_replay :: "db \<Rightarrow> audit_receipt \<Rightarrow> candidate_receipt decision_result" where
  "submit_candidate_replay d receipt =
     and_then (require_subject receipt CANDIDATE_SUBJECT) (\<lambda>_.
     and_then (contract_err (identifier_new ''candidate ID'' (rc_subject_id receipt))) (\<lambda>i.
     and_then (load_candidate d i) (\<lambda>candidate.
     and_then (decode_candidate_state (cv_lifecycle candidate)) (\<lambda>state.
     Inr \<lparr>cr_receipt_candidate_id = cv_id candidate, cr_receipt_state = state,
          cr_receipt_resulting_revision = rc_resulting_revision receipt,
          cr_receipt_audit_log_id = rc_audit_log_id receipt,
          cr_receipt_was_idempotent_retry = True\<rparr>))))"

definition I32_MAX :: int where
  "I32_MAX = 2 ^ 31 - 1"

definition submit_candidate_fresh ::
  "content_digest \<Rightarrow> int \<Rightarrow> submit_candidate \<Rightarrow> db \<Rightarrow> (candidate_receipt \<times> db) decision_result" where
  "submit_candidate_fresh fingerprint now c d =
     and_then (lock_candidate_attempt d (sc_ticket_attempt_id c)) (\<lambda>attempt.
     and_then (first_error
       [require_revision (sc_expected_attempt_revision c) (at_attempt_revision attempt),
        require_revision (sc_expected_ticket_revision c) (at_ticket_revision attempt),
        require_ticket_state TicketInFlight (at_ticket_state attempt),
        require (at_stage attempt = ATTEMPT_ENGINEERING \<or> at_stage attempt = ATTEMPT_REWORK_ENGINEERING)
          (AttemptStageConflict ''Engineering or ReworkEngineering'' (at_stage attempt)),
        require (sc_base_commit c = at_claimed_commit attempt \<and> sc_base_tree c = at_claimed_tree attempt)
          CandidateBaseChanged,
        require_artifact d (sc_changed_paths c),
        require_artifact d (sc_regression_patch c),
        require_artifact d (sc_regression_command_set c),
        require_artifact d (sc_regression_log c),
        require_artifact d (sc_candidate_patch c),
        require_artifact d (sc_engineering_report c),
        require_artifact d (sc_engineering_risks c),
        require_session d (sc_engineering_session_id c) (at_campaign_id attempt) OFFICE_ENGINEERING,
        require (at_candidate_ordinal attempt < I32_MAX) IntegerOutOfRange]) (\<lambda>_.
     and_then (contract_err (revision_next (at_attempt_revision attempt))) (\<lambda>next_attempt.
     and_then (require (candidate_row_ok d (candidate_row_of c attempt now)) Database) (\<lambda>_.
     and_then (contract_err (identifier_new ''candidate ID'' (next_id (candidates d)))) (\<lambda>candidate_id.
     and_then (revision_sql next_attempt) (\<lambda>r.
     let validation_stage = (if at_stage attempt = ATTEMPT_ENGINEERING then ATTEMPT_HARD_VALIDATION
                             else ATTEMPT_REWORK_VALIDATION);
         d1 = d\<lparr>candidates := insert_row (candidate_row_of c attempt now) (candidates d),
                ticket_attempts := update_row (sc_ticket_attempt_id c) (\<lambda>a. a\<lparr>
                   ta_candidate_ordinal := at_candidate_ordinal attempt + 1,
                   ta_stage := validation_stage, ta_revision := r\<rparr>) (ticket_attempts d)\<rparr> in
     and_then (insert_audit d1 (sc_principal c) (sc_command_id c) CANDIDATE_SUBMIT_OPERATION fingerprint
                 CANDIDATE_SUBJECT candidate_id revision_initial) (\<lambda>(audit, d2).
     Inr (\<lparr>cr_receipt_candidate_id = candidate_id, cr_receipt_state = CandidateSubmitted,
           cr_receipt_resulting_revision = revision_initial, cr_receipt_audit_log_id = audit,
           cr_receipt_was_idempotent_retry = False\<rparr>, d2))))))))"

definition submit_candidate_cmd ::
  "(byte list \<Rightarrow> content_digest) \<Rightarrow> int \<Rightarrow> submit_candidate \<Rightarrow> db \<Rightarrow> (candidate_receipt \<times> db) decision_result" where
  "submit_candidate_cmd hash now c d =
     and_then (submit_candidate_checks c) (\<lambda>_.
     let fingerprint = hash (submit_candidate_preimage c) in
     and_then (lock_attempt d (sc_ticket_attempt_id c)) (\<lambda>_.
     audited (find_audit d (sc_principal c) (sc_command_id c) CANDIDATE_SUBMIT_OPERATION fingerprint)
       (submit_candidate_replay d) (submit_candidate_fresh fingerprint now c d) d))"

section \<open>Recording a validation\<close>

record record_validation =
  rv_principal :: string
  rv_command_id :: string
  rv_candidate_id :: ident
  rv_expected_candidate_revision :: aggregate_revision
  rv_expected_attempt_revision :: aggregate_revision
  rv_scope :: validation_scope
  rv_kernel_build_id :: content_digest
  rv_performed_by_session_id :: ident
  rv_validation_profile :: string
  rv_pristine_tree :: object_id
  rv_command_set :: sealed_artifact_reference
  rv_result :: validation_result
  rv_duration_millis :: "64 word"
  rv_log :: sealed_artifact_reference

record validation_receipt =
  vr_validation_id :: ident
  vr_candidate_id :: ident
  vr_state :: validation_state
  vr_candidate_state :: candidate_state
  vr_resulting_candidate_revision :: aggregate_revision
  vr_resulting_attempt_revision :: aggregate_revision
  vr_audit_log_id :: int
  vr_was_idempotent_retry :: bool

definition validation_preimage :: "record_validation \<Rightarrow> byte list" where
  "validation_preimage c =
     fingerprint_prefix VALIDATION_RECORD_OPERATION (rv_principal c) (rv_command_id c)
     @ hash_i64 (rv_candidate_id c)
     @ hash_u64 (rv_expected_candidate_revision c) @ hash_u64 (rv_expected_attempt_revision c)
     @ [word_of_int (scope_code (rv_scope c)), word_of_int (result_code (rv_result c))]
     @ rv_kernel_build_id c @ hash_i64 (rv_performed_by_session_id c)
     @ hash_string (rv_validation_profile c) @ hash_string (rv_pristine_tree c)
     @ hash_sealed_artifact (rv_command_set c) @ hash_u64 (rv_duration_millis c)
     @ hash_sealed_artifact (rv_log c)"

definition validate_validation_command :: "record_validation \<Rightarrow> unit decision_result" where
  "validate_validation_command c = first_error
     [require (\<not> (rv_validation_profile c = [] \<or> length (rv_validation_profile c) > 160
                 \<or> CHR 0x00 \<in> set (rv_validation_profile c) \<or> uint (rv_duration_millis c) > I64_MAX)) CorruptState,
      contract_err (sealed_artifact_validate (rv_command_set c) ''validation command set'' (256 * 1024) False),
      contract_err (sealed_artifact_validate (rv_log c) ''validation log'' (16 * 1024 * 1024) True)]"

definition record_validation_replay :: "db \<Rightarrow> audit_receipt \<Rightarrow> validation_receipt decision_result" where
  "record_validation_replay d receipt =
     and_then (require_subject receipt VALIDATION_SUBJECT) (\<lambda>_.
     and_then (contract_err (identifier_new ''validation ID'' (rc_subject_id receipt))) (\<lambda>i.
     and_then (load_validation d i) (\<lambda>validation.
     and_then (load_candidate d (vv_candidate_id validation)) (\<lambda>candidate.
     and_then (lock_candidate_attempt d (cv_ticket_attempt_id candidate)) (\<lambda>attempt.
     and_then (decode_validation_state (vv_lifecycle validation)) (\<lambda>state.
     and_then (decode_candidate_state (cv_lifecycle candidate)) (\<lambda>cstate.
     Inr \<lparr>vr_validation_id = i, vr_candidate_id = cv_id candidate, vr_state = state,
          vr_candidate_state = cstate, vr_resulting_candidate_revision = cv_revision candidate,
          vr_resulting_attempt_revision = at_attempt_revision attempt,
          vr_audit_log_id = rc_audit_log_id receipt, vr_was_idempotent_retry = True\<rparr>)))))))"

fun required_candidate_state :: "validation_scope \<Rightarrow> candidate_state" where
  "required_candidate_state HardCandidate = CandidateSubmitted"
| "required_candidate_state QualityFullSuite = CandidateValidated"

fun required_stage :: "validation_scope \<Rightarrow> int \<Rightarrow> int" where
  "required_stage HardCandidate stage =
     (if stage = ATTEMPT_HARD_VALIDATION then ATTEMPT_HARD_VALIDATION else ATTEMPT_REWORK_VALIDATION)"
| "required_stage QualityFullSuite stage =
     (if stage = ATTEMPT_QUALITY then ATTEMPT_QUALITY else ATTEMPT_REWORK_QUALITY)"

fun required_stage_name :: "validation_scope \<Rightarrow> string" where
  "required_stage_name HardCandidate = ''HardValidation or ReworkValidation''"
| "required_stage_name QualityFullSuite = ''Quality or ReworkQuality''"

definition validation_successor :: "validation_result \<Rightarrow> validation_scope \<Rightarrow> int \<Rightarrow> int \<times> int" where
  "validation_successor result scope stage =
     (if result = ResultPassed then
        (case scope of
           HardCandidate \<Rightarrow> (CANDIDATE_VALIDATED,
             if stage = ATTEMPT_HARD_VALIDATION then ATTEMPT_QUALITY else ATTEMPT_REWORK_QUALITY)
         | QualityFullSuite \<Rightarrow> (CANDIDATE_VALIDATED, ATTEMPT_AWAITING_ARCHITECT))
      else (CANDIDATE_REJECTED, ATTEMPT_FAILED))"

definition record_validation_fresh ::
  "content_digest \<Rightarrow> int \<Rightarrow> record_validation \<Rightarrow> db \<Rightarrow> (validation_receipt \<times> db) decision_result" where
  "record_validation_fresh fingerprint now c d =
     and_then (load_candidate_for_update d (rv_candidate_id c)) (\<lambda>candidate.
     and_then (require_revision (rv_expected_candidate_revision c) (cv_revision candidate)) (\<lambda>_.
     and_then (lock_candidate_attempt d (cv_ticket_attempt_id candidate)) (\<lambda>attempt.
     and_then (first_error
       [require_revision (rv_expected_attempt_revision c) (at_attempt_revision attempt),
        require_ticket_state TicketInFlight (at_ticket_state attempt)]) (\<lambda>_.
     and_then (decode_candidate_state (cv_lifecycle candidate)) (\<lambda>cstate.
     and_then (first_error
       [require_candidate_state (required_candidate_state (rv_scope c)) cstate,
        require (at_stage attempt = required_stage (rv_scope c) (at_stage attempt))
          (AttemptStageConflict (required_stage_name (rv_scope c)) (at_stage attempt)),
        require (rv_pristine_tree c = cv_candidate_tree candidate) ValidationTreeChanged]) (\<lambda>_.
     and_then (require_kernel_build d (rv_kernel_build_id c) (at_kernel_build_database_id attempt)) (\<lambda>build.
     and_then (first_error
       [require_session d (rv_performed_by_session_id c) (at_campaign_id attempt) (expected_office (rv_scope c)),
        require_artifact d (rv_command_set c),
        require_artifact d (rv_log c),
        require (\<not> validation_exists d (rv_candidate_id c) (rv_scope c))
          (ValidationAlreadyRecorded (rv_candidate_id c) (rv_scope c)),
        require (uint (rv_duration_millis c) \<le> I64_MAX) IntegerOutOfRange]) (\<lambda>_.
     let row = \<lparr>va_candidate_id = rv_candidate_id c, va_kernel_build_id = build,
                va_performed_by_session_id = rv_performed_by_session_id c, va_scope = scope_code (rv_scope c),
                va_profile = rv_validation_profile c, va_pristine_tree = rv_pristine_tree c,
                va_command_set_artifact_id = artifact_id (rv_command_set c),
                va_lifecycle = result_code (rv_result c), va_duration_millis = uint (rv_duration_millis c),
                va_log_artifact_id = artifact_id (rv_log c), va_created_at = now\<rparr>;
         (next_candidate_state, next_attempt_stage) =
            validation_successor (rv_result c) (rv_scope c) (at_stage attempt) in
     and_then (contract_err (identifier_new ''validation ID'' (next_id (validations d)))) (\<lambda>validation_id.
     and_then (contract_err (revision_next (cv_revision candidate))) (\<lambda>next_candidate.
     and_then (contract_err (revision_next (at_attempt_revision attempt))) (\<lambda>next_attempt.
     and_then (revision_sql next_candidate) (\<lambda>rc.
     and_then (revision_sql next_attempt) (\<lambda>ra.
     let d1 = d\<lparr>validations := insert_row row (validations d),
                candidates := update_row (rv_candidate_id c)
                  (\<lambda>x. x\<lparr>cr_lifecycle := next_candidate_state, cr_revision := rc\<rparr>) (candidates d),
                ticket_attempts := update_row (at_id attempt) (\<lambda>a. a\<lparr>
                   ta_stage := next_attempt_stage, ta_revision := ra,
                   ta_failed := (if next_attempt_stage = ATTEMPT_FAILED
                                 then Some (now, ''hard validation did not pass'') else ta_failed a)\<rparr>)
                  (ticket_attempts d)\<rparr> in
     and_then (insert_audit d1 (rv_principal c) (rv_command_id c) VALIDATION_RECORD_OPERATION fingerprint
                 VALIDATION_SUBJECT validation_id next_candidate) (\<lambda>(audit, d2).
     and_then (decode_candidate_state next_candidate_state) (\<lambda>nstate.
     Inr (\<lparr>vr_validation_id = validation_id, vr_candidate_id = rv_candidate_id c,
           vr_state = result_state (rv_result c), vr_candidate_state = nstate,
           vr_resulting_candidate_revision = next_candidate,
           vr_resulting_attempt_revision = next_attempt, vr_audit_log_id = audit,
           vr_was_idempotent_retry = False\<rparr>, d2))))))))))))))))"

definition record_validation_cmd ::
  "(byte list \<Rightarrow> content_digest) \<Rightarrow> int \<Rightarrow> record_validation \<Rightarrow> db \<Rightarrow> (validation_receipt \<times> db) decision_result" where
  "record_validation_cmd hash now c d =
     and_then (first_error [validate_command (rv_principal c) (rv_command_id c), validate_validation_command c]) (\<lambda>_.
     let fingerprint = hash (validation_preimage c) in
     and_then (lock_candidate d (rv_candidate_id c)) (\<lambda>_.
     audited (find_audit d (rv_principal c) (rv_command_id c) VALIDATION_RECORD_OPERATION fingerprint)
       (record_validation_replay d) (record_validation_fresh fingerprint now c d) d))"

section \<open>Attaching the candidate commit\<close>

record attach_candidate_commit =
  ac_principal :: string
  ac_command_id :: string
  ac_candidate_id :: ident
  ac_expected_candidate_revision :: aggregate_revision
  ac_candidate_commit :: object_id
  ac_candidate_ref :: string

definition commit_preimage :: "attach_candidate_commit \<Rightarrow> byte list" where
  "commit_preimage c =
     fingerprint_prefix CANDIDATE_COMMIT_ATTACH_OPERATION (ac_principal c) (ac_command_id c)
     @ hash_i64 (ac_candidate_id c) @ hash_u64 (ac_expected_candidate_revision c)
     @ hash_string (ac_candidate_commit c) @ hash_string (ac_candidate_ref c)"

definition attach_candidate_commit_replay :: "db \<Rightarrow> audit_receipt \<Rightarrow> candidate_receipt decision_result" where
  "attach_candidate_commit_replay d receipt =
     and_then (require_subject receipt CANDIDATE_SUBJECT) (\<lambda>_.
     and_then (contract_err (identifier_new ''candidate ID'' (rc_subject_id receipt))) (\<lambda>i.
     and_then (load_candidate d i) (\<lambda>candidate.
     and_then (decode_candidate_state (cv_lifecycle candidate)) (\<lambda>state.
     Inr \<lparr>cr_receipt_candidate_id = cv_id candidate, cr_receipt_state = state,
          cr_receipt_resulting_revision = cv_revision candidate,
          cr_receipt_audit_log_id = rc_audit_log_id receipt,
          cr_receipt_was_idempotent_retry = True\<rparr>))))"

definition candidate_ref_matches :: "int \<Rightarrow> int \<Rightarrow> string \<Rightarrow> bool" where
  "candidate_ref_matches ticket candidate ref =
     (let numbers = decimal_of_int ticket @ ''/'' @ decimal_of_int candidate in
      ref = ''refs/heads/factory/'' @ numbers
      \<or> starts_with ''refs/heads/factory-scoped/'' ref \<and> ends_with (''/'' @ numbers) ref)"

definition attach_candidate_commit_fresh ::
  "content_digest \<Rightarrow> attach_candidate_commit \<Rightarrow> db \<Rightarrow> (candidate_receipt \<times> db) decision_result" where
  "attach_candidate_commit_fresh fingerprint c d =
     and_then (load_candidate_for_update d (ac_candidate_id c)) (\<lambda>candidate.
     and_then (require_revision (ac_expected_candidate_revision c) (cv_revision candidate)) (\<lambda>_.
     and_then (decode_candidate_state (cv_lifecycle candidate)) (\<lambda>state.
     and_then (first_error
       [require_candidate_state CandidateValidated state,
        require (cv_candidate_commit candidate = None) CandidateCommitAlreadyAttached,
        require (validation_passed d (ac_candidate_id c) HardCandidate) HardValidationMissing]) (\<lambda>_.
     and_then (lock_candidate_attempt d (cv_ticket_attempt_id candidate)) (\<lambda>attempt.
     and_then (require (candidate_ref_matches (at_ticket_id attempt) (ac_candidate_id c) (ac_candidate_ref c))
                 InvalidCandidateRef) (\<lambda>_.
     and_then (contract_err (revision_next (cv_revision candidate))) (\<lambda>nxt.
     and_then (revision_sql nxt) (\<lambda>r.
     and_then (require (is_ok (object_id_parse (ac_candidate_commit c))) Database) (\<lambda>_.
     let d1 = d\<lparr>candidates := update_row (ac_candidate_id c) (\<lambda>x. x\<lparr>
                 cr_commit := Some (ac_candidate_commit c), cr_ref := Some (ac_candidate_ref c),
                 cr_revision := r\<rparr>) (candidates d)\<rparr> in
     and_then (insert_audit d1 (ac_principal c) (ac_command_id c) CANDIDATE_COMMIT_ATTACH_OPERATION fingerprint
                 CANDIDATE_SUBJECT (ac_candidate_id c) nxt) (\<lambda>(audit, d2).
     Inr (\<lparr>cr_receipt_candidate_id = ac_candidate_id c, cr_receipt_state = CandidateValidated,
           cr_receipt_resulting_revision = nxt, cr_receipt_audit_log_id = audit,
           cr_receipt_was_idempotent_retry = False\<rparr>, d2)))))))))))"

definition attach_candidate_commit_cmd ::
  "(byte list \<Rightarrow> content_digest) \<Rightarrow> attach_candidate_commit \<Rightarrow> db \<Rightarrow> (candidate_receipt \<times> db) decision_result" where
  "attach_candidate_commit_cmd hash c d =
     and_then (first_error [validate_command (ac_principal c) (ac_command_id c),
                            validate_candidate_ref (ac_candidate_ref c)]) (\<lambda>_.
     let fingerprint = hash (commit_preimage c) in
     and_then (lock_candidate d (ac_candidate_id c)) (\<lambda>_.
     audited (find_audit d (ac_principal c) (ac_command_id c) CANDIDATE_COMMIT_ATTACH_OPERATION fingerprint)
       (attach_candidate_commit_replay d) (attach_candidate_commit_fresh fingerprint c d) d))"

section \<open>Submitting a Quality review\<close>

record submit_quality_review =
  qr_principal :: string
  qr_command_id :: string
  qr_candidate_id :: ident
  qr_expected_candidate_revision :: aggregate_revision
  qr_expected_attempt_revision :: aggregate_revision
  qr_quality_session_id :: ident
  qr_submission :: quality_review_submission

record review_receipt =
  rr_review_id :: ident
  rr_candidate_id :: ident
  rr_verdict :: review_verdict
  rr_resulting_candidate_revision :: aggregate_revision
  rr_resulting_attempt_revision :: aggregate_revision
  rr_audit_log_id :: int
  rr_was_idempotent_retry :: bool

definition review_preimage :: "submit_quality_review \<Rightarrow> byte list" where
  "review_preimage c =
     fingerprint_prefix REVIEW_SUBMIT_OPERATION (qr_principal c) (qr_command_id c)
     @ hash_i64 (qr_candidate_id c)
     @ hash_u64 (qr_expected_candidate_revision c) @ hash_u64 (qr_expected_attempt_revision c)
     @ hash_i64 (qr_quality_session_id c) @ hash_i64 (full_suite_validation_id (qr_submission c))
     @ [word_of_int (review_verdict_code (verdict (qr_submission c)))]
     @ hash_sealed_artifact (rationale (qr_submission c)) @ hash_sealed_artifact (risks (qr_submission c))
     @ hash_sealed_artifact (additional_probes (qr_submission c))"

definition submit_quality_review_replay :: "db \<Rightarrow> audit_receipt \<Rightarrow> review_receipt decision_result" where
  "submit_quality_review_replay d receipt =
     and_then (require_subject receipt REVIEW_SUBJECT) (\<lambda>_.
     and_then (contract_err (identifier_new ''review ID'' (rc_subject_id receipt))) (\<lambda>i.
     and_then (load_review d i) (\<lambda>review.
     and_then (load_candidate d (rw_candidate_id review)) (\<lambda>candidate.
     and_then (lock_candidate_attempt d (cv_ticket_attempt_id candidate)) (\<lambda>attempt.
     and_then (decode_review_verdict (rw_verdict review)) (\<lambda>v.
     Inr \<lparr>rr_review_id = rw_id review, rr_candidate_id = cv_id candidate, rr_verdict = v,
          rr_resulting_candidate_revision = cv_revision candidate,
          rr_resulting_attempt_revision = at_attempt_revision attempt,
          rr_audit_log_id = rc_audit_log_id receipt, rr_was_idempotent_retry = True\<rparr>))))))"

text \<open>\<open>reviews\<close> has unique keys on the candidate, the Quality session and the full-suite validation.\<close>

definition review_row_ok :: "db \<Rightarrow> review_row \<Rightarrow> bool" where
  "review_row_ok d r \<longleftrightarrow>
     \<not> exists_row (\<lambda>_ x. re_candidate_id x = re_candidate_id r
        \<or> re_quality_session_id x = re_quality_session_id r
        \<or> re_full_suite_validation_id x = re_full_suite_validation_id r) (reviews d)"

definition submit_quality_review_fresh ::
  "content_digest \<Rightarrow> submit_quality_review \<Rightarrow> db \<Rightarrow> (review_receipt \<times> db) decision_result" where
  "submit_quality_review_fresh fingerprint c d =
     and_then (load_candidate_for_update d (qr_candidate_id c)) (\<lambda>candidate.
     and_then (require_revision (qr_expected_candidate_revision c) (cv_revision candidate)) (\<lambda>_.
     and_then (decode_candidate_state (cv_lifecycle candidate)) (\<lambda>state.
     and_then (first_error
       [require_candidate_state CandidateValidated state,
        require (cv_candidate_commit candidate \<noteq> None) CandidateCommitMissing]) (\<lambda>_.
     and_then (lock_candidate_attempt d (cv_ticket_attempt_id candidate)) (\<lambda>attempt.
     and_then (first_error
       [require_revision (qr_expected_attempt_revision c) (at_attempt_revision attempt),
        require (at_stage attempt = ATTEMPT_AWAITING_ARCHITECT)
          (AttemptStageConflict ''AwaitingArchitect after passed Quality full suite'' (at_stage attempt))]) (\<lambda>_.
     and_then (load_quality_validation d (full_suite_validation_id (qr_submission c)) (qr_candidate_id c)) (\<lambda>qv.
     and_then (first_error
       [require (vv_lifecycle qv = VALIDATION_PASSED) QualityValidationNotPassed,
        require (vv_pristine_tree qv = cv_candidate_tree candidate) ValidationTreeChanged,
        require (vv_kernel_build_database_id qv = at_kernel_build_database_id attempt) ValidationBuildMismatch]) (\<lambda>_.
     and_then (contract_err (identifier_new ''session ID'' (vv_performed_by_session_id qv))) (\<lambda>performer.
     and_then (first_error
       [require_session_jurisdiction d performer (at_campaign_id attempt) OFFICE_QUALITY,
        require_session d (qr_quality_session_id c) (at_campaign_id attempt) OFFICE_QUALITY,
        require_artifact d (rationale (qr_submission c)),
        require_artifact d (risks (qr_submission c)),
        require_artifact d (additional_probes (qr_submission c)),
        require (\<not> review_exists d (qr_candidate_id c)) (ReviewAlreadySubmitted (qr_candidate_id c))]) (\<lambda>_.
     let row = \<lparr>re_candidate_id = qr_candidate_id c, re_quality_session_id = qr_quality_session_id c,
                re_full_suite_validation_id = full_suite_validation_id (qr_submission c),
                re_verdict = review_verdict_code (verdict (qr_submission c)),
                re_rationale_artifact_id = artifact_id (rationale (qr_submission c)),
                re_risks_artifact_id = artifact_id (risks (qr_submission c)),
                re_additional_probes_artifact_id = artifact_id (additional_probes (qr_submission c)),
                re_revision = 0\<rparr> in
     and_then (require (review_row_ok d row) Database) (\<lambda>_.
     and_then (contract_err (identifier_new ''review ID'' (next_id (reviews d)))) (\<lambda>review_id.
     and_then (contract_err (revision_next (cv_revision candidate))) (\<lambda>next_candidate.
     and_then (contract_err (revision_next (at_attempt_revision attempt))) (\<lambda>next_attempt.
     and_then (revision_sql next_candidate) (\<lambda>rc.
     and_then (revision_sql next_attempt) (\<lambda>ra.
     let d1 = d\<lparr>reviews := insert_row row (reviews d),
                candidates := update_row (qr_candidate_id c) (\<lambda>x. x\<lparr>cr_revision := rc\<rparr>) (candidates d),
                ticket_attempts := update_row (at_id attempt) (\<lambda>a. a\<lparr>
                   ta_stage := ATTEMPT_AWAITING_ARCHITECT, ta_revision := ra\<rparr>) (ticket_attempts d)\<rparr> in
     and_then (insert_audit d1 (qr_principal c) (qr_command_id c) REVIEW_SUBMIT_OPERATION fingerprint
                 REVIEW_SUBJECT review_id next_candidate) (\<lambda>(audit, d2).
     Inr (\<lparr>rr_review_id = review_id, rr_candidate_id = qr_candidate_id c,
           rr_verdict = verdict (qr_submission c), rr_resulting_candidate_revision = next_candidate,
           rr_resulting_attempt_revision = next_attempt, rr_audit_log_id = audit,
           rr_was_idempotent_retry = False\<rparr>, d2))))))))))))))))))"

definition submit_quality_review_cmd ::
  "(byte list \<Rightarrow> content_digest) \<Rightarrow> submit_quality_review \<Rightarrow> db \<Rightarrow> (review_receipt \<times> db) decision_result" where
  "submit_quality_review_cmd hash c d =
     and_then (first_error [validate_command (qr_principal c) (qr_command_id c),
                            contract_err (quality_review_submission_validate (qr_submission c))]) (\<lambda>_.
     let fingerprint = hash (review_preimage c) in
     and_then (lock_candidate d (qr_candidate_id c)) (\<lambda>_.
     audited (find_audit d (qr_principal c) (qr_command_id c) REVIEW_SUBMIT_OPERATION fingerprint)
       (submit_quality_review_replay d) (submit_quality_review_fresh fingerprint c d) d))"

section \<open>Architect sponsorship\<close>

record sponsor_ticket =
  st_command_id :: string
  st_expected_ticket_revision :: aggregate_revision
  st_decision :: sponsorship_decision

record sponsorship_receipt =
  sp_decision :: architect_decision_receipt
  sp_ticket_revision_id :: ident
  sp_resulting_ticket_revision :: aggregate_revision
  sp_audit_log_id :: int
  sp_was_idempotent_retry :: bool

definition sponsorship_preimage :: "sponsor_ticket \<Rightarrow> byte list" where
  "sponsorship_preimage c =
     fingerprint_prefix SPONSOR_OPERATION (sd_principal (st_decision c)) (st_command_id c)
     @ hash_i64 (sd_ticket_revision_id (st_decision c)) @ hash_u64 (st_expected_ticket_revision c)
     @ hash_sealed_artifact (sd_rationale (st_decision c))"

definition sponsor_ticket_replay :: "db \<Rightarrow> audit_receipt \<Rightarrow> sponsorship_receipt decision_result" where
  "sponsor_ticket_replay d receipt =
     and_then (require_subject receipt DECISION_SUBJECT) (\<lambda>_.
     and_then (load_decision d (rc_subject_id receipt)) (\<lambda>decision.
     and_then (ok_or (de_ticket_revision_id decision) CorruptDecision) (\<lambda>i.
     and_then (contract_err (identifier_new ''ticket revision ID'' i)) (\<lambda>trid.
     and_then (lock_ticket_revision_state d trid) (\<lambda>ticket.
     and_then (architect_receipt (rc_subject_id receipt) DecisionSponsor) (\<lambda>ar.
     Inr \<lparr>sp_decision = ar, sp_ticket_revision_id = trid,
          sp_resulting_ticket_revision = tv_ticket_revision ticket,
          sp_audit_log_id = rc_audit_log_id receipt, sp_was_idempotent_retry = True\<rparr>))))))"

definition decision_reason :: "int \<Rightarrow> string" where
  "decision_reason i = ''architect decision '' @ decimal_of_int i"

definition sponsor_ticket_fresh ::
  "content_digest \<Rightarrow> int \<Rightarrow> sponsor_ticket \<Rightarrow> db \<Rightarrow> (sponsorship_receipt \<times> db) decision_result" where
  "sponsor_ticket_fresh fingerprint now c d =
     (let prin = sd_principal (st_decision c) in
      and_then (lock_ticket_revision_state d (sd_ticket_revision_id (st_decision c))) (\<lambda>ticket.
      and_then (first_error
        [require_revision (st_expected_ticket_revision c) (tv_ticket_revision ticket),
         require_sponsorable_ticket_state (tv_ticket_state ticket),
         require_artifact_unbound d (sd_rationale (st_decision c))]) (\<lambda>_.
      and_then (insert_decision d DECISION_SPONSOR (Some (sd_ticket_revision_id (st_decision c))) None None None
                  (artifact_id (sd_rationale (st_decision c))) prin False now) (\<lambda>(decision, d1).
      and_then (contract_err (revision_next (tv_ticket_revision ticket))) (\<lambda>nxt.
      and_then (update_ticket_state_parts d1 (tv_ticket_id ticket) (tv_ticket_revision_id ticket)
                  TICKET_SPONSORED nxt (Some (decision_reason decision)) None now) (\<lambda>d2.
      and_then (insert_audit d2 prin (st_command_id c) SPONSOR_OPERATION fingerprint DECISION_SUBJECT
                  decision nxt) (\<lambda>(audit, d3).
      and_then (architect_receipt decision DecisionSponsor) (\<lambda>ar.
      Inr (\<lparr>sp_decision = ar, sp_ticket_revision_id = sd_ticket_revision_id (st_decision c),
            sp_resulting_ticket_revision = nxt, sp_audit_log_id = audit,
            sp_was_idempotent_retry = False\<rparr>, d3)))))))))"

definition sponsor_ticket_cmd ::
  "(byte list \<Rightarrow> content_digest) \<Rightarrow> int \<Rightarrow> sponsor_ticket \<Rightarrow> db \<Rightarrow> (sponsorship_receipt \<times> db) decision_result" where
  "sponsor_ticket_cmd hash now c d =
     and_then (first_error [contract_err (sponsorship_decision_validate (st_decision c)),
                            validate_architect_command (sd_principal (st_decision c)) (st_command_id c)]) (\<lambda>_.
     let fingerprint = hash (sponsorship_preimage c) in
     and_then (lock_ticket_revision d (sd_ticket_revision_id (st_decision c))) (\<lambda>_.
     audited (find_audit d (sd_principal (st_decision c)) (st_command_id c) SPONSOR_OPERATION fingerprint)
       (sponsor_ticket_replay d) (sponsor_ticket_fresh fingerprint now c d) d))"

section \<open>Architect release\<close>

record release_ticket_attempt =
  rl_command_id :: string
  rl_expected_attempt_revision :: aggregate_revision
  rl_expected_ticket_revision :: aggregate_revision
  rl_decision :: release_decision
  rl_requalification :: current_head_requalification

record release_receipt =
  le_decision :: architect_decision_receipt
  le_ticket_attempt_id :: ident
  le_outcome :: release_outcome
  le_resulting_attempt_revision :: aggregate_revision
  le_resulting_ticket_revision :: aggregate_revision
  le_audit_log_id :: int
  le_was_idempotent_retry :: bool

definition release_preimage :: "release_ticket_attempt \<Rightarrow> byte list" where
  "release_preimage c =
     fingerprint_prefix RELEASE_OPERATION (rd_principal (rl_decision c)) (rl_command_id c)
     @ hash_i64 (rd_ticket_attempt_id (rl_decision c))
     @ hash_u64 (rl_expected_attempt_revision c) @ hash_u64 (rl_expected_ticket_revision c)
     @ hash_sealed_artifact (rd_rationale (rl_decision c))
     @ hash_string (current_head_commit (rl_requalification c))
     @ hash_string (current_head_tree (rl_requalification c))
     @ hash_i64 (first_actual_observation_artifact_id (rl_requalification c))
     @ hash_i64 (second_actual_observation_artifact_id (rl_requalification c))"

definition release_replay :: "db \<Rightarrow> audit_receipt \<Rightarrow> release_receipt decision_result" where
  "release_replay d receipt =
     and_then (require_subject receipt DECISION_SUBJECT) (\<lambda>_.
     and_then (load_decision d (rc_subject_id receipt)) (\<lambda>decision.
     and_then (ok_or (de_ticket_attempt_id decision) CorruptDecision) (\<lambda>i.
     and_then (contract_err (identifier_new ''ticket attempt ID'' i)) (\<lambda>aid.
     and_then (lock_candidate_attempt d aid) (\<lambda>attempt.
     and_then (architect_receipt (rc_subject_id receipt) DecisionRelease) (\<lambda>ar.
     and_then (release_outcome_of (at_ticket_state attempt)) (\<lambda>outcome.
     Inr \<lparr>le_decision = ar, le_ticket_attempt_id = aid, le_outcome = outcome,
          le_resulting_attempt_revision = at_attempt_revision attempt,
          le_resulting_ticket_revision = at_ticket_revision attempt,
          le_audit_log_id = rc_audit_log_id receipt, le_was_idempotent_retry = True\<rparr>)))))))"

fun release_transition :: "requalification \<Rightarrow> release_outcome \<times> int \<times> int \<times> string option" where
  "release_transition Reproduced = (OutcomeReleased, TICKET_SPONSORED, REQUALIFICATION_REPRODUCED, None)"
| "release_transition Resolved = (OutcomeResolved, TICKET_RESOLVED, REQUALIFICATION_RESOLVED, None)"
| "release_transition Diverged = (OutcomeBlocked, TICKET_BLOCKED, REQUALIFICATION_DIVERGED,
     Some ''current-head reproducer differs from the sponsored failure'')"

definition release_fresh ::
  "content_digest \<Rightarrow> int \<Rightarrow> release_ticket_attempt \<Rightarrow> db \<Rightarrow> (release_receipt \<times> db) decision_result" where
  "release_fresh fingerprint now c d =
     (let prin = rd_principal (rl_decision c) in
      and_then (lock_candidate_attempt d (rd_ticket_attempt_id (rl_decision c))) (\<lambda>attempt.
      and_then (first_error
        [require_revision (rl_expected_attempt_revision c) (at_attempt_revision attempt),
         require_revision (rl_expected_ticket_revision c) (at_ticket_revision attempt),
         require_ticket_state TicketInFlight (at_ticket_state attempt),
         require (\<not> (at_released attempt
                    \<or> \<not> (at_stage attempt = ATTEMPT_FAILED \<or> at_stage attempt = ATTEMPT_CANCELLED)))
           AttemptNotReleasable,
         require_artifact_unbound d (rd_rationale (rl_decision c))]) (\<lambda>_.
      and_then (classify_requalification d attempt (rl_requalification c)) (\<lambda>classification.
      let (outcome, state, code, blocked_reason) = release_transition classification in
      and_then (insert_decision d DECISION_RELEASE None (Some (at_id attempt)) None None
                  (artifact_id (rd_rationale (rl_decision c))) prin False now) (\<lambda>(decision, d1).
      and_then (contract_err (revision_next (at_attempt_revision attempt))) (\<lambda>next_attempt.
      and_then (contract_err (revision_next (at_ticket_revision attempt))) (\<lambda>next_ticket.
      and_then (revision_sql next_attempt) (\<lambda>ra.
      let d2 = d1\<lparr>ticket_attempts := update_row (at_id attempt) (\<lambda>a. a\<lparr>
                    ta_released := Some (now, decision_reason decision), ta_revision := ra\<rparr>)
                    (ticket_attempts d1)\<rparr> in
      and_then (update_ticket_requalification d2 attempt state next_ticket code (rl_requalification c)
                  blocked_reason now) (\<lambda>d3.
      and_then (insert_audit d3 prin (rl_command_id c) RELEASE_OPERATION fingerprint DECISION_SUBJECT
                  decision next_attempt) (\<lambda>(audit, d4).
      and_then (architect_receipt decision DecisionRelease) (\<lambda>ar.
      Inr (\<lparr>le_decision = ar, le_ticket_attempt_id = at_id attempt, le_outcome = outcome,
            le_resulting_attempt_revision = next_attempt, le_resulting_ticket_revision = next_ticket,
            le_audit_log_id = audit, le_was_idempotent_retry = False\<rparr>, d4))))))))))))"

definition release_ticket_attempt_cmd ::
  "(byte list \<Rightarrow> content_digest) \<Rightarrow> int \<Rightarrow> release_ticket_attempt \<Rightarrow> db \<Rightarrow> (release_receipt \<times> db) decision_result" where
  "release_ticket_attempt_cmd hash now c d =
     and_then (first_error [contract_err (release_decision_validate (rl_decision c)),
                            validate_architect_command (rd_principal (rl_decision c)) (rl_command_id c),
                            validate_requalification (rl_requalification c)]) (\<lambda>_.
     let fingerprint = hash (release_preimage c) in
     and_then (lock_attempt d (rd_ticket_attempt_id (rl_decision c))) (\<lambda>_.
     audited (find_audit d (rd_principal (rl_decision c)) (rl_command_id c) RELEASE_OPERATION fingerprint)
       (release_replay d) (release_fresh fingerprint now c d) d))"

section \<open>Architect candidate decision\<close>

record decide_candidate =
  dc_command_id :: string
  dc_expected_candidate_revision :: aggregate_revision
  dc_expected_attempt_revision :: aggregate_revision
  dc_expected_ticket_revision :: aggregate_revision
  dc_request :: candidate_decision_request

record candidate_decision_receipt =
  dr_decision :: architect_decision_receipt
  dr_candidate_id :: ident
  dr_candidate_state :: candidate_state
  dr_resulting_candidate_revision :: aggregate_revision
  dr_resulting_attempt_revision :: aggregate_revision
  dr_resulting_ticket_revision :: aggregate_revision
  dr_audit_log_id :: int
  dr_was_idempotent_retry :: bool

fun override_preimage :: "ident option \<Rightarrow> byte list" where
  "override_preimage (Some v) = [1] @ hash_i64 v"
| "override_preimage None = [0]"

definition candidate_decision_preimage :: "decide_candidate \<Rightarrow> byte list" where
  "candidate_decision_preimage c =
     fingerprint_prefix CANDIDATE_DECIDE_OPERATION (cd_principal (dc_request c)) (dc_command_id c)
     @ hash_u64 (dc_expected_candidate_revision c) @ hash_u64 (dc_expected_attempt_revision c)
     @ hash_u64 (dc_expected_ticket_revision c)
     @ hash_i64 (cd_candidate_id (dc_request c)) @ hash_i64 (cd_review_id (dc_request c))
     @ [word_of_int (decision_code (cd_decision (dc_request c)))]
     @ hash_sealed_artifact (cd_rationale (dc_request c))
     @ override_preimage (quality_rejection_override (dc_request c))"

definition decide_candidate_replay :: "decide_candidate \<Rightarrow> db \<Rightarrow> audit_receipt \<Rightarrow> candidate_decision_receipt decision_result" where
  "decide_candidate_replay c d receipt =
     and_then (require_subject receipt DECISION_SUBJECT) (\<lambda>_.
     and_then (load_decision d (rc_subject_id receipt)) (\<lambda>decision.
     and_then (ok_or (de_candidate_id decision) CorruptDecision) (\<lambda>i.
     and_then (contract_err (identifier_new ''candidate ID'' i)) (\<lambda>cid.
     and_then (load_candidate d cid) (\<lambda>candidate.
     and_then (lock_candidate_attempt d (cv_ticket_attempt_id candidate)) (\<lambda>attempt.
     and_then (architect_receipt (rc_subject_id receipt) (candidate_decision_kind (cd_decision (dc_request c)))) (\<lambda>ar.
     and_then (decode_candidate_state (cv_lifecycle candidate)) (\<lambda>state.
     Inr \<lparr>dr_decision = ar, dr_candidate_id = cid, dr_candidate_state = state,
          dr_resulting_candidate_revision = cv_revision candidate,
          dr_resulting_attempt_revision = at_attempt_revision attempt,
          dr_resulting_ticket_revision = at_ticket_revision attempt,
          dr_audit_log_id = rc_audit_log_id receipt, dr_was_idempotent_retry = True\<rparr>))))))))"

fun decision_transition :: "candidate_decision \<Rightarrow> int \<times> int" where
  "decision_transition Deliver = (CANDIDATE_ACCEPTED, ATTEMPT_AWAITING_ARCHITECT)"
| "decision_transition Rework = (CANDIDATE_REJECTED, ATTEMPT_REWORK_ENGINEERING)"
| "decision_transition Reject = (CANDIDATE_REJECTED, ATTEMPT_FAILED)"

definition decide_candidate_fresh ::
  "content_digest \<Rightarrow> int \<Rightarrow> decide_candidate \<Rightarrow> db \<Rightarrow> (candidate_decision_receipt \<times> db) decision_result" where
  "decide_candidate_fresh fingerprint now c d =
     (let req = dc_request c; cid = cd_candidate_id req; prin = cd_principal req in
      and_then (load_candidate_for_update d cid) (\<lambda>candidate.
      and_then (require_revision (dc_expected_candidate_revision c) (cv_revision candidate)) (\<lambda>_.
      and_then (decode_candidate_state (cv_lifecycle candidate)) (\<lambda>state.
      and_then (first_error
        [require_candidate_state CandidateValidated state,
         require (cv_candidate_commit candidate \<noteq> None) CandidateCommitMissing]) (\<lambda>_.
      and_then (lock_candidate_attempt d (cv_ticket_attempt_id candidate)) (\<lambda>attempt.
      and_then (first_error
        [require_revision (dc_expected_attempt_revision c) (at_attempt_revision attempt),
         require_revision (dc_expected_ticket_revision c) (at_ticket_revision attempt),
         require_ticket_state TicketInFlight (at_ticket_state attempt),
         require (at_stage attempt = ATTEMPT_AWAITING_ARCHITECT)
           (AttemptStageConflict ''AwaitingArchitect'' (at_stage attempt)),
         require_hard_and_quality_validation d cid]) (\<lambda>_.
      and_then (load_review d (cd_review_id req)) (\<lambda>review.
      let rejected_review = (rw_verdict review = REVIEW_REJECT);
          override_is_exact = (quality_rejection_override req = Some (cd_review_id req)) in
      and_then (first_error
        [require (rw_candidate_id review = cid) ReviewCandidateMismatch,
         require_artifact d (cd_rationale req),
         (if cd_decision req = Deliver
          then require (rejected_review = override_is_exact) QualityRejectionOverrideRequired
          else require (quality_rejection_override req = None) QualityRejectionOverrideForbidden),
         require (\<not> (cd_decision req = Rework \<and> at_rework_ordinal attempt \<noteq> 0)) ReworkLimitReached]) (\<lambda>_.
      and_then (insert_decision d (decision_code (cd_decision req)) None None (Some cid) (Some (cd_review_id req))
                  (artifact_id (cd_rationale req)) prin rejected_review now) (\<lambda>(decision, d1).
      and_then (contract_err (revision_next (cv_revision candidate))) (\<lambda>next_candidate.
      and_then (contract_err (revision_next (at_attempt_revision attempt))) (\<lambda>next_attempt.
      and_then (if cd_decision req = Reject then contract_err (revision_next (at_ticket_revision attempt))
                else Inr (at_ticket_revision attempt)) (\<lambda>next_ticket.
      let (candidate_lifecycle, attempt_stage) = decision_transition (cd_decision req) in
      and_then (revision_sql next_candidate) (\<lambda>rc.
      and_then (revision_sql next_attempt) (\<lambda>ra.
      let d2 = d1\<lparr>candidates := update_row cid
                    (\<lambda>x. x\<lparr>cr_lifecycle := candidate_lifecycle, cr_revision := rc\<rparr>) (candidates d1),
                  ticket_attempts := update_row (at_id attempt) (\<lambda>a. a\<lparr>
                    ta_stage := attempt_stage,
                    ta_rework_ordinal := ta_rework_ordinal a + (if cd_decision req = Rework then 1 else 0),
                    ta_failed := (if attempt_stage = ATTEMPT_FAILED
                                  then Some (now, ''architect rejected reviewed candidate'') else ta_failed a),
                    ta_revision := ra\<rparr>) (ticket_attempts d1)\<rparr> in
      and_then (if cd_decision req = Reject
                then update_ticket_state d2 attempt TICKET_REJECTED next_ticket None None now
                else Inr d2) (\<lambda>d3.
      and_then (insert_audit d3 prin (dc_command_id c) CANDIDATE_DECIDE_OPERATION fingerprint DECISION_SUBJECT
                  decision next_candidate) (\<lambda>(audit, d4).
      and_then (architect_receipt decision (candidate_decision_kind (cd_decision req))) (\<lambda>ar.
      and_then (decode_candidate_state candidate_lifecycle) (\<lambda>nstate.
      Inr (\<lparr>dr_decision = ar, dr_candidate_id = cid, dr_candidate_state = nstate,
            dr_resulting_candidate_revision = next_candidate, dr_resulting_attempt_revision = next_attempt,
            dr_resulting_ticket_revision = next_ticket, dr_audit_log_id = audit,
            dr_was_idempotent_retry = False\<rparr>, d4))))))))))))))))))))"

definition decide_candidate_cmd ::
  "(byte list \<Rightarrow> content_digest) \<Rightarrow> int \<Rightarrow> decide_candidate \<Rightarrow> db \<Rightarrow> (candidate_decision_receipt \<times> db) decision_result" where
  "decide_candidate_cmd hash now c d =
     and_then (first_error [contract_err (candidate_decision_request_validate (dc_request c)),
                            validate_architect_command (cd_principal (dc_request c)) (dc_command_id c)]) (\<lambda>_.
     let fingerprint = hash (candidate_decision_preimage c) in
     and_then (lock_candidate d (cd_candidate_id (dc_request c))) (\<lambda>_.
     audited (find_audit d (cd_principal (dc_request c)) (dc_command_id c) CANDIDATE_DECIDE_OPERATION fingerprint)
       (decide_candidate_replay c d) (decide_candidate_fresh fingerprint now c d) d))"

section \<open>Recording a delivery\<close>

record record_delivery =
  dv_principal :: string
  dv_command_id :: string
  dv_candidate_id :: ident
  dv_expected_candidate_revision :: aggregate_revision
  dv_expected_attempt_revision :: aggregate_revision
  dv_expected_ticket_revision :: aggregate_revision
  dv_expected_campaign_revision :: aggregate_revision
  dv_expected_old_commit :: object_id
  dv_candidate_commit :: object_id
  dv_resulting_commit :: object_id
  dv_resulting_tree :: object_id
  dv_factory_cost_micro_usd :: "64 word"
  dv_receipt :: sealed_artifact_reference

record delivery_receipt =
  dy_delivery_id :: ident
  dy_candidate_id :: ident
  dy_factory_cost_micro_usd :: "64 word"
  dy_resulting_candidate_revision :: aggregate_revision
  dy_resulting_attempt_revision :: aggregate_revision
  dy_resulting_ticket_revision :: aggregate_revision
  dy_resulting_campaign_revision :: aggregate_revision
  dy_campaign_completed :: bool
  dy_audit_log_id :: int
  dy_was_idempotent_retry :: bool

definition delivery_preimage :: "record_delivery \<Rightarrow> byte list" where
  "delivery_preimage c =
     fingerprint_prefix DELIVERY_RECORD_OPERATION (dv_principal c) (dv_command_id c)
     @ hash_i64 (dv_candidate_id c)
     @ hash_u64 (dv_expected_candidate_revision c) @ hash_u64 (dv_expected_attempt_revision c)
     @ hash_u64 (dv_expected_ticket_revision c) @ hash_u64 (dv_expected_campaign_revision c)
     @ hash_string (dv_expected_old_commit c) @ hash_string (dv_candidate_commit c)
     @ hash_string (dv_resulting_commit c) @ hash_string (dv_resulting_tree c)
     @ rev (hash_u64 (dv_factory_cost_micro_usd c)) @ hash_sealed_artifact (dv_receipt c)"

definition record_delivery_replay :: "db \<Rightarrow> audit_receipt \<Rightarrow> delivery_receipt decision_result" where
  "record_delivery_replay d receipt =
     and_then (require_subject receipt DELIVERY_SUBJECT) (\<lambda>_.
     and_then (load_delivery d (rc_subject_id receipt)) (\<lambda>(candidate_id, cost).
     and_then (load_candidate d candidate_id) (\<lambda>candidate.
     and_then (lock_candidate_attempt d (cv_ticket_attempt_id candidate)) (\<lambda>attempt.
     and_then (load_campaign d (at_campaign_id attempt)) (\<lambda>campaign.
     and_then (contract_err (identifier_new ''delivery ID'' (rc_subject_id receipt))) (\<lambda>i.
     Inr \<lparr>dy_delivery_id = i, dy_candidate_id = cv_id candidate, dy_factory_cost_micro_usd = cost,
          dy_resulting_candidate_revision = cv_revision candidate,
          dy_resulting_attempt_revision = at_attempt_revision attempt,
          dy_resulting_ticket_revision = at_ticket_revision attempt,
          dy_resulting_campaign_revision = cm_revision campaign,
          dy_campaign_completed = (cm_lifecycle campaign = CAMPAIGN_COMPLETED),
          dy_audit_log_id = rc_audit_log_id receipt, dy_was_idempotent_retry = True\<rparr>))))))"

text \<open>The constraints of \<open>deliveries\<close>.\<close>

definition delivery_row_ok :: "db \<Rightarrow> delivery_row \<Rightarrow> bool" where
  "delivery_row_ok d r \<longleftrightarrow>
     \<not> exists_row (\<lambda>_ x. dl_candidate_id x = dl_candidate_id r) (deliveries d)
     \<and> list_all (\<lambda>o1. is_ok (object_id_parse o1))
          [dl_candidate_commit r, dl_expected_old_commit r, dl_resulting_commit r, dl_resulting_tree r]"

definition record_delivery_fresh ::
  "content_digest \<Rightarrow> int \<Rightarrow> record_delivery \<Rightarrow> db \<Rightarrow> (delivery_receipt \<times> db) decision_result" where
  "record_delivery_fresh fingerprint now c d =
     and_then (load_candidate_for_update d (dv_candidate_id c)) (\<lambda>candidate.
     and_then (require_revision (dv_expected_candidate_revision c) (cv_revision candidate)) (\<lambda>_.
     and_then (decode_candidate_state (cv_lifecycle candidate)) (\<lambda>state.
     and_then (require_candidate_state CandidateAccepted state) (\<lambda>_.
     and_then (ok_or (cv_candidate_commit candidate) CandidateCommitMissing) (\<lambda>commit.
     and_then (require (commit = dv_candidate_commit c \<and> cv_base_commit candidate = dv_expected_old_commit c
                        \<and> cv_candidate_tree candidate = dv_resulting_tree c) DeliveryReceiptMismatch) (\<lambda>_.
     and_then (lock_candidate_attempt d (cv_ticket_attempt_id candidate)) (\<lambda>attempt.
     and_then (first_error
       [require_revision (dv_expected_attempt_revision c) (at_attempt_revision attempt),
        require_revision (dv_expected_ticket_revision c) (at_ticket_revision attempt),
        require_ticket_state TicketInFlight (at_ticket_state attempt),
        require (at_stage attempt = ATTEMPT_AWAITING_ARCHITECT)
          (AttemptStageConflict ''AwaitingArchitect'' (at_stage attempt)),
        require (deliver_decision_exists d (dv_candidate_id c)) ArchitectDeliveryDecisionMissing,
        require_artifact d (dv_receipt c)]) (\<lambda>_.
     and_then (lock_campaign d (at_campaign_id attempt)) (\<lambda>campaign.
     and_then (first_error
       [require_revision (dv_expected_campaign_revision c) (cm_revision campaign),
        require (cm_lifecycle campaign = CAMPAIGN_RUNNING) CampaignNotRunning,
        require (cm_cost_state campaign = COST_KNOWN) CampaignCostNotKnown,
        require (dv_factory_cost_micro_usd c = cm_factory_cost_micro_usd campaign) DeliveryFactoryCostMismatch,
        require (\<not> paid_session_active d) PaidSessionStillRunning,
        require (delivered_attempt_count d (at_campaign_id attempt) < I64_MAX) IntegerOutOfRange]) (\<lambda>_.
     let completed = (delivered_attempt_count d (at_campaign_id attempt) + 1 \<ge> cm_delivery_target campaign) in
     and_then (contract_err (revision_next (cv_revision candidate))) (\<lambda>next_candidate.
     and_then (contract_err (revision_next (at_attempt_revision attempt))) (\<lambda>next_attempt.
     and_then (contract_err (revision_next (at_ticket_revision attempt))) (\<lambda>next_ticket.
     and_then (if completed then contract_err (revision_next (cm_revision campaign))
               else Inr (cm_revision campaign)) (\<lambda>next_campaign.
     and_then (require (uint (dv_factory_cost_micro_usd c) \<le> I64_MAX) IntegerOutOfRange) (\<lambda>_.
     let row = \<lparr>dl_candidate_id = dv_candidate_id c, dl_candidate_commit = dv_candidate_commit c,
                dl_expected_old_commit = dv_expected_old_commit c, dl_resulting_commit = dv_resulting_commit c,
                dl_resulting_tree = dv_resulting_tree c,
                dl_factory_cost_micro_usd = uint (dv_factory_cost_micro_usd c),
                dl_receipt_artifact_id = artifact_id (dv_receipt c)\<rparr> in
     and_then (require (delivery_row_ok d row) Database) (\<lambda>_.
     and_then (contract_err (identifier_new ''delivery ID'' (next_id (deliveries d)))) (\<lambda>delivery_id.
     and_then (revision_sql next_candidate) (\<lambda>rc.
     and_then (revision_sql next_attempt) (\<lambda>ra.
     let d1 = d\<lparr>deliveries := insert_row row (deliveries d),
                candidates := update_row (dv_candidate_id c)
                  (\<lambda>x. x\<lparr>cr_lifecycle := CANDIDATE_DELIVERED, cr_revision := rc\<rparr>) (candidates d),
                ticket_attempts := update_row (at_id attempt)
                  (\<lambda>a. a\<lparr>ta_stage := ATTEMPT_DELIVERED, ta_revision := ra\<rparr>) (ticket_attempts d)\<rparr> in
     and_then (update_ticket_state d1 attempt TICKET_DELIVERED next_ticket None None now) (\<lambda>d2.
     and_then (if completed
               then and_then (revision_sql next_campaign) (\<lambda>rg.
                 Inr (d2\<lparr>campaigns := update_row (at_campaign_id attempt)
                        (\<lambda>g. g\<lparr>ca_lifecycle := CAMPAIGN_COMPLETED, ca_revision := rg\<rparr>) (campaigns d2)\<rparr>))
               else Inr d2) (\<lambda>d3.
     and_then (insert_audit d3 (dv_principal c) (dv_command_id c) DELIVERY_RECORD_OPERATION fingerprint
                 DELIVERY_SUBJECT delivery_id next_candidate) (\<lambda>(audit, d4).
     Inr (\<lparr>dy_delivery_id = delivery_id, dy_candidate_id = dv_candidate_id c,
           dy_factory_cost_micro_usd = dv_factory_cost_micro_usd c,
           dy_resulting_candidate_revision = next_candidate, dy_resulting_attempt_revision = next_attempt,
           dy_resulting_ticket_revision = next_ticket, dy_resulting_campaign_revision = next_campaign,
           dy_campaign_completed = completed, dy_audit_log_id = audit,
           dy_was_idempotent_retry = False\<rparr>, d4)))))))))))))))))))))))"

definition record_delivery_cmd ::
  "(byte list \<Rightarrow> content_digest) \<Rightarrow> int \<Rightarrow> record_delivery \<Rightarrow> db \<Rightarrow> (delivery_receipt \<times> db) decision_result" where
  "record_delivery_cmd hash now c d =
     and_then (first_error [validate_command (dv_principal c) (dv_command_id c),
        contract_err (sealed_artifact_validate (dv_receipt c) ''delivery receipt'' (16 * 1024 * 1024) False)]) (\<lambda>_.
     let fingerprint = hash (delivery_preimage c) in
     and_then (lock_candidate d (dv_candidate_id c)) (\<lambda>_.
     audited (find_audit d (dv_principal c) (dv_command_id c) DELIVERY_RECORD_OPERATION fingerprint)
       (record_delivery_replay d) (record_delivery_fresh fingerprint now c d) d))"

end
