(* ===== verification/Decision_Invariant.thy ===== *)
theory Decision_Invariant
  imports Decision_Store
begin

text \<open>
  What the decision authority guarantees.  \<open>evidence_chain\<close> is the invariant: every candidate carries
  the evidence its lifecycle stands for, every review names a passed full suite of its own candidate,
  every delivery decision names a review of its candidate and overrides exactly the rejected ones,
  and every delivery matches its candidate.  \<open>evidence_grows\<close> says evidence is append-only.  For each
  command there is one elimination lemma saying what a committed transition read and wrote, and one
  preservation lemma; the audit contract is discharged by an interpretation per command.
\<close>

section \<open>The invariant\<close>

definition tables_ok :: "db \<Rightarrow> bool" where
  "tables_ok d \<longleftrightarrow>
     table_ok (artifacts d) \<and> table_ok (kernel_builds d) \<and> table_ok (application_revisions d)
     \<and> table_ok (offices d) \<and> table_ok (campaigns d) \<and> table_ok (assignments d) \<and> table_ok (sessions d)
     \<and> table_ok (provider_effects d) \<and> table_ok (harness_compilations d) \<and> table_ok (tickets d)
     \<and> table_ok (ticket_revisions d) \<and> table_ok (ticket_attempts d) \<and> table_ok (candidates d)
     \<and> table_ok (validations d) \<and> table_ok (reviews d) \<and> table_ok (architect_decisions d)
     \<and> table_ok (deliveries d) \<and> table_ok (audit_log d)"

definition candidate_backed :: "db \<Rightarrow> int \<Rightarrow> candidate_row \<Rightarrow> bool" where
  "candidate_backed d i c \<longleftrightarrow>
     0 \<le> cr_lifecycle c \<and> cr_lifecycle c \<le> CANDIDATE_DELIVERED
     \<and> get_row (ticket_attempts d) (cr_ticket_attempt_id c) \<noteq> None
     \<and> (cr_lifecycle c = CANDIDATE_VALIDATED \<or> cr_lifecycle c = CANDIDATE_ACCEPTED
        \<or> cr_lifecycle c = CANDIDATE_DELIVERED \<or> cr_commit c \<noteq> None
        \<longrightarrow> validation_passed d i HardCandidate)
     \<and> (cr_lifecycle c = CANDIDATE_ACCEPTED \<or> cr_lifecycle c = CANDIDATE_DELIVERED
        \<longrightarrow> cr_commit c \<noteq> None \<and> validation_passed d i QualityFullSuite \<and> deliver_decision_exists d i)
     \<and> (cr_lifecycle c = CANDIDATE_DELIVERED \<longrightarrow> exists_row (\<lambda>_ l. dl_candidate_id l = i) (deliveries d))"

definition validation_backed :: "db \<Rightarrow> validation_row \<Rightarrow> bool" where
  "validation_backed d v \<longleftrightarrow>
     (\<exists>c. get_row (candidates d) (va_candidate_id v) = Some c \<and> cr_candidate_tree c = va_pristine_tree v)"

definition review_backed :: "db \<Rightarrow> review_row \<Rightarrow> bool" where
  "review_backed d r \<longleftrightarrow>
     (\<exists>v. get_row (validations d) (re_full_suite_validation_id r) = Some v
        \<and> va_candidate_id v = re_candidate_id r \<and> va_scope v = scope_code QualityFullSuite
        \<and> va_lifecycle v = VALIDATION_PASSED)"

definition decision_backed :: "db \<Rightarrow> decision_row \<Rightarrow> bool" where
  "decision_backed d x \<longleftrightarrow>
     (de_kind x = DECISION_DELIVER \<longrightarrow>
        (\<exists>cid rid r. de_candidate_id x = Some cid \<and> de_review_id x = Some rid
           \<and> get_row (reviews d) rid = Some r \<and> re_candidate_id r = cid
           \<and> (de_overrides_quality_rejection x \<longleftrightarrow> re_verdict r = REVIEW_REJECT)))"

definition delivery_backed :: "db \<Rightarrow> delivery_row \<Rightarrow> bool" where
  "delivery_backed d l \<longleftrightarrow>
     (\<exists>c. get_row (candidates d) (dl_candidate_id l) = Some c \<and> cr_lifecycle c = CANDIDATE_DELIVERED
        \<and> cr_commit c = Some (dl_candidate_commit l) \<and> cr_candidate_tree c = dl_resulting_tree l
        \<and> cr_base_commit c = dl_expected_old_commit l)"

definition evidence_chain :: "db \<Rightarrow> bool" where
  "evidence_chain d \<longleftrightarrow>
     (\<forall>i c. get_row (candidates d) i = Some c \<longrightarrow> candidate_backed d i c)
     \<and> (\<forall>i v. get_row (validations d) i = Some v \<longrightarrow> validation_backed d v)
     \<and> (\<forall>i r. get_row (reviews d) i = Some r \<longrightarrow> review_backed d r)
     \<and> (\<forall>i x. get_row (architect_decisions d) i = Some x \<longrightarrow> decision_backed d x)
     \<and> (\<forall>i l. get_row (deliveries d) i = Some l \<longrightarrow> delivery_backed d l)"

text \<open>The unique keys of the evidence tables, as the schema declares them.\<close>

definition evidence_keys :: "db \<Rightarrow> bool" where
  "evidence_keys d \<longleftrightarrow>
     unique_key (get_row (validations d)) (\<lambda>v. Some (va_candidate_id v, va_scope v))
     \<and> unique_key (get_row (reviews d)) (\<lambda>r. Some (re_candidate_id r))
     \<and> unique_key (get_row (deliveries d)) (\<lambda>l. Some (dl_candidate_id l))
     \<and> unique_key (get_row (candidates d)) (\<lambda>c. Some (cr_engineering_session_id c))
     \<and> unique_key (get_row (candidates d)) (\<lambda>c. Some (cr_ticket_attempt_id c, cr_candidate_tree c))"

definition evidence_inv :: "db \<Rightarrow> bool" where
  "evidence_inv d \<longleftrightarrow> tables_ok d \<and> evidence_chain d \<and> evidence_keys d"

section \<open>Evidence is append-only\<close>

definition keeps_rows :: "'r table \<Rightarrow> 'r table \<Rightarrow> bool" where
  "keeps_rows t t' \<longleftrightarrow> (\<forall>i r. get_row t i = Some r \<longrightarrow> get_row t' i = Some r)"

text \<open>
  What a transition may do to a candidate row: move its lifecycle and revision, and attach a commit
  once; a delivered candidate does not change at all.
\<close>

definition candidate_evolves :: "candidate_row \<Rightarrow> candidate_row \<Rightarrow> bool" where
  "candidate_evolves c c' \<longleftrightarrow>
     c' = c\<lparr>cr_commit := cr_commit c', cr_ref := cr_ref c', cr_lifecycle := cr_lifecycle c',
           cr_revision := cr_revision c'\<rparr>
     \<and> (cr_commit c \<noteq> None \<longrightarrow> cr_commit c' = cr_commit c)
     \<and> (cr_lifecycle c = CANDIDATE_DELIVERED \<longrightarrow> c' = c)"

definition evidence_grows :: "db \<Rightarrow> db \<Rightarrow> bool" where
  "evidence_grows d d' \<longleftrightarrow>
     keeps_rows (validations d) (validations d') \<and> keeps_rows (reviews d) (reviews d')
     \<and> keeps_rows (architect_decisions d) (architect_decisions d') \<and> keeps_rows (deliveries d) (deliveries d')
     \<and> (\<forall>i c. get_row (candidates d) i = Some c \<longrightarrow>
           (\<exists>c'. get_row (candidates d') i = Some c' \<and> candidate_evolves c c'))
     \<and> (\<forall>i. get_row (ticket_attempts d) i \<noteq> None \<longrightarrow> get_row (ticket_attempts d') i \<noteq> None)"

lemma keeps_rows_refl [simp]: "keeps_rows t t"
  by (simp add: keeps_rows_def)

lemma keeps_rows_insert [simp]: "table_ok t \<Longrightarrow> keeps_rows t (insert_row r t)"
  by (auto simp: keeps_rows_def tbl.get_ins_old)

lemma keeps_rowsD: "keeps_rows t t' \<Longrightarrow> get_row t i = Some r \<Longrightarrow> get_row t' i = Some r"
  by (simp add: keeps_rows_def)

lemma review_backed_keeps:
  "keeps_rows (validations d) (validations d') \<Longrightarrow> review_backed d r \<Longrightarrow> review_backed d' r"
  by (auto simp: review_backed_def dest!: keeps_rowsD)

lemma decision_backed_keeps:
  "keeps_rows (reviews d) (reviews d') \<Longrightarrow> decision_backed d x \<Longrightarrow> decision_backed d' x"
  by (fastforce simp: decision_backed_def dest: keeps_rowsD)

lemma candidate_evolves_refl [simp]: "candidate_evolves c c"
  by (simp add: candidate_evolves_def)

lemma candidate_evolves_fields:
  "candidate_evolves c c' \<Longrightarrow> cr_candidate_tree c' = cr_candidate_tree c"
  "candidate_evolves c c' \<Longrightarrow> cr_ticket_attempt_id c' = cr_ticket_attempt_id c"
  "candidate_evolves c c' \<Longrightarrow> cr_engineering_session_id c' = cr_engineering_session_id c"
  unfolding candidate_evolves_def by (cases c; cases c'; simp)+

lemma exists_row_keeps:
  assumes "table_ok t" "table_ok t'" "keeps_rows t t'" "exists_row p t"
  shows "exists_row p t'"
  using assms by (auto simp: tbl.ex_get keeps_rows_def)

lemma evidence_grows_refl [simp]: "evidence_grows d d"
  using candidate_evolves_refl by (auto simp: evidence_grows_def)

lemma evidence_grows_passed:
  assumes "tables_ok d" "tables_ok d'" "evidence_grows d d'"
  shows "validation_passed d i s \<Longrightarrow> validation_passed d' i s"
    and "deliver_decision_exists d i \<Longrightarrow> deliver_decision_exists d' i"
    and "exists_row p (deliveries d) \<Longrightarrow> exists_row p (deliveries d')"
  using assms exists_row_keeps
  by (auto simp: validation_passed_def deliver_decision_exists_def evidence_grows_def tables_ok_def)

lemma candidate_backed_grows:
  assumes "tables_ok d" "tables_ok d'" "evidence_grows d d'" "candidate_backed d i c"
  shows "candidate_backed d' i c"
  using assms evidence_grows_passed [OF assms(1-3)]
  unfolding candidate_backed_def evidence_grows_def by blast

text \<open>
  A transition that lets evidence grow keeps the chain if the rows it wrote are backed: the old ones
  stay backed.
\<close>

lemma evidence_chain_step:
  assumes "tables_ok d" "tables_ok d'" "evidence_chain d" and grows: "evidence_grows d d'"
    and c: "\<And>i c. get_row (candidates d') i = Some c \<Longrightarrow> get_row (candidates d) i \<noteq> Some c \<Longrightarrow> candidate_backed d' i c"
    and v: "\<And>i v. get_row (validations d') i = Some v \<Longrightarrow> get_row (validations d) i \<noteq> Some v \<Longrightarrow> validation_backed d' v"
    and r: "\<And>i r. get_row (reviews d') i = Some r \<Longrightarrow> get_row (reviews d) i \<noteq> Some r \<Longrightarrow> review_backed d' r"
    and x: "\<And>i x. get_row (architect_decisions d') i = Some x \<Longrightarrow> get_row (architect_decisions d) i \<noteq> Some x
              \<Longrightarrow> decision_backed d' x"
    and l: "\<And>i l. get_row (deliveries d') i = Some l \<Longrightarrow> get_row (deliveries d) i \<noteq> Some l \<Longrightarrow> delivery_backed d' l"
  shows "evidence_chain d'"
  unfolding evidence_chain_def
proof (intro conjI allI impI)
  note chain = assms(3) [unfolded evidence_chain_def]
  fix i
  show "candidate_backed d' i c" if "get_row (candidates d') i = Some c" for c
    using that c chain candidate_backed_grows [OF assms(1,2) grows] by blast
  show "validation_backed d' v" if new: "get_row (validations d') i = Some v" for v
  proof (cases "get_row (validations d) i = Some v")
    case True
    then obtain cc where "get_row (candidates d) (va_candidate_id v) = Some cc" "cr_candidate_tree cc = va_pristine_tree v"
      using chain unfolding validation_backed_def by blast
    then show ?thesis using grows candidate_evolves_fields(1)
      unfolding evidence_grows_def validation_backed_def by metis
  qed (use v new in blast)
  show "review_backed d' r" if new: "get_row (reviews d') i = Some r" for r
    using new r chain grows review_backed_keeps unfolding evidence_grows_def by blast
  show "decision_backed d' x" if new: "get_row (architect_decisions d') i = Some x" for x
    using new x chain grows decision_backed_keeps unfolding evidence_grows_def by blast
  show "delivery_backed d' l" if new: "get_row (deliveries d') i = Some l" for l
  proof (cases "get_row (deliveries d) i = Some l")
    case True
    then obtain cc where cc: "get_row (candidates d) (dl_candidate_id l) = Some cc" "cr_lifecycle cc = CANDIDATE_DELIVERED"
      "cr_commit cc = Some (dl_candidate_commit l)" "cr_candidate_tree cc = dl_resulting_tree l"
      "cr_base_commit cc = dl_expected_old_commit l"
      using chain unfolding delivery_backed_def by blast
    then have "get_row (candidates d') (dl_candidate_id l) = Some cc"
      using grows unfolding evidence_grows_def candidate_evolves_def by metis
    then show ?thesis using cc by (auto simp: delivery_backed_def)
  qed (use l new in blast)
qed

section \<open>What a committed transition read and wrote\<close>

lemma load_candidate_ok:
  assumes "load_candidate d i = Inr v"
  shows "\<exists>c. get_row (candidates d) i = Some c \<and> v = \<lparr>cv_id = i, cv_ticket_attempt_id = cr_ticket_attempt_id c,
     cv_base_commit = cr_base_commit c, cv_candidate_tree = cr_candidate_tree c, cv_lifecycle = cr_lifecycle c,
     cv_revision = word_of_int (cr_revision c), cv_candidate_commit = cr_commit c\<rparr>"
  using assms by (auto simp: load_candidate_def revision_from_sql_def identifier_new_def split: if_splits)

lemma load_candidateE:
  assumes "load_candidate d i = Inr v"
  obtains c where "get_row (candidates d) i = Some c" "cr_ticket_attempt_id c = cv_ticket_attempt_id v"
    "cr_base_commit c = cv_base_commit v" "cr_candidate_tree c = cv_candidate_tree v"
    "cr_lifecycle c = cv_lifecycle v" "cr_commit c = cv_candidate_commit v"
proof -
  from load_candidate_ok [OF assms] obtain c where c: "get_row (candidates d) i = Some c"
    and v: "v = \<lparr>cv_id = i, cv_ticket_attempt_id = cr_ticket_attempt_id c,
     cv_base_commit = cr_base_commit c, cv_candidate_tree = cr_candidate_tree c, cv_lifecycle = cr_lifecycle c,
     cv_revision = word_of_int (cr_revision c), cv_candidate_commit = cr_commit c\<rparr>" by blast
  show thesis by (rule that [OF c]) (simp_all only: v candidate_view.simps)
qed

lemma lock_candidate_attempt_id: "lock_candidate_attempt d i = Inr a \<Longrightarrow> at_id a = i \<and> get_row (ticket_attempts d) i \<noteq> None"
  by (auto simp: lock_candidate_attempt_def Let_def identifier_new_def split: if_splits)

lemma decode_candidate_state_code:
  "decode_candidate_state v = Inr CandidateSubmitted \<longleftrightarrow> v = CANDIDATE_SUBMITTED"
  "decode_candidate_state v = Inr CandidateValidated \<longleftrightarrow> v = CANDIDATE_VALIDATED"
  "decode_candidate_state v = Inr CandidateAccepted \<longleftrightarrow> v = CANDIDATE_ACCEPTED"
  by (auto simp: decode_candidate_state_def)

lemma submit_candidate_freshE:
  assumes "submit_candidate_fresh fp now c d = Inr (r, d')"
  obtains attempt ra where
    "lock_candidate_attempt d (sc_ticket_attempt_id c) = Inr attempt"
    "at_ticket_state attempt = TicketInFlight"
    "at_stage attempt = ATTEMPT_ENGINEERING \<or> at_stage attempt = ATTEMPT_REWORK_ENGINEERING"
    "sc_base_commit c = at_claimed_commit attempt" "sc_base_tree c = at_claimed_tree attempt"
    "candidate_row_ok d (candidate_row_of c attempt now)"
    "candidates d' = insert_row (candidate_row_of c attempt now) (candidates d)"
    "ticket_attempts d' = update_row (sc_ticket_attempt_id c) (\<lambda>a. a\<lparr>
                   ta_candidate_ordinal := at_candidate_ordinal attempt + 1,
                   ta_stage := (if at_stage attempt = ATTEMPT_ENGINEERING then ATTEMPT_HARD_VALIDATION
                             else ATTEMPT_REWORK_VALIDATION), ta_revision := ra\<rparr>) (ticket_attempts d)"
    "validations d' = validations d" "reviews d' = reviews d"
    "architect_decisions d' = architect_decisions d" "deliveries d' = deliveries d"
proof -
  show thesis using assms unfolding submit_candidate_fresh_def Let_def
    apply (clarsimp simp: insert_audit_def require_ticket_state_def split: prod.splits dest!: insert_audit_entry_ok(4))
    apply (rule that)
    apply assumption
    apply auto
    done
qed

lemma record_validation_freshE:
  assumes "record_validation_fresh fp now c d = Inr (r, d')"
  obtains cv attempt row rc ra where
    "load_candidate d (rv_candidate_id c) = Inr cv"
    "lock_candidate_attempt d (cv_ticket_attempt_id cv) = Inr attempt"
    "at_ticket_state attempt = TicketInFlight"
    "decode_candidate_state (cv_lifecycle cv) = Inr (required_candidate_state (rv_scope c))"
    "at_stage attempt = required_stage (rv_scope c) (at_stage attempt)"
    "rv_pristine_tree c = cv_candidate_tree cv"
    "\<not> validation_exists d (rv_candidate_id c) (rv_scope c)"
    "va_candidate_id row = rv_candidate_id c" "va_scope row = scope_code (rv_scope c)"
    "va_pristine_tree row = rv_pristine_tree c" "va_lifecycle row = result_code (rv_result c)"
    "validations d' = insert_row row (validations d)"
    "candidates d' = update_row (rv_candidate_id c)
        (\<lambda>x. x\<lparr>cr_lifecycle := fst (validation_successor (rv_result c) (rv_scope c) (at_stage attempt)),
              cr_revision := rc\<rparr>) (candidates d)"
    "ticket_attempts d' = update_row (at_id attempt) (\<lambda>a. a\<lparr>
        ta_stage := snd (validation_successor (rv_result c) (rv_scope c) (at_stage attempt)),
        ta_revision := ra,
        ta_failed := (if snd (validation_successor (rv_result c) (rv_scope c) (at_stage attempt)) = ATTEMPT_FAILED
                      then Some (now, ''hard validation did not pass'') else ta_failed a)\<rparr>) (ticket_attempts d)"
    "reviews d' = reviews d" "architect_decisions d' = architect_decisions d" "deliveries d' = deliveries d"
proof -
  show thesis using assms unfolding record_validation_fresh_def load_candidate_for_update_def Let_def
    apply (clarsimp simp: insert_audit_def require_ticket_state_def require_candidate_state_def case_prod_unfold
        dest!: insert_audit_entry_ok(4))
    apply (rule that)
    apply assumption
    apply assumption
    apply auto
    done
qed

lemma attach_candidate_commit_freshE:
  assumes "attach_candidate_commit_fresh fp c d = Inr (r, d')"
  obtains cv attempt rc where
    "load_candidate d (ac_candidate_id c) = Inr cv"
    "cv_lifecycle cv = CANDIDATE_VALIDATED" "cv_candidate_commit cv = None"
    "validation_passed d (ac_candidate_id c) HardCandidate"
    "lock_candidate_attempt d (cv_ticket_attempt_id cv) = Inr attempt"
    "candidate_ref_matches (at_ticket_id attempt) (ac_candidate_id c) (ac_candidate_ref c)"
    "candidates d' = update_row (ac_candidate_id c) (\<lambda>x. x\<lparr>cr_commit := Some (ac_candidate_commit c),
        cr_ref := Some (ac_candidate_ref c), cr_revision := rc\<rparr>) (candidates d)"
    "ticket_attempts d' = ticket_attempts d" "validations d' = validations d" "reviews d' = reviews d"
    "architect_decisions d' = architect_decisions d" "deliveries d' = deliveries d"
proof -
  show thesis using assms unfolding attach_candidate_commit_fresh_def load_candidate_for_update_def Let_def
    apply (clarsimp simp: insert_audit_def require_candidate_state_def decode_candidate_state_code
        split: prod.splits dest!: insert_audit_entry_ok(4))
    apply (rule that)
    apply assumption
    apply auto
    done
qed

lemma submit_quality_review_freshE:
  assumes "submit_quality_review_fresh fp c d = Inr (r, d')"
  obtains cv attempt qv row rc ra where
    "load_candidate d (qr_candidate_id c) = Inr cv"
    "cv_lifecycle cv = CANDIDATE_VALIDATED" "cv_candidate_commit cv \<noteq> None"
    "lock_candidate_attempt d (cv_ticket_attempt_id cv) = Inr attempt"
    "at_stage attempt = ATTEMPT_AWAITING_ARCHITECT"
    "load_quality_validation d (full_suite_validation_id (qr_submission c)) (qr_candidate_id c) = Inr qv"
    "vv_lifecycle qv = VALIDATION_PASSED" "vv_pristine_tree qv = cv_candidate_tree cv"
    "re_candidate_id row = qr_candidate_id c"
    "re_full_suite_validation_id row = full_suite_validation_id (qr_submission c)"
    "re_verdict row = review_verdict_code (verdict (qr_submission c))"
    "review_row_ok d row"
    "reviews d' = insert_row row (reviews d)"
    "candidates d' = update_row (qr_candidate_id c) (\<lambda>x. x\<lparr>cr_revision := rc\<rparr>) (candidates d)"
    "ticket_attempts d' = update_row (at_id attempt) (\<lambda>a. a\<lparr>
        ta_stage := ATTEMPT_AWAITING_ARCHITECT, ta_revision := ra\<rparr>) (ticket_attempts d)"
    "validations d' = validations d" "architect_decisions d' = architect_decisions d" "deliveries d' = deliveries d"
proof -
  show thesis using assms unfolding submit_quality_review_fresh_def load_candidate_for_update_def Let_def
    apply (clarsimp simp: insert_audit_def require_candidate_state_def decode_candidate_state_code case_prod_unfold
        dest!: insert_audit_entry_ok(4))
    apply (rule that)
    apply assumption
    apply auto
    done
qed

lemma insert_decision_ok:
  "insert_decision d k tr ta cid rid ra p ov now = Inr (i, d') \<longleftrightarrow>
     (let row = \<lparr>de_kind = k, de_ticket_revision_id = tr, de_ticket_attempt_id = ta, de_candidate_id = cid,
                 de_review_id = rid, de_rationale_artifact_id = ra, de_principal = p,
                 de_overrides_quality_rejection = ov, de_created_at = now\<rparr>
      in decision_row_ok row \<and> i = next_id (architect_decisions d)
         \<and> d' = d\<lparr>architect_decisions := insert_row row (architect_decisions d)\<rparr>)"
  by (auto simp: insert_decision_def Let_def)

lemma update_ticket_state_frame:
  assumes "(if b then update_ticket_state d a s nxt sr br now else Inr d) = Inr d'"
  shows "candidates d' = candidates d \<and> ticket_attempts d' = ticket_attempts d \<and> validations d' = validations d
    \<and> reviews d' = reviews d \<and> architect_decisions d' = architect_decisions d \<and> deliveries d' = deliveries d
    \<and> campaigns d' = campaigns d \<and> audit_log d' = audit_log d"
  using assms by (auto simp: update_ticket_state_def update_ticket_state_parts_def split: if_splits)

lemma sponsor_ticket_freshE:
  assumes "sponsor_ticket_fresh fp now c d = Inr (r, d')"
  obtains tv row where
    "lock_ticket_revision_state d (sd_ticket_revision_id (st_decision c)) = Inr tv"
    "tv_ticket_state tv = TicketProposed \<or> tv_ticket_state tv = TicketBlocked"
    "de_kind row = DECISION_SPONSOR"
    "architect_decisions d' = insert_row row (architect_decisions d)"
    "candidates d' = candidates d" "ticket_attempts d' = ticket_attempts d" "validations d' = validations d"
    "reviews d' = reviews d" "deliveries d' = deliveries d"
proof -
  show thesis using assms unfolding sponsor_ticket_fresh_def Let_def
    apply (clarsimp simp: insert_audit_def insert_decision_ok Let_def case_prod_unfold update_ticket_state_parts_def
        require_sponsorable_ticket_state_def dest!: insert_audit_entry_ok(4))
    apply (rule that)
    apply assumption
    apply auto
    done
qed

lemma release_freshE:
  assumes "release_fresh fp now c d = Inr (r, d')"
  obtains attempt cl row ra where
    "lock_candidate_attempt d (rd_ticket_attempt_id (rl_decision c)) = Inr attempt"
    "at_ticket_state attempt = TicketInFlight" "\<not> at_released attempt"
    "at_stage attempt = ATTEMPT_FAILED \<or> at_stage attempt = ATTEMPT_CANCELLED"
    "classify_requalification d attempt (rl_requalification c) = Inr cl"
    "le_outcome r = fst (release_transition cl)"
    "de_kind row = DECISION_RELEASE"
    "architect_decisions d' = insert_row row (architect_decisions d)"
    "ticket_attempts d' = update_row (at_id attempt) (\<lambda>a. a\<lparr>
       ta_released := Some (now, decision_reason (next_id (architect_decisions d))), ta_revision := ra\<rparr>)
       (ticket_attempts d)"
    "candidates d' = candidates d" "validations d' = validations d"
    "reviews d' = reviews d" "deliveries d' = deliveries d"
proof -
  show thesis using assms unfolding release_fresh_def Let_def
    apply (clarsimp simp: insert_audit_def insert_decision_ok Let_def case_prod_unfold
        update_ticket_requalification_def require_ticket_state_def dest!: insert_audit_entry_ok(4))
    apply (rule that)
    apply assumption
    apply auto
    done
qed

lemma decide_candidate_freshE:
  assumes "decide_candidate_fresh fp now c d = Inr (r, d')"
  obtains cv attempt rv row rc ra where
    "load_candidate d (cd_candidate_id (dc_request c)) = Inr cv"
    "cv_lifecycle cv = CANDIDATE_VALIDATED" "cv_candidate_commit cv \<noteq> None"
    "lock_candidate_attempt d (cv_ticket_attempt_id cv) = Inr attempt"
    "at_ticket_state attempt = TicketInFlight"
    "at_stage attempt = ATTEMPT_AWAITING_ARCHITECT"
    "validation_passed d (cd_candidate_id (dc_request c)) HardCandidate"
    "validation_passed d (cd_candidate_id (dc_request c)) QualityFullSuite"
    "load_review d (cd_review_id (dc_request c)) = Inr rv"
    "rw_candidate_id rv = cd_candidate_id (dc_request c)"
    "cd_decision (dc_request c) = Deliver \<Longrightarrow>
       rw_verdict rv = REVIEW_REJECT \<longleftrightarrow> quality_rejection_override (dc_request c) = Some (cd_review_id (dc_request c))"
    "cd_decision (dc_request c) \<noteq> Deliver \<Longrightarrow> quality_rejection_override (dc_request c) = None"
    "cd_decision (dc_request c) = Rework \<Longrightarrow> at_rework_ordinal attempt = 0"
    "de_kind row = decision_code (cd_decision (dc_request c))"
    "de_candidate_id row = Some (cd_candidate_id (dc_request c))" "de_review_id row = Some (cd_review_id (dc_request c))"
    "de_overrides_quality_rejection row \<longleftrightarrow> rw_verdict rv = REVIEW_REJECT" "decision_row_ok row"
    "architect_decisions d' = insert_row row (architect_decisions d)"
    "candidates d' = update_row (cd_candidate_id (dc_request c))
        (\<lambda>x. x\<lparr>cr_lifecycle := fst (decision_transition (cd_decision (dc_request c))), cr_revision := rc\<rparr>) (candidates d)"
    "ticket_attempts d' = update_row (at_id attempt) (\<lambda>a. a\<lparr>
        ta_stage := snd (decision_transition (cd_decision (dc_request c))),
        ta_rework_ordinal := ta_rework_ordinal a + (if cd_decision (dc_request c) = Rework then 1 else 0),
        ta_failed := (if snd (decision_transition (cd_decision (dc_request c))) = ATTEMPT_FAILED
                      then Some (now, ''architect rejected reviewed candidate'') else ta_failed a),
        ta_revision := ra\<rparr>) (ticket_attempts d)"
    "validations d' = validations d" "reviews d' = reviews d" "deliveries d' = deliveries d"
proof -
  show thesis using assms unfolding decide_candidate_fresh_def load_candidate_for_update_def Let_def
    apply (clarsimp simp: insert_audit_def insert_decision_ok Let_def case_prod_unfold require_ticket_state_def
        require_candidate_state_def decode_candidate_state_code require_hard_and_quality_validation_def
        dest!: insert_audit_entry_ok(4) update_ticket_state_frame)
    apply (rule that)
    apply assumption
    apply (auto split: if_splits)
    done
qed

lemma record_delivery_freshE:
  assumes "record_delivery_fresh fp now c d = Inr (r, d')"
  obtains cv attempt campaign row rc ra where
    "load_candidate d (dv_candidate_id c) = Inr cv"
    "cv_lifecycle cv = CANDIDATE_ACCEPTED"
    "cv_candidate_commit cv = Some (dv_candidate_commit c)"
    "cv_base_commit cv = dv_expected_old_commit c" "cv_candidate_tree cv = dv_resulting_tree c"
    "lock_candidate_attempt d (cv_ticket_attempt_id cv) = Inr attempt"
    "at_ticket_state attempt = TicketInFlight"
    "at_stage attempt = ATTEMPT_AWAITING_ARCHITECT"
    "deliver_decision_exists d (dv_candidate_id c)"
    "lock_campaign d (at_campaign_id attempt) = Inr campaign"
    "cm_lifecycle campaign = CAMPAIGN_RUNNING" "cm_cost_state campaign = COST_KNOWN"
    "dv_factory_cost_micro_usd c = cm_factory_cost_micro_usd campaign"
    "\<not> paid_session_active d"
    "dy_campaign_completed r \<longleftrightarrow>
       cm_delivery_target campaign \<le> delivered_attempt_count d (at_campaign_id attempt) + 1"
    "dl_candidate_id row = dv_candidate_id c" "dl_candidate_commit row = dv_candidate_commit c"
    "dl_expected_old_commit row = dv_expected_old_commit c" "dl_resulting_tree row = dv_resulting_tree c"
    "delivery_row_ok d row"
    "deliveries d' = insert_row row (deliveries d)"
    "candidates d' = update_row (dv_candidate_id c)
        (\<lambda>x. x\<lparr>cr_lifecycle := CANDIDATE_DELIVERED, cr_revision := rc\<rparr>) (candidates d)"
    "ticket_attempts d' = update_row (at_id attempt)
        (\<lambda>a. a\<lparr>ta_stage := ATTEMPT_DELIVERED, ta_revision := ra\<rparr>) (ticket_attempts d)"
    "validations d' = validations d" "reviews d' = reviews d" "architect_decisions d' = architect_decisions d"
proof -
  show thesis using assms unfolding record_delivery_fresh_def load_candidate_for_update_def Let_def
    apply (clarsimp simp: insert_audit_def case_prod_unfold
        update_ticket_state_def update_ticket_state_parts_def require_ticket_state_def
        require_candidate_state_def decode_candidate_state_code
        dest!: insert_audit_entry_ok(4))
    apply (rule that)
    apply assumption
    apply (auto split: if_splits)
    done
qed

section \<open>Every transition ends with its audit row\<close>

lemmas fresh_unfold = Let_def case_prod_unfold insert_audit_def insert_decision_ok update_ticket_state_def
  update_ticket_state_parts_def update_ticket_requalification_def

lemma submit_candidate_fresh_audit:
  "submit_candidate_fresh fp now c d = Inr (r, d') \<Longrightarrow>
     \<not> cr_receipt_was_idempotent_retry r \<and> audit_commits d (sc_principal c) (sc_command_id c) CANDIDATE_SUBMIT_OPERATION fp d'"
  unfolding submit_candidate_fresh_def
  by (clarsimp simp: fresh_unfold) (auto split: if_splits elim!: audit_commits_insert)

lemma record_validation_fresh_audit:
  "record_validation_fresh fp now c d = Inr (r, d') \<Longrightarrow>
     \<not> vr_was_idempotent_retry r \<and> audit_commits d (rv_principal c) (rv_command_id c) VALIDATION_RECORD_OPERATION fp d'"
  unfolding record_validation_fresh_def
  by (clarsimp simp: fresh_unfold) (auto split: if_splits elim!: audit_commits_insert)

lemma attach_candidate_commit_fresh_audit:
  "attach_candidate_commit_fresh fp c d = Inr (r, d') \<Longrightarrow>
     \<not> cr_receipt_was_idempotent_retry r \<and> audit_commits d (ac_principal c) (ac_command_id c) CANDIDATE_COMMIT_ATTACH_OPERATION fp d'"
  unfolding attach_candidate_commit_fresh_def
  by (clarsimp simp: fresh_unfold) (auto split: if_splits elim!: audit_commits_insert)

lemma submit_quality_review_fresh_audit:
  "submit_quality_review_fresh fp c d = Inr (r, d') \<Longrightarrow>
     \<not> rr_was_idempotent_retry r \<and> audit_commits d (qr_principal c) (qr_command_id c) REVIEW_SUBMIT_OPERATION fp d'"
  unfolding submit_quality_review_fresh_def
  by (clarsimp simp: fresh_unfold) (auto split: if_splits elim!: audit_commits_insert)

lemma sponsor_ticket_fresh_audit:
  "sponsor_ticket_fresh fp now c d = Inr (r, d') \<Longrightarrow>
     \<not> sp_was_idempotent_retry r \<and> audit_commits d (sd_principal (st_decision c)) (st_command_id c) SPONSOR_OPERATION fp d'"
  unfolding sponsor_ticket_fresh_def
  by (clarsimp simp: fresh_unfold) (auto split: if_splits elim!: audit_commits_insert)

lemma release_fresh_audit:
  "release_fresh fp now c d = Inr (r, d') \<Longrightarrow>
     \<not> le_was_idempotent_retry r \<and> audit_commits d (rd_principal (rl_decision c)) (rl_command_id c) RELEASE_OPERATION fp d'"
  unfolding release_fresh_def
  by (clarsimp simp: fresh_unfold) (auto split: if_splits elim!: audit_commits_insert)

lemma decide_candidate_fresh_audit:
  "decide_candidate_fresh fp now c d = Inr (r, d') \<Longrightarrow>
     \<not> dr_was_idempotent_retry r \<and> audit_commits d (cd_principal (dc_request c)) (dc_command_id c) CANDIDATE_DECIDE_OPERATION fp d'"
  unfolding decide_candidate_fresh_def
  by (clarsimp simp: Let_def case_prod_unfold insert_audit_def insert_decision_ok dest!: update_ticket_state_frame)
    (auto elim!: audit_commits_insert)

lemma record_delivery_fresh_audit:
  "record_delivery_fresh fp now c d = Inr (r, d') \<Longrightarrow>
     \<not> dy_was_idempotent_retry r \<and> audit_commits d (dv_principal c) (dv_command_id c) DELIVERY_RECORD_OPERATION fp d'"
  unfolding record_delivery_fresh_def
  by (clarsimp simp: fresh_unfold) (auto split: if_splits elim!: audit_commits_insert)

section \<open>Well-formed tables\<close>

lemma submit_candidate_fresh_tables:
  "submit_candidate_fresh fp now c d = Inr (r, d') \<Longrightarrow> tables_ok d \<Longrightarrow> tables_ok d'"
  unfolding submit_candidate_fresh_def tables_ok_def
  by (clarsimp simp: fresh_unfold dest!: insert_audit_entry_ok(4)) (auto simp: table_simps split: if_splits)

lemma record_validation_fresh_tables:
  "record_validation_fresh fp now c d = Inr (r, d') \<Longrightarrow> tables_ok d \<Longrightarrow> tables_ok d'"
  unfolding record_validation_fresh_def tables_ok_def
  by (clarsimp simp: fresh_unfold dest!: insert_audit_entry_ok(4)) (auto simp: table_simps split: if_splits)

lemma attach_candidate_commit_fresh_tables:
  "attach_candidate_commit_fresh fp c d = Inr (r, d') \<Longrightarrow> tables_ok d \<Longrightarrow> tables_ok d'"
  unfolding attach_candidate_commit_fresh_def tables_ok_def
  by (clarsimp simp: fresh_unfold dest!: insert_audit_entry_ok(4)) (auto simp: table_simps split: if_splits)

lemma submit_quality_review_fresh_tables:
  "submit_quality_review_fresh fp c d = Inr (r, d') \<Longrightarrow> tables_ok d \<Longrightarrow> tables_ok d'"
  unfolding submit_quality_review_fresh_def tables_ok_def
  by (clarsimp simp: fresh_unfold dest!: insert_audit_entry_ok(4)) (auto simp: table_simps split: if_splits)

lemma sponsor_ticket_fresh_tables:
  "sponsor_ticket_fresh fp now c d = Inr (r, d') \<Longrightarrow> tables_ok d \<Longrightarrow> tables_ok d'"
  unfolding sponsor_ticket_fresh_def tables_ok_def
  by (clarsimp simp: fresh_unfold dest!: insert_audit_entry_ok(4)) (auto simp: table_simps split: if_splits)

lemma release_fresh_tables:
  "release_fresh fp now c d = Inr (r, d') \<Longrightarrow> tables_ok d \<Longrightarrow> tables_ok d'"
  unfolding release_fresh_def tables_ok_def
  by (clarsimp simp: fresh_unfold dest!: insert_audit_entry_ok(4)) (auto simp: table_simps split: if_splits)

lemma update_ticket_state_tables:
  "(if b then update_ticket_state d a s nxt sr br now else Inr d) = Inr d' \<Longrightarrow> tables_ok d \<Longrightarrow> tables_ok d'"
  by (auto simp: update_ticket_state_def update_ticket_state_parts_def tables_ok_def table_simps split: if_splits)

lemma insert_audit_tables: "insert_audit_entry e e' d p c op fp k s r = Inr (i, d') \<Longrightarrow> tables_ok d \<Longrightarrow> tables_ok d'"
  by (auto simp: tables_ok_def table_simps dest!: insert_audit_entry_ok(4))

lemma decide_candidate_fresh_tables:
  "decide_candidate_fresh fp now c d = Inr (r, d') \<Longrightarrow> tables_ok d \<Longrightarrow> tables_ok d'"
  unfolding decide_candidate_fresh_def
  by (clarsimp simp: Let_def case_prod_unfold insert_audit_def insert_decision_ok)
    (erule insert_audit_tables, erule update_ticket_state_tables, simp add: tables_ok_def table_simps)

lemma record_delivery_fresh_tables:
  "record_delivery_fresh fp now c d = Inr (r, d') \<Longrightarrow> tables_ok d \<Longrightarrow> tables_ok d'"
  unfolding record_delivery_fresh_def tables_ok_def
  by (clarsimp simp: fresh_unfold dest!: insert_audit_entry_ok(4)) (auto simp: table_simps split: if_splits)

section \<open>Every transition keeps the invariant and lets evidence grow\<close>

lemma rows_survive_update: "get_row t j \<noteq> None \<Longrightarrow> get_row (update_row i f t) j \<noteq> None"
  by (simp add: tbl.get_upd)

text \<open>The two ways a transition touches candidates: it leaves them, or it moves one of them.\<close>

lemma evidence_grows_same:
  assumes "candidates d' = candidates d"
    and "keeps_rows (validations d) (validations d')" "keeps_rows (reviews d) (reviews d')"
    and "keeps_rows (architect_decisions d) (architect_decisions d')" "keeps_rows (deliveries d) (deliveries d')"
    and "\<And>i. get_row (ticket_attempts d) i \<noteq> None \<Longrightarrow> get_row (ticket_attempts d') i \<noteq> None"
  shows "evidence_grows d d'"
  using assms candidate_evolves_refl by (auto simp: evidence_grows_def)

lemma evidence_grows_move:
  assumes "candidates d' = update_row i f (candidates d)" "get_row (candidates d) i = Some c" "candidate_evolves c (f c)"
    and "keeps_rows (validations d) (validations d')" "keeps_rows (reviews d) (reviews d')"
    and "keeps_rows (architect_decisions d) (architect_decisions d')" "keeps_rows (deliveries d) (deliveries d')"
    and "\<And>i. get_row (ticket_attempts d) i \<noteq> None \<Longrightarrow> get_row (ticket_attempts d') i \<noteq> None"
  shows "evidence_grows d d'"
  using assms candidate_evolves_refl by (auto simp: evidence_grows_def tbl.get_upd)

lemma evidence_grows_add:
  assumes "candidates d' = insert_row c (candidates d)" "table_ok (candidates d)"
    and "keeps_rows (validations d) (validations d')" "keeps_rows (reviews d) (reviews d')"
    and "keeps_rows (architect_decisions d) (architect_decisions d')" "keeps_rows (deliveries d) (deliveries d')"
    and "\<And>i. get_row (ticket_attempts d) i \<noteq> None \<Longrightarrow> get_row (ticket_attempts d') i \<noteq> None"
  shows "evidence_grows d d'"
  using assms candidate_evolves_refl tbl.get_ins_old [OF assms(2)]
  by (auto simp: evidence_grows_def intro!: exI)

lemma candidate_moves:
  "cr_lifecycle c \<noteq> CANDIDATE_DELIVERED \<Longrightarrow> candidate_evolves c (c\<lparr>cr_lifecycle := l, cr_revision := r\<rparr>)"
  "cr_lifecycle c \<noteq> CANDIDATE_DELIVERED \<Longrightarrow> candidate_evolves c (c\<lparr>cr_revision := r\<rparr>)"
  "cr_lifecycle c \<noteq> CANDIDATE_DELIVERED \<Longrightarrow> cr_commit c = None \<Longrightarrow>
     candidate_evolves c (c\<lparr>cr_commit := Some x, cr_ref := y, cr_revision := r\<rparr>)"
  by (cases c; simp add: candidate_evolves_def)+

lemma candidate_keys_update:
  assumes "unique_key (get_row (candidates d)) key" "get_row (candidates d) i = Some c" "key (f c) = key c"
  shows "unique_key (get_row (update_row i f (candidates d))) key"
  using tbl.unique_key_upd [of "candidates d" key i f] assms by simp

lemma get_insert_iff:
  "table_ok t \<Longrightarrow> get_row (insert_row r t) i = Some x \<Longrightarrow> get_row t i \<noteq> Some x \<Longrightarrow> i = next_id t \<and> x = r"
  by (auto simp: tbl.get_ins split: if_splits)

lemma get_update_iff:
  "get_row (update_row i f t) j = Some x \<Longrightarrow> get_row t j \<noteq> Some x \<Longrightarrow> j = i \<and> (\<exists>c. get_row t i = Some c \<and> x = f c)"
  by (auto simp: tbl.get_upd split: if_splits)

lemma submit_candidate_fresh_grows:
  assumes "submit_candidate_fresh fp now c d = Inr (r, d')" "tables_ok d"
  shows "evidence_grows d d'"
  using assms(1)
proof (rule submit_candidate_freshE)
qed (rule evidence_grows_add, assumption, use assms(2) in \<open>simp_all add: tables_ok_def rows_survive_update\<close>)

lemma submit_candidate_fresh_inv:
  assumes fresh: "submit_candidate_fresh fp now c d = Inr (r, d')" and inv: "evidence_inv d"
  shows "evidence_grows d d' \<and> evidence_inv d'"
  using fresh
proof (rule submit_candidate_freshE)
  fix attempt ra
  let ?row = "candidate_row_of c attempt now"
  assume at: "lock_candidate_attempt d (sc_ticket_attempt_id c) = Inr attempt"
    and ok: "candidate_row_ok d ?row"
    and cand: "candidates d' = insert_row ?row (candidates d)"
    and ta: "ticket_attempts d' = update_row (sc_ticket_attempt_id c) (\<lambda>a. a\<lparr>
                   ta_candidate_ordinal := at_candidate_ordinal attempt + 1,
                   ta_stage := (if at_stage attempt = ATTEMPT_ENGINEERING then ATTEMPT_HARD_VALIDATION
                             else ATTEMPT_REWORK_VALIDATION), ta_revision := ra\<rparr>) (ticket_attempts d)"
    and same: "validations d' = validations d" "reviews d' = reviews d"
      "architect_decisions d' = architect_decisions d" "deliveries d' = deliveries d"
  have tabs: "tables_ok d" "tables_ok d'"
    using inv submit_candidate_fresh_tables [OF fresh] by (simp_all add: evidence_inv_def)
  then have cok: "table_ok (candidates d)" by (simp add: tables_ok_def)
  have "candidate_backed d' i ?row" for i
    using lock_candidate_attempt_id [OF at]
    by (auto simp: candidate_backed_def candidate_row_of_def ta tbl.get_upd)
  then have "evidence_chain d'"
    using inv submit_candidate_fresh_grows [OF fresh tabs(1)] tabs same get_insert_iff [OF cok]
    by (intro evidence_chain_step [of d d']) (auto simp: evidence_inv_def cand)
  moreover have "evidence_keys d'"
    using inv ok cok by (auto simp: evidence_inv_def evidence_keys_def same cand candidate_row_ok_def
        intro!: tbl.unique_key_ins)
  ultimately show ?thesis using tabs submit_candidate_fresh_grows [OF fresh] by (simp add: evidence_inv_def)
qed

text \<open>
  The common shape of the other transitions: one candidate moves, at most one row joins each of the
  other evidence tables.
\<close>

lemma evidence_inv_move:
  assumes inv: "evidence_inv d" and tabs: "tables_ok d'" and grows: "evidence_grows d d'"
    and cand: "candidates d' = update_row i f (candidates d)" "get_row (candidates d) i = Some c"
    and backed: "candidate_backed d' i (f c)" and evolves: "candidate_evolves c (f c)"
    and v: "validations d' = validations d \<or> validations d' = insert_row v (validations d)
       \<and> validation_backed d' v \<and> \<not> exists_row (\<lambda>_ x. va_candidate_id x = va_candidate_id v \<and> va_scope x = va_scope v) (validations d)"
    and r: "reviews d' = reviews d \<or> reviews d' = insert_row r (reviews d)
       \<and> review_backed d' r \<and> \<not> exists_row (\<lambda>_ x. re_candidate_id x = re_candidate_id r) (reviews d)"
    and x: "architect_decisions d' = architect_decisions d
       \<or> architect_decisions d' = insert_row x (architect_decisions d) \<and> decision_backed d' x"
    and l: "deliveries d' = deliveries d \<or> deliveries d' = insert_row l (deliveries d)
       \<and> delivery_backed d' l \<and> \<not> exists_row (\<lambda>_ x. dl_candidate_id x = dl_candidate_id l) (deliveries d)"
  shows "evidence_inv d'"
proof -
  from inv have d: "tables_ok d" "evidence_chain d" "evidence_keys d" by (simp_all add: evidence_inv_def)
  have t: "table_ok (validations d)" "table_ok (reviews d)" "table_ok (architect_decisions d)" "table_ok (deliveries d)"
    using d(1) by (simp_all add: tables_ok_def)
  have "evidence_chain d'"
  proof (rule evidence_chain_step [OF d(1) tabs d(2) grows])
    show "candidate_backed d' j y" if "get_row (candidates d') j = Some y" "get_row (candidates d) j \<noteq> Some y" for j y
      using get_update_iff [of i f "candidates d" j y] that backed cand by auto
  qed (use v r x l get_insert_iff [OF t(1)] get_insert_iff [OF t(2)] get_insert_iff [OF t(3)] get_insert_iff [OF t(4)] in metis)+
  moreover have "unique_key (get_row (candidates d')) (\<lambda>c. Some (cr_engineering_session_id c))"
    "unique_key (get_row (candidates d')) (\<lambda>c. Some (cr_ticket_attempt_id c, cr_candidate_tree c))"
    unfolding cand(1) using d(3) candidate_evolves_fields [OF evolves]
    by (auto intro!: candidate_keys_update [OF _ cand(2)] simp: evidence_keys_def)
  then have "evidence_keys d'"
    using d(3) v r l t by (auto simp: evidence_keys_def intro!: tbl.unique_key_ins)
  ultimately show ?thesis using tabs by (simp add: evidence_inv_def)
qed

lemma candidate_backed_undecided:
  assumes "candidate_backed d i c" "l = CANDIDATE_REJECTED \<or> l = CANDIDATE_VALIDATED"
    and "l = CANDIDATE_VALIDATED \<Longrightarrow> validation_passed d i HardCandidate"
  shows "candidate_backed d i (c\<lparr>cr_lifecycle := l, cr_revision := r\<rparr>)"
  using assms(2)
proof
  assume "l = CANDIDATE_REJECTED"
  with assms(1) show ?thesis by (simp add: candidate_backed_def)
next
  assume "l = CANDIDATE_VALIDATED"
  with assms(1,3) show ?thesis by (simp add: candidate_backed_def)
qed

lemma record_validation_fresh_inv:
  assumes fresh: "record_validation_fresh fp now c d = Inr (r, d')" and inv: "evidence_inv d"
  shows "evidence_grows d d' \<and> evidence_inv d'"
  using fresh
proof (rule record_validation_freshE)
  fix cv attempt row rc ra
  let ?i = "rv_candidate_id c" and ?succ = "validation_successor (rv_result c) (rv_scope c) (at_stage attempt)"
  let ?f = "\<lambda>x. x\<lparr>cr_lifecycle := fst ?succ, cr_revision := rc\<rparr>"
  assume cv: "load_candidate d ?i = Inr cv" "decode_candidate_state (cv_lifecycle cv) = Inr (required_candidate_state (rv_scope c))"
      "rv_pristine_tree c = cv_candidate_tree cv" "\<not> validation_exists d ?i (rv_scope c)"
    and row: "va_candidate_id row = ?i" "va_scope row = scope_code (rv_scope c)"
      "va_pristine_tree row = rv_pristine_tree c" "va_lifecycle row = result_code (rv_result c)"
    and eqs: "validations d' = insert_row row (validations d)" "candidates d' = update_row ?i ?f (candidates d)"
      "ticket_attempts d' = update_row (at_id attempt) (\<lambda>a. a\<lparr>
        ta_stage := snd ?succ, ta_revision := ra, ta_failed := (if snd ?succ = ATTEMPT_FAILED
                      then Some (now, ''hard validation did not pass'') else ta_failed a)\<rparr>) (ticket_attempts d)"
      "reviews d' = reviews d" "architect_decisions d' = architect_decisions d" "deliveries d' = deliveries d"
  obtain co where co: "get_row (candidates d) ?i = Some co" "cr_candidate_tree co = rv_pristine_tree c"
      "cr_lifecycle co = cv_lifecycle cv"
    using load_candidateE [OF cv(1)] cv(3) by metis
  have life: "cr_lifecycle co = CANDIDATE_SUBMITTED \<and> rv_scope c = HardCandidate
      \<or> cr_lifecycle co = CANDIDATE_VALIDATED \<and> rv_scope c = QualityFullSuite"
    using cv(2) co(3) by (cases "rv_scope c") (simp_all add: decode_candidate_state_code)
  have tabs: "tables_ok d" "tables_ok d'" "table_ok (validations d)"
    using inv record_validation_fresh_tables [OF fresh] by (simp_all add: evidence_inv_def tables_ok_def)
  have evolves: "candidate_evolves co (?f co)" using life by (intro candidate_moves) auto
  have grows: "evidence_grows d d'"
    by (rule evidence_grows_move [OF eqs(2) co(1) evolves]) (use tabs in \<open>simp_all add: eqs rows_survive_update\<close>)
  have old: "candidate_backed d' ?i co"
    using candidate_backed_grows [OF tabs(1,2) grows] inv co(1) by (simp add: evidence_inv_def evidence_chain_def)
  have new: "validation_passed d' ?i HardCandidate" if "fst ?succ = CANDIDATE_VALIDATED"
    using old life that row tabs(3)
    by (cases "rv_result c")
      (auto simp: candidate_backed_def validation_successor_def validation_passed_def eqs(1) tbl.ex_ins)
  have "fst ?succ = CANDIDATE_REJECTED \<or> fst ?succ = CANDIDATE_VALIDATED"
    by (auto simp: validation_successor_def split: validation_scope.splits)
  then have backed: "candidate_backed d' ?i (?f co)" by (rule candidate_backed_undecided [OF old]) (rule new)
  have "validation_backed d' row"
    using co row by (simp add: validation_backed_def eqs(2) tbl.get_upd)
  then have "evidence_inv d'"
    using cv(4) row
    by (intro evidence_inv_move [OF inv tabs(2) grows eqs(2) co(1) backed evolves, where v = row])
      (simp_all add: eqs validation_exists_def)
  then show ?thesis using grows by simp
qed

lemma attach_candidate_commit_fresh_inv:
  assumes fresh: "attach_candidate_commit_fresh fp c d = Inr (r, d')" and inv: "evidence_inv d"
  shows "evidence_grows d d' \<and> evidence_inv d'"
  using fresh
proof (rule attach_candidate_commit_freshE)
  fix cv attempt rc
  let ?i = "ac_candidate_id c"
  let ?f = "\<lambda>x. x\<lparr>cr_commit := Some (ac_candidate_commit c), cr_ref := Some (ac_candidate_ref c), cr_revision := rc\<rparr>"
  assume cv: "load_candidate d ?i = Inr cv" "cv_lifecycle cv = CANDIDATE_VALIDATED" "cv_candidate_commit cv = None"
    and eqs: "candidates d' = update_row ?i ?f (candidates d)"
      "ticket_attempts d' = ticket_attempts d" "validations d' = validations d" "reviews d' = reviews d"
      "architect_decisions d' = architect_decisions d" "deliveries d' = deliveries d"
  obtain co where co: "get_row (candidates d) ?i = Some co" "cr_lifecycle co = CANDIDATE_VALIDATED" "cr_commit co = None"
    using load_candidateE [OF cv(1)] cv(2,3) by metis
  have tabs: "tables_ok d" "tables_ok d'"
    using inv attach_candidate_commit_fresh_tables [OF fresh] by (simp_all add: evidence_inv_def)
  have evolves: "candidate_evolves co (?f co)" using co by (intro candidate_moves) auto
  have grows: "evidence_grows d d'"
    by (rule evidence_grows_move [OF eqs(1) co(1) evolves]) (simp_all add: eqs)
  have "candidate_backed d' ?i co"
    using candidate_backed_grows [OF tabs(1,2) grows] inv co(1) by (simp add: evidence_inv_def evidence_chain_def)
  then have backed: "candidate_backed d' ?i (?f co)" using co(2) by (simp add: candidate_backed_def)
  have "evidence_inv d'"
    by (rule evidence_inv_move [OF inv tabs(2) grows eqs(1) co(1) backed evolves]) (simp_all add: eqs)
  then show ?thesis using grows by simp
qed

lemma load_quality_validation_ok:
  "load_quality_validation d i cid = Inr v \<Longrightarrow> \<exists>x. get_row (validations d) i = Some x \<and> va_candidate_id x = cid
     \<and> va_scope x = scope_code QualityFullSuite \<and> va_lifecycle x = vv_lifecycle v"
  by (auto simp: load_quality_validation_def validation_view_of_def)

lemma load_review_ok:
  "load_review d i = Inr v \<Longrightarrow>
     \<exists>x. get_row (reviews d) i = Some x \<and> re_candidate_id x = rw_candidate_id v \<and> re_verdict x = rw_verdict v"
  by (auto simp: load_review_def identifier_new_def split: if_splits)

lemma submit_quality_review_fresh_inv:
  assumes fresh: "submit_quality_review_fresh fp c d = Inr (r, d')" and inv: "evidence_inv d"
  shows "evidence_grows d d' \<and> evidence_inv d'"
  using fresh
proof (rule submit_quality_review_freshE)
  fix cv attempt qv row rc ra
  let ?i = "qr_candidate_id c" and ?f = "\<lambda>x. x\<lparr>cr_revision := rc\<rparr>"
  assume cv: "load_candidate d ?i = Inr cv" "cv_lifecycle cv = CANDIDATE_VALIDATED"
    and qv: "load_quality_validation d (full_suite_validation_id (qr_submission c)) ?i = Inr qv"
      "vv_lifecycle qv = VALIDATION_PASSED"
    and row: "re_candidate_id row = ?i" "re_full_suite_validation_id row = full_suite_validation_id (qr_submission c)"
      "review_row_ok d row"
    and eqs: "reviews d' = insert_row row (reviews d)" "candidates d' = update_row ?i ?f (candidates d)"
      "ticket_attempts d' = update_row (at_id attempt) (\<lambda>a. a\<lparr>
        ta_stage := ATTEMPT_AWAITING_ARCHITECT, ta_revision := ra\<rparr>) (ticket_attempts d)"
      "validations d' = validations d" "architect_decisions d' = architect_decisions d" "deliveries d' = deliveries d"
  obtain co where co: "get_row (candidates d) ?i = Some co" "cr_lifecycle co = CANDIDATE_VALIDATED"
    using load_candidateE [OF cv(1)] cv(2) by metis
  have tabs: "tables_ok d" "tables_ok d'" "table_ok (reviews d)"
    using inv submit_quality_review_fresh_tables [OF fresh] by (simp_all add: evidence_inv_def tables_ok_def)
  have evolves: "candidate_evolves co (?f co)" using co by (intro candidate_moves) auto
  have grows: "evidence_grows d d'"
    by (rule evidence_grows_move [OF eqs(2) co(1) evolves]) (use tabs in \<open>simp_all add: eqs rows_survive_update\<close>)
  have "candidate_backed d' ?i co"
    using candidate_backed_grows [OF tabs(1,2) grows] inv co(1) by (simp add: evidence_inv_def evidence_chain_def)
  then have backed: "candidate_backed d' ?i (?f co)" by (simp add: candidate_backed_def)
  have "review_backed d' row"
    using load_quality_validation_ok [OF qv(1)] qv(2) row by (auto simp: review_backed_def eqs(4))
  moreover have "\<not> exists_row (\<lambda>_ x. re_candidate_id x = re_candidate_id row) (reviews d)"
    using row(3) by (auto simp: review_row_ok_def tbl.ex_get tabs(3))
  ultimately have "evidence_inv d'"
    by (intro evidence_inv_move [OF inv tabs(2) grows eqs(2) co(1) backed evolves, where r = row]) (simp_all add: eqs)
  then show ?thesis using grows by simp
qed

text \<open>Sponsorship and release write a decision that is not a delivery decision, and no other evidence.\<close>

lemma decision_only_inv:
  assumes inv: "evidence_inv d" and tabs: "tables_ok d'"
    and eqs: "architect_decisions d' = insert_row x (architect_decisions d)" "de_kind x \<noteq> DECISION_DELIVER"
      "candidates d' = candidates d" "validations d' = validations d" "reviews d' = reviews d" "deliveries d' = deliveries d"
    and ta: "\<And>i. get_row (ticket_attempts d) i \<noteq> None \<Longrightarrow> get_row (ticket_attempts d') i \<noteq> None"
  shows "evidence_grows d d' \<and> evidence_inv d'"
proof -
  have t: "tables_ok d" "table_ok (architect_decisions d)" using inv by (simp_all add: evidence_inv_def tables_ok_def)
  have grows: "evidence_grows d d'"
    by (rule evidence_grows_same) (use t(2) ta in \<open>simp_all add: eqs\<close>)
  have "evidence_chain d'"
    using inv eqs
    by (intro evidence_chain_step [OF t(1) tabs _ grows])
      (auto simp: evidence_inv_def decision_backed_def dest: get_insert_iff [OF t(2)])
  then show ?thesis using grows tabs inv by (simp add: evidence_inv_def evidence_keys_def eqs)
qed

lemma sponsor_ticket_fresh_inv:
  assumes fresh: "sponsor_ticket_fresh fp now c d = Inr (r, d')" and inv: "evidence_inv d"
  shows "evidence_grows d d' \<and> evidence_inv d'"
proof -
  have "tables_ok d'" using inv sponsor_ticket_fresh_tables [OF fresh] by (simp add: evidence_inv_def)
  from fresh show ?thesis
    by (rule sponsor_ticket_freshE) (rule decision_only_inv [OF inv \<open>tables_ok d'\<close>], assumption, simp_all)
qed

lemma release_fresh_inv:
  assumes fresh: "release_fresh fp now c d = Inr (r, d')" and inv: "evidence_inv d"
  shows "evidence_grows d d' \<and> evidence_inv d'"
proof -
  have "tables_ok d'" using inv release_fresh_tables [OF fresh] by (simp add: evidence_inv_def)
  from fresh show ?thesis
    by (rule release_freshE)
      (rule decision_only_inv [OF inv \<open>tables_ok d'\<close>], assumption, simp_all add: rows_survive_update)
qed

lemma candidate_backed_accepted:
  assumes "candidate_backed d i c" "cr_lifecycle c = CANDIDATE_VALIDATED" "cr_commit c \<noteq> None"
    and "validation_passed d i QualityFullSuite" "deliver_decision_exists d i"
  shows "candidate_backed d i (c\<lparr>cr_lifecycle := CANDIDATE_ACCEPTED, cr_revision := r\<rparr>)"
  using assms by (simp add: candidate_backed_def)

lemma candidate_backed_delivered:
  assumes "candidate_backed d i c" "cr_lifecycle c = CANDIDATE_ACCEPTED"
    and "exists_row (\<lambda>_ l. dl_candidate_id l = i) (deliveries d)"
  shows "candidate_backed d i (c\<lparr>cr_lifecycle := CANDIDATE_DELIVERED, cr_revision := r\<rparr>)"
  using assms by (simp add: candidate_backed_def)

lemma decide_candidate_fresh_inv:
  assumes fresh: "decide_candidate_fresh fp now c d = Inr (r, d')" and inv: "evidence_inv d"
  shows "evidence_grows d d' \<and> evidence_inv d'"
  using fresh
proof (rule decide_candidate_freshE)
  fix cv attempt rv row rc ra
  let ?q = "dc_request c" let ?i = "cd_candidate_id ?q"
  let ?f = "\<lambda>x. x\<lparr>cr_lifecycle := fst (decision_transition (cd_decision ?q)), cr_revision := rc\<rparr>"
  let ?g = "\<lambda>a. a\<lparr>ta_stage := snd (decision_transition (cd_decision ?q)),
        ta_rework_ordinal := ta_rework_ordinal a + (if cd_decision ?q = Rework then 1 else 0),
        ta_failed := (if snd (decision_transition (cd_decision ?q)) = ATTEMPT_FAILED
                      then Some (now, ''architect rejected reviewed candidate'') else ta_failed a),
        ta_revision := ra\<rparr>"
  assume cv: "load_candidate d ?i = Inr cv" "cv_lifecycle cv = CANDIDATE_VALIDATED" "cv_candidate_commit cv \<noteq> None"
    and passed: "validation_passed d ?i HardCandidate" "validation_passed d ?i QualityFullSuite"
    and rv: "load_review d (cd_review_id ?q) = Inr rv" "rw_candidate_id rv = ?i"
    and row: "de_kind row = decision_code (cd_decision ?q)" "de_candidate_id row = Some ?i"
      "de_review_id row = Some (cd_review_id ?q)" "de_overrides_quality_rejection row \<longleftrightarrow> rw_verdict rv = REVIEW_REJECT"
    and eqs: "architect_decisions d' = insert_row row (architect_decisions d)" "candidates d' = update_row ?i ?f (candidates d)"
      "ticket_attempts d' = update_row (at_id attempt) ?g (ticket_attempts d)"
      "validations d' = validations d" "reviews d' = reviews d" "deliveries d' = deliveries d"
  obtain co where co: "get_row (candidates d) ?i = Some co" "cr_lifecycle co = CANDIDATE_VALIDATED" "cr_commit co \<noteq> None"
    using load_candidateE [OF cv(1)] cv(2,3) by metis
  have tabs: "tables_ok d" "tables_ok d'" "table_ok (architect_decisions d)"
    using inv decide_candidate_fresh_tables [OF fresh] by (simp_all add: evidence_inv_def tables_ok_def)
  have evolves: "candidate_evolves co (?f co)" using co by (intro candidate_moves) auto
  have grows: "evidence_grows d d'"
    by (rule evidence_grows_move [OF eqs(2) co(1) evolves]) (use tabs in \<open>simp_all add: eqs rows_survive_update\<close>)
  have old: "candidate_backed d' ?i co"
    using candidate_backed_grows [OF tabs(1,2) grows] inv co(1) by (simp add: evidence_inv_def evidence_chain_def)
  have backed: "candidate_backed d' ?i (?f co)"
  proof (cases "cd_decision ?q = Deliver")
    case True
    then have "deliver_decision_exists d' ?i"
      using row tabs(3) by (simp add: deliver_decision_exists_def eqs(1) tbl.ex_ins)
    then show ?thesis
      using candidate_backed_accepted [OF old co(2,3)] evidence_grows_passed(1) [OF tabs(1,2) grows passed(2)]
      by (simp add: True)
  next
    case False
    then show ?thesis by (intro candidate_backed_undecided [OF old]; cases "cd_decision ?q"; simp)
  qed
  have "decision_backed d' row"
    using load_review_ok [OF rv(1)] rv(2) row by (auto simp: decision_backed_def eqs(5))
  then have "evidence_inv d'"
    by (intro evidence_inv_move [OF inv tabs(2) grows eqs(2) co(1) backed evolves, where x = row])
      (simp_all add: eqs)
  then show ?thesis using grows by simp
qed

lemma record_delivery_fresh_inv:
  assumes fresh: "record_delivery_fresh fp now c d = Inr (r, d')" and inv: "evidence_inv d"
  shows "evidence_grows d d' \<and> evidence_inv d'"
  using fresh
proof (rule record_delivery_freshE)
  fix cv attempt campaign row rc ra
  let ?i = "dv_candidate_id c" and ?f = "\<lambda>x. x\<lparr>cr_lifecycle := CANDIDATE_DELIVERED, cr_revision := rc\<rparr>"
  assume cv: "load_candidate d ?i = Inr cv" "cv_lifecycle cv = CANDIDATE_ACCEPTED"
      "cv_candidate_commit cv = Some (dv_candidate_commit c)"
      "cv_base_commit cv = dv_expected_old_commit c" "cv_candidate_tree cv = dv_resulting_tree c"
    and row: "dl_candidate_id row = ?i" "dl_candidate_commit row = dv_candidate_commit c"
      "dl_expected_old_commit row = dv_expected_old_commit c" "dl_resulting_tree row = dv_resulting_tree c"
      "delivery_row_ok d row"
    and eqs: "deliveries d' = insert_row row (deliveries d)" "candidates d' = update_row ?i ?f (candidates d)"
      "ticket_attempts d' = update_row (at_id attempt)
        (\<lambda>a. a\<lparr>ta_stage := ATTEMPT_DELIVERED, ta_revision := ra\<rparr>) (ticket_attempts d)"
      "validations d' = validations d" "reviews d' = reviews d" "architect_decisions d' = architect_decisions d"
  obtain co where co: "get_row (candidates d) ?i = Some co" "cr_lifecycle co = CANDIDATE_ACCEPTED"
      "cr_commit co = Some (dv_candidate_commit c)" "cr_base_commit co = dv_expected_old_commit c"
      "cr_candidate_tree co = dv_resulting_tree c"
    using load_candidateE [OF cv(1)] cv(2-5) by metis
  have tabs: "tables_ok d" "tables_ok d'" "table_ok (deliveries d)"
    using inv record_delivery_fresh_tables [OF fresh] by (simp_all add: evidence_inv_def tables_ok_def)
  have evolves: "candidate_evolves co (?f co)" using co by (intro candidate_moves) auto
  have grows: "evidence_grows d d'"
    by (rule evidence_grows_move [OF eqs(2) co(1) evolves]) (use tabs in \<open>simp_all add: eqs rows_survive_update\<close>)
  have old: "candidate_backed d' ?i co"
    using candidate_backed_grows [OF tabs(1,2) grows] inv co(1) by (simp add: evidence_inv_def evidence_chain_def)
  have backed: "candidate_backed d' ?i (?f co)"
    by (rule candidate_backed_delivered [OF old co(2)]) (simp add: eqs(1) tbl.ex_ins tabs(3) row(1))
  have "delivery_backed d' row"
    using co row by (simp add: delivery_backed_def eqs(2) tbl.get_upd)
  then have "evidence_inv d'"
    using row(5)
    by (intro evidence_inv_move [OF inv tabs(2) grows eqs(2) co(1) backed evolves, where l = row])
      (simp_all add: eqs delivery_row_ok_def)
  then show ?thesis using grows by simp
qed

section \<open>The eight commands as audited commands that keep the evidence\<close>

text \<open>
  What a client of the decision authority relies on: an audited command that keeps the invariant and
  lets evidence grow.
\<close>

locale evidence_command = audited_command run who cmd operation fp retry
  for run :: "int \<Rightarrow> 'c \<Rightarrow> db \<Rightarrow> ('e, 'r \<times> db) result"
    and who :: "'c \<Rightarrow> string" and cmd :: "'c \<Rightarrow> string" and operation :: string
    and fp :: "'c \<Rightarrow> content_digest" and retry :: "'r \<Rightarrow> bool" +
  assumes keeps: "run now c d = Inr (r, d') \<Longrightarrow> evidence_inv d \<Longrightarrow> evidence_grows d d' \<and> evidence_inv d'"
begin

lemma keeps_inv: "run now c d = Inr (r, d') \<Longrightarrow> evidence_inv d \<Longrightarrow> evidence_inv d'"
  using keeps by blast

lemma delivered_stays:
  assumes "run now c d = Inr (r, d')" "evidence_inv d" "get_row (candidates d) i = Some x"
    and "cr_lifecycle x = CANDIDATE_DELIVERED"
  shows "get_row (candidates d') i = Some x"
  using keeps [OF assms(1,2)] assms(3,4) unfolding evidence_grows_def candidate_evolves_def by blast

end

lemma evidence_commandI:
  assumes "audited_command run who cmd op fp retry"
    and run: "\<And>now c d r d'. run now c d = Inr (r, d') \<Longrightarrow>
      audited (find_audit_entry (conflict c) (out_of_range c) d (who c) (cmd c) op (fp c)) (replay c d) (fresh now c d) d = Inr (r, d')"
    and fresh: "\<And>now c d r d'. fresh now c d = Inr (r, d') \<Longrightarrow> evidence_inv d \<Longrightarrow> evidence_grows d d' \<and> evidence_inv d'"
  shows "evidence_command run who cmd op fp retry"
proof (rule evidence_command.intro [OF assms(1)], unfold_locales)
  fix now c d r d'
  assume ok: "run now c d = Inr (r, d')" and inv: "evidence_inv d"
  show "evidence_grows d d' \<and> evidence_inv d'"
    using run [OF ok] by (rule audited_cases) (use inv fresh in auto)
qed

lemma submit_candidate_cmd_audited:
  assumes "submit_candidate_cmd hash now c d = Inr (r, d')"
  shows "audited (find_audit_entry (IdempotencyConflict (sc_principal c) (sc_command_id c)) IntegerOutOfRange d (sc_principal c) (sc_command_id c)
     CANDIDATE_SUBMIT_OPERATION (hash (submit_candidate_preimage c))) (submit_candidate_replay d) (submit_candidate_fresh (hash (submit_candidate_preimage c)) now c d) d = Inr (r, d')"
  using assms by (auto simp: submit_candidate_cmd_def Let_def find_audit_def)

lemma submit_candidate_replay_retry: "submit_candidate_replay d rc = Inr r \<Longrightarrow> cr_receipt_was_idempotent_retry r"
  by (auto simp: submit_candidate_replay_def Let_def)

interpretation sc_command: evidence_command "submit_candidate_cmd hash" "\<lambda>c. sc_principal c" "\<lambda>c. sc_command_id c"
  CANDIDATE_SUBMIT_OPERATION "\<lambda>c. hash (submit_candidate_preimage c)" cr_receipt_was_idempotent_retry for hash
  by (rule evidence_commandI, rule audited_commandI)
    (fact submit_candidate_cmd_audited submit_candidate_replay_retry submit_candidate_fresh_audit submit_candidate_fresh_inv)+

lemma record_validation_cmd_audited:
  assumes "record_validation_cmd hash now c d = Inr (r, d')"
  shows "audited (find_audit_entry (IdempotencyConflict (rv_principal c) (rv_command_id c)) IntegerOutOfRange d (rv_principal c) (rv_command_id c)
     VALIDATION_RECORD_OPERATION (hash (validation_preimage c))) (record_validation_replay d) (record_validation_fresh (hash (validation_preimage c)) now c d) d = Inr (r, d')"
  using assms by (auto simp: record_validation_cmd_def Let_def find_audit_def)

lemma record_validation_replay_retry: "record_validation_replay d rc = Inr r \<Longrightarrow> vr_was_idempotent_retry r"
  by (auto simp: record_validation_replay_def Let_def)

interpretation rv_command: evidence_command "record_validation_cmd hash" "\<lambda>c. rv_principal c" "\<lambda>c. rv_command_id c"
  VALIDATION_RECORD_OPERATION "\<lambda>c. hash (validation_preimage c)" vr_was_idempotent_retry for hash
  by (rule evidence_commandI, rule audited_commandI)
    (fact record_validation_cmd_audited record_validation_replay_retry record_validation_fresh_audit record_validation_fresh_inv)+

lemma attach_candidate_commit_cmd_audited:
  assumes "attach_candidate_commit_cmd hash c d = Inr (r, d')"
  shows "audited (find_audit_entry (IdempotencyConflict (ac_principal c) (ac_command_id c)) IntegerOutOfRange d (ac_principal c) (ac_command_id c)
     CANDIDATE_COMMIT_ATTACH_OPERATION (hash (commit_preimage c))) (attach_candidate_commit_replay d) (attach_candidate_commit_fresh (hash (commit_preimage c)) c d) d = Inr (r, d')"
  using assms by (auto simp: attach_candidate_commit_cmd_def Let_def find_audit_def)

lemma attach_candidate_commit_replay_retry: "attach_candidate_commit_replay d rc = Inr r \<Longrightarrow> cr_receipt_was_idempotent_retry r"
  by (auto simp: attach_candidate_commit_replay_def Let_def)

interpretation ac_command: evidence_command "\<lambda>_. attach_candidate_commit_cmd hash" "\<lambda>c. ac_principal c" "\<lambda>c. ac_command_id c"
  CANDIDATE_COMMIT_ATTACH_OPERATION "\<lambda>c. hash (commit_preimage c)" cr_receipt_was_idempotent_retry for hash
  by (rule evidence_commandI, rule audited_commandI)
    (fact attach_candidate_commit_cmd_audited attach_candidate_commit_replay_retry attach_candidate_commit_fresh_audit attach_candidate_commit_fresh_inv)+

lemma submit_quality_review_cmd_audited:
  assumes "submit_quality_review_cmd hash c d = Inr (r, d')"
  shows "audited (find_audit_entry (IdempotencyConflict (qr_principal c) (qr_command_id c)) IntegerOutOfRange d (qr_principal c) (qr_command_id c)
     REVIEW_SUBMIT_OPERATION (hash (review_preimage c))) (submit_quality_review_replay d) (submit_quality_review_fresh (hash (review_preimage c)) c d) d = Inr (r, d')"
  using assms by (auto simp: submit_quality_review_cmd_def Let_def find_audit_def)

lemma submit_quality_review_replay_retry: "submit_quality_review_replay d rc = Inr r \<Longrightarrow> rr_was_idempotent_retry r"
  by (auto simp: submit_quality_review_replay_def Let_def)

interpretation qr_command: evidence_command "\<lambda>_. submit_quality_review_cmd hash" "\<lambda>c. qr_principal c" "\<lambda>c. qr_command_id c"
  REVIEW_SUBMIT_OPERATION "\<lambda>c. hash (review_preimage c)" rr_was_idempotent_retry for hash
  by (rule evidence_commandI, rule audited_commandI)
    (fact submit_quality_review_cmd_audited submit_quality_review_replay_retry submit_quality_review_fresh_audit submit_quality_review_fresh_inv)+

lemma sponsor_ticket_cmd_audited:
  assumes "sponsor_ticket_cmd hash now c d = Inr (r, d')"
  shows "audited (find_audit_entry (IdempotencyConflict (sd_principal (st_decision c)) (st_command_id c)) IntegerOutOfRange d (sd_principal (st_decision c)) (st_command_id c)
     SPONSOR_OPERATION (hash (sponsorship_preimage c))) (sponsor_ticket_replay d) (sponsor_ticket_fresh (hash (sponsorship_preimage c)) now c d) d = Inr (r, d')"
  using assms by (auto simp: sponsor_ticket_cmd_def Let_def find_audit_def)

lemma sponsor_ticket_replay_retry: "sponsor_ticket_replay d rc = Inr r \<Longrightarrow> sp_was_idempotent_retry r"
  by (auto simp: sponsor_ticket_replay_def Let_def)

interpretation st_command: evidence_command "sponsor_ticket_cmd hash" "\<lambda>c. sd_principal (st_decision c)" "\<lambda>c. st_command_id c"
  SPONSOR_OPERATION "\<lambda>c. hash (sponsorship_preimage c)" sp_was_idempotent_retry for hash
  by (rule evidence_commandI, rule audited_commandI)
    (fact sponsor_ticket_cmd_audited sponsor_ticket_replay_retry sponsor_ticket_fresh_audit sponsor_ticket_fresh_inv)+

lemma release_ticket_attempt_cmd_audited:
  assumes "release_ticket_attempt_cmd hash now c d = Inr (r, d')"
  shows "audited (find_audit_entry (IdempotencyConflict (rd_principal (rl_decision c)) (rl_command_id c)) IntegerOutOfRange d (rd_principal (rl_decision c)) (rl_command_id c)
     RELEASE_OPERATION (hash (release_preimage c))) (release_replay d) (release_fresh (hash (release_preimage c)) now c d) d = Inr (r, d')"
  using assms by (auto simp: release_ticket_attempt_cmd_def Let_def find_audit_def)

lemma release_replay_retry: "release_replay d rc = Inr r \<Longrightarrow> le_was_idempotent_retry r"
  by (auto simp: release_replay_def Let_def)

interpretation rl_command: evidence_command "release_ticket_attempt_cmd hash" "\<lambda>c. rd_principal (rl_decision c)" "\<lambda>c. rl_command_id c"
  RELEASE_OPERATION "\<lambda>c. hash (release_preimage c)" le_was_idempotent_retry for hash
  by (rule evidence_commandI, rule audited_commandI)
    (fact release_ticket_attempt_cmd_audited release_replay_retry release_fresh_audit release_fresh_inv)+

lemma decide_candidate_cmd_audited:
  assumes "decide_candidate_cmd hash now c d = Inr (r, d')"
  shows "audited (find_audit_entry (IdempotencyConflict (cd_principal (dc_request c)) (dc_command_id c)) IntegerOutOfRange d (cd_principal (dc_request c)) (dc_command_id c)
     CANDIDATE_DECIDE_OPERATION (hash (candidate_decision_preimage c))) (decide_candidate_replay c d) (decide_candidate_fresh (hash (candidate_decision_preimage c)) now c d) d = Inr (r, d')"
  using assms by (auto simp: decide_candidate_cmd_def Let_def find_audit_def)

lemma decide_candidate_replay_retry: "decide_candidate_replay c d rc = Inr r \<Longrightarrow> dr_was_idempotent_retry r"
  by (auto simp: decide_candidate_replay_def Let_def)

interpretation dc_command: evidence_command "decide_candidate_cmd hash" "\<lambda>c. cd_principal (dc_request c)" "\<lambda>c. dc_command_id c"
  CANDIDATE_DECIDE_OPERATION "\<lambda>c. hash (candidate_decision_preimage c)" dr_was_idempotent_retry for hash
  by (rule evidence_commandI, rule audited_commandI)
    (fact decide_candidate_cmd_audited decide_candidate_replay_retry decide_candidate_fresh_audit decide_candidate_fresh_inv)+

lemma record_delivery_cmd_audited:
  assumes "record_delivery_cmd hash now c d = Inr (r, d')"
  shows "audited (find_audit_entry (IdempotencyConflict (dv_principal c) (dv_command_id c)) IntegerOutOfRange d (dv_principal c) (dv_command_id c)
     DELIVERY_RECORD_OPERATION (hash (delivery_preimage c))) (record_delivery_replay d) (record_delivery_fresh (hash (delivery_preimage c)) now c d) d = Inr (r, d')"
  using assms by (auto simp: record_delivery_cmd_def Let_def find_audit_def)

lemma record_delivery_replay_retry: "record_delivery_replay d rc = Inr r \<Longrightarrow> dy_was_idempotent_retry r"
  by (auto simp: record_delivery_replay_def Let_def)

interpretation dv_command: evidence_command "record_delivery_cmd hash" "\<lambda>c. dv_principal c" "\<lambda>c. dv_command_id c"
  DELIVERY_RECORD_OPERATION "\<lambda>c. hash (delivery_preimage c)" dy_was_idempotent_retry for hash
  by (rule evidence_commandI, rule audited_commandI)
    (fact record_delivery_cmd_audited record_delivery_replay_retry record_delivery_fresh_audit record_delivery_fresh_inv)+

end
