(* ===== verification/Ticket_Store.thy ===== *)
theory Ticket_Store
  imports Decision_Invariant "HOL-Library.Product_Lexorder"
begin

text \<open>
  The ticket-buffer authority, \<open>factory-kernel/src/ticket_store.rs\<close>: the eight commands that move
  tickets and attempts, and the bounded reads the scheduler and the recovery driver consume.  As in
  \<open>Decision_Store\<close>, one definition is one transaction, \<open>hash\<close> is BLAKE3 and \<open>now\<close> the transaction's
  timestamp.  The queries that order and limit their rows are \<open>least_by\<close> over the key of the
  \<open>ORDER BY\<close>.
\<close>

section \<open>Errors and conversions\<close>

datatype store_error =
    StoreDatabase
  | StoreContract contract_error
  | StoreAuditSubjectKindMismatch
  | StoreRevisionConflict aggregate_revision aggregate_revision
  | StoreIdempotencyConflict string string
  | StoreInvalidCommandComponent string
  | StoreRevisionOutOfRange
  | StoreCorruptDigestColumn
  | StoreCorruptLifecycleColumn
  | StoreUnknownCampaign ident
  | StoreCampaignClosed ident
  | StoreCampaignCostFrozen ident
  | StoreCampaignDeadlineElapsed
  | StoreUnknownApplicationRevision ident
  | StoreUnknownArtifact ident
  | StorePaidSessionAlreadyRunning
  | StoreUnknownTicketRevision ident
  | StoreUnknownTicketAttempt ident
  | StoreTicketStateConflict ticket_state ticket_state
  | StoreTicketAttemptNotReleasable
  | StoreTicketAttemptAlreadyReleased
  | StoreDuplicateTicketReproducer ident
  | StoreCampaignApplicationMismatch
  | StoreProposalNotReproducible
  | StoreProposalDoesNotFail
  | StoreProposalBufferFull
  | StoreReadyTicketBufferFull
  | StoreEngineeringTicketAlreadyInFlight
  | StoreCampaignDeliveryTargetNotReached
  | StoreInvalidTicketField string
  | StoreCorruptTicketState

type_synonym 'a store_result = "(store_error, 'a) result"

definition store_contract :: "'a contract \<Rightarrow> 'a store_result" where
  "store_contract m = map_err StoreContract m"

lemma store_contract_ok [simp, result_simps]: "store_contract m = Inr x \<longleftrightarrow> m = Inr x"
  by (simp add: store_contract_def)

definition store_revision_from_sql :: "int \<Rightarrow> aggregate_revision store_result" where
  "store_revision_from_sql v = revision_of_sql StoreRevisionOutOfRange v"

definition revision_to_sql :: "aggregate_revision \<Rightarrow> int store_result" where
  "revision_to_sql r = sql_of_revision StoreRevisionOutOfRange r"

definition u32_from_sql :: "int \<Rightarrow> string \<Rightarrow> 32 word store_result" where
  "u32_from_sql v field = (if 0 \<le> v \<and> v < 2 ^ 32 then Inr (word_of_int v) else Inl (StoreInvalidTicketField field))"

definition ticket_state_from_sql :: "int \<Rightarrow> ticket_state store_result" where
  "ticket_state_from_sql v =
     (if v = TICKET_PROPOSED then Inr TicketProposed
      else if v = TICKET_SPONSORED then Inr TicketSponsored
      else if v = TICKET_IN_FLIGHT then Inr TicketInFlight
      else if v = TICKET_DELIVERED then Inr TicketDelivered
      else if v = TICKET_BLOCKED then Inr TicketBlocked
      else if v = TICKET_RESOLVED then Inr TicketResolved
      else if v = TICKET_SUPERSEDED then Inr TicketSuperseded
      else if v = TICKET_REJECTED then Inr TicketRejected
      else Inl StoreCorruptTicketState)"

definition PROPOSAL_SUBJECT :: int where [simp]: "PROPOSAL_SUBJECT = 30"
definition SPONSORSHIP_SUBJECT :: int where [simp]: "SPONSORSHIP_SUBJECT = 31"
definition CLAIMED_ATTEMPT_SUBJECT :: int where [simp]: "CLAIMED_ATTEMPT_SUBJECT = 32"
definition CLAIM_RESOLVED_SUBJECT :: int where [simp]: "CLAIM_RESOLVED_SUBJECT = 33"
definition CLAIM_BLOCKED_SUBJECT :: int where [simp]: "CLAIM_BLOCKED_SUBJECT = 34"
definition FAILED_ATTEMPT_SUBJECT :: int where [simp]: "FAILED_ATTEMPT_SUBJECT = 35"
definition RELEASED_ATTEMPT_SUBJECT :: int where [simp]: "RELEASED_ATTEMPT_SUBJECT = 36"
definition RELEASE_RESOLVED_SUBJECT :: int where [simp]: "RELEASE_RESOLVED_SUBJECT = 37"
definition RELEASE_BLOCKED_SUBJECT :: int where [simp]: "RELEASE_BLOCKED_SUBJECT = 38"
definition CAMPAIGN_COMPLETED_SUBJECT :: int where [simp]: "CAMPAIGN_COMPLETED_SUBJECT = 39"
definition QUALITY_RETRY_SUBJECT :: int where [simp]: "QUALITY_RETRY_SUBJECT = 45"
definition ENGINEERING_RETRY_SUBJECT :: int where [simp]: "ENGINEERING_RETRY_SUBJECT = 46"

definition PROPOSE_OPERATION :: string where "PROPOSE_OPERATION = ''ticket.propose''"
definition TICKET_SPONSOR_OPERATION :: string where "TICKET_SPONSOR_OPERATION = ''ticket.sponsor''"
definition CLAIM_OPERATION :: string where "CLAIM_OPERATION = ''ticket.claim''"
definition FAIL_OPERATION :: string where "FAIL_OPERATION = ''ticket_attempt.fail''"
definition ATTEMPT_RELEASE_OPERATION :: string where "ATTEMPT_RELEASE_OPERATION = ''ticket_attempt.release''"
definition QUALITY_RETRY_OPERATION :: string where "QUALITY_RETRY_OPERATION = ''ticket_attempt.retry_quality''"
definition ENGINEERING_RETRY_OPERATION :: string where
  "ENGINEERING_RETRY_OPERATION = ''ticket_attempt.retry_engineering''"
definition COMPLETE_CAMPAIGN_OPERATION :: string where
  "COMPLETE_CAMPAIGN_OPERATION = ''campaign.complete_delivery_target''"

section \<open>Guards\<close>

definition require_expected :: "aggregate_revision \<Rightarrow> aggregate_revision \<Rightarrow> unit store_result" where
  "require_expected expected current = require (expected = current) (StoreRevisionConflict expected current)"

definition store_require_ticket_state :: "ticket_state \<Rightarrow> ticket_state \<Rightarrow> unit store_result" where
  "store_require_ticket_state required observed =
     require (required = observed) (StoreTicketStateConflict required observed)"

definition require_ticket_subject :: "audit_receipt \<Rightarrow> int \<Rightarrow> unit store_result" where
  "require_ticket_subject receipt subject =
     require (rc_subject_kind receipt = subject) StoreAuditSubjectKindMismatch"

definition store_validate_command :: "string \<Rightarrow> string \<Rightarrow> unit store_result" where
  "store_validate_command prin command_id =
     try_each (\<lambda>(field, v). require (command_component_ok v) (StoreInvalidCommandComponent field))
       [(''principal'', prin), (''command ID'', command_id)]"

definition bounded_text :: "nat \<Rightarrow> string \<Rightarrow> string \<Rightarrow> unit store_result" where
  "bounded_text limit v field =
     require (\<not> (v = [] \<or> length v > limit \<or> CHR 0x00 \<in> set v)) (StoreInvalidTicketField field)"

definition validate_snapshot :: "string \<Rightarrow> string \<Rightarrow> unit store_result" where
  "validate_snapshot v field = bounded_text 240 v field"

definition validate_reason :: "string \<Rightarrow> string \<Rightarrow> unit store_result" where
  "validate_reason v field = bounded_text 4096 v field"

definition store_validate_requalification :: "current_head_requalification \<Rightarrow> unit store_result" where
  "store_validate_requalification v = first_error
     [validate_snapshot (current_head_commit v) ''current-head commit'',
      validate_snapshot (current_head_tree v) ''current-head tree'']"

section \<open>Reads\<close>

record ticket_revision_locked =
  tl_ticket_id :: ident
  tl_ticket_revision_id :: ident
  tl_application_revision_id :: ident
  tl_state :: ticket_state
  tl_revision :: aggregate_revision
  tl_expected_observation_artifact_id :: ident
  tl_discovery_observation_artifact_id :: ident

record ticket_attempt_locked =
  al_ticket_id :: ident
  al_ticket_revision_id :: ident
  al_stage :: int
  al_released :: bool
  al_revision :: aggregate_revision
  al_ticket_revision :: aggregate_revision
  al_ticket_state :: ticket_state
  al_ticket :: ticket_revision_locked

definition ticket_locked_of :: "int \<Rightarrow> ticket_revision_row \<Rightarrow> ticket_row \<Rightarrow> ticket_revision_locked store_result" where
  "ticket_locked_of i tr t =
     and_then (require (ti_current_ticket_revision_id t = i) StoreCorruptTicketState) (\<lambda>_.
     and_then (ticket_state_from_sql (tr_lifecycle tr)) (\<lambda>state.
     and_then (ticket_state_from_sql (ti_lifecycle t)) (\<lambda>state'.
     and_then (first_error [require (state = state') StoreCorruptTicketState,
                            require (tr_revision tr = ti_revision t) StoreCorruptTicketState]) (\<lambda>_.
     and_then (store_contract (identifier_new ''ticket ID'' (tr_ticket_id tr))) (\<lambda>tid.
     and_then (store_contract (identifier_new ''application revision ID'' (tr_application_revision_id tr))) (\<lambda>arid.
     and_then (store_revision_from_sql (tr_revision tr)) (\<lambda>r.
     and_then (store_contract (identifier_new ''artifact ID'' (tr_expected_observation_artifact_id tr))) (\<lambda>e.
     and_then (store_contract (identifier_new ''artifact ID'' (tr_discovery_observation_artifact_id tr))) (\<lambda>o'.
     Inr \<lparr>tl_ticket_id = tid, tl_ticket_revision_id = i, tl_application_revision_id = arid, tl_state = state,
          tl_revision = r, tl_expected_observation_artifact_id = e,
          tl_discovery_observation_artifact_id = o'\<rparr>)))))))))"

definition store_lock_ticket_revision :: "db \<Rightarrow> ident \<Rightarrow> ticket_revision_locked store_result" where
  "store_lock_ticket_revision d i =
     and_then (ok_or (get_row (ticket_revisions d) i) (StoreUnknownTicketRevision i)) (\<lambda>tr.
     and_then (ok_or (get_row (tickets d) (tr_ticket_id tr)) (StoreUnknownTicketRevision i)) (\<lambda>t.
     ticket_locked_of i tr t))"

definition ticket_revision_status :: "db \<Rightarrow> ident \<Rightarrow> ticket_revision_locked store_result" where
  "ticket_revision_status d i = store_lock_ticket_revision d i"

definition lock_ticket_attempt :: "db \<Rightarrow> ident \<Rightarrow> ticket_attempt_locked store_result" where
  "lock_ticket_attempt d i =
     and_then (ok_or (get_row (ticket_attempts d) i) (StoreUnknownTicketAttempt i)) (\<lambda>ta.
     and_then (ok_or (get_row (ticket_revisions d) (ta_ticket_revision_id ta)) (StoreUnknownTicketAttempt i)) (\<lambda>tr.
     and_then (ok_or (get_row (tickets d) (tr_ticket_id tr)) (StoreUnknownTicketAttempt i)) (\<lambda>t.
     and_then (store_contract (identifier_new ''ticket revision ID'' (ta_ticket_revision_id ta))) (\<lambda>trid.
     and_then (ticket_locked_of trid tr t) (\<lambda>ticket.
     and_then (store_revision_from_sql (ta_revision ta)) (\<lambda>r.
     Inr \<lparr>al_ticket_id = tl_ticket_id ticket, al_ticket_revision_id = trid, al_stage = ta_stage ta,
          al_released = (ta_released ta \<noteq> None), al_revision = r, al_ticket_revision = tl_revision ticket,
          al_ticket_state = tl_state ticket, al_ticket = ticket\<rparr>))))))"

definition ticket_attempt_status :: "db \<Rightarrow> ident \<Rightarrow> ticket_attempt_locked store_result" where
  "ticket_attempt_status d i = lock_ticket_attempt d i"

definition ticket_revision_for_attempt :: "db \<Rightarrow> ident \<Rightarrow> ident store_result" where
  "ticket_revision_for_attempt d i =
     and_then (ok_or (get_row (ticket_attempts d) i) (StoreUnknownTicketAttempt i)) (\<lambda>ta.
     store_contract (identifier_new ''ticket revision ID'' (ta_ticket_revision_id ta)))"

definition store_artifact_digest :: "db \<Rightarrow> ident \<Rightarrow> content_digest store_result" where
  "store_artifact_digest d i =
     and_then (ok_or (get_row (artifacts d) i) (StoreUnknownArtifact i)) (\<lambda>row.
     and_then (require (digest_ok (ar_digest row)) StoreCorruptDigestColumn) (\<lambda>_.
     Inr (ar_digest row)))"

definition store_classify_requalification ::
  "db \<Rightarrow> ticket_revision_locked \<Rightarrow> current_head_requalification \<Rightarrow> requalification store_result" where
  "store_classify_requalification d ticket v =
     and_then (store_artifact_digest d (tl_expected_observation_artifact_id ticket)) (\<lambda>expected.
     and_then (store_artifact_digest d (tl_discovery_observation_artifact_id ticket)) (\<lambda>discovery.
     and_then (store_artifact_digest d (first_actual_observation_artifact_id v)) (\<lambda>first.
     and_then (store_artifact_digest d (second_actual_observation_artifact_id v)) (\<lambda>second.
     if first \<noteq> second then Inr Diverged
     else if first = expected then Inr Resolved
     else if first = discovery then Inr Reproduced
     else Inr Diverged))))"

text \<open>The join of a ticket revision with the ticket it is current for.\<close>

definition is_current :: "db \<Rightarrow> int \<Rightarrow> ticket_revision_row \<Rightarrow> bool" where
  "is_current d i tr =
     (case get_row (tickets d) (tr_ticket_id tr) of
        None \<Rightarrow> False
      | Some t \<Rightarrow> ti_current_ticket_revision_id t = i)"

definition application_revision_ticket_count :: "db \<Rightarrow> ident \<Rightarrow> int \<Rightarrow> int" where
  "application_revision_ticket_count d application_revision state =
     int (count_rows (\<lambda>i tr. tr_application_revision_id tr = application_revision \<and> is_current d i tr
                            \<and> tr_lifecycle tr = state) (ticket_revisions d))"

definition application_ticket_count :: "db \<Rightarrow> string \<Rightarrow> int \<Rightarrow> int" where
  "application_ticket_count d application_key state =
     int (count_rows (\<lambda>i tr.
        (case get_row (application_revisions d) (tr_application_revision_id tr) of
           None \<Rightarrow> False | Some a \<Rightarrow> ap_application_key a = application_key)
        \<and> is_current d i tr \<and> tr_lifecycle tr = state) (ticket_revisions d))"

definition find_ticket_audit :: "db \<Rightarrow> string \<Rightarrow> string \<Rightarrow> string \<Rightarrow> content_digest \<Rightarrow> audit_receipt option store_result" where
  "find_ticket_audit d prin command_id operation fingerprint =
     find_audit_entry (StoreIdempotencyConflict prin command_id) StoreRevisionOutOfRange d prin command_id
       operation fingerprint"

definition insert_ticket_audit ::
  "db \<Rightarrow> string \<Rightarrow> string \<Rightarrow> string \<Rightarrow> content_digest \<Rightarrow> int \<Rightarrow> int \<Rightarrow> aggregate_revision \<Rightarrow> (int \<times> db) store_result" where
  "insert_ticket_audit d prin command_id operation fingerprint kind subject revision =
     insert_audit_entry StoreDatabase StoreRevisionOutOfRange d prin command_id operation fingerprint kind subject revision"

section \<open>Writes\<close>

definition update_ticket_states ::
  "db \<Rightarrow> ticket_revision_locked \<Rightarrow> int \<Rightarrow> aggregate_revision \<Rightarrow> string option \<Rightarrow> string option \<Rightarrow> int \<Rightarrow> db store_result" where
  "update_ticket_states d ticket state nxt sponsorship_reason blocked_reason now =
     and_then (revision_to_sql nxt) (\<lambda>r.
     and_then (require (live_reproducer_free d (tl_ticket_revision_id ticket) state) StoreDatabase) (\<lambda>_.
     Inr (d\<lparr>ticket_revisions := update_row (tl_ticket_revision_id ticket) (\<lambda>tr. tr\<lparr>
               tr_lifecycle := state, tr_revision := r,
               tr_sponsored_at := (if sponsorship_reason = None then tr_sponsored_at tr else Some now),
               tr_sponsorship_reason := (case sponsorship_reason of None \<Rightarrow> tr_sponsorship_reason tr | Some s \<Rightarrow> Some s),
               tr_blocked_reason := (case blocked_reason of None \<Rightarrow> tr_blocked_reason tr | Some s \<Rightarrow> Some s)\<rparr>)
               (ticket_revisions d),
            tickets := update_row (tl_ticket_id ticket) (\<lambda>t. t\<lparr>ti_lifecycle := state, ti_revision := r\<rparr>) (tickets d)\<rparr>)))"

definition update_requalification_and_ticket_state ::
  "db \<Rightarrow> ticket_revision_locked \<Rightarrow> int \<Rightarrow> aggregate_revision \<Rightarrow> int \<Rightarrow> current_head_requalification \<Rightarrow> string option \<Rightarrow> int
     \<Rightarrow> db store_result" where
  "update_requalification_and_ticket_state d ticket state nxt outcome v blocked_reason now =
     and_then (revision_to_sql nxt) (\<lambda>r.
     and_then (require (live_reproducer_free d (tl_ticket_revision_id ticket) state) StoreDatabase) (\<lambda>_.
     Inr (d\<lparr>ticket_revisions := update_row (tl_ticket_revision_id ticket) (\<lambda>tr. tr\<lparr>
               tr_lifecycle := state, tr_revision := r,
               tr_last_requalification := Some (requalification_columns_of outcome v now),
               tr_blocked_reason := blocked_reason\<rparr>) (ticket_revisions d),
            tickets := update_row (tl_ticket_id ticket)
               (\<lambda>t. t\<lparr>ti_lifecycle := state, ti_revision := r\<rparr>) (tickets d)\<rparr>)))"

section \<open>Fingerprint preimages\<close>

text \<open>The operation is hashed without its length, unlike in \<open>Decision_Store\<close>.\<close>

definition ticket_fingerprint_prefix :: "string \<Rightarrow> string \<Rightarrow> string \<Rightarrow> byte list" where
  "ticket_fingerprint_prefix operation prin command_id =
     bytes_of operation @ hash_string prin @ hash_string command_id"

definition hash_requalification :: "current_head_requalification \<Rightarrow> byte list" where
  "hash_requalification v =
     hash_string (current_head_commit v) @ hash_string (current_head_tree v)
     @ hash_i64 (first_actual_observation_artifact_id v) @ hash_i64 (second_actual_observation_artifact_id v)"

section \<open>Submitting a proposal\<close>

record submit_ticket_proposal =
  pp_principal :: string
  pp_command_id :: string
  pp_expected_application_revision :: aggregate_revision
  pp_application_revision_id :: ident
  pp_proposal_artifact_id :: ident
  pp_reproducer_artifact_id :: ident
  pp_expected_observation_artifact_id :: ident
  pp_first_actual_observation_artifact_id :: ident
  pp_second_actual_observation_artifact_id :: ident
  pp_discovery_commit :: string
  pp_discovery_tree :: string

record ticket_proposal_receipt =
  pr_ticket_id :: ident
  pr_ticket_revision_id :: ident
  pr_resulting_revision :: aggregate_revision
  pr_audit_log_id :: int
  pr_was_idempotent_retry :: bool

definition proposal_preimage :: "submit_ticket_proposal \<Rightarrow> byte list" where
  "proposal_preimage c =
     ticket_fingerprint_prefix PROPOSE_OPERATION (pp_principal c) (pp_command_id c)
     @ hash_u64 (pp_expected_application_revision c) @ hash_i64 (pp_application_revision_id c)
     @ hash_i64 (pp_proposal_artifact_id c) @ hash_i64 (pp_reproducer_artifact_id c)
     @ hash_i64 (pp_expected_observation_artifact_id c)
     @ hash_i64 (pp_first_actual_observation_artifact_id c)
     @ hash_i64 (pp_second_actual_observation_artifact_id c)
     @ hash_string (pp_discovery_commit c) @ hash_string (pp_discovery_tree c)"

definition submit_ticket_proposal_replay :: "db \<Rightarrow> audit_receipt \<Rightarrow> ticket_proposal_receipt store_result" where
  "submit_ticket_proposal_replay d receipt =
     and_then (require_ticket_subject receipt PROPOSAL_SUBJECT) (\<lambda>_.
     and_then (store_contract (identifier_new ''ticket revision ID'' (rc_subject_id receipt))) (\<lambda>i.
     and_then (ok_or (get_row (ticket_revisions d) i) (StoreUnknownTicketRevision i)) (\<lambda>tr.
     and_then (store_contract (identifier_new ''ticket ID'' (tr_ticket_id tr))) (\<lambda>tid.
     Inr \<lparr>pr_ticket_id = tid, pr_ticket_revision_id = i, pr_resulting_revision = rc_resulting_revision receipt,
          pr_audit_log_id = rc_audit_log_id receipt, pr_was_idempotent_retry = True\<rparr>))))"

definition proposal_ticket_row :: "submit_ticket_proposal \<Rightarrow> int \<Rightarrow> ticket_row" where
  "proposal_ticket_row c revision_id =
     \<lparr>ti_application_revision_id = pp_application_revision_id c, ti_lifecycle = TICKET_PROPOSED,
      ti_current_ticket_revision_id = revision_id, ti_revision = 0\<rparr>"

definition proposal_revision_row :: "submit_ticket_proposal \<Rightarrow> int \<Rightarrow> ticket_revision_row" where
  "proposal_revision_row c ticket_id =
     \<lparr>tr_ticket_id = ticket_id, tr_application_revision_id = pp_application_revision_id c,
      tr_revision_ordinal = 1, tr_lifecycle = TICKET_PROPOSED,
      tr_proposal_artifact_id = pp_proposal_artifact_id c,
      tr_reproducer_artifact_id = pp_reproducer_artifact_id c,
      tr_expected_observation_artifact_id = pp_expected_observation_artifact_id c,
      tr_discovery_observation_artifact_id = pp_first_actual_observation_artifact_id c,
      tr_discovery_commit = pp_discovery_commit c, tr_discovery_tree = pp_discovery_tree c,
      tr_sponsored_at = None, tr_sponsorship_reason = None, tr_last_requalification = None,
      tr_blocked_reason = None, tr_revision = 0\<rparr>"

definition submit_ticket_proposal_fresh ::
  "content_digest \<Rightarrow> application_revision_row \<Rightarrow> submit_ticket_proposal \<Rightarrow> db \<Rightarrow> (ticket_proposal_receipt \<times> db) store_result" where
  "submit_ticket_proposal_fresh fingerprint application c d =
     and_then (store_revision_from_sql (ap_aggregate_revision application)) (\<lambda>application_revision.
     and_then (require_expected (pp_expected_application_revision c) application_revision) (\<lambda>_.
     and_then (store_artifact_digest d (pp_expected_observation_artifact_id c)) (\<lambda>expected.
     and_then (store_artifact_digest d (pp_first_actual_observation_artifact_id c)) (\<lambda>first.
     and_then (store_artifact_digest d (pp_second_actual_observation_artifact_id c)) (\<lambda>second.
     and_then (store_artifact_digest d (pp_proposal_artifact_id c)) (\<lambda>_.
     and_then (store_artifact_digest d (pp_reproducer_artifact_id c)) (\<lambda>_.
     and_then (first_error
       [require (first = second) StoreProposalNotReproducible,
        require (first \<noteq> expected) StoreProposalDoesNotFail,
        require (application_ticket_count d (ap_application_key application) TICKET_PROPOSED
                 < ap_proposal_maximum application) StoreProposalBufferFull,
        require (\<not> exists_row (\<lambda>_ tr. tr_application_revision_id tr = pp_application_revision_id c
                     \<and> tr_reproducer_artifact_id tr = pp_reproducer_artifact_id c
                     \<and> tr_lifecycle tr \<noteq> TICKET_BLOCKED) (ticket_revisions d))
          (StoreDuplicateTicketReproducer (pp_reproducer_artifact_id c))]) (\<lambda>_.
     let ticket_id = next_id (tickets d);
         ticket_revision_id = next_id (ticket_revisions d);
         d1 = d\<lparr>tickets := insert_row (proposal_ticket_row c ticket_revision_id) (tickets d),
                ticket_revisions := insert_row (proposal_revision_row c ticket_id) (ticket_revisions d)\<rparr> in
     and_then (insert_ticket_audit d1 (pp_principal c) (pp_command_id c) PROPOSE_OPERATION fingerprint
                 PROPOSAL_SUBJECT ticket_revision_id revision_initial) (\<lambda>(audit, d2).
     and_then (store_contract (identifier_new ''ticket ID'' ticket_id)) (\<lambda>tid.
     and_then (store_contract (identifier_new ''ticket revision ID'' ticket_revision_id)) (\<lambda>trid.
     Inr (\<lparr>pr_ticket_id = tid, pr_ticket_revision_id = trid, pr_resulting_revision = revision_initial,
           pr_audit_log_id = audit, pr_was_idempotent_retry = False\<rparr>, d2))))))))))))"

definition submit_ticket_proposal_cmd ::
  "(byte list \<Rightarrow> content_digest) \<Rightarrow> submit_ticket_proposal \<Rightarrow> db \<Rightarrow> (ticket_proposal_receipt \<times> db) store_result" where
  "submit_ticket_proposal_cmd hash c d =
     and_then (first_error
       [store_validate_command (pp_principal c) (pp_command_id c),
        validate_snapshot (pp_discovery_commit c) ''discovery commit'',
        validate_snapshot (pp_discovery_tree c) ''discovery tree'']) (\<lambda>_.
     let fingerprint = hash (proposal_preimage c) in
     and_then (ok_or (get_row (application_revisions d) (pp_application_revision_id c))
                 (StoreUnknownApplicationRevision (pp_application_revision_id c))) (\<lambda>application.
     audited (find_ticket_audit d (pp_principal c) (pp_command_id c) PROPOSE_OPERATION fingerprint)
       (submit_ticket_proposal_replay d) (submit_ticket_proposal_fresh fingerprint application c d) d))"

section \<open>Sponsoring a revision\<close>

record sponsor_ticket_revision =
  sr_principal :: string
  sr_command_id :: string
  sr_ticket_revision_id :: ident
  sr_expected_ticket_revision :: aggregate_revision
  sr_reason :: string

record ticket_revision_receipt =
  sq_ticket_id :: ident
  sq_ticket_revision_id :: ident
  sq_state :: ticket_state
  sq_resulting_revision :: aggregate_revision
  sq_audit_log_id :: int
  sq_was_idempotent_retry :: bool

definition sponsor_preimage :: "sponsor_ticket_revision \<Rightarrow> byte list" where
  "sponsor_preimage c =
     ticket_fingerprint_prefix TICKET_SPONSOR_OPERATION (sr_principal c) (sr_command_id c)
     @ hash_i64 (sr_ticket_revision_id c) @ hash_u64 (sr_expected_ticket_revision c) @ hash_string (sr_reason c)"

definition sponsor_ticket_revision_replay ::
  "sponsor_ticket_revision \<Rightarrow> db \<Rightarrow> audit_receipt \<Rightarrow> ticket_revision_receipt store_result" where
  "sponsor_ticket_revision_replay c d receipt =
     and_then (require_ticket_subject receipt SPONSORSHIP_SUBJECT) (\<lambda>_.
     and_then (ticket_revision_status d (sr_ticket_revision_id c)) (\<lambda>status.
     Inr \<lparr>sq_ticket_id = tl_ticket_id status, sq_ticket_revision_id = sr_ticket_revision_id c,
          sq_state = tl_state status, sq_resulting_revision = rc_resulting_revision receipt,
          sq_audit_log_id = rc_audit_log_id receipt, sq_was_idempotent_retry = True\<rparr>))"

text \<open>The ready buffer of an application key may hold at most its admitted maximum, when it has one.\<close>

definition require_ready_buffer_open :: "db \<Rightarrow> ident \<Rightarrow> unit store_result" where
  "require_ready_buffer_open d application_revision =
     and_then (ok_or (get_row (application_revisions d) application_revision)
                 (StoreUnknownApplicationRevision application_revision)) (\<lambda>application.
     require (\<not> (case ap_ticket_maximum application of
                  None \<Rightarrow> False
                | Some maximum \<Rightarrow>
                    maximum \<le> application_ticket_count d (ap_application_key application) TICKET_SPONSORED))
       StoreReadyTicketBufferFull)"

definition sponsor_ticket_revision_fresh ::
  "content_digest \<Rightarrow> int \<Rightarrow> sponsor_ticket_revision \<Rightarrow> db \<Rightarrow> (ticket_revision_receipt \<times> db) store_result" where
  "sponsor_ticket_revision_fresh fingerprint now c d =
     and_then (store_lock_ticket_revision d (sr_ticket_revision_id c)) (\<lambda>status.
     and_then (first_error
       [require_expected (sr_expected_ticket_revision c) (tl_revision status),
        store_require_ticket_state TicketProposed (tl_state status),
        require_ready_buffer_open d (tl_application_revision_id status)]) (\<lambda>_.
     and_then (store_contract (revision_next (tl_revision status))) (\<lambda>nxt.
     and_then (update_ticket_states d status TICKET_SPONSORED nxt (Some (sr_reason c)) None now) (\<lambda>d1.
     and_then (insert_ticket_audit d1 (sr_principal c) (sr_command_id c) TICKET_SPONSOR_OPERATION fingerprint
                 SPONSORSHIP_SUBJECT (sr_ticket_revision_id c) nxt) (\<lambda>(audit, d2).
     Inr (\<lparr>sq_ticket_id = tl_ticket_id status, sq_ticket_revision_id = sr_ticket_revision_id c,
           sq_state = TicketSponsored, sq_resulting_revision = nxt, sq_audit_log_id = audit,
           sq_was_idempotent_retry = False\<rparr>, d2))))))"

definition sponsor_ticket_revision_cmd ::
  "(byte list \<Rightarrow> content_digest) \<Rightarrow> int \<Rightarrow> sponsor_ticket_revision \<Rightarrow> db \<Rightarrow> (ticket_revision_receipt \<times> db) store_result" where
  "sponsor_ticket_revision_cmd hash now c d =
     and_then (first_error [store_validate_command (sr_principal c) (sr_command_id c),
                            validate_reason (sr_reason c) ''sponsorship reason'']) (\<lambda>_.
     let fingerprint = hash (sponsor_preimage c) in
     audited (find_ticket_audit d (sr_principal c) (sr_command_id c) TICKET_SPONSOR_OPERATION fingerprint)
       (sponsor_ticket_revision_replay c d) (sponsor_ticket_revision_fresh fingerprint now c d) d)"

section \<open>Claiming a sponsored ticket\<close>

record claim_sponsored_ticket =
  cl_principal :: string
  cl_command_id :: string
  cl_campaign_id :: ident
  cl_expected_campaign_revision :: aggregate_revision
  cl_ticket_revision_id :: ident
  cl_expected_ticket_revision :: aggregate_revision
  cl_requalification :: current_head_requalification

datatype claim_outcome = Claimed ident | ClaimResolved | ClaimBlocked

record claim_ticket_receipt =
  ct_ticket_id :: ident
  ct_ticket_revision_id :: ident
  ct_outcome :: claim_outcome
  ct_resulting_ticket_revision :: aggregate_revision
  ct_audit_log_id :: int
  ct_was_idempotent_retry :: bool

definition claim_preimage :: "claim_sponsored_ticket \<Rightarrow> byte list" where
  "claim_preimage c =
     ticket_fingerprint_prefix CLAIM_OPERATION (cl_principal c) (cl_command_id c)
     @ hash_i64 (cl_campaign_id c) @ hash_u64 (cl_expected_campaign_revision c)
     @ hash_i64 (cl_ticket_revision_id c) @ hash_u64 (cl_expected_ticket_revision c)
     @ hash_requalification (cl_requalification c)"

definition claim_outcome_from_receipt :: "audit_receipt \<Rightarrow> claim_outcome store_result" where
  "claim_outcome_from_receipt receipt =
     (if rc_subject_kind receipt = CLAIMED_ATTEMPT_SUBJECT
      then and_then (store_contract (identifier_new ''ticket attempt ID'' (rc_subject_id receipt))) (\<lambda>i. Inr (Claimed i))
      else if rc_subject_kind receipt = CLAIM_RESOLVED_SUBJECT then Inr ClaimResolved
      else if rc_subject_kind receipt = CLAIM_BLOCKED_SUBJECT then Inr ClaimBlocked
      else Inl StoreAuditSubjectKindMismatch)"

definition claim_sponsored_ticket_replay ::
  "claim_sponsored_ticket \<Rightarrow> db \<Rightarrow> audit_receipt \<Rightarrow> claim_ticket_receipt store_result" where
  "claim_sponsored_ticket_replay c d receipt =
     and_then (claim_outcome_from_receipt receipt) (\<lambda>outcome.
     and_then (case outcome of
         Claimed _ \<Rightarrow> and_then (store_contract (identifier_new ''ticket attempt ID'' (rc_subject_id receipt)))
                        (ticket_revision_for_attempt d)
       | _ \<Rightarrow> Inr (cl_ticket_revision_id c)) (\<lambda>trid.
     and_then (ticket_revision_status d trid) (\<lambda>status.
     Inr \<lparr>ct_ticket_id = tl_ticket_id status, ct_ticket_revision_id = trid, ct_outcome = outcome,
          ct_resulting_ticket_revision = rc_resulting_revision receipt,
          ct_audit_log_id = rc_audit_log_id receipt, ct_was_idempotent_retry = True\<rparr>)))"

definition validate_claim_campaign ::
  "int \<Rightarrow> claim_sponsored_ticket \<Rightarrow> ticket_revision_locked \<Rightarrow> db \<Rightarrow> unit store_result" where
  "validate_claim_campaign now c ticket d =
     (let unknown = StoreUnknownCampaign (cl_campaign_id c) in
      and_then (ok_or (get_row (campaigns d) (cl_campaign_id c)) unknown) (\<lambda>campaign.
      and_then (ok_or (get_row (application_revisions d) (ca_application_revision_id campaign)) unknown) (\<lambda>_.
      and_then (ok_or (get_row (application_revisions d) (tl_application_revision_id ticket)) unknown) (\<lambda>_.
      and_then (store_revision_from_sql (ca_revision campaign)) (\<lambda>r.
      first_error
        [require_expected (cl_expected_campaign_revision c) r,
         require (ca_lifecycle campaign = CAMPAIGN_RUNNING) (StoreCampaignClosed (cl_campaign_id c)),
         require (now < ca_deadline campaign) StoreCampaignDeadlineElapsed,
         require (ca_cost_state campaign = COST_KNOWN) (StoreCampaignCostFrozen (cl_campaign_id c)),
         require (ca_application_revision_id campaign = tl_application_revision_id ticket)
           StoreCampaignApplicationMismatch,
         require (\<not> 0 < application_revision_ticket_count d (tl_application_revision_id ticket) TICKET_IN_FLIGHT)
           StoreEngineeringTicketAlreadyInFlight,
         require (\<not> paid_session_active d) StorePaidSessionAlreadyRunning])))))"

definition claimed_attempt_row :: "claim_sponsored_ticket \<Rightarrow> int \<Rightarrow> ticket_attempt_row" where
  "claimed_attempt_row c now =
     \<lparr>ta_ticket_revision_id = cl_ticket_revision_id c, ta_campaign_id = cl_campaign_id c,
      ta_claimed_commit = current_head_commit (cl_requalification c),
      ta_claimed_tree = current_head_tree (cl_requalification c), ta_stage = ATTEMPT_ENGINEERING,
      ta_candidate_ordinal = 0, ta_rework_ordinal = 0, ta_failed = None, ta_released = None,
      ta_revision = 0, ta_created_at = now\<rparr>"

text \<open>\<open>ticket_attempts_one_unreleased_revision\<close>: one unreleased attempt per ticket revision.\<close>

definition unreleased_attempt_exists :: "db \<Rightarrow> int \<Rightarrow> bool" where
  "unreleased_attempt_exists d ticket_revision =
     exists_row (\<lambda>_ a. ta_ticket_revision_id a = ticket_revision \<and> ta_released a = None) (ticket_attempts d)"

definition claim_transition ::
  "int \<Rightarrow> claim_sponsored_ticket \<Rightarrow> ticket_revision_locked \<Rightarrow> aggregate_revision \<Rightarrow> requalification \<Rightarrow> db
     \<Rightarrow> ((claim_outcome \<times> int \<times> int) \<times> db) store_result" where
  "claim_transition now c status nxt outcome d =
     (let update = (\<lambda>d state code reason.
            update_requalification_and_ticket_state d status state nxt code (cl_requalification c) reason now) in
      case outcome of
        Reproduced \<Rightarrow>
          and_then (require (\<not> unreleased_attempt_exists d (cl_ticket_revision_id c)) StoreDatabase) (\<lambda>_.
          let attempt_id = next_id (ticket_attempts d);
              d1 = d\<lparr>ticket_attempts := insert_row (claimed_attempt_row c now) (ticket_attempts d)\<rparr> in
          and_then (update d1 TICKET_IN_FLIGHT REQUALIFICATION_REPRODUCED None) (\<lambda>d2.
          and_then (store_contract (identifier_new ''ticket attempt ID'' attempt_id)) (\<lambda>i.
          Inr ((Claimed i, CLAIMED_ATTEMPT_SUBJECT, attempt_id), d2))))
      | Resolved \<Rightarrow>
          and_then (update d TICKET_RESOLVED REQUALIFICATION_RESOLVED None) (\<lambda>d1.
          Inr ((ClaimResolved, CLAIM_RESOLVED_SUBJECT, cl_ticket_revision_id c), d1))
      | Diverged \<Rightarrow>
          and_then (update d TICKET_BLOCKED REQUALIFICATION_DIVERGED
              (Some ''current-head reproducer differs from the sponsored failure'')) (\<lambda>d1.
          Inr ((ClaimBlocked, CLAIM_BLOCKED_SUBJECT, cl_ticket_revision_id c), d1)))"

definition claim_sponsored_ticket_fresh ::
  "content_digest \<Rightarrow> int \<Rightarrow> claim_sponsored_ticket \<Rightarrow> db \<Rightarrow> (claim_ticket_receipt \<times> db) store_result" where
  "claim_sponsored_ticket_fresh fingerprint now c d =
     and_then (store_lock_ticket_revision d (cl_ticket_revision_id c)) (\<lambda>status.
     and_then (first_error
       [require_expected (cl_expected_ticket_revision c) (tl_revision status),
        store_require_ticket_state TicketSponsored (tl_state status),
        validate_claim_campaign now c status d]) (\<lambda>_.
     and_then (store_classify_requalification d status (cl_requalification c)) (\<lambda>classification.
     and_then (store_contract (revision_next (tl_revision status))) (\<lambda>nxt.
     and_then (claim_transition now c status nxt classification d) (\<lambda>((outcome, kind, subject), d1).
     and_then (insert_ticket_audit d1 (cl_principal c) (cl_command_id c) CLAIM_OPERATION fingerprint
                 kind subject nxt) (\<lambda>(audit, d2).
     Inr (\<lparr>ct_ticket_id = tl_ticket_id status, ct_ticket_revision_id = cl_ticket_revision_id c,
           ct_outcome = outcome, ct_resulting_ticket_revision = nxt, ct_audit_log_id = audit,
           ct_was_idempotent_retry = False\<rparr>, d2)))))))"

definition claim_sponsored_ticket_cmd ::
  "(byte list \<Rightarrow> content_digest) \<Rightarrow> int \<Rightarrow> claim_sponsored_ticket \<Rightarrow> db \<Rightarrow> (claim_ticket_receipt \<times> db) store_result" where
  "claim_sponsored_ticket_cmd hash now c d =
     and_then (first_error [store_validate_command (cl_principal c) (cl_command_id c),
                            store_validate_requalification (cl_requalification c)]) (\<lambda>_.
     let fingerprint = hash (claim_preimage c) in
     audited (find_ticket_audit d (cl_principal c) (cl_command_id c) CLAIM_OPERATION fingerprint)
       (claim_sponsored_ticket_replay c d) (claim_sponsored_ticket_fresh fingerprint now c d) d)"

section \<open>Failing and retrying an attempt\<close>

record ticket_attempt_receipt =
  tt_ticket_attempt_id :: ident
  tt_resulting_attempt_revision :: aggregate_revision
  tt_audit_log_id :: int
  tt_was_idempotent_retry :: bool

text \<open>The replay the three attempt commands share: the recorded revision, no other read.\<close>

definition ticket_attempt_replay :: "int \<Rightarrow> ident \<Rightarrow> audit_receipt \<Rightarrow> ticket_attempt_receipt store_result" where
  "ticket_attempt_replay subject attempt receipt =
     and_then (require_ticket_subject receipt subject) (\<lambda>_.
     Inr \<lparr>tt_ticket_attempt_id = attempt, tt_resulting_attempt_revision = rc_resulting_revision receipt,
          tt_audit_log_id = rc_audit_log_id receipt, tt_was_idempotent_retry = True\<rparr>)"

text \<open>The fences they share: both revisions and an in-flight ticket.\<close>

definition lock_fenced_attempt ::
  "db \<Rightarrow> ident \<Rightarrow> aggregate_revision \<Rightarrow> aggregate_revision \<Rightarrow> ticket_attempt_locked store_result" where
  "lock_fenced_attempt d i expected_attempt expected_ticket =
     and_then (lock_ticket_attempt d i) (\<lambda>attempt.
     and_then (first_error
       [require_expected expected_attempt (al_revision attempt),
        require_expected expected_ticket (al_ticket_revision attempt),
        store_require_ticket_state TicketInFlight (al_ticket_state attempt)]) (\<lambda>_.
     Inr attempt))"

text \<open>The write they share: the attempt row takes its next stage and revision, then the audit row.\<close>

definition move_attempt ::
  "db \<Rightarrow> ident \<Rightarrow> ticket_attempt_locked \<Rightarrow> int \<Rightarrow> (int \<times> string) option \<Rightarrow> string \<Rightarrow> string \<Rightarrow> string \<Rightarrow> content_digest \<Rightarrow> int
     \<Rightarrow> (ticket_attempt_receipt \<times> db) store_result" where
  "move_attempt d i attempt stage failed prin command_id operation fingerprint subject =
     and_then (store_contract (revision_next (al_revision attempt))) (\<lambda>nxt.
     and_then (revision_to_sql nxt) (\<lambda>r.
     let d1 = d\<lparr>ticket_attempts := update_row i (\<lambda>a. a\<lparr>
                  ta_stage := stage, ta_failed := failed, ta_revision := r\<rparr>) (ticket_attempts d)\<rparr> in
     and_then (insert_ticket_audit d1 prin command_id operation fingerprint subject i nxt) (\<lambda>(audit, d2).
     Inr (\<lparr>tt_ticket_attempt_id = i, tt_resulting_attempt_revision = nxt, tt_audit_log_id = audit,
           tt_was_idempotent_retry = False\<rparr>, d2))))"

record fail_ticket_attempt =
  fa_principal :: string
  fa_command_id :: string
  fa_ticket_attempt_id :: ident
  fa_expected_attempt_revision :: aggregate_revision
  fa_expected_ticket_revision :: aggregate_revision
  fa_reason :: string

definition failure_preimage :: "fail_ticket_attempt \<Rightarrow> byte list" where
  "failure_preimage c =
     ticket_fingerprint_prefix FAIL_OPERATION (fa_principal c) (fa_command_id c)
     @ hash_i64 (fa_ticket_attempt_id c) @ hash_u64 (fa_expected_attempt_revision c)
     @ hash_u64 (fa_expected_ticket_revision c) @ hash_string (fa_reason c)"

definition attempt_is_live :: "int \<Rightarrow> bool" where
  "attempt_is_live stage =
     (stage = ATTEMPT_ENGINEERING \<or> stage = ATTEMPT_HARD_VALIDATION \<or> stage = ATTEMPT_QUALITY
      \<or> stage = ATTEMPT_AWAITING_ARCHITECT \<or> stage = ATTEMPT_REWORK_ENGINEERING
      \<or> stage = ATTEMPT_REWORK_VALIDATION \<or> stage = ATTEMPT_REWORK_QUALITY)"

definition fail_ticket_attempt_fresh ::
  "content_digest \<Rightarrow> int \<Rightarrow> fail_ticket_attempt \<Rightarrow> db \<Rightarrow> (ticket_attempt_receipt \<times> db) store_result" where
  "fail_ticket_attempt_fresh fingerprint now c d =
     and_then (lock_fenced_attempt d (fa_ticket_attempt_id c) (fa_expected_attempt_revision c)
                 (fa_expected_ticket_revision c)) (\<lambda>attempt.
     and_then (require (attempt_is_live (al_stage attempt)) StoreTicketAttemptNotReleasable) (\<lambda>_.
     move_attempt d (fa_ticket_attempt_id c) attempt ATTEMPT_FAILED (Some (now, fa_reason c))
       (fa_principal c) (fa_command_id c) FAIL_OPERATION fingerprint FAILED_ATTEMPT_SUBJECT))"

definition fail_ticket_attempt_cmd ::
  "(byte list \<Rightarrow> content_digest) \<Rightarrow> int \<Rightarrow> fail_ticket_attempt \<Rightarrow> db \<Rightarrow> (ticket_attempt_receipt \<times> db) store_result" where
  "fail_ticket_attempt_cmd hash now c d =
     and_then (first_error [store_validate_command (fa_principal c) (fa_command_id c),
                            validate_reason (fa_reason c) ''failure reason'']) (\<lambda>_.
     let fingerprint = hash (failure_preimage c) in
     audited (find_ticket_audit d (fa_principal c) (fa_command_id c) FAIL_OPERATION fingerprint)
       (ticket_attempt_replay FAILED_ATTEMPT_SUBJECT (fa_ticket_attempt_id c))
       (fail_ticket_attempt_fresh fingerprint now c d) d)"

record retry_quality_attempt =
  rqa_principal :: string
  rqa_command_id :: string
  rqa_ticket_attempt_id :: ident
  rqa_candidate_id :: ident
  rqa_expected_attempt_revision :: aggregate_revision
  rqa_expected_ticket_revision :: aggregate_revision
  rqa_reason :: string

definition quality_retry_preimage :: "retry_quality_attempt \<Rightarrow> byte list" where
  "quality_retry_preimage c =
     ticket_fingerprint_prefix QUALITY_RETRY_OPERATION (rqa_principal c) (rqa_command_id c)
     @ hash_i64 (rqa_ticket_attempt_id c) @ hash_i64 (rqa_candidate_id c)
     @ hash_u64 (rqa_expected_attempt_revision c) @ hash_u64 (rqa_expected_ticket_revision c)
     @ hash_string (rqa_reason c)"

definition prior_retry_exists :: "db \<Rightarrow> string \<Rightarrow> int \<Rightarrow> ident \<Rightarrow> bool" where
  "prior_retry_exists d operation kind attempt =
     exists_row (\<lambda>_ a. au_operation a = operation \<and> au_subject_kind a = kind \<and> au_subject_id a = attempt) (audit_log d)"

definition can_retry_quality_attempt :: "int \<Rightarrow> int \<Rightarrow> bool \<Rightarrow> bool \<Rightarrow> bool" where
  "can_retry_quality_attempt attempt_stage candidate_lifecycle candidate_commit_present prior_quality_retry =
     ((attempt_stage = ATTEMPT_QUALITY \<or> attempt_stage = ATTEMPT_FAILED)
      \<and> candidate_lifecycle = CANDIDATE_VALIDATED \<and> candidate_commit_present \<and> \<not> prior_quality_retry)"

definition retry_quality_attempt_fresh ::
  "content_digest \<Rightarrow> int \<Rightarrow> retry_quality_attempt \<Rightarrow> db \<Rightarrow> (ticket_attempt_receipt \<times> db) store_result" where
  "retry_quality_attempt_fresh fingerprint now c d =
     and_then (lock_fenced_attempt d (rqa_ticket_attempt_id c) (rqa_expected_attempt_revision c)
                 (rqa_expected_ticket_revision c)) (\<lambda>attempt.
     and_then (ok_or (get_row (candidates d) (rqa_candidate_id c)) StoreTicketAttemptNotReleasable) (\<lambda>candidate.
     and_then (first_error
       [require (cr_ticket_attempt_id candidate = rqa_ticket_attempt_id c) StoreTicketAttemptNotReleasable,
        require (can_retry_quality_attempt (al_stage attempt) (cr_lifecycle candidate) (cr_commit candidate \<noteq> None)
                   (prior_retry_exists d QUALITY_RETRY_OPERATION QUALITY_RETRY_SUBJECT (rqa_ticket_attempt_id c)))
          StoreTicketAttemptNotReleasable]) (\<lambda>_.
     move_attempt d (rqa_ticket_attempt_id c) attempt ATTEMPT_REWORK_QUALITY (Some (now, rqa_reason c))
       (rqa_principal c) (rqa_command_id c) QUALITY_RETRY_OPERATION fingerprint QUALITY_RETRY_SUBJECT)))"

definition retry_quality_attempt_cmd ::
  "(byte list \<Rightarrow> content_digest) \<Rightarrow> int \<Rightarrow> retry_quality_attempt \<Rightarrow> db \<Rightarrow> (ticket_attempt_receipt \<times> db) store_result" where
  "retry_quality_attempt_cmd hash now c d =
     and_then (first_error [store_validate_command (rqa_principal c) (rqa_command_id c),
                            validate_reason (rqa_reason c) ''Quality retry reason'']) (\<lambda>_.
     let fingerprint = hash (quality_retry_preimage c) in
     audited (find_ticket_audit d (rqa_principal c) (rqa_command_id c) QUALITY_RETRY_OPERATION fingerprint)
       (ticket_attempt_replay QUALITY_RETRY_SUBJECT (rqa_ticket_attempt_id c))
       (retry_quality_attempt_fresh fingerprint now c d) d)"

record retry_engineering_attempt =
  rea_principal :: string
  rea_command_id :: string
  rea_ticket_attempt_id :: ident
  rea_expected_attempt_revision :: aggregate_revision
  rea_expected_ticket_revision :: aggregate_revision
  rea_reason :: string

definition engineering_retry_preimage :: "retry_engineering_attempt \<Rightarrow> byte list" where
  "engineering_retry_preimage c =
     ticket_fingerprint_prefix ENGINEERING_RETRY_OPERATION (rea_principal c) (rea_command_id c)
     @ hash_i64 (rea_ticket_attempt_id c) @ hash_u64 (rea_expected_attempt_revision c)
     @ hash_u64 (rea_expected_ticket_revision c) @ hash_string (rea_reason c)"

definition can_retry_engineering_attempt :: "int \<Rightarrow> bool \<Rightarrow> bool \<Rightarrow> bool" where
  "can_retry_engineering_attempt attempt_stage candidate_exists prior_engineering_retry =
     (attempt_stage = ATTEMPT_FAILED \<and> \<not> candidate_exists \<and> \<not> prior_engineering_retry)"

definition attempt_campaign :: "db \<Rightarrow> ident \<Rightarrow> campaign_row option" where
  "attempt_campaign d i =
     Option.bind (get_row (ticket_attempts d) i) (\<lambda>ta. get_row (campaigns d) (ta_campaign_id ta))"

definition candidate_exists_for :: "db \<Rightarrow> ident \<Rightarrow> bool" where
  "candidate_exists_for d attempt = exists_row (\<lambda>_ c. cr_ticket_attempt_id c = attempt) (candidates d)"

definition retry_engineering_attempt_fresh ::
  "content_digest \<Rightarrow> retry_engineering_attempt \<Rightarrow> db \<Rightarrow> (ticket_attempt_receipt \<times> db) store_result" where
  "retry_engineering_attempt_fresh fingerprint c d =
     and_then (lock_fenced_attempt d (rea_ticket_attempt_id c) (rea_expected_attempt_revision c)
                 (rea_expected_ticket_revision c)) (\<lambda>attempt.
     and_then (require (\<not> (al_released attempt \<or> al_stage attempt \<noteq> ATTEMPT_FAILED))
                 StoreTicketAttemptNotReleasable) (\<lambda>_.
     and_then (ok_or (attempt_campaign d (rea_ticket_attempt_id c)) StoreTicketAttemptNotReleasable) (\<lambda>campaign.
     and_then (first_error
       [require (\<not> (ca_lifecycle campaign \<noteq> CAMPAIGN_RUNNING \<or> ca_cost_state campaign \<noteq> COST_KNOWN))
          StoreTicketAttemptNotReleasable,
        require (can_retry_engineering_attempt (al_stage attempt)
                   (candidate_exists_for d (rea_ticket_attempt_id c))
                   (prior_retry_exists d ENGINEERING_RETRY_OPERATION ENGINEERING_RETRY_SUBJECT
                     (rea_ticket_attempt_id c)))
          StoreTicketAttemptNotReleasable]) (\<lambda>_.
     move_attempt d (rea_ticket_attempt_id c) attempt ATTEMPT_ENGINEERING None
       (rea_principal c) (rea_command_id c) ENGINEERING_RETRY_OPERATION fingerprint ENGINEERING_RETRY_SUBJECT))))"

definition retry_engineering_attempt_cmd ::
  "(byte list \<Rightarrow> content_digest) \<Rightarrow> retry_engineering_attempt \<Rightarrow> db \<Rightarrow> (ticket_attempt_receipt \<times> db) store_result" where
  "retry_engineering_attempt_cmd hash c d =
     and_then (first_error [store_validate_command (rea_principal c) (rea_command_id c),
                            validate_reason (rea_reason c) ''Engineering retry reason'']) (\<lambda>_.
     let fingerprint = hash (engineering_retry_preimage c) in
     audited (find_ticket_audit d (rea_principal c) (rea_command_id c) ENGINEERING_RETRY_OPERATION fingerprint)
       (ticket_attempt_replay ENGINEERING_RETRY_SUBJECT (rea_ticket_attempt_id c))
       (retry_engineering_attempt_fresh fingerprint c d) d)"

section \<open>Releasing an attempt\<close>

record attempt_release =
  rt_principal :: string
  rt_command_id :: string
  rt_ticket_attempt_id :: ident
  rt_expected_attempt_revision :: aggregate_revision
  rt_expected_ticket_revision :: aggregate_revision
  rt_reason :: string
  rt_requalification :: current_head_requalification

record release_ticket_receipt =
  rx_ticket_id :: ident
  rx_ticket_revision_id :: ident
  rx_ticket_attempt_id :: ident
  rx_outcome :: release_outcome
  rx_resulting_ticket_revision :: aggregate_revision
  rx_resulting_attempt_revision :: aggregate_revision
  rx_audit_log_id :: int
  rx_was_idempotent_retry :: bool

definition attempt_release_preimage :: "attempt_release \<Rightarrow> byte list" where
  "attempt_release_preimage c =
     ticket_fingerprint_prefix ATTEMPT_RELEASE_OPERATION (rt_principal c) (rt_command_id c)
     @ hash_i64 (rt_ticket_attempt_id c) @ hash_u64 (rt_expected_attempt_revision c)
     @ hash_u64 (rt_expected_ticket_revision c) @ hash_string (rt_reason c)
     @ hash_requalification (rt_requalification c)"

definition release_outcome_from_receipt :: "audit_receipt \<Rightarrow> release_outcome store_result" where
  "release_outcome_from_receipt receipt =
     (if rc_subject_kind receipt = RELEASED_ATTEMPT_SUBJECT then Inr OutcomeReleased
      else if rc_subject_kind receipt = RELEASE_RESOLVED_SUBJECT then Inr OutcomeResolved
      else if rc_subject_kind receipt = RELEASE_BLOCKED_SUBJECT then Inr OutcomeBlocked
      else Inl StoreAuditSubjectKindMismatch)"

definition attempt_release_replay :: "attempt_release \<Rightarrow> db \<Rightarrow> audit_receipt \<Rightarrow> release_ticket_receipt store_result" where
  "attempt_release_replay c d receipt =
     and_then (release_outcome_from_receipt receipt) (\<lambda>outcome.
     and_then (ticket_attempt_status d (rt_ticket_attempt_id c)) (\<lambda>attempt.
     Inr \<lparr>rx_ticket_id = al_ticket_id attempt, rx_ticket_revision_id = al_ticket_revision_id attempt,
          rx_ticket_attempt_id = rt_ticket_attempt_id c, rx_outcome = outcome,
          rx_resulting_ticket_revision = tl_revision (al_ticket attempt),
          rx_resulting_attempt_revision = rc_resulting_revision receipt,
          rx_audit_log_id = rc_audit_log_id receipt, rx_was_idempotent_retry = True\<rparr>))"

fun release_subject :: "requalification \<Rightarrow> int" where
  "release_subject Reproduced = RELEASED_ATTEMPT_SUBJECT"
| "release_subject Resolved = RELEASE_RESOLVED_SUBJECT"
| "release_subject Diverged = RELEASE_BLOCKED_SUBJECT"

definition attempt_release_fresh ::
  "content_digest \<Rightarrow> int \<Rightarrow> attempt_release \<Rightarrow> db \<Rightarrow> (release_ticket_receipt \<times> db) store_result" where
  "attempt_release_fresh fingerprint now c d =
     and_then (lock_fenced_attempt d (rt_ticket_attempt_id c) (rt_expected_attempt_revision c)
                 (rt_expected_ticket_revision c)) (\<lambda>attempt.
     and_then (first_error
       [require (\<not> al_released attempt) StoreTicketAttemptAlreadyReleased,
        require (al_stage attempt = ATTEMPT_FAILED \<or> al_stage attempt = ATTEMPT_CANCELLED)
          StoreTicketAttemptNotReleasable]) (\<lambda>_.
     and_then (store_classify_requalification d (al_ticket attempt) (rt_requalification c)) (\<lambda>classification.
     and_then (store_contract (revision_next (al_ticket_revision attempt))) (\<lambda>next_ticket.
     and_then (store_contract (revision_next (al_revision attempt))) (\<lambda>next_attempt.
     let (outcome, state, code, blocked_reason) = release_transition classification in
     and_then (if state = TICKET_SPONSORED
               then require_ready_buffer_open d (tl_application_revision_id (al_ticket attempt))
               else Inr ()) (\<lambda>_.
     and_then (revision_to_sql next_attempt) (\<lambda>r.
     let d1 = d\<lparr>ticket_attempts := update_row (rt_ticket_attempt_id c) (\<lambda>a. a\<lparr>
                  ta_released := Some (now, rt_reason c), ta_revision := r\<rparr>) (ticket_attempts d)\<rparr> in
     and_then (update_requalification_and_ticket_state d1 (al_ticket attempt) state next_ticket code
                 (rt_requalification c) blocked_reason now) (\<lambda>d2.
     and_then (insert_ticket_audit d2 (rt_principal c) (rt_command_id c) ATTEMPT_RELEASE_OPERATION fingerprint
                 (release_subject classification) (rt_ticket_attempt_id c) next_attempt) (\<lambda>(audit, d3).
     Inr (\<lparr>rx_ticket_id = al_ticket_id attempt, rx_ticket_revision_id = al_ticket_revision_id attempt,
           rx_ticket_attempt_id = rt_ticket_attempt_id c, rx_outcome = outcome,
           rx_resulting_ticket_revision = next_ticket, rx_resulting_attempt_revision = next_attempt,
           rx_audit_log_id = audit, rx_was_idempotent_retry = False\<rparr>, d3))))))))))"

definition attempt_release_cmd ::
  "(byte list \<Rightarrow> content_digest) \<Rightarrow> int \<Rightarrow> attempt_release \<Rightarrow> db \<Rightarrow> (release_ticket_receipt \<times> db) store_result" where
  "attempt_release_cmd hash now c d =
     and_then (first_error [store_validate_command (rt_principal c) (rt_command_id c),
                            validate_reason (rt_reason c) ''release reason'',
                            store_validate_requalification (rt_requalification c)]) (\<lambda>_.
     let fingerprint = hash (attempt_release_preimage c) in
     audited (find_ticket_audit d (rt_principal c) (rt_command_id c) ATTEMPT_RELEASE_OPERATION fingerprint)
       (attempt_release_replay c d) (attempt_release_fresh fingerprint now c d) d)"

section \<open>Completing a campaign\<close>

record complete_campaign_at_delivery_target =
  cp_principal :: string
  cp_command_id :: string
  cp_campaign_id :: ident
  cp_expected_campaign_revision :: aggregate_revision

definition completion_preimage :: "complete_campaign_at_delivery_target \<Rightarrow> byte list" where
  "completion_preimage c =
     ticket_fingerprint_prefix COMPLETE_CAMPAIGN_OPERATION (cp_principal c) (cp_command_id c)
     @ hash_i64 (cp_campaign_id c) @ hash_u64 (cp_expected_campaign_revision c)"

definition complete_campaign_replay :: "audit_receipt \<Rightarrow> aggregate_revision store_result" where
  "complete_campaign_replay receipt =
     and_then (require_ticket_subject receipt CAMPAIGN_COMPLETED_SUBJECT) (\<lambda>_.
     Inr (rc_resulting_revision receipt))"

definition complete_campaign_fresh ::
  "content_digest \<Rightarrow> complete_campaign_at_delivery_target \<Rightarrow> db \<Rightarrow> (aggregate_revision \<times> db) store_result" where
  "complete_campaign_fresh fingerprint c d =
     and_then (ok_or (get_row (campaigns d) (cp_campaign_id c)) (StoreUnknownCampaign (cp_campaign_id c))) (\<lambda>campaign.
     and_then (store_revision_from_sql (ca_revision campaign)) (\<lambda>revision.
     and_then (first_error
       [require_expected (cp_expected_campaign_revision c) revision,
        require (ca_lifecycle campaign = CAMPAIGN_RUNNING) (StoreCampaignClosed (cp_campaign_id c)),
        require (\<not> delivered_attempt_count d (cp_campaign_id c) < ca_delivery_target campaign)
          StoreCampaignDeliveryTargetNotReached]) (\<lambda>_.
     and_then (store_contract (revision_next revision)) (\<lambda>nxt.
     and_then (revision_to_sql nxt) (\<lambda>r.
     let d1 = d\<lparr>campaigns := update_row (cp_campaign_id c)
                  (\<lambda>g. g\<lparr>ca_lifecycle := CAMPAIGN_COMPLETED, ca_revision := r\<rparr>) (campaigns d)\<rparr> in
     and_then (insert_ticket_audit d1 (cp_principal c) (cp_command_id c) COMPLETE_CAMPAIGN_OPERATION fingerprint
                 CAMPAIGN_COMPLETED_SUBJECT (cp_campaign_id c) nxt) (\<lambda>(_, d2).
     Inr (nxt, d2)))))))"

definition complete_campaign_at_delivery_target_cmd ::
  "(byte list \<Rightarrow> content_digest) \<Rightarrow> complete_campaign_at_delivery_target \<Rightarrow> db \<Rightarrow> (aggregate_revision \<times> db) store_result" where
  "complete_campaign_at_delivery_target_cmd hash c d =
     and_then (store_validate_command (cp_principal c) (cp_command_id c)) (\<lambda>_.
     let fingerprint = hash (completion_preimage c) in
     audited (find_ticket_audit d (cp_principal c) (cp_command_id c) COMPLETE_CAMPAIGN_OPERATION fingerprint)
       complete_campaign_replay (complete_campaign_fresh fingerprint c d) d)"

end
