(* ===== verification/Ticket_Invariant.thy ===== *)
theory Ticket_Invariant
  imports Ticket_Store
begin

text \<open>
  What the two authorities keep together about tickets and attempts.  \<open>ticket_inv\<close> says: a ticket and
  its current revision move in lockstep; at most one ticket of an application revision is in flight; a
  ticket revision has an unreleased attempt exactly when it is in flight, delivered or rejected, and
  never two; a reproducer is live at most once per application revision; an attempt is reworked at
  most once.  \<open>ticket_moves\<close> is the one write to a ticket all commands share.
\<close>

section \<open>The invariant\<close>

definition owned_state :: "int \<Rightarrow> bool" where
  "owned_state s \<longleftrightarrow> s = TICKET_IN_FLIGHT \<or> s = TICKET_DELIVERED \<or> s = TICKET_REJECTED"

definition reached_state :: "int \<Rightarrow> bool" where
  "reached_state s \<longleftrightarrow> 0 \<le> s \<and> s \<le> TICKET_REJECTED \<and> s \<noteq> TICKET_SUPERSEDED"

definition ticket_linked :: "db \<Rightarrow> int \<Rightarrow> ticket_revision_row \<Rightarrow> bool" where
  "ticket_linked d i tr \<longleftrightarrow>
     reached_state (tr_lifecycle tr) \<and> 0 \<le> tr_revision tr \<and> 0 < tr_application_revision_id tr
     \<and> 0 < tr_expected_observation_artifact_id tr \<and> 0 < tr_discovery_observation_artifact_id tr
     \<and> (\<exists>t. get_row (tickets d) (tr_ticket_id tr) = Some t \<and> ti_current_ticket_revision_id t = i
          \<and> ti_lifecycle t = tr_lifecycle tr \<and> ti_revision t = tr_revision tr)"

definition in_flight_key :: "ticket_revision_row \<Rightarrow> int option" where
  "in_flight_key tr = (if tr_lifecycle tr = TICKET_IN_FLIGHT then Some (tr_application_revision_id tr) else None)"

definition live_reproducer_key :: "ticket_revision_row \<Rightarrow> (int \<times> int) option" where
  "live_reproducer_key tr =
     (if tr_lifecycle tr = TICKET_BLOCKED then None
      else Some (tr_application_revision_id tr, tr_reproducer_artifact_id tr))"

definition unreleased_key :: "ticket_attempt_row \<Rightarrow> int option" where
  "unreleased_key a = (if ta_released a = None then Some (ta_ticket_revision_id a) else None)"

lemma unreleased_key_iff: "unreleased_key a = Some k \<longleftrightarrow> ta_ticket_revision_id a = k \<and> ta_released a = None"
  by (auto simp: unreleased_key_def)

definition attempt_ok :: "db \<Rightarrow> ticket_attempt_row \<Rightarrow> bool" where
  "attempt_ok d a \<longleftrightarrow> get_row (ticket_revisions d) (ta_ticket_revision_id a) \<noteq> None
     \<and> 0 \<le> ta_rework_ordinal a \<and> ta_rework_ordinal a \<le> 1"

definition ticket_inv :: "db \<Rightarrow> bool" where
  "ticket_inv d \<longleftrightarrow> tables_ok d
     \<and> (\<forall>i tr. get_row (ticket_revisions d) i = Some tr \<longrightarrow> ticket_linked d i tr)
     \<and> (\<forall>i tr. get_row (ticket_revisions d) i = Some tr \<longrightarrow>
           (unreleased_attempt_exists d i \<longleftrightarrow> owned_state (tr_lifecycle tr)))
     \<and> (\<forall>i a. get_row (ticket_attempts d) i = Some a \<longrightarrow> attempt_ok d a)
     \<and> unique_key (get_row (ticket_revisions d)) in_flight_key
     \<and> unique_key (get_row (ticket_revisions d)) live_reproducer_key
     \<and> unique_key (get_row (ticket_attempts d)) unreleased_key"

section \<open>What the locks return\<close>

lemma lock_candidate_attemptE:
  assumes "lock_candidate_attempt d i = Inr a"
  obtains ta tr t where "get_row (ticket_attempts d) i = Some ta"
    "get_row (ticket_revisions d) (ta_ticket_revision_id ta) = Some tr"
    "at_id a = i" "at_ticket_revision_id a = ta_ticket_revision_id ta" "at_ticket_id a = tr_ticket_id tr"
    "decode_ticket_state (tr_lifecycle tr) = Inr (at_ticket_state a)"
    "ta_released ta = None \<longleftrightarrow> \<not> at_released a" "at_rework_ordinal a = ta_rework_ordinal ta"
proof -
  show thesis using assms unfolding lock_candidate_attempt_def Let_def
    apply (clarsimp simp del: not_None_eq)
    apply (rule that)
    apply assumption
    apply assumption
    apply (auto simp del: not_None_eq)
    done
qed

lemma ticket_locked_of_ok:
  assumes "ticket_locked_of i tr t = Inr a"
  shows "tl_ticket_id a = tr_ticket_id tr" "tl_ticket_revision_id a = i"
    "tl_application_revision_id a = tr_application_revision_id tr"
    "ticket_state_from_sql (tr_lifecycle tr) = Inr (tl_state a)"
    "tl_expected_observation_artifact_id a = tr_expected_observation_artifact_id tr"
    "tl_discovery_observation_artifact_id a = tr_discovery_observation_artifact_id tr"
  using assms by (auto simp: ticket_locked_of_def)

lemma store_lock_ticket_revisionE:
  assumes "store_lock_ticket_revision d i = Inr a"
  obtains tr where "get_row (ticket_revisions d) i = Some tr" "tl_ticket_id a = tr_ticket_id tr"
    "tl_ticket_revision_id a = i" "tl_application_revision_id a = tr_application_revision_id tr"
    "ticket_state_from_sql (tr_lifecycle tr) = Inr (tl_state a)"
proof -
  from assms obtain tr t where tr: "get_row (ticket_revisions d) i = Some tr" and l: "ticket_locked_of i tr t = Inr a"
    by (auto simp: store_lock_ticket_revision_def)
  show thesis by (rule that [OF tr ticket_locked_of_ok(1-4) [OF l]])
qed

lemma lock_ticket_attemptE:
  assumes "lock_ticket_attempt d i = Inr a"
  obtains ta tr where "get_row (ticket_attempts d) i = Some ta"
    "get_row (ticket_revisions d) (ta_ticket_revision_id ta) = Some tr"
    "tl_ticket_id (al_ticket a) = tr_ticket_id tr" "tl_ticket_revision_id (al_ticket a) = ta_ticket_revision_id ta"
    "tl_application_revision_id (al_ticket a) = tr_application_revision_id tr"
    "ticket_state_from_sql (tr_lifecycle tr) = Inr (al_ticket_state a)"
    "ta_released ta = None \<longleftrightarrow> \<not> al_released a" "al_stage a = ta_stage ta"
proof -
  show thesis using assms unfolding lock_ticket_attempt_def
    apply (clarsimp simp del: not_None_eq)
    apply (frule ticket_locked_of_ok(1), frule ticket_locked_of_ok(2), frule ticket_locked_of_ok(3))
    apply (frule ticket_locked_of_ok(4))
    apply (rule that)
    apply assumption
    apply assumption
    apply (simp_all del: not_None_eq)
    done
qed

lemma ticket_state_codes [simp]:
  "ticket_state_from_sql v = Inr TicketProposed \<longleftrightarrow> v = TICKET_PROPOSED"
  "ticket_state_from_sql v = Inr TicketSponsored \<longleftrightarrow> v = TICKET_SPONSORED"
  "ticket_state_from_sql v = Inr TicketInFlight \<longleftrightarrow> v = TICKET_IN_FLIGHT"
  "decode_ticket_state v = Inr TicketProposed \<longleftrightarrow> v = TICKET_PROPOSED"
  "decode_ticket_state v = Inr TicketBlocked \<longleftrightarrow> v = TICKET_BLOCKED"
  "decode_ticket_state v = Inr TicketInFlight \<longleftrightarrow> v = TICKET_IN_FLIGHT"
  by (auto simp: ticket_state_from_sql_def decode_ticket_state_def)

section \<open>The write every ticket transition makes\<close>

definition ticket_moves :: "db \<Rightarrow> int \<Rightarrow> int \<Rightarrow> db \<Rightarrow> bool" where
  "ticket_moves d i s d' \<longleftrightarrow>
     (\<exists>tr r g. get_row (ticket_revisions d) i = Some tr \<and> 0 \<le> r
        \<and> tickets d' = update_row (tr_ticket_id tr) (\<lambda>t. t\<lparr>ti_lifecycle := s, ti_revision := r\<rparr>) (tickets d)
        \<and> ticket_revisions d' = update_row i g (ticket_revisions d)
        \<and> tr_ticket_id (g tr) = tr_ticket_id tr
        \<and> tr_application_revision_id (g tr) = tr_application_revision_id tr
        \<and> tr_reproducer_artifact_id (g tr) = tr_reproducer_artifact_id tr
        \<and> tr_expected_observation_artifact_id (g tr) = tr_expected_observation_artifact_id tr
        \<and> tr_discovery_observation_artifact_id (g tr) = tr_discovery_observation_artifact_id tr
        \<and> tr_lifecycle (g tr) = s \<and> tr_revision (g tr) = r \<and> live_reproducer_free d i s)"

definition tickets_same :: "db \<Rightarrow> db \<Rightarrow> bool" where
  "tickets_same d d' \<longleftrightarrow> tickets d' = tickets d \<and> ticket_revisions d' = ticket_revisions d"

lemma live_reproducer_free_cong:
  "ticket_revisions d = ticket_revisions d' \<Longrightarrow> live_reproducer_free d i s = live_reproducer_free d' i s"
  by (simp only: live_reproducer_free_def)

lemma update_ticket_state_parts_moves:
  assumes "update_ticket_state_parts dm t i s nxt sr br now = Inr d'" "get_row (ticket_revisions d) i = Some tr"
    and "tr_ticket_id tr = t" "tickets dm = tickets d" "ticket_revisions dm = ticket_revisions d"
  shows "ticket_moves d i s d'"
  using assms live_reproducer_free_cong [OF assms(5)]
  unfolding ticket_moves_def update_ticket_state_parts_def revision_sql_def
  by (intro exI [of _ tr] exI [of _ "uint nxt"] exI) (auto intro!: ext)

lemma update_ticket_requalification_moves:
  assumes "update_ticket_requalification dm a s nxt code v br now = Inr d'"
    and "get_row (ticket_revisions d) (at_ticket_revision_id a) = Some tr"
    and "tr_ticket_id tr = at_ticket_id a" "tickets dm = tickets d" "ticket_revisions dm = ticket_revisions d"
  shows "ticket_moves d (at_ticket_revision_id a) s d'"
  using assms live_reproducer_free_cong [OF assms(5)]
  unfolding ticket_moves_def update_ticket_requalification_def revision_sql_def
  by (intro exI [of _ tr] exI [of _ "uint nxt"] exI) (auto intro!: ext)

lemma update_ticket_states_moves:
  assumes "update_ticket_states dm a s nxt sr br now = Inr d'"
    and "get_row (ticket_revisions d) (tl_ticket_revision_id a) = Some tr"
    and "tr_ticket_id tr = tl_ticket_id a" "tickets dm = tickets d" "ticket_revisions dm = ticket_revisions d"
  shows "ticket_moves d (tl_ticket_revision_id a) s d'"
  using assms live_reproducer_free_cong [OF assms(5)]
  unfolding ticket_moves_def update_ticket_states_def revision_to_sql_def
  by (intro exI [of _ tr] exI [of _ "uint nxt"] exI) (auto intro!: ext)

lemma update_requalification_moves:
  assumes "update_requalification_and_ticket_state dm a s nxt code v br now = Inr d'"
    and "get_row (ticket_revisions d) (tl_ticket_revision_id a) = Some tr"
    and "tr_ticket_id tr = tl_ticket_id a" "tickets dm = tickets d" "ticket_revisions dm = ticket_revisions d"
  shows "ticket_moves d (tl_ticket_revision_id a) s d'"
  using assms live_reproducer_free_cong [OF assms(5)]
  unfolding ticket_moves_def update_requalification_and_ticket_state_def revision_to_sql_def
  by (intro exI [of _ tr] exI [of _ "uint nxt"] exI) (auto intro!: ext)

section \<open>Keeping the invariant\<close>

lemma unique_key_change:
  assumes "unique_key (get_row t) key" "get_row t i = Some r"
    and new: "\<And>k j x. key (f r) = Some k \<Longrightarrow> j \<noteq> i \<Longrightarrow> get_row t j = Some x \<Longrightarrow> key x \<noteq> Some k"
  shows "unique_key (get_row (update_row i f t)) key"
  unfolding unique_key_def
proof (intro allI impI)
  fix a b x y k
  assume "get_row (update_row i f t) a = Some x" "get_row (update_row i f t) b = Some y" "key x = Some k" "key y = Some k"
  then show "a = b"
    using assms(2) new [of k] unique_keyD [OF assms(1), of a x b y k]
    by (cases "a = i"; cases "b = i") (auto simp: tbl.get_upd)
qed

text \<open>
  A transition that moves one ticket keeps the invariant when the attempts follow: the moved revision
  is owned exactly in the states that own an attempt, and every other revision is owned as before.
\<close>

lemma ticket_inv_move:
  assumes inv: "ticket_inv d" and tabs: "tables_ok d'" and moves: "ticket_moves d i s d'" and s: "reached_state s"
    and wip: "s = TICKET_IN_FLIGHT \<Longrightarrow> get_row (ticket_revisions d) i = Some tr \<Longrightarrow>
        tr_lifecycle tr = TICKET_IN_FLIGHT
        \<or> (\<forall>j x. get_row (ticket_revisions d) j = Some x \<longrightarrow> in_flight_key x \<noteq> Some (tr_application_revision_id tr))"
    and tr: "get_row (ticket_revisions d) i = Some tr"
    and owned: "\<And>k. unreleased_attempt_exists d' k \<longleftrightarrow> (if k = i then owned_state s else unreleased_attempt_exists d k)"
    and attempts: "\<And>j a. get_row (ticket_attempts d') j = Some a \<Longrightarrow> attempt_ok d a"
      "unique_key (get_row (ticket_attempts d')) unreleased_key"
  shows "ticket_inv d'"
proof -
  from moves tr obtain r g where g: "0 \<le> r"
      "tickets d' = update_row (tr_ticket_id tr) (\<lambda>t. t\<lparr>ti_lifecycle := s, ti_revision := r\<rparr>) (tickets d)"
      "ticket_revisions d' = update_row i g (ticket_revisions d)"
      "tr_ticket_id (g tr) = tr_ticket_id tr" "tr_application_revision_id (g tr) = tr_application_revision_id tr"
      "tr_reproducer_artifact_id (g tr) = tr_reproducer_artifact_id tr"
      "tr_expected_observation_artifact_id (g tr) = tr_expected_observation_artifact_id tr"
      "tr_discovery_observation_artifact_id (g tr) = tr_discovery_observation_artifact_id tr"
      "tr_lifecycle (g tr) = s" "tr_revision (g tr) = r" "live_reproducer_free d i s"
    unfolding ticket_moves_def by auto
  from inv have d: "tables_ok d" "\<And>j x. get_row (ticket_revisions d) j = Some x \<Longrightarrow> ticket_linked d j x"
      "\<And>j x. get_row (ticket_revisions d) j = Some x \<Longrightarrow> unreleased_attempt_exists d j \<longleftrightarrow> owned_state (tr_lifecycle x)"
      "unique_key (get_row (ticket_revisions d)) in_flight_key"
      "unique_key (get_row (ticket_revisions d)) live_reproducer_key"
    unfolding ticket_inv_def by auto
  have t: "table_ok (ticket_revisions d)" using d(1) by (simp add: tables_ok_def)
  have "ticket_linked d' j x" if "get_row (ticket_revisions d') j = Some x" for j x
  proof (cases "j = i")
    case True
    then show ?thesis using that d(2) [OF tr] tr s g
      by (auto simp: ticket_linked_def tbl.get_upd g(2,3))
  next
    case False
    then have x: "get_row (ticket_revisions d) j = Some x" using that by (simp add: g(3) tbl.get_upd)
    then have "tr_ticket_id x \<noteq> tr_ticket_id tr"
      using d(2) [OF x] d(2) [OF tr] False by (auto simp: ticket_linked_def)
    then show ?thesis using d(2) [OF x] by (simp add: ticket_linked_def g(2) tbl.get_upd)
  qed
  moreover have "unreleased_attempt_exists d' j \<longleftrightarrow> owned_state (tr_lifecycle x)"
    if "get_row (ticket_revisions d') j = Some x" for j x
    using that owned [of j] d(3) [of j] tr by (auto simp: g(3,9) tbl.get_upd split: if_splits)
  moreover have "attempt_ok d' a" if "get_row (ticket_attempts d') j = Some a" for j a
    using attempts(1) [OF that] by (auto simp: attempt_ok_def g(3) tbl.get_upd)
  moreover have "unique_key (get_row (ticket_revisions d')) in_flight_key" unfolding g(3)
  proof (rule unique_key_change [OF d(4) tr])
    fix k j x
    assume k: "in_flight_key (g tr) = Some k" "j \<noteq> i" "get_row (ticket_revisions d) j = Some x"
    then have s2: "s = TICKET_IN_FLIGHT" and app: "k = tr_application_revision_id tr"
      by (auto simp: in_flight_key_def g split: if_splits)
    then have "tr_lifecycle tr = TICKET_IN_FLIGHT \<Longrightarrow> in_flight_key tr = Some k"
      by (simp add: in_flight_key_def)
    then show "in_flight_key x \<noteq> Some k"
      using wip [OF s2 tr] app k(2,3) unique_keyD [OF d(4) k(3) tr, of k] by blast
  qed
  moreover have "unique_key (get_row (ticket_revisions d')) live_reproducer_key" unfolding g(3)
  proof (rule unique_key_change [OF d(5) tr])
    fix k j x
    assume k: "live_reproducer_key (g tr) = Some k" "j \<noteq> i" "get_row (ticket_revisions d) j = Some x"
    then show "live_reproducer_key x \<noteq> Some k"
      using g(11) tr by (auto simp: live_reproducer_key_def g live_reproducer_free_def tbl.ex_get t split: if_splits)
  qed
  ultimately show ?thesis using tabs attempts(2) by (simp add: ticket_inv_def)
qed

text \<open>A transition that leaves tickets alone keeps it when the attempts stay owned as they were.\<close>

lemma ticket_inv_same:
  assumes inv: "ticket_inv d" and tabs: "tables_ok d'" and same: "tickets_same d d'"
    and owned: "\<And>k. unreleased_attempt_exists d' k \<longleftrightarrow> unreleased_attempt_exists d k"
    and attempts: "\<And>j a. get_row (ticket_attempts d') j = Some a \<Longrightarrow> attempt_ok d a"
      "unique_key (get_row (ticket_attempts d')) unreleased_key"
  shows "ticket_inv d'"
  using assms unfolding ticket_inv_def tickets_same_def attempt_ok_def ticket_linked_def by simp

text \<open>The three ways an attempt row changes: its stage moves, it is released, or it is claimed.\<close>

lemma attempt_moves:
  assumes inv: "ticket_inv d" and ta: "ticket_attempts d' = update_row j f (ticket_attempts d)" "tables_ok d'"
    and keep: "\<And>a. get_row (ticket_attempts d) j = Some a \<Longrightarrow>
        ta_ticket_revision_id (f a) = ta_ticket_revision_id a \<and> ta_released (f a) = ta_released a
        \<and> 0 \<le> ta_rework_ordinal (f a) \<and> ta_rework_ordinal (f a) \<le> 1"
  shows "unreleased_attempt_exists d' k \<longleftrightarrow> unreleased_attempt_exists d k"
    and "get_row (ticket_attempts d') l = Some a \<Longrightarrow> attempt_ok d a"
    and "unique_key (get_row (ticket_attempts d')) unreleased_key"
proof -
  from inv have t: "table_ok (ticket_attempts d)" "table_ok (ticket_attempts d')"
    using ta(2) by (simp_all add: ticket_inv_def tables_ok_def)
  show "unreleased_attempt_exists d' k \<longleftrightarrow> unreleased_attempt_exists d k"
    using keep unfolding unreleased_attempt_exists_def tbl.ex_get [OF t(1)] tbl.ex_get [OF t(2)]
    by (fastforce simp: ta(1) tbl.get_upd split: if_splits)
  show "attempt_ok d a" if "get_row (ticket_attempts d') l = Some a"
    using inv keep that by (fastforce simp: ta(1) tbl.get_upd ticket_inv_def attempt_ok_def split: if_splits)
  show "unique_key (get_row (ticket_attempts d')) unreleased_key"
    unfolding ta(1) using inv keep
    by (intro tbl.unique_key_upd) (auto simp: ticket_inv_def unreleased_key_def)
qed

lemma attempt_released:
  assumes inv: "ticket_inv d" and ta: "ticket_attempts d' = update_row j f (ticket_attempts d)" "tables_ok d'"
    and a: "get_row (ticket_attempts d) j = Some b" "ta_released b = None" "ta_released (f b) \<noteq> None"
      "ta_ticket_revision_id (f b) = ta_ticket_revision_id b" "ta_rework_ordinal (f b) = ta_rework_ordinal b"
  shows "unreleased_attempt_exists d' k \<longleftrightarrow>
      (if k = ta_ticket_revision_id b then False else unreleased_attempt_exists d k)"
    and "get_row (ticket_attempts d') l = Some x \<Longrightarrow> attempt_ok d x"
    and "unique_key (get_row (ticket_attempts d')) unreleased_key"
proof -
  from inv have t: "table_ok (ticket_attempts d)" "table_ok (ticket_attempts d')"
    and u: "unique_key (get_row (ticket_attempts d)) unreleased_key"
    using ta(2) by (simp_all add: ticket_inv_def tables_ok_def)
  have other: "ta_ticket_revision_id y \<noteq> ta_ticket_revision_id b"
    if "get_row (ticket_attempts d) m = Some y" "ta_released y = None" "m \<noteq> j" for m y
    using unique_keyD [OF u that(1) a(1)] that(2,3) a(2) by (auto simp: unreleased_key_def)
  show "unreleased_attempt_exists d' k \<longleftrightarrow>
      (if k = ta_ticket_revision_id b then False else unreleased_attempt_exists d k)"
  proof -
    have "get_row (ticket_attempts d') m = Some y \<and> ta_ticket_revision_id y = k \<and> ta_released y = None
        \<longleftrightarrow> k \<noteq> ta_ticket_revision_id b \<and> get_row (ticket_attempts d) m = Some y
          \<and> ta_ticket_revision_id y = k \<and> ta_released y = None" for m y
      using a other [of m y] by (cases "m = j") (auto simp: ta(1) tbl.get_upd)
    then show ?thesis by (simp add: unreleased_attempt_exists_def tbl.ex_get t)
  qed
  show "attempt_ok d x" if "get_row (ticket_attempts d') l = Some x"
    using inv a that by (fastforce simp: ta(1) tbl.get_upd ticket_inv_def attempt_ok_def split: if_splits)
  show "unique_key (get_row (ticket_attempts d')) unreleased_key"
    unfolding ta(1) using u a by (intro tbl.unique_key_upd) (auto simp: unreleased_key_def)
qed

lemma attempt_claimed:
  assumes inv: "ticket_inv d" and ta: "ticket_attempts d' = insert_row b (ticket_attempts d)" "tables_ok d'"
    and b: "ta_released b = None" "ta_rework_ordinal b = 0" "\<not> unreleased_attempt_exists d (ta_ticket_revision_id b)"
      "get_row (ticket_revisions d) (ta_ticket_revision_id b) \<noteq> None"
  shows "unreleased_attempt_exists d' k \<longleftrightarrow>
      (if k = ta_ticket_revision_id b then True else unreleased_attempt_exists d k)"
    and "get_row (ticket_attempts d') l = Some x \<Longrightarrow> attempt_ok d x"
    and "unique_key (get_row (ticket_attempts d')) unreleased_key"
proof -
  from inv have t: "table_ok (ticket_attempts d)"
    and u: "unique_key (get_row (ticket_attempts d)) unreleased_key"
    by (simp_all add: ticket_inv_def tables_ok_def)
  show "unreleased_attempt_exists d' k \<longleftrightarrow>
      (if k = ta_ticket_revision_id b then True else unreleased_attempt_exists d k)"
    using b by (auto simp: unreleased_attempt_exists_def ta(1) tbl.ex_ins t)
  show "attempt_ok d x" if "get_row (ticket_attempts d') l = Some x"
    using inv b that by (auto simp: ta(1) tbl.get_ins t ticket_inv_def attempt_ok_def split: if_splits)
  show "unique_key (get_row (ticket_attempts d')) unreleased_key"
    unfolding ta(1) using u b t
    by (intro tbl.unique_key_ins) (simp_all add: unreleased_key_iff unreleased_attempt_exists_def)
qed

section \<open>The decision authority keeps the invariant\<close>

lemma submit_candidate_fresh_tickets: "submit_candidate_fresh fp now c d = Inr (r, d') \<Longrightarrow> tickets_same d d'"
  unfolding submit_candidate_fresh_def tickets_same_def
  by (clarsimp simp: fresh_unfold dest!: insert_audit_entry_ok(4))

lemma record_validation_fresh_tickets: "record_validation_fresh fp now c d = Inr (r, d') \<Longrightarrow> tickets_same d d'"
  unfolding record_validation_fresh_def tickets_same_def
  by (clarsimp simp: fresh_unfold dest!: insert_audit_entry_ok(4))

lemma attach_candidate_commit_fresh_tickets: "attach_candidate_commit_fresh fp c d = Inr (r, d') \<Longrightarrow> tickets_same d d'"
  unfolding attach_candidate_commit_fresh_def tickets_same_def
  by (clarsimp simp: fresh_unfold dest!: insert_audit_entry_ok(4))

lemma submit_quality_review_fresh_tickets: "submit_quality_review_fresh fp c d = Inr (r, d') \<Longrightarrow> tickets_same d d'"
  unfolding submit_quality_review_fresh_def tickets_same_def
  by (clarsimp simp: fresh_unfold dest!: insert_audit_entry_ok(4))

lemma ticket_moves_frame: "ticket_moves d i s dm \<Longrightarrow> tickets d' = tickets dm \<Longrightarrow> ticket_revisions d' = ticket_revisions dm
    \<Longrightarrow> ticket_moves d i s d'"
  by (simp add: ticket_moves_def)

lemma lock_ticket_revision_stateE:
  assumes "lock_ticket_revision_state d i = Inr a"
  obtains tr where "get_row (ticket_revisions d) i = Some tr" "tv_ticket_id a = tr_ticket_id tr"
    "tv_ticket_revision_id a = i" "decode_ticket_state (tr_lifecycle tr) = Inr (tv_ticket_state a)"
  using assms that unfolding lock_ticket_revision_state_def by clarsimp

lemma sponsor_ticket_fresh_moves:
  assumes "sponsor_ticket_fresh fp now c d = Inr (r, d')"
  shows "\<exists>tr. get_row (ticket_revisions d) (sd_ticket_revision_id (st_decision c)) = Some tr
     \<and> (tr_lifecycle tr = TICKET_PROPOSED \<or> tr_lifecycle tr = TICKET_BLOCKED)
     \<and> ticket_moves d (sd_ticket_revision_id (st_decision c)) TICKET_SPONSORED d'"
proof -
  obtain tv d1 d2 nxt dec where tv: "lock_ticket_revision_state d (sd_ticket_revision_id (st_decision c)) = Inr tv"
    and u: "update_ticket_state_parts d1 (tv_ticket_id tv) (tv_ticket_revision_id tv) 1 nxt
         (Some (decision_reason dec)) None now = Inr d2"
    and st: "tv_ticket_state tv = TicketProposed \<or> tv_ticket_state tv = TicketBlocked"
    and d1: "tickets d1 = tickets d" "ticket_revisions d1 = ticket_revisions d"
    and d': "tickets d' = tickets d2" "ticket_revisions d' = ticket_revisions d2"
    using assms unfolding sponsor_ticket_fresh_def
    by (clarsimp simp: Let_def case_prod_unfold insert_audit_def insert_decision_ok
        require_sponsorable_ticket_state_def dest!: insert_audit_entry_ok(4))
  from tv obtain tr where tr: "get_row (ticket_revisions d) (sd_ticket_revision_id (st_decision c)) = Some tr"
      "tv_ticket_id tv = tr_ticket_id tr" "tv_ticket_revision_id tv = sd_ticket_revision_id (st_decision c)"
      "decode_ticket_state (tr_lifecycle tr) = Inr (tv_ticket_state tv)"
    by (rule lock_ticket_revision_stateE)
  have "ticket_moves d (sd_ticket_revision_id (st_decision c)) TICKET_SPONSORED d2"
    using update_ticket_state_parts_moves [OF u _ _ d1, of tr] tr by simp
  then show ?thesis using tr st ticket_moves_frame [OF _ d'] by auto
qed

lemma release_fresh_moves:
  assumes "release_fresh fp now c d = Inr (r, d')"
  obtains attempt cl where
    "lock_candidate_attempt d (rd_ticket_attempt_id (rl_decision c)) = Inr attempt"
    "ticket_moves d (at_ticket_revision_id attempt) (fst (snd (release_transition cl))) d'"
proof -
  obtain attempt d1 d2 nxt cl where a: "lock_candidate_attempt d (rd_ticket_attempt_id (rl_decision c)) = Inr attempt"
    and u: "update_ticket_requalification d1 attempt (fst (snd (release_transition cl))) nxt
         (fst (snd (snd (release_transition cl)))) (rl_requalification c) (snd (snd (snd (release_transition cl)))) now = Inr d2"
    and d1: "tickets d1 = tickets d" "ticket_revisions d1 = ticket_revisions d"
    and d': "tickets d' = tickets d2" "ticket_revisions d' = ticket_revisions d2"
    using assms unfolding release_fresh_def
    by (clarsimp simp: Let_def case_prod_unfold insert_audit_def insert_decision_ok dest!: insert_audit_entry_ok(4))
  from a obtain tr where tr: "get_row (ticket_revisions d) (at_ticket_revision_id attempt) = Some tr"
      "tr_ticket_id tr = at_ticket_id attempt"
    by (rule lock_candidate_attemptE) simp
  show thesis
    by (rule that [OF a ticket_moves_frame [OF update_ticket_requalification_moves [OF u tr d1] d']])
qed

lemma decide_candidate_fresh_moves:
  assumes "decide_candidate_fresh fp now c d = Inr (r, d')"
  obtains cv attempt where
    "load_candidate d (cd_candidate_id (dc_request c)) = Inr cv"
    "lock_candidate_attempt d (cv_ticket_attempt_id cv) = Inr attempt"
    "if cd_decision (dc_request c) = Reject
     then ticket_moves d (at_ticket_revision_id attempt) TICKET_REJECTED d' else tickets_same d d'"
proof -
  let ?rej = "cd_decision (dc_request c) = Reject"
  obtain cv attempt d1 d2 nxt where cv: "load_candidate d (cd_candidate_id (dc_request c)) = Inr cv"
    and a: "lock_candidate_attempt d (cv_ticket_attempt_id cv) = Inr attempt"
    and u: "(if ?rej then update_ticket_state d1 attempt 7 nxt None None now else Inr d1) = Inr d2"
    and d1: "tickets d1 = tickets d" "ticket_revisions d1 = ticket_revisions d"
    and d': "tickets d' = tickets d2" "ticket_revisions d' = ticket_revisions d2"
    using assms unfolding decide_candidate_fresh_def load_candidate_for_update_def
    by (clarsimp simp: Let_def case_prod_unfold insert_audit_def insert_decision_ok cong del: if_weak_cong
        dest!: insert_audit_entry_ok(4))
  from a obtain tr where tr: "get_row (ticket_revisions d) (at_ticket_revision_id attempt) = Some tr"
      "tr_ticket_id tr = at_ticket_id attempt"
    by (rule lock_candidate_attemptE) simp
  have "if ?rej then ticket_moves d (at_ticket_revision_id attempt) TICKET_REJECTED d' else tickets_same d d'"
  proof (cases ?rej)
    case True
    then have "update_ticket_state_parts d1 (at_ticket_id attempt) (at_ticket_revision_id attempt) 7 nxt None None now = Inr d2"
      using u by (simp add: update_ticket_state_def)
    then show ?thesis
      using ticket_moves_frame [OF update_ticket_state_parts_moves [OF _ tr d1] d'] True by simp
  next
    case False
    then show ?thesis using u d1 d' by (simp add: tickets_same_def)
  qed
  then show thesis using that [OF cv a] by blast
qed

lemma complete_in_delivery_frame:
  "(if b then and_then m (\<lambda>x. Inr (d\<lparr>campaigns := f x\<rparr>)) else Inr d) = Inr d' \<Longrightarrow>
     tickets d' = tickets d \<and> ticket_revisions d' = ticket_revisions d"
  by (auto split: if_splits)

lemma record_delivery_fresh_moves:
  assumes "record_delivery_fresh fp now c d = Inr (r, d')"
  obtains cv attempt where
    "load_candidate d (dv_candidate_id c) = Inr cv"
    "lock_candidate_attempt d (cv_ticket_attempt_id cv) = Inr attempt"
    "ticket_moves d (at_ticket_revision_id attempt) TICKET_DELIVERED d'"
proof -
  obtain cv attempt d1 d2 nxt where cv: "load_candidate d (dv_candidate_id c) = Inr cv"
    and a: "lock_candidate_attempt d (cv_ticket_attempt_id cv) = Inr attempt"
    and u: "update_ticket_state_parts d1 (at_ticket_id attempt) (at_ticket_revision_id attempt) 3 nxt None None now = Inr d2"
    and d1: "tickets d1 = tickets d" "ticket_revisions d1 = ticket_revisions d"
    and d': "tickets d' = tickets d2" "ticket_revisions d' = ticket_revisions d2"
    using assms unfolding record_delivery_fresh_def load_candidate_for_update_def update_ticket_state_def
    by (clarsimp simp: Let_def case_prod_unfold insert_audit_def
        dest!: insert_audit_entry_ok(4) complete_in_delivery_frame)
  from a obtain tr where tr: "get_row (ticket_revisions d) (at_ticket_revision_id attempt) = Some tr"
      "tr_ticket_id tr = at_ticket_id attempt"
    by (rule lock_candidate_attemptE) simp
  show thesis
    using ticket_moves_frame [OF update_ticket_state_parts_moves [OF u tr d1] d'] by (intro that [OF cv a]) simp
qed

lemma attempt_ordinal_ok:
  "ticket_inv d \<Longrightarrow> get_row (ticket_attempts d) j = Some a \<Longrightarrow> 0 \<le> ta_rework_ordinal a \<and> ta_rework_ordinal a \<le> 1"
  by (auto simp: ticket_inv_def attempt_ok_def)

lemma ticket_inv_tables: "ticket_inv d \<Longrightarrow> tables_ok d"
  by (simp add: ticket_inv_def)

text \<open>A transition that leaves tickets alone and moves one attempt's stage.\<close>

lemma ticket_inv_stage:
  assumes inv: "ticket_inv d" and tabs: "tables_ok d'" and same: "tickets_same d d'"
    and ta: "ticket_attempts d' = update_row j f (ticket_attempts d)"
    and keep: "\<And>a. get_row (ticket_attempts d) j = Some a \<Longrightarrow>
        ta_ticket_revision_id (f a) = ta_ticket_revision_id a \<and> ta_released (f a) = ta_released a
        \<and> 0 \<le> ta_rework_ordinal (f a) \<and> ta_rework_ordinal (f a) \<le> 1"
  shows "ticket_inv d'"
  by (rule ticket_inv_same [OF inv tabs same])
    (use attempt_moves [OF inv ta tabs keep] in auto)

text \<open>A transition that moves the ticket of an owned attempt between owned states.\<close>

lemma ticket_inv_owned:
  assumes inv: "ticket_inv d" and tabs: "tables_ok d'" and moves: "ticket_moves d i s d'"
    and tr: "get_row (ticket_revisions d) i = Some tr" "owned_state (tr_lifecycle tr) \<longleftrightarrow> owned_state s"
      "s \<noteq> TICKET_IN_FLIGHT" "reached_state s"
    and ta: "ticket_attempts d' = update_row j f (ticket_attempts d)"
    and keep: "\<And>a. get_row (ticket_attempts d) j = Some a \<Longrightarrow>
        ta_ticket_revision_id (f a) = ta_ticket_revision_id a \<and> ta_released (f a) = ta_released a
        \<and> 0 \<le> ta_rework_ordinal (f a) \<and> ta_rework_ordinal (f a) \<le> 1"
  shows "ticket_inv d'"
proof (rule ticket_inv_move [OF inv tabs moves tr(4) _ tr(1)])
  note a = attempt_moves [OF inv ta tabs keep]
  have "unreleased_attempt_exists d i \<longleftrightarrow> owned_state (tr_lifecycle tr)"
    using inv tr(1) by (auto simp: ticket_inv_def)
  then show "unreleased_attempt_exists d' k \<longleftrightarrow> (if k = i then owned_state s else unreleased_attempt_exists d k)" for k
    using a(1) tr(2) by auto
  show "get_row (ticket_attempts d') l = Some x \<Longrightarrow> attempt_ok d x" for l x by (rule a(2))
  show "unique_key (get_row (ticket_attempts d')) unreleased_key" by (rule a(3))
qed (use tr(3) in auto)

lemma submit_candidate_fresh_ticket_inv:
  assumes "submit_candidate_fresh fp now c d = Inr (r, d')" "ticket_inv d"
  shows "ticket_inv d'"
  using assms(1)
  by (rule submit_candidate_freshE)
    (rule ticket_inv_stage [OF assms(2) submit_candidate_fresh_tables [OF assms(1)]
        submit_candidate_fresh_tickets [OF assms(1)]], use assms(2) attempt_ordinal_ok in \<open>auto simp: ticket_inv_tables\<close>)

lemma record_validation_fresh_ticket_inv:
  assumes "record_validation_fresh fp now c d = Inr (r, d')" "ticket_inv d"
  shows "ticket_inv d'"
  using assms(1)
  by (rule record_validation_freshE)
    (rule ticket_inv_stage [OF assms(2) record_validation_fresh_tables [OF assms(1)]
        record_validation_fresh_tickets [OF assms(1)]], use assms(2) attempt_ordinal_ok in \<open>auto simp: ticket_inv_tables\<close>)

lemma submit_quality_review_fresh_ticket_inv:
  assumes "submit_quality_review_fresh fp c d = Inr (r, d')" "ticket_inv d"
  shows "ticket_inv d'"
  using assms(1)
  by (rule submit_quality_review_freshE)
    (rule ticket_inv_stage [OF assms(2) submit_quality_review_fresh_tables [OF assms(1)]
        submit_quality_review_fresh_tickets [OF assms(1)]], use assms(2) attempt_ordinal_ok in \<open>auto simp: ticket_inv_tables\<close>)

lemma update_row_id: "update_row i (\<lambda>x. x) t = t"
  by (simp add: update_row_def case_prod_unfold)

lemma attach_candidate_commit_fresh_ticket_inv:
  assumes "attach_candidate_commit_fresh fp c d = Inr (r, d')" "ticket_inv d"
  shows "ticket_inv d'"
  using assms(1)
  by (rule attach_candidate_commit_freshE)
    (rule ticket_inv_stage [OF assms(2) attach_candidate_commit_fresh_tables [OF assms(1)]
        attach_candidate_commit_fresh_tickets [OF assms(1)], where f = "\<lambda>x. x"],
      use assms(2) attempt_ordinal_ok in \<open>auto simp: ticket_inv_tables update_row_id\<close>)

lemma sponsor_ticket_fresh_ticket_inv:
  assumes fresh: "sponsor_ticket_fresh fp now c d = Inr (r, d')" and inv: "ticket_inv d"
  shows "ticket_inv d'"
proof -
  obtain tr where tr: "get_row (ticket_revisions d) (sd_ticket_revision_id (st_decision c)) = Some tr"
      "tr_lifecycle tr = TICKET_PROPOSED \<or> tr_lifecycle tr = TICKET_BLOCKED"
      "ticket_moves d (sd_ticket_revision_id (st_decision c)) TICKET_SPONSORED d'"
    using sponsor_ticket_fresh_moves [OF fresh] by auto
  have "ticket_attempts d' = ticket_attempts d" using fresh by (rule sponsor_ticket_freshE)
  then show ?thesis
    using tr sponsor_ticket_fresh_tables [OF fresh ticket_inv_tables [OF inv]] attempt_ordinal_ok [OF inv]
    by (intro ticket_inv_owned [OF inv _ tr(3,1), where f = "\<lambda>x. x"])
      (auto simp: owned_state_def reached_state_def update_row_id)
qed

lemma decide_candidate_fresh_ticket_inv:
  assumes fresh: "decide_candidate_fresh fp now c d = Inr (r, d')" and inv: "ticket_inv d"
  shows "ticket_inv d'"
  using fresh
proof (rule decide_candidate_freshE)
  fix cv attempt rv row rc ra
  let ?q = "dc_request c"
  let ?f = "\<lambda>a. a\<lparr>ta_stage := snd (decision_transition (cd_decision ?q)),
        ta_rework_ordinal := ta_rework_ordinal a + (if cd_decision ?q = Rework then 1 else 0),
        ta_failed := (if snd (decision_transition (cd_decision ?q)) = ATTEMPT_FAILED
                      then Some (now, ''architect rejected reviewed candidate'') else ta_failed a), ta_revision := ra\<rparr>"
  assume cv: "load_candidate d (cd_candidate_id ?q) = Inr cv"
    and at: "lock_candidate_attempt d (cv_ticket_attempt_id cv) = Inr attempt"
    and st: "at_ticket_state attempt = TicketInFlight"
    and rework: "cd_decision ?q = Rework \<Longrightarrow> at_rework_ordinal attempt = 0"
    and ta: "ticket_attempts d' = update_row (at_id attempt) ?f (ticket_attempts d)"
  have mv: "if cd_decision ?q = Reject then ticket_moves d (at_ticket_revision_id attempt) TICKET_REJECTED d'
      else tickets_same d d'"
    using fresh by (rule decide_candidate_fresh_moves) (use cv at in auto)
  have tabs: "tables_ok d'" by (rule decide_candidate_fresh_tables [OF fresh ticket_inv_tables [OF inv]])
  from at obtain a tr where a: "get_row (ticket_attempts d) (at_id attempt) = Some a"
      "at_rework_ordinal attempt = ta_rework_ordinal a"
    and tr: "get_row (ticket_revisions d) (at_ticket_revision_id attempt) = Some tr" "tr_lifecycle tr = TICKET_IN_FLIGHT"
    by (rule lock_candidate_attemptE) (use st in simp)
  have keep: "ta_ticket_revision_id (?f x) = ta_ticket_revision_id x \<and> ta_released (?f x) = ta_released x
        \<and> 0 \<le> ta_rework_ordinal (?f x) \<and> ta_rework_ordinal (?f x) \<le> 1"
    if "get_row (ticket_attempts d) (at_id attempt) = Some x" for x
    using that a rework attempt_ordinal_ok [OF inv that] by auto
  show ?thesis
  proof (cases "cd_decision ?q = Reject")
    case True
    then show ?thesis
      using mv tr
      by (intro ticket_inv_owned [OF inv tabs _ tr(1) _ _ _ ta keep, where s = TICKET_REJECTED]) (simp_all add: owned_state_def reached_state_def)
  next
    case False
    then show ?thesis using mv by (intro ticket_inv_stage [OF inv tabs _ ta keep]) simp_all
  qed
qed

lemma record_delivery_fresh_ticket_inv:
  assumes fresh: "record_delivery_fresh fp now c d = Inr (r, d')" and inv: "ticket_inv d"
  shows "ticket_inv d'"
  using fresh
proof (rule record_delivery_freshE)
  fix cv attempt campaign row rc ra
  let ?f = "\<lambda>a. a\<lparr>ta_stage := ATTEMPT_DELIVERED, ta_revision := ra\<rparr>"
  assume cv: "load_candidate d (dv_candidate_id c) = Inr cv"
    and at: "lock_candidate_attempt d (cv_ticket_attempt_id cv) = Inr attempt"
    and st: "at_ticket_state attempt = TicketInFlight"
    and ta: "ticket_attempts d' = update_row (at_id attempt) ?f (ticket_attempts d)"
  have mv: "ticket_moves d (at_ticket_revision_id attempt) TICKET_DELIVERED d'"
    using fresh by (rule record_delivery_fresh_moves) (use cv at in auto)
  have tabs: "tables_ok d'" by (rule record_delivery_fresh_tables [OF fresh ticket_inv_tables [OF inv]])
  from at obtain tr where tr: "get_row (ticket_revisions d) (at_ticket_revision_id attempt) = Some tr"
      "tr_lifecycle tr = TICKET_IN_FLIGHT"
    by (rule lock_candidate_attemptE) (use st in simp)
  show ?thesis
    using tr attempt_ordinal_ok [OF inv]
    by (intro ticket_inv_owned [OF inv tabs mv tr(1) _ _ _ ta]) (simp_all add: owned_state_def reached_state_def)
qed

text \<open>A release gives the ticket back: its attempt is no longer the owner.\<close>

lemma ticket_inv_release:
  assumes inv: "ticket_inv d" and tabs: "tables_ok d'"
    and moves: "ticket_moves d (ta_ticket_revision_id a) (fst (snd (release_transition cl))) d'"
    and a: "get_row (ticket_attempts d) j = Some a" "ta_released a = None"
      "get_row (ticket_revisions d) (ta_ticket_revision_id a) = Some tr"
    and ta: "ticket_attempts d' = update_row j (\<lambda>a. a\<lparr>ta_released := Some w, ta_revision := ra\<rparr>) (ticket_attempts d)"
  shows "ticket_inv d'"
proof (rule ticket_inv_move [OF inv tabs moves _ _ a(3)])
  note released = attempt_released [OF inv ta tabs a(1,2)]
  show "unreleased_attempt_exists d' k \<longleftrightarrow> (if k = ta_ticket_revision_id a
      then owned_state (fst (snd (release_transition cl))) else unreleased_attempt_exists d k)" for k
    using released(1) by (cases cl) (simp_all add: owned_state_def)
  show "get_row (ticket_attempts d') l = Some x \<Longrightarrow> attempt_ok d x" for l x using released(2) by simp
  show "unique_key (get_row (ticket_attempts d')) unreleased_key" using released(3) by simp
qed (cases cl; simp add: reached_state_def)+

lemma release_fresh_ticket_inv:
  assumes fresh: "release_fresh fp now c d = Inr (r, d')" and inv: "ticket_inv d"
  shows "ticket_inv d'"
  using fresh
proof (rule release_freshE)
  fix attempt cl row ra
  assume at: "lock_candidate_attempt d (rd_ticket_attempt_id (rl_decision c)) = Inr attempt" "\<not> at_released attempt"
    and ta: "ticket_attempts d' = update_row (at_id attempt) (\<lambda>a. a\<lparr>
       ta_released := Some (now, decision_reason (next_id (architect_decisions d))), ta_revision := ra\<rparr>)
       (ticket_attempts d)"
  obtain cl' where mv: "ticket_moves d (at_ticket_revision_id attempt) (fst (snd (release_transition cl'))) d'"
    using fresh by (rule release_fresh_moves) (use at in auto)
  from at(1) obtain a tr where "get_row (ticket_attempts d) (at_id attempt) = Some a" "ta_released a = None"
      "get_row (ticket_revisions d) (ta_ticket_revision_id a) = Some tr" "at_ticket_revision_id attempt = ta_ticket_revision_id a"
    by (rule lock_candidate_attemptE) (use at(2) in auto)
  then show ?thesis
    using ticket_inv_release [OF inv release_fresh_tables [OF fresh ticket_inv_tables [OF inv]] _ _ _ _ ta] mv by simp
qed

section \<open>The ticket authority keeps both invariants\<close>

definition evidence_same :: "db \<Rightarrow> db \<Rightarrow> bool" where
  "evidence_same d d' \<longleftrightarrow> candidates d' = candidates d \<and> validations d' = validations d \<and> reviews d' = reviews d
     \<and> architect_decisions d' = architect_decisions d \<and> deliveries d' = deliveries d
     \<and> (\<forall>i. get_row (ticket_attempts d) i \<noteq> None \<longrightarrow> get_row (ticket_attempts d') i \<noteq> None)"

lemma evidence_same_inv:
  assumes "evidence_same d d'" "tables_ok d'" "evidence_inv d"
  shows "evidence_grows d d' \<and> evidence_inv d'"
proof -
  have grows: "evidence_grows d d'"
    by (rule evidence_grows_same) (use assms(1) in \<open>auto simp: evidence_same_def\<close>)
  have "evidence_chain d'"
    by (rule evidence_chain_step [OF _ assms(2) _ grows]) (use assms in \<open>auto simp: evidence_same_def evidence_inv_def\<close>)
  then show ?thesis using grows assms by (simp add: evidence_inv_def evidence_keys_def evidence_same_def)
qed

lemma insert_ticket_audit_frame:
  assumes "insert_ticket_audit dm p c op fp k sub nxt = Inr (i, d')"
  shows "tables_ok dm \<Longrightarrow> tables_ok d'" "audit_log dm = audit_log d \<Longrightarrow> audit_commits d p c op fp d'"
    and "tickets d' = tickets dm \<and> ticket_revisions d' = ticket_revisions dm \<and> ticket_attempts d' = ticket_attempts dm
       \<and> candidates d' = candidates dm \<and> validations d' = validations dm \<and> reviews d' = reviews dm
       \<and> architect_decisions d' = architect_decisions dm \<and> deliveries d' = deliveries dm \<and> campaigns d' = campaigns dm
       \<and> sessions d' = sessions dm \<and> artifacts d' = artifacts dm \<and> application_revisions d' = application_revisions dm"
  using insert_audit_tables [OF assms [unfolded insert_ticket_audit_def]]
    audit_commits_insert [OF assms [unfolded insert_ticket_audit_def]]
    insert_audit_entry_ok(4) [OF assms [unfolded insert_ticket_audit_def]] by simp_all

lemma move_attempt_ok:
  assumes "move_attempt d i a st failed p c op fp sub = Inr (r, d')" "tables_ok d"
  shows "\<exists>ra. ticket_attempts d' = update_row i (\<lambda>a. a\<lparr>ta_stage := st, ta_failed := failed, ta_revision := ra\<rparr>) (ticket_attempts d)"
    and "tables_ok d'" "tickets_same d d'" "evidence_same d d'"
    and "\<not> tt_was_idempotent_retry r \<and> audit_commits d p c op fp d'"
proof -
  from assms(1) obtain ra audit nxt where
    ins: "insert_ticket_audit (d\<lparr>ticket_attempts := update_row i (\<lambda>a. a\<lparr>ta_stage := st, ta_failed := failed, ta_revision := ra\<rparr>)
         (ticket_attempts d)\<rparr>) p c op fp sub i nxt = Inr (audit, d')" and r: "\<not> tt_was_idempotent_retry r"
    unfolding move_attempt_def by (auto simp: Let_def case_prod_unfold)
  note frame = insert_ticket_audit_frame [OF ins]
  show "\<exists>ra. ticket_attempts d' = update_row i (\<lambda>a. a\<lparr>ta_stage := st, ta_failed := failed, ta_revision := ra\<rparr>) (ticket_attempts d)"
    using frame(3) by auto
  show "tables_ok d'" by (rule frame(1)) (use assms(2) in \<open>simp add: tables_ok_def table_simps\<close>)
  show "tickets_same d d'" using frame(3) by (simp add: tickets_same_def)
  show "evidence_same d d'" using frame(3) by (simp add: evidence_same_def tbl.get_upd)
  show "\<not> tt_was_idempotent_retry r \<and> audit_commits d p c op fp d'" using frame(2) [of d] r by simp
qed

lemma move_attempt_inv:
  assumes m: "move_attempt d i a st failed p c op fp sub = Inr (r, d')"
  shows "evidence_inv d \<Longrightarrow> evidence_grows d d' \<and> evidence_inv d'" and "ticket_inv d \<Longrightarrow> ticket_inv d'"
proof -
  show "evidence_grows d d' \<and> evidence_inv d'" if "evidence_inv d"
    using evidence_same_inv [OF _ _ that] move_attempt_ok [OF m] that by (simp add: evidence_inv_def)
  show "ticket_inv d'" if inv: "ticket_inv d"
  proof -
    note ok = move_attempt_ok [OF m ticket_inv_tables [OF inv]]
    then obtain ra where "ticket_attempts d' = update_row i (\<lambda>a. a\<lparr>ta_stage := st, ta_failed := failed, ta_revision := ra\<rparr>) (ticket_attempts d)"
      by blast
    then show ?thesis
      by (rule ticket_inv_stage [OF inv ok(2,3)]) (use attempt_ordinal_ok [OF inv] in auto)
  qed
qed

lemma fail_ticket_attempt_fresh_move:
  assumes "fail_ticket_attempt_fresh fp now c d = Inr (r, d')"
  obtains a where "move_attempt d (fa_ticket_attempt_id c) a ATTEMPT_FAILED (Some (now, fa_reason c))
       (fa_principal c) (fa_command_id c) FAIL_OPERATION fp FAILED_ATTEMPT_SUBJECT = Inr (r, d')"
  using assms unfolding fail_ticket_attempt_fresh_def by auto

lemma retry_quality_attempt_freshE:
  assumes "retry_quality_attempt_fresh fp now c d = Inr (r, d')"
  obtains a x where "lock_ticket_attempt d (rqa_ticket_attempt_id c) = Inr a"
    "al_stage a = ATTEMPT_QUALITY \<or> al_stage a = ATTEMPT_FAILED"
    "get_row (candidates d) (rqa_candidate_id c) = Some x" "cr_ticket_attempt_id x = rqa_ticket_attempt_id c"
    "cr_lifecycle x = CANDIDATE_VALIDATED" "cr_commit x \<noteq> None"
    "\<not> prior_retry_exists d QUALITY_RETRY_OPERATION QUALITY_RETRY_SUBJECT (rqa_ticket_attempt_id c)"
    "move_attempt d (rqa_ticket_attempt_id c) a ATTEMPT_REWORK_QUALITY (Some (now, rqa_reason c))
       (rqa_principal c) (rqa_command_id c) QUALITY_RETRY_OPERATION fp QUALITY_RETRY_SUBJECT = Inr (r, d')"
  using assms that unfolding retry_quality_attempt_fresh_def can_retry_quality_attempt_def lock_fenced_attempt_def
  by clarsimp

lemma retry_engineering_attempt_freshE:
  assumes "retry_engineering_attempt_fresh fp c d = Inr (r, d')"
  obtains a where "lock_ticket_attempt d (rea_ticket_attempt_id c) = Inr a" "\<not> al_released a"
    "al_stage a = ATTEMPT_FAILED" "\<not> candidate_exists_for d (rea_ticket_attempt_id c)"
    "\<not> prior_retry_exists d ENGINEERING_RETRY_OPERATION ENGINEERING_RETRY_SUBJECT (rea_ticket_attempt_id c)"
    "move_attempt d (rea_ticket_attempt_id c) a ATTEMPT_ENGINEERING None
       (rea_principal c) (rea_command_id c) ENGINEERING_RETRY_OPERATION fp ENGINEERING_RETRY_SUBJECT = Inr (r, d')"
  using assms that unfolding retry_engineering_attempt_fresh_def can_retry_engineering_attempt_def lock_fenced_attempt_def
  by clarsimp

text \<open>
  The frame of the ticket-moving commands: a database that differs from \<open>d\<close> in tickets, revisions and
  attempts only, then the audit row.
\<close>

definition ticket_frame :: "db \<Rightarrow> db \<Rightarrow> bool" where
  "ticket_frame d d' \<longleftrightarrow> d' = d\<lparr>tickets := tickets d', ticket_revisions := ticket_revisions d',
     ticket_attempts := ticket_attempts d'\<rparr>"

lemma ticket_frameD:
  assumes "ticket_frame d d'"
  shows "candidates d' = candidates d" "validations d' = validations d" "reviews d' = reviews d"
    "architect_decisions d' = architect_decisions d" "deliveries d' = deliveries d"
    "audit_log d' = audit_log d" "campaigns d' = campaigns d" "sessions d' = sessions d" "artifacts d' = artifacts d"
    "kernel_builds d' = kernel_builds d" "application_revisions d' = application_revisions d"
  by (subst assms [unfolded ticket_frame_def], simp)+

lemma update_ticket_states_frame:
  assumes "update_ticket_states d a s nxt sr br now = Inr d'"
  shows "ticket_frame d d'" "tables_ok d \<Longrightarrow> tables_ok d'" "ticket_attempts d' = ticket_attempts d"
  using assms by (auto simp: update_ticket_states_def ticket_frame_def tables_ok_def table_simps)

lemma update_requalification_frame:
  assumes "update_requalification_and_ticket_state d a s nxt code v br now = Inr d'"
  shows "ticket_frame d d'" "tables_ok d \<Longrightarrow> tables_ok d'" "ticket_attempts d' = ticket_attempts d"
  using assms by (auto simp: update_requalification_and_ticket_state_def ticket_frame_def tables_ok_def table_simps)

lemma claim_transition_frame:
  assumes "claim_transition now c a nxt cl d = Inr (x, d')"
  shows "ticket_frame d d'" "tables_ok d \<Longrightarrow> tables_ok d'"
    and "ticket_attempts d' = (if cl = Reproduced then insert_row (claimed_attempt_row c now) (ticket_attempts d)
           else ticket_attempts d)"
    and "cl = Reproduced \<Longrightarrow> \<not> unreleased_attempt_exists d (cl_ticket_revision_id c)"
  using assms by (cases cl; auto simp: claim_transition_def Let_def update_requalification_and_ticket_state_def
      ticket_frame_def tables_ok_def table_simps)+

fun claimed_state :: "requalification \<Rightarrow> int" where
  "claimed_state Reproduced = TICKET_IN_FLIGHT"
| "claimed_state Resolved = TICKET_RESOLVED"
| "claimed_state Diverged = TICKET_BLOCKED"

lemma claim_transition_moves:
  assumes "claim_transition now c a nxt cl d = Inr (x, d')"
    and "get_row (ticket_revisions d) (tl_ticket_revision_id a) = Some tr" "tr_ticket_id tr = tl_ticket_id a"
  shows "ticket_moves d (tl_ticket_revision_id a) (claimed_state cl) d'"
proof -
  obtain dm code reason where "update_requalification_and_ticket_state dm a (claimed_state cl) nxt code
      (cl_requalification c) reason now = Inr d'" "tickets dm = tickets d" "ticket_revisions dm = ticket_revisions d"
    using assms(1) by (cases cl) (auto simp: claim_transition_def Let_def)
  then show ?thesis using update_requalification_moves [OF _ assms(2,3)] by blast
qed

lemma attempts_kept:
  "ticket_inv d \<Longrightarrow> ticket_attempts d' = ticket_attempts d \<Longrightarrow> tables_ok d' \<Longrightarrow>
     (\<forall>k. unreleased_attempt_exists d' k \<longleftrightarrow> unreleased_attempt_exists d k)
     \<and> (\<forall>l a. get_row (ticket_attempts d') l = Some a \<longrightarrow> attempt_ok d a)
     \<and> unique_key (get_row (ticket_attempts d')) unreleased_key"
  by (auto simp: ticket_inv_def unreleased_attempt_exists_def)

lemma evidence_same_frame:
  "ticket_frame d dm \<Longrightarrow> candidates d' = candidates dm \<Longrightarrow> validations d' = validations dm \<Longrightarrow> reviews d' = reviews dm
   \<Longrightarrow> architect_decisions d' = architect_decisions dm \<Longrightarrow> deliveries d' = deliveries dm
   \<Longrightarrow> (\<And>i. get_row (ticket_attempts d) i \<noteq> None \<Longrightarrow> get_row (ticket_attempts d') i \<noteq> None) \<Longrightarrow> evidence_same d d'"
  using ticket_frameD [of d dm] by (simp add: evidence_same_def)

section \<open>Proposal\<close>

lemma submit_ticket_proposal_freshE:
  assumes "submit_ticket_proposal_fresh fp application c d = Inr (r, d')"
  obtains dm first expected where
    "store_artifact_digest d (pp_expected_observation_artifact_id c) = Inr expected"
    "store_artifact_digest d (pp_first_actual_observation_artifact_id c) = Inr first"
    "store_artifact_digest d (pp_second_actual_observation_artifact_id c) = Inr first"
    "dm = d\<lparr>tickets := insert_row (proposal_ticket_row c (next_id (ticket_revisions d))) (tickets d),
            ticket_revisions := insert_row (proposal_revision_row c (next_id (tickets d))) (ticket_revisions d)\<rparr>"
    "insert_ticket_audit dm (pp_principal c) (pp_command_id c) PROPOSE_OPERATION fp PROPOSAL_SUBJECT
       (next_id (ticket_revisions d)) revision_initial = Inr (pr_audit_log_id r, d')"
    "pr_ticket_revision_id r = next_id (ticket_revisions d)" "\<not> pr_was_idempotent_retry r"
    "first \<noteq> expected"
    "application_ticket_count d (ap_application_key application) TICKET_PROPOSED < ap_proposal_maximum application"
    "\<not> exists_row (\<lambda>_ tr. tr_application_revision_id tr = pp_application_revision_id c
         \<and> tr_reproducer_artifact_id tr = pp_reproducer_artifact_id c \<and> tr_lifecycle tr \<noteq> TICKET_BLOCKED) (ticket_revisions d)"
proof -
  show thesis using assms unfolding submit_ticket_proposal_fresh_def
    apply (clarsimp simp: Let_def case_prod_unfold)
    apply (rule that)
    apply assumption
    apply assumption
    apply assumption
    apply (rule refl)
    apply simp_all
    done
qed

lemma store_artifact_digest_pos:
  "store_artifact_digest d i = Inr x \<Longrightarrow> tables_ok d \<Longrightarrow> 0 < i"
  using tbl.get_pos [of "artifacts d" i] by (auto simp: store_artifact_digest_def tables_ok_def)

lemma ticket_inv_attempt:
  "ticket_inv d \<Longrightarrow> get_row (ticket_attempts d) j = Some a \<Longrightarrow>
     \<exists>tr. get_row (ticket_revisions d) (ta_ticket_revision_id a) = Some tr"
  by (auto simp: ticket_inv_def attempt_ok_def)

lemma submit_ticket_proposal_fresh_inv:
  assumes fresh: "submit_ticket_proposal_fresh fp application c d = Inr (r, d')" and tabs: "tables_ok d"
  shows "tables_ok d' \<and> evidence_same d d'
    \<and> \<not> pr_was_idempotent_retry r \<and> audit_commits d (pp_principal c) (pp_command_id c) PROPOSE_OPERATION fp d'"
  using fresh
proof (rule submit_ticket_proposal_freshE)
  fix dm
  assume dm: "dm = d\<lparr>tickets := insert_row (proposal_ticket_row c (next_id (ticket_revisions d))) (tickets d),
            ticket_revisions := insert_row (proposal_revision_row c (next_id (tickets d))) (ticket_revisions d)\<rparr>"
    and ins: "insert_ticket_audit dm (pp_principal c) (pp_command_id c) PROPOSE_OPERATION fp PROPOSAL_SUBJECT
       (next_id (ticket_revisions d)) revision_initial = Inr (pr_audit_log_id r, d')" and r: "\<not> pr_was_idempotent_retry r"
  note frame = insert_ticket_audit_frame [OF ins]
  have "tables_ok dm" using tabs by (simp add: dm tables_ok_def table_simps)
  then show ?thesis using frame(1) frame(2) [of d] frame(3) r by (simp add: evidence_same_def dm)
qed

lemma submit_ticket_proposal_fresh_ticket_inv:
  assumes fresh: "submit_ticket_proposal_fresh fp application c d = Inr (r, d')" and inv: "ticket_inv d"
    and app: "0 < pp_application_revision_id c"
  shows "ticket_inv d'"
  using fresh
proof (rule submit_ticket_proposal_freshE)
  fix dm first expected
  let ?t = "next_id (tickets d)" and ?i = "next_id (ticket_revisions d)"
  let ?row = "proposal_revision_row c ?t"
  assume dm: "dm = d\<lparr>tickets := insert_row (proposal_ticket_row c ?i) (tickets d),
            ticket_revisions := insert_row ?row (ticket_revisions d)\<rparr>"
    and ins: "insert_ticket_audit dm (pp_principal c) (pp_command_id c) PROPOSE_OPERATION fp PROPOSAL_SUBJECT
       ?i revision_initial = Inr (pr_audit_log_id r, d')"
    and obs: "store_artifact_digest d (pp_expected_observation_artifact_id c) = Inr expected"
      "store_artifact_digest d (pp_first_actual_observation_artifact_id c) = Inr first"
    and dup: "\<not> exists_row (\<lambda>_ tr. tr_application_revision_id tr = pp_application_revision_id c
         \<and> tr_reproducer_artifact_id tr = pp_reproducer_artifact_id c \<and> tr_lifecycle tr \<noteq> TICKET_BLOCKED) (ticket_revisions d)"
  from insert_ticket_audit_frame(3) [OF ins]
  have eqs: "tickets d' = insert_row (proposal_ticket_row c ?i) (tickets d)"
    "ticket_revisions d' = insert_row ?row (ticket_revisions d)" "ticket_attempts d' = ticket_attempts d"
    by (simp_all add: dm)
  have tabs: "tables_ok d" "tables_ok d'"
    using ticket_inv_tables [OF inv] submit_ticket_proposal_fresh_inv [OF fresh] by simp_all
  then have t: "table_ok (tickets d)" "table_ok (ticket_revisions d)" by (simp_all add: tables_ok_def)
  have linked: "ticket_linked d' i tr" if "get_row (ticket_revisions d') i = Some tr" for i tr
  proof (cases "i = ?i")
    case True
    then have tr: "tr = ?row" using that by (simp add: eqs(2) tbl.get_ins t)
    show ?thesis
      using store_artifact_digest_pos [OF obs(1) tabs(1)] store_artifact_digest_pos [OF obs(2) tabs(1)] app True
      by (simp add: tr ticket_linked_def proposal_revision_row_def proposal_ticket_row_def reached_state_def
          eqs(1) tbl.get_ins t)
  next
    case False
    then have old: "get_row (ticket_revisions d) i = Some tr" using that by (simp add: eqs(2) tbl.get_ins t)
    then show ?thesis using inv tbl.get_ins_old [OF t(1)] by (fastforce simp: ticket_inv_def ticket_linked_def eqs(1))
  qed
  have none: "\<not> unreleased_attempt_exists d ?i"
  proof
    assume "unreleased_attempt_exists d ?i"
    then obtain j a where "get_row (ticket_attempts d) j = Some a" "ta_ticket_revision_id a = ?i"
      using tabs(1) by (auto simp: unreleased_attempt_exists_def tbl.ex_get tables_ok_def)
    then show False using ticket_inv_attempt [OF inv] tbl.get_fresh [OF t(2)] by fastforce
  qed
  have owned: "unreleased_attempt_exists d' i \<longleftrightarrow> owned_state (tr_lifecycle tr)"
    if "get_row (ticket_revisions d') i = Some tr" for i tr
    using that inv none
    by (auto simp: eqs tbl.get_ins t ticket_inv_def unreleased_attempt_exists_def proposal_revision_row_def
        owned_state_def split: if_splits)
  have attempts: "attempt_ok d' a" if "get_row (ticket_attempts d') j = Some a" for j a
    using that inv by (auto simp: eqs ticket_inv_def attempt_ok_def tbl.get_ins t)
  have "unique_key (get_row (ticket_revisions d')) in_flight_key" unfolding eqs(2)
    using inv by (intro tbl.unique_key_ins) (auto simp: t ticket_inv_def in_flight_key_def proposal_revision_row_def)
  moreover have "unique_key (get_row (ticket_revisions d')) live_reproducer_key" unfolding eqs(2)
    using inv dup by (intro tbl.unique_key_ins)
      (auto simp: t ticket_inv_def live_reproducer_key_def proposal_revision_row_def tbl.ex_get split: if_splits)
  ultimately show ?thesis using tabs linked owned attempts inv by (simp add: ticket_inv_def eqs(3))
qed

section \<open>Sponsorship, claim, release and completion\<close>

lemma sponsor_ticket_revision_freshE:
  assumes "sponsor_ticket_revision_fresh fp now c d = Inr (r, d')"
  obtains status nxt dm where
    "store_lock_ticket_revision d (sr_ticket_revision_id c) = Inr status" "tl_state status = TicketProposed"
    "update_ticket_states d status TICKET_SPONSORED nxt (Some (sr_reason c)) None now = Inr dm"
    "insert_ticket_audit dm (sr_principal c) (sr_command_id c) TICKET_SPONSOR_OPERATION fp
       SPONSORSHIP_SUBJECT (sr_ticket_revision_id c) nxt = Inr (sq_audit_log_id r, d')"
    "\<not> sq_was_idempotent_retry r"
    "require_ready_buffer_open d (tl_application_revision_id status) = Inr ()"
  using assms that unfolding sponsor_ticket_revision_fresh_def
  by (clarsimp simp: case_prod_unfold store_require_ticket_state_def)

lemma claim_sponsored_ticket_freshE:
  assumes "claim_sponsored_ticket_fresh fp now c d = Inr (r, d')"
  obtains status cl nxt dm kind subject where
    "store_lock_ticket_revision d (cl_ticket_revision_id c) = Inr status" "tl_state status = TicketSponsored"
    "validate_claim_campaign now c status d = Inr ()"
    "store_classify_requalification d status (cl_requalification c) = Inr cl"
    "claim_transition now c status nxt cl d = Inr ((ct_outcome r, kind, subject), dm)"
    "insert_ticket_audit dm (cl_principal c) (cl_command_id c) CLAIM_OPERATION fp kind subject nxt
       = Inr (ct_audit_log_id r, d')"
    "\<not> ct_was_idempotent_retry r"
  using assms that unfolding claim_sponsored_ticket_fresh_def
  by (clarsimp simp: case_prod_unfold store_require_ticket_state_def)

lemma attempt_release_freshE:
  assumes "attempt_release_fresh fp now c d = Inr (r, d')"
  obtains a cl dm d1 nxt ra na where
    "lock_ticket_attempt d (rt_ticket_attempt_id c) = Inr a" "al_ticket_state a = TicketInFlight"
    "\<not> al_released a" "al_stage a = ATTEMPT_FAILED \<or> al_stage a = ATTEMPT_CANCELLED"
    "d1 = d\<lparr>ticket_attempts := update_row (rt_ticket_attempt_id c) (\<lambda>a. a\<lparr>
         ta_released := Some (now, rt_reason c), ta_revision := ra\<rparr>) (ticket_attempts d)\<rparr>"
    "update_requalification_and_ticket_state d1 (al_ticket a) (fst (snd (release_transition cl))) nxt
       (fst (snd (snd (release_transition cl)))) (rt_requalification c) (snd (snd (snd (release_transition cl)))) now = Inr dm"
    "insert_ticket_audit dm (rt_principal c) (rt_command_id c) ATTEMPT_RELEASE_OPERATION fp
       (release_subject cl) (rt_ticket_attempt_id c) na = Inr (rx_audit_log_id r, d')"
    "\<not> rx_was_idempotent_retry r" "rx_outcome r = fst (release_transition cl)"
  using assms that unfolding attempt_release_fresh_def lock_fenced_attempt_def
  by (clarsimp simp: Let_def case_prod_unfold store_require_ticket_state_def)

lemma complete_campaign_freshE:
  assumes "complete_campaign_fresh fp c d = Inr (r, d')"
  obtains campaign dm i where "get_row (campaigns d) (cp_campaign_id c) = Some campaign"
    "ca_lifecycle campaign = CAMPAIGN_RUNNING"
    "ca_delivery_target campaign \<le> delivered_attempt_count d (cp_campaign_id c)"
    "dm = d\<lparr>campaigns := update_row (cp_campaign_id c)
        (\<lambda>g. g\<lparr>ca_lifecycle := CAMPAIGN_COMPLETED, ca_revision := uint r\<rparr>) (campaigns d)\<rparr>"
    "insert_ticket_audit dm (cp_principal c) (cp_command_id c) COMPLETE_CAMPAIGN_OPERATION fp
       CAMPAIGN_COMPLETED_SUBJECT (cp_campaign_id c) r = Inr (i, d')"
  using assms that unfolding complete_campaign_fresh_def revision_to_sql_def
  by (clarsimp simp: Let_def case_prod_unfold)

lemma sponsor_ticket_revision_fresh_inv:
  assumes fresh: "sponsor_ticket_revision_fresh fp now c d = Inr (r, d')" and tabs: "tables_ok d"
  shows "tables_ok d' \<and> evidence_same d d' \<and> \<not> sq_was_idempotent_retry r
     \<and> audit_commits d (sr_principal c) (sr_command_id c) TICKET_SPONSOR_OPERATION fp d'"
  using fresh
proof (rule sponsor_ticket_revision_freshE)
  fix status nxt dm
  assume u: "update_ticket_states d status TICKET_SPONSORED nxt (Some (sr_reason c)) None now = Inr dm"
    and ins: "insert_ticket_audit dm (sr_principal c) (sr_command_id c) TICKET_SPONSOR_OPERATION fp
       SPONSORSHIP_SUBJECT (sr_ticket_revision_id c) nxt = Inr (sq_audit_log_id r, d')"
    and r: "\<not> sq_was_idempotent_retry r"
  note frame = insert_ticket_audit_frame [OF ins] update_ticket_states_frame [OF u]
  have "evidence_same d d'"
    using frame(3,6) by (intro evidence_same_frame [OF frame(4)]) simp_all
  then show ?thesis
    using frame(1) frame(2) [of d] frame(5) [OF tabs] ticket_frameD(6) [OF frame(4)] r by simp
qed

lemma sponsor_ticket_revision_fresh_ticket_inv:
  assumes fresh: "sponsor_ticket_revision_fresh fp now c d = Inr (r, d')" and inv: "ticket_inv d"
  shows "ticket_inv d'"
  using fresh
proof (rule sponsor_ticket_revision_freshE)
  fix status nxt dm
  assume lock: "store_lock_ticket_revision d (sr_ticket_revision_id c) = Inr status" "tl_state status = TicketProposed"
    and u: "update_ticket_states d status TICKET_SPONSORED nxt (Some (sr_reason c)) None now = Inr dm"
    and ins: "insert_ticket_audit dm (sr_principal c) (sr_command_id c) TICKET_SPONSOR_OPERATION fp
       SPONSORSHIP_SUBJECT (sr_ticket_revision_id c) nxt = Inr (sq_audit_log_id r, d')"
  from lock(1) obtain tr where tr: "get_row (ticket_revisions d) (tl_ticket_revision_id status) = Some tr"
      "tr_ticket_id tr = tl_ticket_id status" "tr_lifecycle tr = TICKET_PROPOSED"
    by (rule store_lock_ticket_revisionE) (use lock(2) in simp)
  note frame = insert_ticket_audit_frame(3) [OF ins]
  have "ticket_moves d (tl_ticket_revision_id status) TICKET_SPONSORED d'"
    using ticket_moves_frame [OF update_ticket_states_moves [OF u tr(1,2)]] frame by simp
  moreover have "ticket_attempts d' = update_row 0 (\<lambda>x. x) (ticket_attempts d)"
    using frame update_ticket_states_frame(3) [OF u] by (simp add: update_row_id)
  ultimately show ?thesis
    using sponsor_ticket_revision_fresh_inv [OF fresh ticket_inv_tables [OF inv]] tr attempt_ordinal_ok [OF inv]
    by (intro ticket_inv_owned [OF inv _ _ tr(1), where f = "\<lambda>x. x" and s = TICKET_SPONSORED])
      (auto simp: owned_state_def reached_state_def)
qed

lemma claim_sponsored_ticket_fresh_inv:
  assumes fresh: "claim_sponsored_ticket_fresh fp now c d = Inr (r, d')" and tabs: "tables_ok d"
  shows "tables_ok d' \<and> evidence_same d d' \<and> \<not> ct_was_idempotent_retry r
     \<and> audit_commits d (cl_principal c) (cl_command_id c) CLAIM_OPERATION fp d'"
  using fresh
proof (rule claim_sponsored_ticket_freshE)
  fix status cl nxt dm kind subject
  assume m: "claim_transition now c status nxt cl d = Inr ((ct_outcome r, kind, subject), dm)"
    and ins: "insert_ticket_audit dm (cl_principal c) (cl_command_id c) CLAIM_OPERATION fp kind subject nxt
       = Inr (ct_audit_log_id r, d')" and r: "\<not> ct_was_idempotent_retry r"
  note frame = insert_ticket_audit_frame [OF ins] claim_transition_frame [OF m]
  have "evidence_same d d'"
    using frame(3,6) tabs
    by (intro evidence_same_frame [OF frame(4)]) (auto simp: tables_ok_def tbl.get_ins)
  then show ?thesis
    using frame(1) frame(2) [of d] frame(5) [OF tabs] ticket_frameD(6) [OF frame(4)] r by simp
qed

lemma count_rows_0:
  "table_ok t \<Longrightarrow> count_rows p t = 0 \<longleftrightarrow> (\<forall>i r. get_row t i = Some r \<longrightarrow> \<not> p i r)"
proof -
  assume "table_ok t"
  then have "(\<exists>i r. get_row t i = Some r \<and> p i r) \<longleftrightarrow> exists_row p t" by (simp add: tbl.ex_get)
  then show ?thesis by (auto simp: count_rows_def exists_row_def filter_empty_conv list_ex_iff)
qed

lemma ticket_inv_current:
  "ticket_inv d \<Longrightarrow> get_row (ticket_revisions d) i = Some tr \<Longrightarrow> is_current d i tr"
  by (fastforce simp: ticket_inv_def ticket_linked_def is_current_def)

lemma claim_sponsored_ticket_fresh_ticket_inv:
  assumes fresh: "claim_sponsored_ticket_fresh fp now c d = Inr (r, d')" and inv: "ticket_inv d"
  shows "ticket_inv d'"
  using fresh
proof (rule claim_sponsored_ticket_freshE)
  fix status cl nxt dm kind subject
  assume lock: "store_lock_ticket_revision d (cl_ticket_revision_id c) = Inr status" "tl_state status = TicketSponsored"
    and guard: "validate_claim_campaign now c status d = Inr ()"
    and m: "claim_transition now c status nxt cl d = Inr ((ct_outcome r, kind, subject), dm)"
    and ins: "insert_ticket_audit dm (cl_principal c) (cl_command_id c) CLAIM_OPERATION fp kind subject nxt
       = Inr (ct_audit_log_id r, d')"
  from lock(1) obtain tr where tr: "get_row (ticket_revisions d) (tl_ticket_revision_id status) = Some tr"
      "tr_ticket_id tr = tl_ticket_id status" "tr_lifecycle tr = TICKET_SPONSORED"
      "tl_ticket_revision_id status = cl_ticket_revision_id c"
      "tl_application_revision_id status = tr_application_revision_id tr"
    by (rule store_lock_ticket_revisionE) (use lock(2) in simp)
  have tabs: "tables_ok d" "tables_ok d'" "table_ok (ticket_revisions d)"
    using ticket_inv_tables [OF inv] claim_sponsored_ticket_fresh_inv [OF fresh] by (simp_all add: tables_ok_def)
  note frame = insert_ticket_audit_frame(3) [OF ins] and t = claim_transition_frame [OF m]
  have mv: "ticket_moves d (tl_ticket_revision_id status) (claimed_state cl) d'"
    using ticket_moves_frame [OF claim_transition_moves [OF m tr(1,2)]] frame by simp
  have none: "count_rows (\<lambda>i x. tr_application_revision_id x = tr_application_revision_id tr \<and> is_current d i x
      \<and> tr_lifecycle x = TICKET_IN_FLIGHT) (ticket_revisions d) = 0"
    using guard by (auto simp: validate_claim_campaign_def application_revision_ticket_count_def Let_def tr(5))
  have free: "in_flight_key x \<noteq> Some (tr_application_revision_id tr)"
    if "get_row (ticket_revisions d) j = Some x" for j x
    using that none ticket_inv_current [OF inv that] by (auto simp: count_rows_0 tabs(3) in_flight_key_def)
  have unowned: "\<not> unreleased_attempt_exists d (cl_ticket_revision_id c)"
    using inv tr by (auto simp: ticket_inv_def owned_state_def)
  show ?thesis
  proof (cases "cl = Reproduced")
    case True
    then have ta: "ticket_attempts d' = insert_row (claimed_attempt_row c now) (ticket_attempts d)"
      using frame t(3) by simp
    note a = attempt_claimed [OF inv ta tabs(2)]
    have row: "ta_released (claimed_attempt_row c now) = None" "ta_rework_ordinal (claimed_attempt_row c now) = 0"
      "ta_ticket_revision_id (claimed_attempt_row c now) = cl_ticket_revision_id c"
      by (simp_all add: claimed_attempt_row_def)
    show ?thesis
      using True free unowned tr a row
      by (intro ticket_inv_move [OF inv tabs(2) mv _ _ tr(1)])
        (auto simp: reached_state_def owned_state_def)
  next
    case False
    then have ta: "ticket_attempts d' = update_row 0 (\<lambda>x. x) (ticket_attempts d)"
      using frame t(3) by (simp add: update_row_id)
    show ?thesis
      using False tr attempt_ordinal_ok [OF inv]
      by (cases cl; intro ticket_inv_owned [OF inv tabs(2) mv tr(1) _ _ _ ta])
        (auto simp: owned_state_def reached_state_def)
  qed
qed

end
