(* ===== verification/Ticket_Authority.thy ===== *)
theory Ticket_Authority
  imports Ticket_Invariant
begin

text \<open>
  The sixteen commands of the two authorities as clients see them.  The locale \<open>authority_command\<close> is
  the contract each of the fifteen receipt-returning commands keeps: it is audited, it keeps the
  evidence and lets it grow, and it keeps the ticket invariant.  Every command is an interpretation.
  Campaign completion returns a bare revision, so its part of the contract is stated directly.
\<close>

section \<open>Release and completion keep both invariants\<close>

lemma attempt_release_fresh_inv:
  assumes fresh: "attempt_release_fresh fp now c d = Inr (r, d')" and tabs: "tables_ok d"
  shows "tables_ok d' \<and> evidence_same d d' \<and> \<not> rx_was_idempotent_retry r
     \<and> audit_commits d (rt_principal c) (rt_command_id c) ATTEMPT_RELEASE_OPERATION fp d'"
  using fresh
proof (rule attempt_release_freshE)
  fix a cl dm d1 nxt ra na
  assume d1: "d1 = d\<lparr>ticket_attempts := update_row (rt_ticket_attempt_id c) (\<lambda>a. a\<lparr>
         ta_released := Some (now, rt_reason c), ta_revision := ra\<rparr>) (ticket_attempts d)\<rparr>"
    and u: "update_requalification_and_ticket_state d1 (al_ticket a) (fst (snd (release_transition cl))) nxt
       (fst (snd (snd (release_transition cl)))) (rt_requalification c) (snd (snd (snd (release_transition cl)))) now = Inr dm"
    and ins: "insert_ticket_audit dm (rt_principal c) (rt_command_id c) ATTEMPT_RELEASE_OPERATION fp
       (release_subject cl) (rt_ticket_attempt_id c) na = Inr (rx_audit_log_id r, d')"
    and r: "\<not> rx_was_idempotent_retry r"
  note frame = insert_ticket_audit_frame [OF ins] update_requalification_frame [OF u]
  have "tables_ok d1" using tabs by (simp add: d1 tables_ok_def table_simps)
  then have "tables_ok d'" using frame(1,5) by simp
  moreover have "audit_log dm = audit_log d" using ticket_frameD(6) [OF frame(4)] by (simp add: d1)
  moreover have "evidence_same d d'"
    using frame(3,6) ticket_frameD(1-5) [OF frame(4)] by (simp add: evidence_same_def d1 tbl.get_upd)
  ultimately show ?thesis using frame(2) [of d] r by simp
qed

lemma attempt_release_fresh_ticket_inv:
  assumes fresh: "attempt_release_fresh fp now c d = Inr (r, d')" and inv: "ticket_inv d"
  shows "ticket_inv d'"
  using fresh
proof (rule attempt_release_freshE)
  fix a cl dm d1 nxt ra na
  assume lock: "lock_ticket_attempt d (rt_ticket_attempt_id c) = Inr a" "\<not> al_released a"
    and d1: "d1 = d\<lparr>ticket_attempts := update_row (rt_ticket_attempt_id c) (\<lambda>a. a\<lparr>
         ta_released := Some (now, rt_reason c), ta_revision := ra\<rparr>) (ticket_attempts d)\<rparr>"
    and u: "update_requalification_and_ticket_state d1 (al_ticket a) (fst (snd (release_transition cl))) nxt
       (fst (snd (snd (release_transition cl)))) (rt_requalification c) (snd (snd (snd (release_transition cl)))) now = Inr dm"
    and ins: "insert_ticket_audit dm (rt_principal c) (rt_command_id c) ATTEMPT_RELEASE_OPERATION fp
       (release_subject cl) (rt_ticket_attempt_id c) na = Inr (rx_audit_log_id r, d')"
  from lock(1) obtain ta tr where ta: "get_row (ticket_attempts d) (rt_ticket_attempt_id c) = Some ta" "ta_released ta = None"
      "get_row (ticket_revisions d) (ta_ticket_revision_id ta) = Some tr" "tr_ticket_id tr = tl_ticket_id (al_ticket a)"
      "tl_ticket_revision_id (al_ticket a) = ta_ticket_revision_id ta"
    by (rule lock_ticket_attemptE) (use lock(2) in simp)
  note frame = insert_ticket_audit_frame(3) [OF ins]
  have "ticket_moves d (tl_ticket_revision_id (al_ticket a)) (fst (snd (release_transition cl))) dm"
    using update_requalification_moves [OF u, of d tr] ta(3-5) by (simp add: d1)
  then have "ticket_moves d (ta_ticket_revision_id ta) (fst (snd (release_transition cl))) d'"
    using ticket_moves_frame frame ta(5) by simp
  moreover have "ticket_attempts d' = update_row (rt_ticket_attempt_id c) (\<lambda>a. a\<lparr>
         ta_released := Some (now, rt_reason c), ta_revision := ra\<rparr>) (ticket_attempts d)"
    using frame update_requalification_frame(3) [OF u] by (simp add: d1)
  ultimately show ?thesis
    using attempt_release_fresh_inv [OF fresh ticket_inv_tables [OF inv]] ta(1-3)
    by (intro ticket_inv_release [OF inv]) auto
qed

lemma complete_campaign_fresh_inv:
  assumes "complete_campaign_fresh fp c d = Inr (r, d')" and tabs: "tables_ok d"
  shows "tables_ok d' \<and> evidence_same d d' \<and> tickets_same d d' \<and> ticket_attempts d' = ticket_attempts d
     \<and> audit_commits d (cp_principal c) (cp_command_id c) COMPLETE_CAMPAIGN_OPERATION fp d'"
  using assms(1)
proof (rule complete_campaign_freshE)
  fix campaign dm i
  assume dm: "dm = d\<lparr>campaigns := update_row (cp_campaign_id c)
        (\<lambda>g. g\<lparr>ca_lifecycle := CAMPAIGN_COMPLETED, ca_revision := uint r\<rparr>) (campaigns d)\<rparr>"
    and ins: "insert_ticket_audit dm (cp_principal c) (cp_command_id c) COMPLETE_CAMPAIGN_OPERATION fp
       CAMPAIGN_COMPLETED_SUBJECT (cp_campaign_id c) r = Inr (i, d')"
  note frame = insert_ticket_audit_frame [OF ins]
  have "tables_ok dm" using tabs by (simp add: dm tables_ok_def table_simps)
  then show ?thesis
    using frame(1) frame(2) [of d] frame(3) by (simp add: dm evidence_same_def tickets_same_def)
qed

lemma tickets_same_inv:
  assumes "ticket_inv d" "tables_ok d'" "tickets_same d d'" "ticket_attempts d' = ticket_attempts d"
  shows "ticket_inv d'"
  using attempts_kept [OF assms(1,4,2)] by (intro ticket_inv_same [OF assms(1-3)]) auto

section \<open>The contract\<close>

locale authority_command = evidence_command run who cmd operation fp retry
  for run :: "int \<Rightarrow> 'c \<Rightarrow> db \<Rightarrow> ('e, 'r \<times> db) result"
    and who :: "'c \<Rightarrow> string" and cmd :: "'c \<Rightarrow> string" and operation :: string
    and fp :: "'c \<Rightarrow> content_digest" and retry :: "'r \<Rightarrow> bool" +
  assumes keeps_tickets: "run now c d = Inr (r, d') \<Longrightarrow> ticket_inv d \<Longrightarrow> ticket_inv d'"
begin

lemma keeps_both:
  "run now c d = Inr (r, d') \<Longrightarrow> evidence_inv d \<Longrightarrow> ticket_inv d \<Longrightarrow>
     evidence_inv d' \<and> ticket_inv d' \<and> evidence_grows d d' \<and> audit_extends d d'"
  using keeps keeps_tickets extends by blast

end

lemma authority_commandI:
  assumes "evidence_command run who cmd op fp retry"
    and run: "\<And>now c d r d'. run now c d = Inr (r, d') \<Longrightarrow>
      audited (find_audit_entry (conflict c) (out_of_range c) d (who c) (cmd c) op (fp c)) (replay c d) (fresh now c d) d = Inr (r, d')"
    and fresh: "\<And>now c d r d'. fresh now c d = Inr (r, d') \<Longrightarrow> ticket_inv d \<Longrightarrow> ticket_inv d'"
  shows "authority_command run who cmd op fp retry"
proof (rule authority_command.intro [OF assms(1)], unfold_locales)
  fix now c d r d'
  assume ok: "run now c d = Inr (r, d')" and inv: "ticket_inv d"
  show "ticket_inv d'" using run [OF ok] by (rule audited_cases) (use inv fresh in auto)
qed

section \<open>The decision authority\<close>

interpretation sc_auth: authority_command "submit_candidate_cmd hash" "\<lambda>c. sc_principal c" "\<lambda>c. sc_command_id c"
  CANDIDATE_SUBMIT_OPERATION "\<lambda>c. hash (submit_candidate_preimage c)" cr_receipt_was_idempotent_retry for hash
  by (rule authority_commandI, fact sc_command.evidence_command_axioms)
    (fact submit_candidate_cmd_audited submit_candidate_fresh_ticket_inv)+

interpretation rv_auth: authority_command "record_validation_cmd hash" "\<lambda>c. rv_principal c" "\<lambda>c. rv_command_id c"
  VALIDATION_RECORD_OPERATION "\<lambda>c. hash (validation_preimage c)" vr_was_idempotent_retry for hash
  by (rule authority_commandI, fact rv_command.evidence_command_axioms)
    (fact record_validation_cmd_audited record_validation_fresh_ticket_inv)+

interpretation ac_auth: authority_command "\<lambda>_. attach_candidate_commit_cmd hash" "\<lambda>c. ac_principal c" "\<lambda>c. ac_command_id c"
  CANDIDATE_COMMIT_ATTACH_OPERATION "\<lambda>c. hash (commit_preimage c)" cr_receipt_was_idempotent_retry for hash
  by (rule authority_commandI, fact ac_command.evidence_command_axioms)
    (fact attach_candidate_commit_cmd_audited attach_candidate_commit_fresh_ticket_inv)+

interpretation qr_auth: authority_command "\<lambda>_. submit_quality_review_cmd hash" "\<lambda>c. qr_principal c" "\<lambda>c. qr_command_id c"
  REVIEW_SUBMIT_OPERATION "\<lambda>c. hash (review_preimage c)" rr_was_idempotent_retry for hash
  by (rule authority_commandI, fact qr_command.evidence_command_axioms)
    (fact submit_quality_review_cmd_audited submit_quality_review_fresh_ticket_inv)+

interpretation st_auth: authority_command "sponsor_ticket_cmd hash" "\<lambda>c. sd_principal (st_decision c)" "\<lambda>c. st_command_id c"
  SPONSOR_OPERATION "\<lambda>c. hash (sponsorship_preimage c)" sp_was_idempotent_retry for hash
  by (rule authority_commandI, fact st_command.evidence_command_axioms)
    (fact sponsor_ticket_cmd_audited sponsor_ticket_fresh_ticket_inv)+

interpretation rl_auth: authority_command "release_ticket_attempt_cmd hash" "\<lambda>c. rd_principal (rl_decision c)" "\<lambda>c. rl_command_id c"
  RELEASE_OPERATION "\<lambda>c. hash (release_preimage c)" le_was_idempotent_retry for hash
  by (rule authority_commandI, fact rl_command.evidence_command_axioms)
    (fact release_ticket_attempt_cmd_audited release_fresh_ticket_inv)+

interpretation dc_auth: authority_command "decide_candidate_cmd hash" "\<lambda>c. cd_principal (dc_request c)" "\<lambda>c. dc_command_id c"
  CANDIDATE_DECIDE_OPERATION "\<lambda>c. hash (candidate_decision_preimage c)" dr_was_idempotent_retry for hash
  by (rule authority_commandI, fact dc_command.evidence_command_axioms)
    (fact decide_candidate_cmd_audited decide_candidate_fresh_ticket_inv)+

interpretation dv_auth: authority_command "record_delivery_cmd hash" "\<lambda>c. dv_principal c" "\<lambda>c. dv_command_id c"
  DELIVERY_RECORD_OPERATION "\<lambda>c. hash (delivery_preimage c)" dy_was_idempotent_retry for hash
  by (rule authority_commandI, fact dv_command.evidence_command_axioms)
    (fact record_delivery_cmd_audited record_delivery_fresh_ticket_inv)+

section \<open>The ticket authority\<close>

text \<open>The admitted application of a proposal is a row, so its identifier is positive.\<close>

definition submit_ticket_proposal_transition ::
  "content_digest \<Rightarrow> submit_ticket_proposal \<Rightarrow> db \<Rightarrow> (ticket_proposal_receipt \<times> db) store_result" where
  "submit_ticket_proposal_transition fp c d =
     and_then (ok_or (get_row (application_revisions d) (pp_application_revision_id c))
                 (StoreUnknownApplicationRevision (pp_application_revision_id c)))
       (\<lambda>application. submit_ticket_proposal_fresh fp application c d)"

lemma submit_ticket_proposal_cmd_audited:
  assumes "submit_ticket_proposal_cmd hash c d = Inr (r, d')"
  shows "audited (find_audit_entry (StoreIdempotencyConflict (pp_principal c) (pp_command_id c)) StoreRevisionOutOfRange d
     (pp_principal c) (pp_command_id c) PROPOSE_OPERATION (hash (proposal_preimage c)))
     (submit_ticket_proposal_replay d) (submit_ticket_proposal_transition (hash (proposal_preimage c)) c d) d = Inr (r, d')"
  using assms by (auto simp: submit_ticket_proposal_cmd_def submit_ticket_proposal_transition_def Let_def find_ticket_audit_def)

lemma submit_ticket_proposal_replay_retry: "submit_ticket_proposal_replay d rc = Inr r \<Longrightarrow> pr_was_idempotent_retry r"
  by (auto simp: submit_ticket_proposal_replay_def)

lemma sponsor_ticket_revision_cmd_audited:
  assumes "sponsor_ticket_revision_cmd hash now c d = Inr (r, d')"
  shows "audited (find_audit_entry (StoreIdempotencyConflict (sr_principal c) (sr_command_id c)) StoreRevisionOutOfRange d
     (sr_principal c) (sr_command_id c) TICKET_SPONSOR_OPERATION (hash (sponsor_preimage c)))
     (sponsor_ticket_revision_replay c d) (sponsor_ticket_revision_fresh (hash (sponsor_preimage c)) now c d) d = Inr (r, d')"
  using assms by (auto simp: sponsor_ticket_revision_cmd_def Let_def find_ticket_audit_def)

lemma claim_sponsored_ticket_cmd_audited:
  assumes "claim_sponsored_ticket_cmd hash now c d = Inr (r, d')"
  shows "audited (find_audit_entry (StoreIdempotencyConflict (cl_principal c) (cl_command_id c)) StoreRevisionOutOfRange d
     (cl_principal c) (cl_command_id c) CLAIM_OPERATION (hash (claim_preimage c)))
     (claim_sponsored_ticket_replay c d) (claim_sponsored_ticket_fresh (hash (claim_preimage c)) now c d) d = Inr (r, d')"
  using assms by (auto simp: claim_sponsored_ticket_cmd_def Let_def find_ticket_audit_def)

lemma fail_ticket_attempt_cmd_audited:
  assumes "fail_ticket_attempt_cmd hash now c d = Inr (r, d')"
  shows "audited (find_audit_entry (StoreIdempotencyConflict (fa_principal c) (fa_command_id c)) StoreRevisionOutOfRange d
     (fa_principal c) (fa_command_id c) FAIL_OPERATION (hash (failure_preimage c)))
     (ticket_attempt_replay FAILED_ATTEMPT_SUBJECT (fa_ticket_attempt_id c)) (fail_ticket_attempt_fresh (hash (failure_preimage c)) now c d) d = Inr (r, d')"
  using assms by (auto simp: fail_ticket_attempt_cmd_def Let_def find_ticket_audit_def)

lemma retry_quality_attempt_cmd_audited:
  assumes "retry_quality_attempt_cmd hash now c d = Inr (r, d')"
  shows "audited (find_audit_entry (StoreIdempotencyConflict (rqa_principal c) (rqa_command_id c)) StoreRevisionOutOfRange d
     (rqa_principal c) (rqa_command_id c) QUALITY_RETRY_OPERATION (hash (quality_retry_preimage c)))
     (ticket_attempt_replay QUALITY_RETRY_SUBJECT (rqa_ticket_attempt_id c)) (retry_quality_attempt_fresh (hash (quality_retry_preimage c)) now c d) d = Inr (r, d')"
  using assms by (auto simp: retry_quality_attempt_cmd_def Let_def find_ticket_audit_def)

lemma retry_engineering_attempt_cmd_audited:
  assumes "retry_engineering_attempt_cmd hash c d = Inr (r, d')"
  shows "audited (find_audit_entry (StoreIdempotencyConflict (rea_principal c) (rea_command_id c)) StoreRevisionOutOfRange d
     (rea_principal c) (rea_command_id c) ENGINEERING_RETRY_OPERATION (hash (engineering_retry_preimage c)))
     (ticket_attempt_replay ENGINEERING_RETRY_SUBJECT (rea_ticket_attempt_id c)) (retry_engineering_attempt_fresh (hash (engineering_retry_preimage c)) c d) d = Inr (r, d')"
  using assms by (auto simp: retry_engineering_attempt_cmd_def Let_def find_ticket_audit_def)

lemma attempt_release_cmd_audited:
  assumes "attempt_release_cmd hash now c d = Inr (r, d')"
  shows "audited (find_audit_entry (StoreIdempotencyConflict (rt_principal c) (rt_command_id c)) StoreRevisionOutOfRange d
     (rt_principal c) (rt_command_id c) ATTEMPT_RELEASE_OPERATION (hash (attempt_release_preimage c)))
     (attempt_release_replay c d) (attempt_release_fresh (hash (attempt_release_preimage c)) now c d) d = Inr (r, d')"
  using assms by (auto simp: attempt_release_cmd_def Let_def find_ticket_audit_def)

lemma ticket_replay_retry:
  "sponsor_ticket_revision_replay c d rc = Inr sq \<Longrightarrow> sq_was_idempotent_retry sq"
  "claim_sponsored_ticket_replay cc d rc = Inr ct \<Longrightarrow> ct_was_idempotent_retry ct"
  "ticket_attempt_replay k i rc = Inr tt \<Longrightarrow> tt_was_idempotent_retry tt"
  "attempt_release_replay rt d rc = Inr rx \<Longrightarrow> rx_was_idempotent_retry rx"
  by (auto simp: sponsor_ticket_revision_replay_def claim_sponsored_ticket_replay_def ticket_attempt_replay_def
      attempt_release_replay_def)

text \<open>What a committed transition leaves in the audit log.\<close>

lemma submit_ticket_proposal_transition_audit:
  assumes "submit_ticket_proposal_transition fp c d = Inr (r, d')"
  shows "\<not> pr_was_idempotent_retry r \<and> audit_commits d (pp_principal c) (pp_command_id c) PROPOSE_OPERATION fp d'"
  using assms unfolding submit_ticket_proposal_transition_def
  by (clarsimp elim!: submit_ticket_proposal_freshE dest!: insert_ticket_audit_frame(2) [where d = d])

lemma sponsor_ticket_revision_fresh_audit:
  assumes "sponsor_ticket_revision_fresh fp now c d = Inr (r, d')"
  shows "\<not> sq_was_idempotent_retry r \<and> audit_commits d (sr_principal c) (sr_command_id c) TICKET_SPONSOR_OPERATION fp d'"
  using assms ticket_frameD(6) [OF update_ticket_states_frame(1)]
  by (auto elim!: sponsor_ticket_revision_freshE intro: insert_ticket_audit_frame(2))

lemma claim_sponsored_ticket_fresh_audit:
  assumes "claim_sponsored_ticket_fresh fp now c d = Inr (r, d')"
  shows "\<not> ct_was_idempotent_retry r \<and> audit_commits d (cl_principal c) (cl_command_id c) CLAIM_OPERATION fp d'"
  using assms ticket_frameD(6) [OF claim_transition_frame(1)]
  by (auto elim!: claim_sponsored_ticket_freshE intro: insert_ticket_audit_frame(2))

lemma move_attempt_audit:
  assumes "move_attempt d i a st failed p c op fp sub = Inr (r, d')"
  shows "\<not> tt_was_idempotent_retry r \<and> audit_commits d p c op fp d'"
  using assms unfolding move_attempt_def
  by (clarsimp simp: Let_def case_prod_unfold dest!: insert_ticket_audit_frame(2) [where d = d])

lemma attempt_release_fresh_audit:
  assumes "attempt_release_fresh fp now c d = Inr (r, d')"
  shows "\<not> rx_was_idempotent_retry r \<and> audit_commits d (rt_principal c) (rt_command_id c) ATTEMPT_RELEASE_OPERATION fp d'"
  using assms
proof (rule attempt_release_freshE)
  fix a cl dm d1 nxt ra na
  assume "d1 = d\<lparr>ticket_attempts := update_row (rt_ticket_attempt_id c) (\<lambda>a. a\<lparr>
         ta_released := Some (now, rt_reason c), ta_revision := ra\<rparr>) (ticket_attempts d)\<rparr>"
    and "update_requalification_and_ticket_state d1 (al_ticket a) (fst (snd (release_transition cl))) nxt
       (fst (snd (snd (release_transition cl)))) (rt_requalification c) (snd (snd (snd (release_transition cl)))) now = Inr dm"
    and "insert_ticket_audit dm (rt_principal c) (rt_command_id c) ATTEMPT_RELEASE_OPERATION fp
       (release_subject cl) (rt_ticket_attempt_id c) na = Inr (rx_audit_log_id r, d')"
    and "\<not> rx_was_idempotent_retry r"
  then show ?thesis
    using ticket_frameD(6) [OF update_requalification_frame(1)] by (auto intro: insert_ticket_audit_frame(2))
qed

text \<open>Each transition keeps the evidence and the tickets.\<close>

lemma same_evidence:
  "tables_ok d' \<and> evidence_same d d' \<and> P \<Longrightarrow> evidence_inv d \<Longrightarrow> evidence_grows d d' \<and> evidence_inv d'"
  using evidence_same_inv by blast

lemma evidence_inv_tables: "evidence_inv d \<Longrightarrow> tables_ok d"
  by (simp add: evidence_inv_def)

lemma submit_ticket_proposal_transition_inv:
  assumes "submit_ticket_proposal_transition fp c d = Inr (r, d')"
  shows "evidence_inv d \<Longrightarrow> evidence_grows d d' \<and> evidence_inv d'" and "ticket_inv d \<Longrightarrow> ticket_inv d'"
proof -
  obtain application where ap: "get_row (application_revisions d) (pp_application_revision_id c) = Some application"
    and fresh: "submit_ticket_proposal_fresh fp application c d = Inr (r, d')"
    using assms by (auto simp: submit_ticket_proposal_transition_def)
  show "evidence_inv d \<Longrightarrow> evidence_grows d d' \<and> evidence_inv d'"
    using same_evidence submit_ticket_proposal_fresh_inv [OF fresh] evidence_inv_tables by blast
  show "ticket_inv d'" if inv: "ticket_inv d"
    using tbl.get_pos [OF _ ap] ticket_inv_tables [OF inv]
    by (intro submit_ticket_proposal_fresh_ticket_inv [OF fresh inv]) (simp add: tables_ok_def)
qed

lemma sponsor_ticket_revision_fresh_evidence:
  "sponsor_ticket_revision_fresh fp now c d = Inr (r, d') \<Longrightarrow> evidence_inv d \<Longrightarrow> evidence_grows d d' \<and> evidence_inv d'"
  using same_evidence [OF sponsor_ticket_revision_fresh_inv] evidence_inv_tables by blast

lemma claim_sponsored_ticket_fresh_evidence:
  "claim_sponsored_ticket_fresh fp now c d = Inr (r, d') \<Longrightarrow> evidence_inv d \<Longrightarrow> evidence_grows d d' \<and> evidence_inv d'"
  using same_evidence [OF claim_sponsored_ticket_fresh_inv] evidence_inv_tables by blast

lemma attempt_release_fresh_evidence:
  "attempt_release_fresh fp now c d = Inr (r, d') \<Longrightarrow> evidence_inv d \<Longrightarrow> evidence_grows d d' \<and> evidence_inv d'"
  using same_evidence [OF attempt_release_fresh_inv] evidence_inv_tables by blast


lemma fail_ticket_attempt_fresh_keeps:
  assumes "fail_ticket_attempt_fresh fp now c d = Inr (r, d')"
  shows "evidence_inv d \<Longrightarrow> evidence_grows d d' \<and> evidence_inv d'" "ticket_inv d \<Longrightarrow> ticket_inv d'"
    and "\<not> tt_was_idempotent_retry r \<and> audit_commits d (fa_principal c) (fa_command_id c) FAIL_OPERATION fp d'"
  using fail_ticket_attempt_fresh_move [OF assms] move_attempt_inv move_attempt_audit by metis+

lemma retry_quality_attempt_fresh_keeps:
  assumes "retry_quality_attempt_fresh fp now c d = Inr (r, d')"
  shows "evidence_inv d \<Longrightarrow> evidence_grows d d' \<and> evidence_inv d'" "ticket_inv d \<Longrightarrow> ticket_inv d'"
    and "\<not> tt_was_idempotent_retry r \<and> audit_commits d (rqa_principal c) (rqa_command_id c) QUALITY_RETRY_OPERATION fp d'"
  using retry_quality_attempt_freshE [OF assms] move_attempt_inv move_attempt_audit by metis+

lemma retry_engineering_attempt_fresh_keeps:
  assumes "retry_engineering_attempt_fresh fp c d = Inr (r, d')"
  shows "evidence_inv d \<Longrightarrow> evidence_grows d d' \<and> evidence_inv d'" "ticket_inv d \<Longrightarrow> ticket_inv d'"
    and "\<not> tt_was_idempotent_retry r
      \<and> audit_commits d (rea_principal c) (rea_command_id c) ENGINEERING_RETRY_OPERATION fp d'"
  using retry_engineering_attempt_freshE [OF assms] move_attempt_inv move_attempt_audit by metis+

interpretation pp_auth: authority_command "\<lambda>_. submit_ticket_proposal_cmd hash" "\<lambda>c. pp_principal c" "\<lambda>c. pp_command_id c"
  PROPOSE_OPERATION "\<lambda>c. hash (proposal_preimage c)" pr_was_idempotent_retry for hash
  by (rule authority_commandI, rule evidence_commandI, rule audited_commandI)
    (fact submit_ticket_proposal_cmd_audited submit_ticket_proposal_replay_retry submit_ticket_proposal_transition_audit
      submit_ticket_proposal_transition_inv(1) submit_ticket_proposal_transition_inv(2))+

interpretation sr_auth: authority_command "sponsor_ticket_revision_cmd hash" "\<lambda>c. sr_principal c" "\<lambda>c. sr_command_id c"
  TICKET_SPONSOR_OPERATION "\<lambda>c. hash (sponsor_preimage c)" sq_was_idempotent_retry for hash
  by (rule authority_commandI, rule evidence_commandI, rule audited_commandI)
    (fact sponsor_ticket_revision_cmd_audited ticket_replay_retry(1) sponsor_ticket_revision_fresh_audit
      sponsor_ticket_revision_fresh_evidence sponsor_ticket_revision_fresh_ticket_inv)+

interpretation cl_auth: authority_command "claim_sponsored_ticket_cmd hash" "\<lambda>c. cl_principal c" "\<lambda>c. cl_command_id c"
  CLAIM_OPERATION "\<lambda>c. hash (claim_preimage c)" ct_was_idempotent_retry for hash
  by (rule authority_commandI, rule evidence_commandI, rule audited_commandI)
    (fact claim_sponsored_ticket_cmd_audited ticket_replay_retry(2) claim_sponsored_ticket_fresh_audit
      claim_sponsored_ticket_fresh_evidence claim_sponsored_ticket_fresh_ticket_inv)+

interpretation fa_auth: authority_command "fail_ticket_attempt_cmd hash" "\<lambda>c. fa_principal c" "\<lambda>c. fa_command_id c"
  FAIL_OPERATION "\<lambda>c. hash (failure_preimage c)" tt_was_idempotent_retry for hash
  by (rule authority_commandI, rule evidence_commandI, rule audited_commandI)
    (fact fail_ticket_attempt_cmd_audited ticket_replay_retry(3) fail_ticket_attempt_fresh_keeps(3)
      fail_ticket_attempt_fresh_keeps(1) fail_ticket_attempt_fresh_keeps(2))+

interpretation rqa_auth: authority_command "retry_quality_attempt_cmd hash" "\<lambda>c. rqa_principal c" "\<lambda>c. rqa_command_id c"
  QUALITY_RETRY_OPERATION "\<lambda>c. hash (quality_retry_preimage c)" tt_was_idempotent_retry for hash
  by (rule authority_commandI, rule evidence_commandI, rule audited_commandI)
    (fact retry_quality_attempt_cmd_audited ticket_replay_retry(3) retry_quality_attempt_fresh_keeps(3)
      retry_quality_attempt_fresh_keeps(1) retry_quality_attempt_fresh_keeps(2))+

interpretation rea_auth: authority_command "\<lambda>_. retry_engineering_attempt_cmd hash" "\<lambda>c. rea_principal c" "\<lambda>c. rea_command_id c"
  ENGINEERING_RETRY_OPERATION "\<lambda>c. hash (engineering_retry_preimage c)" tt_was_idempotent_retry for hash
  by (rule authority_commandI, rule evidence_commandI, rule audited_commandI)
    (fact retry_engineering_attempt_cmd_audited ticket_replay_retry(3) retry_engineering_attempt_fresh_keeps(3)
      retry_engineering_attempt_fresh_keeps(1) retry_engineering_attempt_fresh_keeps(2))+

interpretation rt_auth: authority_command "attempt_release_cmd hash" "\<lambda>c. rt_principal c" "\<lambda>c. rt_command_id c"
  ATTEMPT_RELEASE_OPERATION "\<lambda>c. hash (attempt_release_preimage c)" rx_was_idempotent_retry for hash
  by (rule authority_commandI, rule evidence_commandI, rule audited_commandI)
    (fact attempt_release_cmd_audited ticket_replay_retry(4) attempt_release_fresh_audit
      attempt_release_fresh_evidence attempt_release_fresh_ticket_inv)+

section \<open>Campaign completion\<close>

lemma complete_campaign_fresh_audit:
  "complete_campaign_fresh fp c d = Inr (r, d') \<Longrightarrow>
     audit_commits d (cp_principal c) (cp_command_id c) COMPLETE_CAMPAIGN_OPERATION fp d'"
  by (erule complete_campaign_freshE) (auto intro: insert_ticket_audit_frame(2))

lemma complete_campaign_cmd_cases:
  assumes "complete_campaign_at_delivery_target_cmd hash c d = Inr (r, d')"
  obtains (replay) i a where "d' = d" "audit_lookup d (cp_principal c) (cp_command_id c) = Some (i, a)"
        "au_operation a = COMPLETE_CAMPAIGN_OPERATION" "au_command_fingerprint a = hash (completion_preimage c)"
    | (fresh) "audit_lookup d (cp_principal c) (cp_command_id c) = None"
        "complete_campaign_fresh (hash (completion_preimage c)) c d = Inr (r, d')"
proof -
  have "audited (find_audit_entry (StoreIdempotencyConflict (cp_principal c) (cp_command_id c)) StoreRevisionOutOfRange d
      (cp_principal c) (cp_command_id c) COMPLETE_CAMPAIGN_OPERATION (hash (completion_preimage c)))
      complete_campaign_replay (complete_campaign_fresh (hash (completion_preimage c)) c d) d = Inr (r, d')"
    using assms by (auto simp: complete_campaign_at_delivery_target_cmd_def Let_def find_ticket_audit_def)
  then show thesis
    by (rule audited_cases) (use replay fresh in \<open>auto dest!: find_audit_entry_Some\<close>)
qed

lemma complete_campaign_cmd_keeps:
  assumes "complete_campaign_at_delivery_target_cmd hash c d = Inr (r, d')" "evidence_inv d" "ticket_inv d"
  shows "evidence_inv d' \<and> ticket_inv d' \<and> evidence_grows d d' \<and> audit_extends d d'"
  using assms(1)
proof (rule complete_campaign_cmd_cases)
  assume "complete_campaign_fresh (hash (completion_preimage c)) c d = Inr (r, d')"
  note f = complete_campaign_fresh_inv [OF this evidence_inv_tables [OF assms(2)]]
  then show ?thesis
    using evidence_same_inv [OF _ _ assms(2)] tickets_same_inv [OF assms(3)] audit_commits_lookup by blast
qed (use assms(2,3) in simp)

lemma complete_campaign_cmd_same:
  assumes "complete_campaign_at_delivery_target_cmd hash c d = Inr (r, d')" "tables_ok d"
  shows "candidates d' = candidates d \<and> ticket_attempts d' = ticket_attempts d"
  using assms(1)
  by (rule complete_campaign_cmd_cases) (auto dest!: complete_campaign_fresh_inv [OF _ assms(2)] simp: evidence_same_def)

end
