(* ===== verification/Ticket_Buffer.thy ===== *)
theory Ticket_Buffer
  imports Ticket_Store
begin

text \<open>
  The bounded reads of \<open>factory-kernel/src/ticket_store.rs\<close> that the scheduler and the recovery driver
  consume: the buffer status of a campaign with its downstream head and evidence, the two recoverable
  failures, and the failure fence.  A query with \<open>ORDER BY\<close> and \<open>LIMIT 1\<close> is \<open>first_row\<close> over the key of
  its order: descending columns are negated, and a null sorts last.  The status is read by eight
  statements that need not see one snapshot, so it takes one database per statement.
\<close>

section \<open>The first row of an ordered query\<close>

fun min_by :: "('a \<Rightarrow> 'k::linorder) \<Rightarrow> 'a list \<Rightarrow> 'a option" where
  "min_by k [] = None"
| "min_by k (x # xs) =
     (case min_by k xs of
        None \<Rightarrow> Some x
      | Some y \<Rightarrow> if k x \<le> k y then Some x else Some y)"

definition first_row :: "(int \<Rightarrow> 'r \<Rightarrow> bool) \<Rightarrow> (int \<Rightarrow> 'r \<Rightarrow> 'k::linorder) \<Rightarrow> 'r table \<Rightarrow> (int \<times> 'r) option" where
  "first_row p k t = min_by (\<lambda>(i, r). k i r) (filter (\<lambda>(i, r). p i r) (rows t))"

lemma min_by_None [simp]: "min_by k xs = None \<longleftrightarrow> xs = []"
  by (cases xs) (auto split: option.splits)

lemma min_by_Some: "min_by k xs = Some x \<Longrightarrow> x \<in> set xs \<and> (\<forall>y \<in> set xs. k x \<le> k y)"
  by (induction xs arbitrary: x) (fastforce split: option.splits if_splits)+

lemma row_mem: "table_ok t \<Longrightarrow> (i, r) \<in> set (rows t) \<longleftrightarrow> get_row t i = Some r"
  using map_of_eq_mem by (fastforce simp: table_ok_def get_row_def)

lemma first_row_None: "table_ok t \<Longrightarrow> first_row p k t = None \<longleftrightarrow> (\<forall>i r. get_row t i = Some r \<longrightarrow> \<not> p i r)"
  by (fastforce simp: first_row_def filter_empty_conv row_mem [symmetric])

lemma first_row_Some:
  assumes "table_ok t" "first_row p k t = Some (i, r)"
  shows "get_row t i = Some r" "p i r" "\<And>j s. get_row t j = Some s \<Longrightarrow> p j s \<Longrightarrow> k i r \<le> k j s"
  using min_by_Some [OF assms(2) [unfolded first_row_def]] by (auto simp: row_mem [OF assms(1), symmetric])

lemma first_row_unique:
  assumes "table_ok t" "get_row t i = Some r" "p i r"
    and "\<And>j s. get_row t j = Some s \<Longrightarrow> p j s \<Longrightarrow> j \<noteq> i \<Longrightarrow> k i r < k j s"
  shows "first_row p k t = Some (i, r)"
proof (cases "first_row p k t")
  case None
  then show ?thesis using assms(2,3) by (auto simp: first_row_None [OF assms(1)])
next
  case (Some x)
  obtain j s where x: "x = (j, s)" by (cases x)
  note f = first_row_Some [OF assms(1) Some [unfolded x]]
  have "j = i" using f(3) [OF assms(2,3)] assms(4) [OF f(1,2)] by fastforce
  then show ?thesis using f(1) assms(2) Some x by simp
qed

definition nulls_last :: "int option \<Rightarrow> int \<times> int" where
  "nulls_last v = (case v of Some x \<Rightarrow> (0, x) | None \<Rightarrow> (1, 0))"

section \<open>The downstream head\<close>

datatype downstream_action_stage =
    DownHardValidation
  | DownQuality
  | DownCandidateCommitAttachRequired
  | DownQualityReviewRequired
  | DownAwaitingArchitect
  | DownDeliverAccepted
  | DownReworkEngineering
  | DownReworkValidation
  | DownReworkQuality

fun downstream_action_stage_name :: "downstream_action_stage \<Rightarrow> string" where
  "downstream_action_stage_name DownHardValidation = ''hard_validation''"
| "downstream_action_stage_name DownQuality = ''quality''"
| "downstream_action_stage_name DownCandidateCommitAttachRequired = ''candidate_commit_attach_required''"
| "downstream_action_stage_name DownQualityReviewRequired = ''quality_review_required''"
| "downstream_action_stage_name DownAwaitingArchitect = ''awaiting_architect''"
| "downstream_action_stage_name DownDeliverAccepted = ''deliver_accepted''"
| "downstream_action_stage_name DownReworkEngineering = ''rework_engineering''"
| "downstream_action_stage_name DownReworkValidation = ''rework_validation''"
| "downstream_action_stage_name DownReworkQuality = ''rework_quality''"

definition from_attempt_and_candidate :: "int \<Rightarrow> int \<Rightarrow> bool \<Rightarrow> bool \<Rightarrow> downstream_action_stage option" where
  "from_attempt_and_candidate attempt_stage candidate_lifecycle candidate_commit_present quality_review_present =
     (if attempt_stage = ATTEMPT_HARD_VALIDATION \<and> candidate_lifecycle = CANDIDATE_SUBMITTED
      then Some DownHardValidation
      else if attempt_stage = ATTEMPT_QUALITY \<and> candidate_lifecycle = CANDIDATE_VALIDATED
      then Some (if candidate_commit_present then DownQuality else DownCandidateCommitAttachRequired)
      else if attempt_stage = ATTEMPT_AWAITING_ARCHITECT \<and> candidate_lifecycle = CANDIDATE_VALIDATED
      then Some (if quality_review_present then DownAwaitingArchitect else DownQualityReviewRequired)
      else if attempt_stage = ATTEMPT_AWAITING_ARCHITECT \<and> candidate_lifecycle = CANDIDATE_ACCEPTED
      then Some DownDeliverAccepted
      else if attempt_stage = ATTEMPT_REWORK_ENGINEERING \<and> candidate_lifecycle = CANDIDATE_REJECTED
      then Some DownReworkEngineering
      else if attempt_stage = ATTEMPT_REWORK_VALIDATION \<and> candidate_lifecycle = CANDIDATE_SUBMITTED
      then Some DownReworkValidation
      else if attempt_stage = ATTEMPT_REWORK_QUALITY \<and> candidate_lifecycle = CANDIDATE_VALIDATED
      then Some (if candidate_commit_present then DownReworkQuality else DownCandidateCommitAttachRequired)
      else None)"

record downstream_action_context =
  da_stage :: downstream_action_stage
  da_ticket_attempt_id :: ident
  da_ticket_attempt_revision :: aggregate_revision
  da_ticket_revision :: aggregate_revision
  da_candidate_id :: ident
  da_candidate_revision :: aggregate_revision

datatype downstream_validation_state = DownPassed | DownFailed | DownInterrupted

definition downstream_validation_state_from_sql :: "int \<Rightarrow> downstream_validation_state store_result" where
  "downstream_validation_state_from_sql v =
     (if v = 1 then Inr DownPassed else if v = 2 then Inr DownFailed else if v = 3 then Inr DownInterrupted
      else Inl StoreCorruptLifecycleColumn)"

datatype downstream_review_verdict = DownAccept | DownReject

definition downstream_review_verdict_from_sql :: "int \<Rightarrow> downstream_review_verdict store_result" where
  "downstream_review_verdict_from_sql v =
     (if v = 0 then Inr DownAccept else if v = 1 then Inr DownReject else Inl StoreCorruptLifecycleColumn)"

datatype downstream_architect_decision_kind = DownDeliver | DownRework | DownRejected

definition downstream_architect_decision_kind_from_sql :: "int \<Rightarrow> downstream_architect_decision_kind store_result" where
  "downstream_architect_decision_kind_from_sql v =
     (if v = 2 then Inr DownDeliver else if v = 3 then Inr DownRework else if v = 4 then Inr DownRejected
      else Inl StoreCorruptLifecycleColumn)"

record downstream_validation_evidence =
  dw_validation_id :: ident
  dw_state :: downstream_validation_state
  dw_log_artifact_id :: ident

record downstream_review_evidence =
  dw_review_id :: ident
  dw_revision :: aggregate_revision
  dw_verdict :: downstream_review_verdict
  dw_review_rationale_artifact_id :: ident

record downstream_architect_decision_evidence =
  dw_architect_decision_id :: ident
  dw_kind :: downstream_architect_decision_kind
  dw_rationale_artifact_id :: ident

record downstream_evidence_context =
  dw_candidate_commit :: "string option"
  dw_latest_validation :: "downstream_validation_evidence option"
  dw_review :: "downstream_review_evidence option"
  dw_architect_decision :: "downstream_architect_decision_evidence option"

definition downstream_validation_evidence_of ::
  "int option \<Rightarrow> int option \<Rightarrow> int option \<Rightarrow> downstream_validation_evidence option store_result" where
  "downstream_validation_evidence_of validation lifecycle log =
     (case (validation, lifecycle, log) of
        (None, None, None) \<Rightarrow> Inr None
      | (Some v, Some l, Some a) \<Rightarrow>
          and_then (store_contract (identifier_new ''validation ID'' v)) (\<lambda>v.
          and_then (downstream_validation_state_from_sql l) (\<lambda>s.
          and_then (store_contract (identifier_new ''artifact ID'' a)) (\<lambda>a.
          Inr (Some \<lparr>dw_validation_id = v, dw_state = s, dw_log_artifact_id = a\<rparr>))))
      | _ \<Rightarrow> Inl StoreCorruptLifecycleColumn)"

definition downstream_review_evidence_of ::
  "int option \<Rightarrow> int option \<Rightarrow> int option \<Rightarrow> int option \<Rightarrow> downstream_review_evidence option store_result" where
  "downstream_review_evidence_of review revision verd rationale_artifact =
     (case (review, revision, verd, rationale_artifact) of
        (None, None, None, None) \<Rightarrow> Inr None
      | (Some i, Some r, Some v, Some a) \<Rightarrow>
          and_then (store_contract (identifier_new ''review ID'' i)) (\<lambda>i.
          and_then (store_revision_from_sql r) (\<lambda>r.
          and_then (downstream_review_verdict_from_sql v) (\<lambda>v.
          and_then (store_contract (identifier_new ''artifact ID'' a)) (\<lambda>a.
          Inr (Some \<lparr>dw_review_id = i, dw_revision = r, dw_verdict = v,
                     dw_review_rationale_artifact_id = a\<rparr>)))))
      | _ \<Rightarrow> Inl StoreCorruptLifecycleColumn)"

definition downstream_architect_decision_evidence_of ::
  "int option \<Rightarrow> int option \<Rightarrow> int option \<Rightarrow> downstream_architect_decision_evidence option store_result" where
  "downstream_architect_decision_evidence_of decision kind rationale_artifact =
     (case (decision, kind, rationale_artifact) of
        (None, None, None) \<Rightarrow> Inr None
      | (Some i, Some k, Some a) \<Rightarrow>
          and_then (store_contract (identifier_new ''architect decision ID'' i)) (\<lambda>i.
          and_then (downstream_architect_decision_kind_from_sql k) (\<lambda>k.
          and_then (store_contract (identifier_new ''artifact ID'' a)) (\<lambda>a.
          Inr (Some \<lparr>dw_architect_decision_id = i, dw_kind = k, dw_rationale_artifact_id = a\<rparr>))))
      | _ \<Rightarrow> Inl StoreCorruptLifecycleColumn)"

text \<open>
  The five joins of the downstream query: the attempts between hard validation and rework quality of
  one application revision, the oldest of them, its newest candidate, and that candidate's newest
  validation, review and newest decision.
\<close>

definition is_downstream :: "db \<Rightarrow> ident \<Rightarrow> int \<Rightarrow> ticket_attempt_row \<Rightarrow> bool" where
  "is_downstream d application_revision _ a =
     ((case get_row (ticket_revisions d) (ta_ticket_revision_id a) of
         None \<Rightarrow> False
       | Some tr \<Rightarrow> tr_application_revision_id tr = application_revision)
      \<and> ATTEMPT_HARD_VALIDATION \<le> ta_stage a \<and> ta_stage a \<le> ATTEMPT_REWORK_QUALITY)"

definition downstream_head :: "db \<Rightarrow> ident \<Rightarrow> (int \<times> ticket_attempt_row) option" where
  "downstream_head d application_revision =
     first_row (is_downstream d application_revision) (\<lambda>i a. (ta_created_at a, i)) (ticket_attempts d)"

definition newest_candidate :: "db \<Rightarrow> int \<Rightarrow> (int \<times> candidate_row) option" where
  "newest_candidate d attempt =
     first_row (\<lambda>_ c. cr_ticket_attempt_id c = attempt) (\<lambda>i c. (- cr_created_at c, - i)) (candidates d)"

definition newest_validation :: "db \<Rightarrow> int \<Rightarrow> (int \<times> validation_row) option" where
  "newest_validation d candidate =
     first_row (\<lambda>_ v. va_candidate_id v = candidate) (\<lambda>i v. (- va_created_at v, - i)) (validations d)"

definition candidate_review :: "db \<Rightarrow> int \<Rightarrow> (int \<times> review_row) option" where
  "candidate_review d candidate = find_row (\<lambda>_ r. re_candidate_id r = candidate) (reviews d)"

definition newest_decision :: "db \<Rightarrow> int \<Rightarrow> (int \<times> decision_row) option" where
  "newest_decision d candidate =
     first_row (\<lambda>_ x. de_candidate_id x = Some candidate) (\<lambda>i x. (- de_created_at x, - i)) (architect_decisions d)"

definition downstream_evidence_of :: "db \<Rightarrow> int \<times> candidate_row \<Rightarrow> downstream_evidence_context store_result" where
  "downstream_evidence_of d candidate =
     (let (i, c) = candidate;
          v = newest_validation d i; r = candidate_review d i; x = newest_decision d i in
      and_then (downstream_validation_evidence_of (map_option fst v) (map_option (va_lifecycle \<circ> snd) v)
                  (map_option (va_log_artifact_id \<circ> snd) v)) (\<lambda>validation.
      and_then (downstream_review_evidence_of (map_option fst r) (map_option (re_revision \<circ> snd) r)
                  (map_option (re_verdict \<circ> snd) r) (map_option (re_rationale_artifact_id \<circ> snd) r)) (\<lambda>review.
      and_then (downstream_architect_decision_evidence_of (map_option fst x) (map_option (de_kind \<circ> snd) x)
                  (map_option (de_rationale_artifact_id \<circ> snd) x)) (\<lambda>decision.
      Inr \<lparr>dw_candidate_commit = cr_commit c, dw_latest_validation = validation,
           dw_review = review, dw_architect_decision = decision\<rparr>))))"

definition downstream_action_of ::
  "db \<Rightarrow> int \<times> ticket_attempt_row \<Rightarrow> int \<times> candidate_row \<Rightarrow> downstream_action_context option store_result" where
  "downstream_action_of d head candidate =
     (let (i, a) = head; (k, c) = candidate in
      case get_row (ticket_revisions d) (ta_ticket_revision_id a) of
        None \<Rightarrow> Inr None
      | Some tr \<Rightarrow>
          (case from_attempt_and_candidate (ta_stage a) (cr_lifecycle c) (cr_commit c \<noteq> None)
                  (candidate_review d k \<noteq> None) of
             None \<Rightarrow> Inr None
           | Some stage \<Rightarrow>
               and_then (store_contract (identifier_new ''ticket attempt ID'' i)) (\<lambda>i.
               and_then (store_revision_from_sql (ta_revision a)) (\<lambda>ra.
               and_then (store_revision_from_sql (tr_revision tr)) (\<lambda>rt.
               and_then (store_contract (identifier_new ''candidate ID'' k)) (\<lambda>k.
               and_then (store_revision_from_sql (cr_revision c)) (\<lambda>rc.
               Inr (Some \<lparr>da_stage = stage, da_ticket_attempt_id = i, da_ticket_attempt_revision = ra,
                          da_ticket_revision = rt, da_candidate_id = k, da_candidate_revision = rc\<rparr>))))))))"

section \<open>The buffer status\<close>

record sponsored_ticket_claim_context =
  sx_ticket_revision_id :: ident
  sx_revision :: aggregate_revision

record ticket_buffer_status =
  bs_campaign_id :: ident
  bs_campaign_revision :: aggregate_revision
  bs_campaign_is_running :: bool
  bs_campaign_deadline_open :: bool
  bs_campaign_cost_known :: bool
  bs_delivery_target :: "32 word"
  bs_delivered_attempt_count :: "32 word"
  bs_ready_count :: "32 word"
  bs_proposed_count :: "32 word"
  bs_in_flight_count :: "32 word"
  bs_downstream_attempt_count :: "32 word"
  bs_downstream_action :: "downstream_action_context option"
  bs_downstream_evidence :: "downstream_evidence_context option"
  bs_paid_session_active :: bool
  bs_low_water :: "32 word"
  bs_target :: "32 word"
  bs_maximum :: "32 word option"
  bs_proposal_maximum :: "32 word"
  bs_oldest_sponsored_ticket :: "sponsored_ticket_claim_context option"

definition oldest_sponsored :: "db \<Rightarrow> ident \<Rightarrow> (int \<times> ticket_revision_row) option" where
  "oldest_sponsored d application_revision =
     first_row (\<lambda>i tr. tr_application_revision_id tr = application_revision \<and> is_current d i tr
                     \<and> tr_lifecycle tr = TICKET_SPONSORED)
       (\<lambda>i tr. (nulls_last (tr_sponsored_at tr), i)) (ticket_revisions d)"

fun transpose_result :: "'a option \<Rightarrow> ('a \<Rightarrow> ('e, 'b) result) \<Rightarrow> ('e, 'b option) result" where
  "transpose_result None f = Inr None"
| "transpose_result (Some x) f = and_then (f x) (\<lambda>y. Inr (Some y))"

lemma transpose_result_ok [simp, result_simps]:
  "transpose_result m f = Inr y \<longleftrightarrow> (case m of None \<Rightarrow> y = None | Some x \<Rightarrow> \<exists>z. f x = Inr z \<and> y = Some z)"
  by (cases m) auto

text \<open>The snapshots of the statements, in their order.\<close>

record status_snapshots =
  sn_campaign :: db
  sn_ready :: db
  sn_proposed :: db
  sn_in_flight :: db
  sn_downstream :: db
  sn_sessions :: db
  sn_delivered :: db
  sn_oldest :: db

definition one_snapshot :: "db \<Rightarrow> status_snapshots" where
  "one_snapshot d = \<lparr>sn_campaign = d, sn_ready = d, sn_proposed = d, sn_in_flight = d, sn_downstream = d,
     sn_sessions = d, sn_delivered = d, sn_oldest = d\<rparr>"

definition ticket_buffer_status_of :: "status_snapshots \<Rightarrow> int \<Rightarrow> ident \<Rightarrow> ticket_buffer_status store_result" where
  "ticket_buffer_status_of s now campaign_id =
     and_then (ok_or (get_row (campaigns (sn_campaign s)) campaign_id) (StoreUnknownCampaign campaign_id)) (\<lambda>campaign.
     and_then (ok_or (get_row (application_revisions (sn_campaign s)) (ca_application_revision_id campaign))
                 (StoreUnknownCampaign campaign_id)) (\<lambda>application.
     and_then (store_contract (identifier_new ''application revision ID'' (ca_application_revision_id campaign))) (\<lambda>arid.
     let ready = application_revision_ticket_count (sn_ready s) arid TICKET_SPONSORED;
         proposed = application_revision_ticket_count (sn_proposed s) arid TICKET_PROPOSED;
         in_flight = application_revision_ticket_count (sn_in_flight s) arid TICKET_IN_FLIGHT;
         downstream = int (count_rows (is_downstream (sn_downstream s) arid) (ticket_attempts (sn_downstream s)));
         head = downstream_head (sn_downstream s) arid;
         candidate = Option.bind head (\<lambda>(i, _). newest_candidate (sn_downstream s) i);
         delivered = delivered_attempt_count (sn_delivered s) campaign_id;
         oldest = oldest_sponsored (sn_oldest s) arid in
     and_then (transpose_result candidate (downstream_evidence_of (sn_downstream s))) (\<lambda>evidence.
     and_then (store_revision_from_sql (ca_revision campaign)) (\<lambda>revision.
     and_then (u32_from_sql (ca_delivery_target campaign) ''delivery target'') (\<lambda>target_count.
     and_then (u32_from_sql delivered ''delivered attempt count'') (\<lambda>delivered_count.
     and_then (u32_from_sql ready ''ready ticket count'') (\<lambda>ready_count.
     and_then (u32_from_sql proposed ''proposed ticket count'') (\<lambda>proposed_count.
     and_then (u32_from_sql in_flight ''in-flight ticket count'') (\<lambda>in_flight_count.
     and_then (u32_from_sql downstream ''downstream attempt count'') (\<lambda>downstream_count.
     and_then (case (head, candidate) of
         (Some h, Some c) \<Rightarrow> downstream_action_of (sn_downstream s) h c
       | _ \<Rightarrow> Inr None) (\<lambda>action.
     and_then (u32_from_sql (ap_ticket_low_water application) ''low water'') (\<lambda>low.
     and_then (u32_from_sql (ap_ticket_target application) ''ticket target'') (\<lambda>target.
     and_then (transpose_result (ap_ticket_maximum application) (\<lambda>m. u32_from_sql m ''ticket maximum'')) (\<lambda>maximum.
     and_then (u32_from_sql (ap_proposal_maximum application) ''proposal maximum'') (\<lambda>proposal_maximum.
     and_then (transpose_result oldest (\<lambda>(i, tr).
         and_then (store_contract (identifier_new ''ticket revision ID'' i)) (\<lambda>i.
         and_then (store_revision_from_sql (tr_revision tr)) (\<lambda>r.
         Inr \<lparr>sx_ticket_revision_id = i, sx_revision = r\<rparr>)))) (\<lambda>sponsored.
     Inr \<lparr>bs_campaign_id = campaign_id, bs_campaign_revision = revision,
          bs_campaign_is_running = (ca_lifecycle campaign = CAMPAIGN_RUNNING),
          bs_campaign_deadline_open = (now < ca_deadline campaign),
          bs_campaign_cost_known = (ca_cost_state campaign = COST_KNOWN),
          bs_delivery_target = target_count, bs_delivered_attempt_count = delivered_count,
          bs_ready_count = ready_count, bs_proposed_count = proposed_count, bs_in_flight_count = in_flight_count,
          bs_downstream_attempt_count = downstream_count, bs_downstream_action = action,
          bs_downstream_evidence = evidence, bs_paid_session_active = paid_session_active (sn_sessions s),
          bs_low_water = low, bs_target = target, bs_maximum = maximum, bs_proposal_maximum = proposal_maximum,
          bs_oldest_sponsored_ticket = sponsored\<rparr>)))))))))))))))))"

section \<open>Recoverable failures\<close>

record engineering_failure_context =
  ex_ticket_attempt_id :: ident
  ex_attempt_revision :: aggregate_revision
  ex_ticket_revision :: aggregate_revision

text \<open>The attempt's ticket revision, when it is the current one and both are in flight.\<close>

definition in_flight_revision :: "db \<Rightarrow> ticket_attempt_row \<Rightarrow> ticket_revision_row option" where
  "in_flight_revision d a =
     (case get_row (ticket_revisions d) (ta_ticket_revision_id a) of
        None \<Rightarrow> None
      | Some tr \<Rightarrow>
          (case get_row (tickets d) (tr_ticket_id tr) of
             None \<Rightarrow> None
           | Some t \<Rightarrow>
               if ti_current_ticket_revision_id t = ta_ticket_revision_id a
                  \<and> ti_lifecycle t = TICKET_IN_FLIGHT \<and> tr_lifecycle tr = TICKET_IN_FLIGHT
               then Some tr else None))"

definition engineering_recoverable :: "db \<Rightarrow> ident \<Rightarrow> int \<Rightarrow> ticket_attempt_row \<Rightarrow> bool" where
  "engineering_recoverable d campaign i a =
     (ta_campaign_id a = campaign \<and> ta_stage a = ATTEMPT_FAILED \<and> ta_released a = None
      \<and> in_flight_revision d a \<noteq> None
      \<and> (case get_row (campaigns d) (ta_campaign_id a) of
           None \<Rightarrow> False
         | Some c \<Rightarrow> ca_lifecycle c = CAMPAIGN_RUNNING \<and> ca_cost_state c = COST_KNOWN)
      \<and> \<not> candidate_exists_for d i
      \<and> \<not> prior_retry_exists d ENGINEERING_RETRY_OPERATION ENGINEERING_RETRY_SUBJECT i)"

definition recoverable_engineering_failure :: "db \<Rightarrow> ident \<Rightarrow> engineering_failure_context option store_result" where
  "recoverable_engineering_failure d campaign =
     transpose_result
       (Option.bind (first_row (engineering_recoverable d campaign)
                       (\<lambda>i a. (nulls_last (map_option fst (ta_failed a)), i)) (ticket_attempts d))
          (\<lambda>(i, a). map_option (\<lambda>tr. (i, a, tr)) (in_flight_revision d a)))
       (\<lambda>(i, a, tr).
          and_then (store_contract (identifier_new ''ticket attempt ID'' i)) (\<lambda>i.
          and_then (store_revision_from_sql (ta_revision a)) (\<lambda>ra.
          and_then (store_revision_from_sql (tr_revision tr)) (\<lambda>rt.
          Inr \<lparr>ex_ticket_attempt_id = i, ex_attempt_revision = ra, ex_ticket_revision = rt\<rparr>))))"

text \<open>
  The rows of this query are candidates joined with their attempts; the attempt orders them first.  The
  candidate of a row is superseded by any newer candidate of its ticket revision.
\<close>

definition newer_candidate_exists :: "db \<Rightarrow> int \<Rightarrow> int \<Rightarrow> bool" where
  "newer_candidate_exists d ticket_revision candidate =
     exists_row (\<lambda>j n. candidate < j \<and>
        (case get_row (ticket_attempts d) (cr_ticket_attempt_id n) of
           None \<Rightarrow> False | Some a \<Rightarrow> ta_ticket_revision_id a = ticket_revision)) (candidates d)"

definition quality_recoverable :: "db \<Rightarrow> ident \<Rightarrow> int \<Rightarrow> candidate_row \<Rightarrow> bool" where
  "quality_recoverable d campaign k c =
     ((case get_row (ticket_attempts d) (cr_ticket_attempt_id c) of
         None \<Rightarrow> False
       | Some a \<Rightarrow> ta_campaign_id a = campaign \<and> ta_stage a = ATTEMPT_FAILED \<and> in_flight_revision d a \<noteq> None
           \<and> \<not> newer_candidate_exists d (ta_ticket_revision_id a) k)
      \<and> cr_lifecycle c = CANDIDATE_VALIDATED \<and> cr_commit c \<noteq> None
      \<and> \<not> exists_row (\<lambda>_ r. re_candidate_id r = k) (reviews d)
      \<and> \<not> prior_retry_exists d QUALITY_RETRY_OPERATION QUALITY_RETRY_SUBJECT (cr_ticket_attempt_id c))"

definition quality_failure_key :: "db \<Rightarrow> int \<Rightarrow> candidate_row \<Rightarrow> (int \<times> int) \<times> int \<times> int" where
  "quality_failure_key d k c =
     (nulls_last (Option.bind (get_row (ticket_attempts d) (cr_ticket_attempt_id c)) (\<lambda>a. map_option fst (ta_failed a))),
      cr_ticket_attempt_id c, - k)"

definition recoverable_quality_failure :: "db \<Rightarrow> ident \<Rightarrow> downstream_action_context option store_result" where
  "recoverable_quality_failure d campaign =
     transpose_result
       (Option.bind (first_row (quality_recoverable d campaign) (quality_failure_key d) (candidates d)) (\<lambda>(k, c).
        Option.bind (get_row (ticket_attempts d) (cr_ticket_attempt_id c)) (\<lambda>a.
        map_option (\<lambda>tr. (k, c, a, tr)) (in_flight_revision d a))))
       (\<lambda>(k, c, a, tr).
          and_then (store_contract (identifier_new ''ticket attempt ID'' (cr_ticket_attempt_id c))) (\<lambda>i.
          and_then (store_revision_from_sql (ta_revision a)) (\<lambda>ra.
          and_then (store_revision_from_sql (tr_revision tr)) (\<lambda>rt.
          and_then (store_contract (identifier_new ''candidate ID'' k)) (\<lambda>k.
          and_then (store_revision_from_sql (cr_revision c)) (\<lambda>rc.
          Inr \<lparr>da_stage = DownReworkQuality, da_ticket_attempt_id = i, da_ticket_attempt_revision = ra,
               da_ticket_revision = rt, da_candidate_id = k, da_candidate_revision = rc\<rparr>))))))"

record ticket_attempt_failure_context =
  fx_attempt_revision :: aggregate_revision
  fx_ticket_revision :: aggregate_revision

definition failure_context :: "db \<Rightarrow> ident \<Rightarrow> ticket_attempt_failure_context store_result" where
  "failure_context d i =
     and_then (ticket_attempt_status d i) (\<lambda>attempt.
     Inr \<lparr>fx_attempt_revision = al_revision attempt, fx_ticket_revision = al_ticket_revision attempt\<rparr>)"

end
