(* ===== verification/Scheduler.thy ===== *)
theory Scheduler
  imports Ticket_Buffer
begin

text \<open>
  The ticket scheduler, \<open>factory-kernel/src/scheduler.rs\<close>: a pure decision over the buffer status, and
  the two commands that apply its actions.  The lemmas say what each action implies about the status it
  was decided on, and that the action order is a total function of the status.
\<close>

section \<open>Actions\<close>

definition IN_FLIGHT_TICKET_MAXIMUM :: "32 word" where
  "IN_FLIGHT_TICKET_MAXIMUM = 1"

record complete_campaign_action =
  cq_campaign_id :: ident
  cq_expected_campaign_revision :: aggregate_revision

record claim_ready_ticket_action =
  cx_campaign_id :: ident
  cx_expected_campaign_revision :: aggregate_revision
  cx_ticket :: sponsored_ticket_claim_context

datatype scheduler_constraint =
    CampaignTerminal
  | AggregateCostFrozen
  | CampaignDeadlineElapsed
  | PaidSessionActive
  | InFlightTicketLimitReached "32 word" "32 word"
  | ReadyBufferMaximumExceeded "32 word" "32 word"
  | ProposalBufferMaximumExceeded "32 word" "32 word"
  | DownstreamActionHeadMissing
  | DownstreamActionHeadUnexpected
  | ReadyBufferHeadMissing
  | ReadyBufferHeadUnexpected

datatype scheduler_next_action =
    CompleteCampaign complete_campaign_action
  | ReplenishProduct ident aggregate_revision
  | ClaimReadyTicket claim_ready_ticket_action
  | ContinueDownstream downstream_action_context
  | AwaitArchitectDecision ident "32 word"
  | SchedulerBlocked scheduler_constraint
  | Idle ident

section \<open>The decision\<close>

definition decide_ready :: "ticket_buffer_status \<Rightarrow> scheduler_next_action" where
  "decide_ready s =
     (case bs_oldest_sponsored_ticket s of
        Some ticket \<Rightarrow> ClaimReadyTicket \<lparr>cx_campaign_id = bs_campaign_id s,
          cx_expected_campaign_revision = bs_campaign_revision s, cx_ticket = ticket\<rparr>
      | None \<Rightarrow>
          if bs_ready_count s < bs_low_water s \<and> bs_proposed_count s = 0
          then ReplenishProduct (bs_campaign_id s) (bs_campaign_revision s)
          else if bs_proposed_count s > 0
          then AwaitArchitectDecision (bs_campaign_id s) (bs_proposed_count s)
          else if bs_ready_count s < bs_target s
          then ReplenishProduct (bs_campaign_id s) (bs_campaign_revision s)
          else Idle (bs_campaign_id s))"

definition decide_upstream :: "ticket_buffer_status \<Rightarrow> scheduler_next_action" where
  "decide_upstream s =
     (if bs_in_flight_count s \<ge> IN_FLIGHT_TICKET_MAXIMUM
      then SchedulerBlocked (InFlightTicketLimitReached (bs_in_flight_count s) IN_FLIGHT_TICKET_MAXIMUM)
      else if (case bs_maximum s of Some maximum \<Rightarrow> bs_ready_count s > maximum | None \<Rightarrow> False)
      then SchedulerBlocked (ReadyBufferMaximumExceeded (bs_ready_count s) (the (bs_maximum s)))
      else if bs_proposed_count s > bs_proposal_maximum s
      then SchedulerBlocked (ProposalBufferMaximumExceeded (bs_proposed_count s) (bs_proposal_maximum s))
      else if bs_ready_count s = 0 \<and> bs_oldest_sponsored_ticket s \<noteq> None
      then SchedulerBlocked ReadyBufferHeadUnexpected
      else if bs_ready_count s \<ge> 1 \<and> bs_oldest_sponsored_ticket s = None
      then SchedulerBlocked ReadyBufferHeadMissing
      else decide_ready s)"

definition decide_open :: "ticket_buffer_status \<Rightarrow> scheduler_next_action" where
  "decide_open s =
     (case bs_downstream_action s of
        Some action \<Rightarrow>
          if bs_downstream_attempt_count s = 0 then SchedulerBlocked DownstreamActionHeadUnexpected
          else ContinueDownstream action
      | None \<Rightarrow>
          if bs_downstream_attempt_count s \<ge> 1 then SchedulerBlocked DownstreamActionHeadMissing
          else decide_upstream s)"

definition decide_elapsed :: "ticket_buffer_status \<Rightarrow> scheduler_next_action" where
  "decide_elapsed s =
     (case bs_downstream_action s of
        Some action \<Rightarrow>
          if bs_downstream_attempt_count s > 0 \<and> da_stage action = DownDeliverAccepted
          then ContinueDownstream action
          else SchedulerBlocked CampaignDeadlineElapsed
      | None \<Rightarrow> SchedulerBlocked CampaignDeadlineElapsed)"

definition decide :: "ticket_buffer_status \<Rightarrow> scheduler_next_action" where
  "decide s =
     (if \<not> bs_campaign_is_running s then SchedulerBlocked CampaignTerminal
      else if bs_delivered_attempt_count s \<ge> bs_delivery_target s
      then CompleteCampaign \<lparr>cq_campaign_id = bs_campaign_id s,
             cq_expected_campaign_revision = bs_campaign_revision s\<rparr>
      else if \<not> bs_campaign_cost_known s then SchedulerBlocked AggregateCostFrozen
      else if bs_paid_session_active s then SchedulerBlocked PaidSessionActive
      else if \<not> bs_campaign_deadline_open s then decide_elapsed s
      else decide_open s)"

definition next_action :: "status_snapshots \<Rightarrow> int \<Rightarrow> ident \<Rightarrow> scheduler_next_action store_result" where
  "next_action s now campaign_id =
     and_then (ticket_buffer_status_of s now campaign_id) (\<lambda>status. Inr (decide status))"

section \<open>Applying an action\<close>

definition claim_ready_ticket ::
  "(byte list \<Rightarrow> content_digest) \<Rightarrow> int \<Rightarrow> string \<Rightarrow> string \<Rightarrow> claim_ready_ticket_action
     \<Rightarrow> current_head_requalification \<Rightarrow> db \<Rightarrow> (claim_ticket_receipt \<times> db) store_result" where
  "claim_ready_ticket hash now prin command_id action requalification d =
     claim_sponsored_ticket_cmd hash now
       \<lparr>cl_principal = prin, cl_command_id = command_id, cl_campaign_id = cx_campaign_id action,
        cl_expected_campaign_revision = cx_expected_campaign_revision action,
        cl_ticket_revision_id = sx_ticket_revision_id (cx_ticket action),
        cl_expected_ticket_revision = sx_revision (cx_ticket action),
        cl_requalification = requalification\<rparr> d"

definition complete_campaign ::
  "(byte list \<Rightarrow> content_digest) \<Rightarrow> string \<Rightarrow> string \<Rightarrow> complete_campaign_action \<Rightarrow> db
     \<Rightarrow> (aggregate_revision \<times> db) store_result" where
  "complete_campaign hash prin command_id action d =
     complete_campaign_at_delivery_target_cmd hash
       \<lparr>cp_principal = prin, cp_command_id = command_id, cp_campaign_id = cq_campaign_id action,
        cp_expected_campaign_revision = cq_expected_campaign_revision action\<rparr> d"

section \<open>What an action implies\<close>

lemmas decide_unfold = decide_def decide_elapsed_def decide_open_def decide_upstream_def decide_ready_def
  IN_FLIGHT_TICKET_MAXIMUM_def

text \<open>What paid upstream work, a claim or a replenishment, needs.\<close>

definition upstream_open :: "ticket_buffer_status \<Rightarrow> bool" where
  "upstream_open s \<longleftrightarrow>
     bs_campaign_is_running s \<and> bs_delivered_attempt_count s < bs_delivery_target s \<and> bs_campaign_cost_known s
     \<and> \<not> bs_paid_session_active s \<and> bs_campaign_deadline_open s \<and> bs_downstream_attempt_count s = 0
     \<and> bs_downstream_action s = None \<and> bs_in_flight_count s = 0
     \<and> bs_proposed_count s \<le> bs_proposal_maximum s
     \<and> (\<forall>m. bs_maximum s = Some m \<longrightarrow> bs_ready_count s \<le> m)"

lemma word_not_ge_1: "\<not> (1 :: 'a::len word) \<le> x \<longleftrightarrow> x = 0"
  by (metis word_le_0_iff word_less_1 linorder_not_le)

lemma decide_claim:
  assumes "decide s = ClaimReadyTicket action"
  shows "upstream_open s \<and> 0 < bs_ready_count s \<and> bs_oldest_sponsored_ticket s = Some (cx_ticket action)
     \<and> cx_campaign_id action = bs_campaign_id s \<and> cx_expected_campaign_revision action = bs_campaign_revision s"
  using assms
  by (auto simp: decide_unfold upstream_open_def word_not_ge_1 word_gt_0 not_less not_le
      split: if_splits option.splits)

lemma decide_replenish:
  assumes "decide s = ReplenishProduct i r"
  shows "upstream_open s \<and> bs_ready_count s = 0 \<and> bs_oldest_sponsored_ticket s = None \<and> bs_proposed_count s = 0
     \<and> i = bs_campaign_id s \<and> r = bs_campaign_revision s \<and> 0 < max (bs_low_water s) (bs_target s)"
  using assms
  by (auto simp: decide_unfold upstream_open_def word_not_ge_1 word_gt_0 not_less not_le max_def
      split: if_splits option.splits)

lemma decide_complete:
  assumes "decide s = CompleteCampaign action"
  shows "bs_campaign_is_running s \<and> bs_delivery_target s \<le> bs_delivered_attempt_count s
     \<and> cq_campaign_id action = bs_campaign_id s \<and> cq_expected_campaign_revision action = bs_campaign_revision s"
  using assms by (auto simp: decide_unfold split: if_splits option.splits)

lemma decide_continue:
  assumes "decide s = ContinueDownstream action"
  shows "bs_downstream_action s = Some action \<and> 0 < bs_downstream_attempt_count s \<and> bs_campaign_is_running s
     \<and> bs_campaign_cost_known s \<and> \<not> bs_paid_session_active s
     \<and> (bs_campaign_deadline_open s \<or> da_stage action = DownDeliverAccepted)"
  using assms by (auto simp: decide_unfold word_gt_0 split: if_splits option.splits)

end
