(* ===== verification/Stage_Invariant.thy ===== *)
theory Stage_Invariant
  imports Ticket_Authority Scheduler
begin

text \<open>
  The stage of an attempt and the lifecycle of its newest candidate move together: \<open>stage_fits\<close> is the
  pairing, and every candidate of an attempt but the newest is rejected.  All sixteen commands keep it
  when time does not run backwards, so the downstream head of a consistent snapshot always has an
  action, and the scheduler never blocks on a head that does not match its count.
\<close>

section \<open>The invariant\<close>

definition stage_fits :: "int \<Rightarrow> int \<Rightarrow> bool" where
  "stage_fits s l \<longleftrightarrow> s \<noteq> ATTEMPT_ENGINEERING
     \<and> (s = ATTEMPT_HARD_VALIDATION \<or> s = ATTEMPT_REWORK_VALIDATION \<longrightarrow> l = CANDIDATE_SUBMITTED)
     \<and> (s = ATTEMPT_QUALITY \<or> s = ATTEMPT_REWORK_QUALITY \<longrightarrow> l = CANDIDATE_VALIDATED)
     \<and> (s = ATTEMPT_AWAITING_ARCHITECT \<longrightarrow> l = CANDIDATE_VALIDATED \<or> l = CANDIDATE_ACCEPTED)
     \<and> (s = ATTEMPT_REWORK_ENGINEERING \<longrightarrow> l = CANDIDATE_REJECTED)
     \<and> (s = ATTEMPT_DELIVERED \<longrightarrow> l = CANDIDATE_DELIVERED)"

definition is_newest :: "candidate_row table \<Rightarrow> int \<Rightarrow> int \<Rightarrow> candidate_row \<Rightarrow> bool" where
  "is_newest t j i c \<longleftrightarrow> get_row t i = Some c \<and> cr_ticket_attempt_id c = j
     \<and> (\<forall>i' c'. get_row t i' = Some c' \<longrightarrow> cr_ticket_attempt_id c' = j \<longrightarrow> i' \<noteq> i \<longrightarrow>
           i' < i \<and> cr_created_at c' \<le> cr_created_at c \<and> cr_lifecycle c' = CANDIDATE_REJECTED)"

definition has_no_candidate :: "candidate_row table \<Rightarrow> int \<Rightarrow> bool" where
  "has_no_candidate t j \<longleftrightarrow> (\<forall>i c. get_row t i = Some c \<longrightarrow> cr_ticket_attempt_id c \<noteq> j)"

definition attempt_staged :: "candidate_row table \<Rightarrow> int \<Rightarrow> int \<Rightarrow> bool" where
  "attempt_staged t j s \<longleftrightarrow>
     (\<exists>i c. is_newest t j i c \<and> stage_fits s (cr_lifecycle c))
     \<or> has_no_candidate t j \<and> (s = ATTEMPT_ENGINEERING \<or> s = ATTEMPT_FAILED \<or> s = ATTEMPT_CANCELLED)"

definition stage_inv :: "int \<Rightarrow> db \<Rightarrow> bool" where
  "stage_inv now d \<longleftrightarrow>
     (\<forall>j a. get_row (ticket_attempts d) j = Some a \<longrightarrow> attempt_staged (candidates d) j (ta_stage a))
     \<and> (\<forall>i c. get_row (candidates d) i = Some c \<longrightarrow> cr_created_at c \<le> now)"

lemma stage_inv_mono: "stage_inv now d \<Longrightarrow> now \<le> later \<Longrightarrow> stage_inv later d"
  by (fastforce simp: stage_inv_def)

lemma stage_inv_attempt:
  "stage_inv now d \<Longrightarrow> get_row (ticket_attempts d) j = Some a \<Longrightarrow> attempt_staged (candidates d) j (ta_stage a)"
  by (simp add: stage_inv_def)

text \<open>A candidate that is not rejected is the newest of its attempt.\<close>

lemma live_is_newest:
  assumes "attempt_staged t j s" "get_row t i = Some c" "cr_ticket_attempt_id c = j" "cr_lifecycle c \<noteq> CANDIDATE_REJECTED"
  shows "is_newest t j i c" "stage_fits s (cr_lifecycle c)"
proof -
  have *: "is_newest t j i c \<and> stage_fits s (cr_lifecycle c)"
    using assms unfolding attempt_staged_def
  proof (elim disjE conjE exE)
    fix i' c'
    assume n: "is_newest t j i' c'" "stage_fits s (cr_lifecycle c')"
    then have "i = i'" using assms(2-4) unfolding is_newest_def by blast
    then show ?thesis using n assms(2) unfolding is_newest_def by simp
  qed (use assms in \<open>auto simp: has_no_candidate_def\<close>)
  then show "is_newest t j i c" "stage_fits s (cr_lifecycle c)" by simp_all
qed

section \<open>The five ways a transition changes attempts and candidates\<close>

lemma stage_inv_attempt_moves:
  assumes "stage_inv now d" "candidates d' = candidates d" "ticket_attempts d' = update_row j g (ticket_attempts d)"
    and "\<And>a. get_row (ticket_attempts d) j = Some a \<Longrightarrow> attempt_staged (candidates d) j (ta_stage (g a))"
  shows "stage_inv now d'"
  using assms by (auto simp: stage_inv_def tbl.get_upd)

lemma stage_inv_same:
  assumes "stage_inv now d" "candidates d' = candidates d" "ticket_attempts d' = ticket_attempts d"
  shows "stage_inv now d'"
  using assms by (simp add: stage_inv_def)

lemma is_newest_upd:
  assumes "is_newest t j k x" "get_row t i = Some c" "cr_ticket_attempt_id (f c) = cr_ticket_attempt_id c"
    and "cr_created_at (f c) = cr_created_at c" "k = i \<or> cr_ticket_attempt_id c \<noteq> j"
  shows "is_newest (update_row i f t) j k (if k = i then f x else x)"
  using assms by (auto simp: is_newest_def tbl.get_upd split: if_splits)

lemma attempt_staged_other:
  assumes "attempt_staged t j s" "get_row t i = Some c" "cr_ticket_attempt_id (f c) = cr_ticket_attempt_id c"
    and "cr_created_at (f c) = cr_created_at c" "cr_ticket_attempt_id c \<noteq> j"
  shows "attempt_staged (update_row i f t) j s"
  using assms(1) unfolding attempt_staged_def
proof (elim disjE conjE exE)
  fix k x
  assume n: "is_newest t j k x" "stage_fits s (cr_lifecycle x)"
  then have "k \<noteq> i" using assms(2,5) by (auto simp: is_newest_def)
  then show "(\<exists>i' c'. is_newest (update_row i f t) j i' c' \<and> stage_fits s (cr_lifecycle c')) \<or>
      has_no_candidate (update_row i f t) j \<and> (s = ATTEMPT_ENGINEERING \<or> s = ATTEMPT_FAILED \<or> s = ATTEMPT_CANCELLED)"
    using is_newest_upd [where f = f, OF n(1) assms(2-4)] n(2) assms(5) by auto
qed (use assms in \<open>auto simp: has_no_candidate_def tbl.get_upd\<close>)

lemma stage_inv_candidate_moves:
  assumes inv: "stage_inv now d"
    and c: "get_row (candidates d) i = Some c" "cr_ticket_attempt_id c = j" "cr_lifecycle c \<noteq> CANDIDATE_REJECTED"
    and eqs: "candidates d' = update_row i f (candidates d)" "ticket_attempts d' = update_row j g (ticket_attempts d)"
    and f: "cr_ticket_attempt_id (f c) = cr_ticket_attempt_id c" "cr_created_at (f c) = cr_created_at c"
    and fits: "\<And>a. get_row (ticket_attempts d) j = Some a \<Longrightarrow> stage_fits (ta_stage a) (cr_lifecycle c) \<Longrightarrow>
        stage_fits (ta_stage (g a)) (cr_lifecycle (f c))"
  shows "stage_inv now d'"
  unfolding stage_inv_def
proof (intro conjI allI impI)
  fix k a'
  assume k: "get_row (ticket_attempts d') k = Some a'"
  show "attempt_staged (candidates d') k (ta_stage a')"
  proof (cases "k = j")
    case True
    then obtain a where a: "get_row (ticket_attempts d) j = Some a" "a' = g a"
      using k by (auto simp: eqs(2) tbl.get_upd)
    note n = live_is_newest [OF stage_inv_attempt [OF inv a(1)] c]
    have "is_newest (candidates d') j i (f c)"
      using is_newest_upd [where f = f, OF n(1) c(1) f] by (simp add: eqs(1))
    then show ?thesis using fits [OF a(1) n(2)] True a(2) by (auto simp: attempt_staged_def)
  next
    case False
    then show ?thesis
      using k attempt_staged_other [where f = f, OF stage_inv_attempt [OF inv] c(1) f] c(2) by (simp add: eqs tbl.get_upd)
  qed
next
  fix k x
  assume "get_row (candidates d') k = Some x"
  then show "cr_created_at x \<le> now"
    using inv c(1) f(2) by (auto simp: stage_inv_def eqs(1) tbl.get_upd split: if_splits)
qed

lemma stage_inv_candidate_submitted:
  assumes inv: "stage_inv now d" and t: "table_ok (candidates d)"
    and new: "cr_ticket_attempt_id c = j" "cr_created_at c = now" "stage_fits s (cr_lifecycle c)"
    and eqs: "candidates d' = insert_row c (candidates d)" "ticket_attempts d' = update_row j g (ticket_attempts d)"
    and g: "\<And>a. get_row (ticket_attempts d) j = Some a \<Longrightarrow> ta_stage (g a) = s
        \<and> (ta_stage a = ATTEMPT_ENGINEERING \<or> ta_stage a = ATTEMPT_REWORK_ENGINEERING)"
  shows "stage_inv now d'"
  unfolding stage_inv_def
proof (intro conjI allI impI)
  let ?i = "next_id (candidates d)"
  fix k a'
  assume k: "get_row (ticket_attempts d') k = Some a'"
  show "attempt_staged (candidates d') k (ta_stage a')"
  proof (cases "k = j")
    case True
    then obtain a where a: "get_row (ticket_attempts d) j = Some a" "a' = g a"
      using k by (auto simp: eqs(2) tbl.get_upd)
    have rejected: "cr_lifecycle x = CANDIDATE_REJECTED"
      if "get_row (candidates d) m = Some x" "cr_ticket_attempt_id x = j" for m x
      using live_is_newest(2) [OF stage_inv_attempt [OF inv a(1)] that] g [OF a(1)] by (auto simp: stage_fits_def)
    have "m < ?i" if "get_row (candidates d) m = Some x" for m x
      using tbl.get_pos [OF t that] by simp
    then have "is_newest (candidates d') j ?i c"
      using rejected inv new(1,2) by (auto simp: is_newest_def eqs(1) tbl.get_ins t stage_inv_def)
    then show ?thesis using new(3) g [OF a(1)] True a(2) by (auto simp: attempt_staged_def)
  next
    case False
    then have a: "attempt_staged (candidates d) k (ta_stage a')"
      using k stage_inv_attempt [OF inv] by (simp add: eqs(2) tbl.get_upd)
    have rows: "get_row (candidates d') i = Some x \<longleftrightarrow> get_row (candidates d) i = Some x"
      if "cr_ticket_attempt_id x = k" for i x
      using False new(1) that tbl.get_fresh [OF t] by (auto simp: eqs(1) tbl.get_ins t)
    have "is_newest (candidates d') k i x = is_newest (candidates d) k i x" for i x
      unfolding is_newest_def using rows by blast
    moreover have "has_no_candidate (candidates d) k \<Longrightarrow> has_no_candidate (candidates d') k"
      using False new(1) by (auto simp: has_no_candidate_def eqs(1) tbl.get_ins t)
    ultimately show ?thesis using a by (auto simp: attempt_staged_def)
  qed
next
  fix k x
  assume "get_row (candidates d') k = Some x"
  then show "cr_created_at x \<le> now"
    using inv new(2) by (auto simp: stage_inv_def eqs(1) tbl.get_ins t split: if_splits)
qed

lemma stage_inv_attempt_claimed:
  assumes "stage_inv now d" "table_ok (ticket_attempts d)" "candidates d' = candidates d"
    and "ticket_attempts d' = insert_row a (ticket_attempts d)" "ta_stage a = ATTEMPT_ENGINEERING"
    and "\<And>i c. get_row (candidates d) i = Some c \<Longrightarrow> get_row (ticket_attempts d) (cr_ticket_attempt_id c) \<noteq> None"
  shows "stage_inv now d'"
proof -
  have "has_no_candidate (candidates d) (next_id (ticket_attempts d))"
    using assms(6) tbl.get_fresh [OF assms(2)] by (fastforce simp: has_no_candidate_def)
  then show ?thesis
    using assms(1-5) by (auto simp: stage_inv_def tbl.get_ins attempt_staged_def)
qed

section \<open>The decision authority keeps it\<close>

lemma lock_candidate_attempt_stage:
  assumes "lock_candidate_attempt d i = Inr a"
  shows "at_id a = i" "\<exists>ta. get_row (ticket_attempts d) i = Some ta \<and> ta_stage ta = at_stage a"
  using assms by (auto simp: lock_candidate_attempt_def Let_def)

lemma lock_ticket_attempt_stage:
  assumes "lock_ticket_attempt d i = Inr a"
  shows "\<exists>ta. get_row (ticket_attempts d) i = Some ta \<and> ta_stage ta = al_stage a"
  using assms by (auto simp: lock_ticket_attempt_def Let_def)

lemma submit_candidate_fresh_stage_inv:
  assumes fresh: "submit_candidate_fresh fp now c d = Inr (r, d')" and inv: "stage_inv now d" and tabs: "tables_ok d"
  shows "stage_inv now d'"
  using fresh
proof (rule submit_candidate_freshE)
  fix attempt :: attempt_view and ra
  let ?s = "if at_stage attempt = ATTEMPT_ENGINEERING then ATTEMPT_HARD_VALIDATION else ATTEMPT_REWORK_VALIDATION"
  assume at: "lock_candidate_attempt d (sc_ticket_attempt_id c) = Inr attempt"
      "at_stage attempt = ATTEMPT_ENGINEERING \<or> at_stage attempt = ATTEMPT_REWORK_ENGINEERING"
    and cands: "candidates d' = insert_row (candidate_row_of c attempt now) (candidates d)"
    and ta: "ticket_attempts d' = update_row (sc_ticket_attempt_id c) (\<lambda>a. a\<lparr>
                   ta_candidate_ordinal := at_candidate_ordinal attempt + 1, ta_stage := ?s, ta_revision := ra\<rparr>) (ticket_attempts d)"
  obtain x where x: "get_row (ticket_attempts d) (sc_ticket_attempt_id c) = Some x" "ta_stage x = at_stage attempt"
    using lock_candidate_attempt_stage [OF at(1)] by blast
  show ?thesis
    using at(2) x lock_candidate_attempt_stage(1) [OF at(1)] tabs
    by (intro stage_inv_candidate_submitted [OF inv _ _ _ _ cands ta, where s = ?s])
      (auto simp: candidate_row_of_def stage_fits_def tables_ok_def)
qed

lemma record_validation_fresh_stage_inv:
  assumes fresh: "record_validation_fresh fp now c d = Inr (r, d')" and inv: "stage_inv now d"
  shows "stage_inv now d'"
  using fresh
proof (rule record_validation_freshE)
  fix cv and attempt :: attempt_view and row rc ra
  let ?n = "validation_successor (rv_result c) (rv_scope c) (at_stage attempt)"
  assume cv: "load_candidate d (rv_candidate_id c) = Inr cv"
      "decode_candidate_state (cv_lifecycle cv) = Inr (required_candidate_state (rv_scope c))"
    and at: "lock_candidate_attempt d (cv_ticket_attempt_id cv) = Inr attempt"
    and eqs: "candidates d' = update_row (rv_candidate_id c)
        (\<lambda>x. x\<lparr>cr_lifecycle := fst ?n, cr_revision := rc\<rparr>) (candidates d)"
      "ticket_attempts d' = update_row (at_id attempt) (\<lambda>a. a\<lparr> ta_stage := snd ?n, ta_revision := ra,
        ta_failed := (if snd ?n = ATTEMPT_FAILED then Some (now, ''hard validation did not pass'') else ta_failed a)\<rparr>)
        (ticket_attempts d)"
  obtain co where co: "get_row (candidates d) (rv_candidate_id c) = Some co"
      "cr_ticket_attempt_id co = cv_ticket_attempt_id cv" "cr_lifecycle co = cv_lifecycle cv"
    using load_candidateE [OF cv(1)] by metis
  have "cr_lifecycle co \<noteq> CANDIDATE_REJECTED"
    using cv(2) co(3) by (cases "rv_scope c") (auto simp: decode_candidate_state_code)
  moreover have "stage_fits (snd ?n) (fst ?n)"
    by (auto simp: validation_successor_def stage_fits_def split: validation_scope.splits)
  ultimately show ?thesis
    using co lock_candidate_attempt_stage(1) [OF at]
    by (intro stage_inv_candidate_moves [OF inv co(1) _ _ eqs]) auto
qed

lemma attach_candidate_commit_fresh_stage_inv:
  assumes fresh: "attach_candidate_commit_fresh fp c d = Inr (r, d')" and inv: "stage_inv now d"
  shows "stage_inv now d'"
  using fresh
proof (rule attach_candidate_commit_freshE)
  fix cv attempt rc
  assume cv: "load_candidate d (ac_candidate_id c) = Inr cv" "cv_lifecycle cv = CANDIDATE_VALIDATED"
    and eqs: "candidates d' = update_row (ac_candidate_id c) (\<lambda>x. x\<lparr>cr_commit := Some (ac_candidate_commit c),
        cr_ref := Some (ac_candidate_ref c), cr_revision := rc\<rparr>) (candidates d)" "ticket_attempts d' = ticket_attempts d"
  obtain co where co: "get_row (candidates d) (ac_candidate_id c) = Some co" "cr_lifecycle co = CANDIDATE_VALIDATED"
    using load_candidateE [OF cv(1)] cv(2) by metis
  show ?thesis
    using co eqs(2)
    by (intro stage_inv_candidate_moves [OF inv co(1) refl _ eqs(1), where g = "\<lambda>x. x"]) (auto simp: update_row_id)
qed

lemma submit_quality_review_fresh_stage_inv:
  assumes fresh: "submit_quality_review_fresh fp c d = Inr (r, d')" and inv: "stage_inv now d"
  shows "stage_inv now d'"
  using fresh
proof (rule submit_quality_review_freshE)
  fix cv attempt qv row rc ra
  assume cv: "load_candidate d (qr_candidate_id c) = Inr cv" "cv_lifecycle cv = CANDIDATE_VALIDATED"
    and at: "lock_candidate_attempt d (cv_ticket_attempt_id cv) = Inr attempt"
    and eqs: "candidates d' = update_row (qr_candidate_id c) (\<lambda>x. x\<lparr>cr_revision := rc\<rparr>) (candidates d)"
      "ticket_attempts d' = update_row (at_id attempt) (\<lambda>a. a\<lparr>
        ta_stage := ATTEMPT_AWAITING_ARCHITECT, ta_revision := ra\<rparr>) (ticket_attempts d)"
  obtain co where co: "get_row (candidates d) (qr_candidate_id c) = Some co" "cr_lifecycle co = CANDIDATE_VALIDATED"
      "cr_ticket_attempt_id co = cv_ticket_attempt_id cv"
    using load_candidateE [OF cv(1)] cv(2) by metis
  show ?thesis
    using co lock_candidate_attempt_stage(1) [OF at]
    by (intro stage_inv_candidate_moves [OF inv co(1) _ _ eqs]) (auto simp: stage_fits_def)
qed

lemma sponsor_ticket_fresh_stage_inv:
  assumes "sponsor_ticket_fresh fp now c d = Inr (r, d')" and "stage_inv now d"
  shows "stage_inv now d'"
  using assms(1) by (rule sponsor_ticket_freshE) (rule stage_inv_same [OF assms(2)])

lemma release_fresh_stage_inv:
  assumes "release_fresh fp now c d = Inr (r, d')" and inv: "stage_inv now d"
  shows "stage_inv now d'"
  using assms(1)
proof (rule release_freshE)
  fix attempt ra
  assume "candidates d' = candidates d" "ticket_attempts d' = update_row (at_id attempt) (\<lambda>a. a\<lparr>
       ta_released := Some (now, decision_reason (next_id (architect_decisions d))), ta_revision := ra\<rparr>) (ticket_attempts d)"
  then show ?thesis
    by (rule stage_inv_attempt_moves [OF inv]) (simp add: stage_inv_attempt [OF inv])
qed

lemma decide_candidate_fresh_stage_inv:
  assumes fresh: "decide_candidate_fresh fp now c d = Inr (r, d')" and inv: "stage_inv now d"
  shows "stage_inv now d'"
  using fresh
proof (rule decide_candidate_freshE)
  fix cv attempt rv row rc ra
  let ?q = "dc_request c"
  let ?n = "decision_transition (cd_decision ?q)"
  let ?f = "\<lambda>a. a\<lparr>ta_stage := snd ?n,
        ta_rework_ordinal := ta_rework_ordinal a + (if cd_decision ?q = Rework then 1 else 0),
        ta_failed := (if snd ?n = ATTEMPT_FAILED
                      then Some (now, ''architect rejected reviewed candidate'') else ta_failed a), ta_revision := ra\<rparr>"
  assume cv: "load_candidate d (cd_candidate_id ?q) = Inr cv" "cv_lifecycle cv = CANDIDATE_VALIDATED"
    and at: "lock_candidate_attempt d (cv_ticket_attempt_id cv) = Inr attempt"
    and eqs: "candidates d' = update_row (cd_candidate_id ?q)
        (\<lambda>x. x\<lparr>cr_lifecycle := fst ?n, cr_revision := rc\<rparr>) (candidates d)"
      "ticket_attempts d' = update_row (at_id attempt) ?f (ticket_attempts d)"
  obtain co where co: "get_row (candidates d) (cd_candidate_id ?q) = Some co" "cr_lifecycle co = CANDIDATE_VALIDATED"
      "cr_ticket_attempt_id co = cv_ticket_attempt_id cv"
    using load_candidateE [OF cv(1)] cv(2) by metis
  have "stage_fits (snd ?n) (fst ?n)" by (cases "cd_decision ?q") (simp_all add: stage_fits_def)
  then show ?thesis
    using co lock_candidate_attempt_stage(1) [OF at]
    by (intro stage_inv_candidate_moves [OF inv co(1) _ _ eqs]) auto
qed

lemma record_delivery_fresh_stage_inv:
  assumes fresh: "record_delivery_fresh fp now c d = Inr (r, d')" and inv: "stage_inv now d"
  shows "stage_inv now d'"
  using fresh
proof (rule record_delivery_freshE)
  fix cv attempt campaign row rc ra
  assume cv: "load_candidate d (dv_candidate_id c) = Inr cv" "cv_lifecycle cv = CANDIDATE_ACCEPTED"
    and at: "lock_candidate_attempt d (cv_ticket_attempt_id cv) = Inr attempt"
    and eqs: "candidates d' = update_row (dv_candidate_id c)
        (\<lambda>x. x\<lparr>cr_lifecycle := CANDIDATE_DELIVERED, cr_revision := rc\<rparr>) (candidates d)"
      "ticket_attempts d' = update_row (at_id attempt)
        (\<lambda>a. a\<lparr>ta_stage := ATTEMPT_DELIVERED, ta_revision := ra\<rparr>) (ticket_attempts d)"
  obtain co where co: "get_row (candidates d) (dv_candidate_id c) = Some co" "cr_lifecycle co = CANDIDATE_ACCEPTED"
      "cr_ticket_attempt_id co = cv_ticket_attempt_id cv"
    using load_candidateE [OF cv(1)] cv(2) by metis
  show ?thesis
    using co lock_candidate_attempt_stage(1) [OF at]
    by (intro stage_inv_candidate_moves [OF inv co(1) _ _ eqs]) (auto simp: stage_fits_def)
qed

section \<open>The ticket authority keeps it\<close>

lemma submit_ticket_proposal_transition_stage_inv:
  assumes "submit_ticket_proposal_transition fp c d = Inr (r, d')" and inv: "stage_inv now d"
  shows "stage_inv now d'"
  using assms(1) unfolding submit_ticket_proposal_transition_def
  by (auto elim!: submit_ticket_proposal_freshE dest!: insert_ticket_audit_frame(3) intro!: stage_inv_same [OF inv])

lemma sponsor_ticket_revision_fresh_stage_inv:
  assumes fresh: "sponsor_ticket_revision_fresh fp now c d = Inr (r, d')" and inv: "stage_inv now d"
  shows "stage_inv now d'"
  using fresh
proof (rule sponsor_ticket_revision_freshE)
  fix status nxt dm
  assume u: "update_ticket_states d status TICKET_SPONSORED nxt (Some (sr_reason c)) None now = Inr dm"
    and ins: "insert_ticket_audit dm (sr_principal c) (sr_command_id c) TICKET_SPONSOR_OPERATION fp
       SPONSORSHIP_SUBJECT (sr_ticket_revision_id c) nxt = Inr (sq_audit_log_id r, d')"
  note frame = insert_ticket_audit_frame(3) [OF ins] update_ticket_states_frame [OF u]
  show ?thesis using frame(1,4) ticket_frameD(1) [OF frame(2)] by (intro stage_inv_same [OF inv]) simp_all
qed

lemma claim_sponsored_ticket_fresh_stage_inv:
  assumes fresh: "claim_sponsored_ticket_fresh fp now c d = Inr (r, d')" and inv: "stage_inv now d"
    and ev: "evidence_inv d"
  shows "stage_inv now d'"
  using fresh
proof (rule claim_sponsored_ticket_freshE)
  fix status cl nxt dm kind subject
  assume m: "claim_transition now c status nxt cl d = Inr ((ct_outcome r, kind, subject), dm)"
    and ins: "insert_ticket_audit dm (cl_principal c) (cl_command_id c) CLAIM_OPERATION fp kind subject nxt
       = Inr (ct_audit_log_id r, d')"
  have cands: "candidates d' = candidates d"
    using insert_ticket_audit_frame(3) [OF ins] ticket_frameD(1) [OF claim_transition_frame(1) [OF m]] by simp
  have ta: "ticket_attempts d' = (if cl = Reproduced then insert_row (claimed_attempt_row c now) (ticket_attempts d)
           else ticket_attempts d)"
    using insert_ticket_audit_frame(3) [OF ins] claim_transition_frame(3) [OF m] by simp
  have fk: "get_row (ticket_attempts d) (cr_ticket_attempt_id x) \<noteq> None" if "get_row (candidates d) i = Some x" for i x
    using ev that by (simp add: evidence_inv_def evidence_chain_def candidate_backed_def)
  show ?thesis
  proof (cases "cl = Reproduced")
    case True
    then have ins: "ticket_attempts d' = insert_row (claimed_attempt_row c now) (ticket_attempts d)" using ta by simp
    show ?thesis
      by (rule stage_inv_attempt_claimed [OF inv _ cands ins _ fk])
        (use ev in \<open>simp_all add: evidence_inv_def tables_ok_def claimed_attempt_row_def\<close>)
  next
    case False
    then show ?thesis using ta by (intro stage_inv_same [OF inv cands]) simp
  qed
qed

lemma move_attempt_stage_inv:
  assumes m: "move_attempt d i a st failed p c op fp sub = Inr (r, d')" and inv: "stage_inv now d" and tabs: "tables_ok d"
    and st: "\<And>x. get_row (ticket_attempts d) i = Some x \<Longrightarrow> attempt_staged (candidates d) i (ta_stage x) \<Longrightarrow>
        attempt_staged (candidates d) i st"
  shows "stage_inv now d'"
proof -
  obtain ra where "ticket_attempts d' = update_row i (\<lambda>a. a\<lparr>ta_stage := st, ta_failed := failed, ta_revision := ra\<rparr>) (ticket_attempts d)"
    using move_attempt_ok(1) [OF m tabs] by blast
  moreover have "candidates d' = candidates d" using move_attempt_ok(4) [OF m tabs] by (simp add: evidence_same_def)
  ultimately show ?thesis
    by (intro stage_inv_attempt_moves [OF inv]) (use st stage_inv_attempt [OF inv] in auto)
qed

lemma attempt_staged_failed: "attempt_staged t j s \<Longrightarrow> attempt_staged t j ATTEMPT_FAILED"
  by (auto simp: attempt_staged_def stage_fits_def)

lemma fail_ticket_attempt_fresh_stage_inv:
  assumes "fail_ticket_attempt_fresh fp now c d = Inr (r, d')" and "stage_inv now d" "tables_ok d"
  shows "stage_inv now d'"
  using assms(1)
  by (rule fail_ticket_attempt_fresh_move) (erule move_attempt_stage_inv [OF _ assms(2,3)], rule attempt_staged_failed)

lemma retry_quality_attempt_fresh_stage_inv:
  assumes "retry_quality_attempt_fresh fp now c d = Inr (r, d')" and inv: "stage_inv now d" and tabs: "tables_ok d"
  shows "stage_inv now d'"
  using assms(1)
proof (rule retry_quality_attempt_freshE)
  fix a x
  assume x: "get_row (candidates d) (rqa_candidate_id c) = Some x" "cr_ticket_attempt_id x = rqa_ticket_attempt_id c"
      "cr_lifecycle x = CANDIDATE_VALIDATED"
    and m: "move_attempt d (rqa_ticket_attempt_id c) a ATTEMPT_REWORK_QUALITY (Some (now, rqa_reason c))
       (rqa_principal c) (rqa_command_id c) QUALITY_RETRY_OPERATION fp QUALITY_RETRY_SUBJECT = Inr (r, d')"
  show ?thesis
  proof (rule move_attempt_stage_inv [OF m inv tabs])
    fix y
    assume "attempt_staged (candidates d) (rqa_ticket_attempt_id c) (ta_stage y)"
    from live_is_newest(1) [OF this x(1,2)] x(3)
    show "attempt_staged (candidates d) (rqa_ticket_attempt_id c) ATTEMPT_REWORK_QUALITY"
      by (auto simp: attempt_staged_def stage_fits_def)
  qed
qed

lemma retry_engineering_attempt_fresh_stage_inv:
  assumes "retry_engineering_attempt_fresh fp c d = Inr (r, d')" and inv: "stage_inv now d" and tabs: "tables_ok d"
  shows "stage_inv now d'"
  using assms(1)
proof (rule retry_engineering_attempt_freshE)
  fix a
  assume none: "\<not> candidate_exists_for d (rea_ticket_attempt_id c)"
    and m: "move_attempt d (rea_ticket_attempt_id c) a ATTEMPT_ENGINEERING None
       (rea_principal c) (rea_command_id c) ENGINEERING_RETRY_OPERATION fp ENGINEERING_RETRY_SUBJECT = Inr (r, d')"
  show ?thesis
    by (rule move_attempt_stage_inv [OF m inv tabs])
      (use none tabs in \<open>auto simp: attempt_staged_def has_no_candidate_def candidate_exists_for_def tables_ok_def tbl.ex_get\<close>)
qed

lemma attempt_release_fresh_stage_inv:
  assumes fresh: "attempt_release_fresh fp now c d = Inr (r, d')" and inv: "stage_inv now d"
  shows "stage_inv now d'"
  using fresh
proof (rule attempt_release_freshE)
  fix a cl dm d1 nxt ra na
  assume d1: "d1 = d\<lparr>ticket_attempts := update_row (rt_ticket_attempt_id c) (\<lambda>a. a\<lparr>
         ta_released := Some (now, rt_reason c), ta_revision := ra\<rparr>) (ticket_attempts d)\<rparr>"
    and u: "update_requalification_and_ticket_state d1 (al_ticket a) (fst (snd (release_transition cl))) nxt
       (fst (snd (snd (release_transition cl)))) (rt_requalification c) (snd (snd (snd (release_transition cl)))) now = Inr dm"
    and ins: "insert_ticket_audit dm (rt_principal c) (rt_command_id c) ATTEMPT_RELEASE_OPERATION fp
       (release_subject cl) (rt_ticket_attempt_id c) na = Inr (rx_audit_log_id r, d')"
  note frame = insert_ticket_audit_frame(3) [OF ins] update_requalification_frame [OF u]
  have ta: "ticket_attempts d' = update_row (rt_ticket_attempt_id c) (\<lambda>a. a\<lparr>
         ta_released := Some (now, rt_reason c), ta_revision := ra\<rparr>) (ticket_attempts d)"
    using frame(1,4) by (simp add: d1)
  have cands: "candidates d' = candidates d" using frame(1) ticket_frameD(1) [OF frame(2)] by (simp add: d1)
  show ?thesis
    by (rule stage_inv_attempt_moves [OF inv cands ta]) (simp add: stage_inv_attempt [OF inv])
qed

section \<open>The contract with stages\<close>

text \<open>
  A command run at a time not before the last one keeps the stages.  The fifteen receipt-returning
  commands extend their \<open>authority_command\<close> with it.
\<close>

locale staged_command = authority_command run who cmd operation fp retry
  for run :: "int \<Rightarrow> 'c \<Rightarrow> db \<Rightarrow> ('e, 'r \<times> db) result"
    and who :: "'c \<Rightarrow> string" and cmd :: "'c \<Rightarrow> string" and operation :: string
    and fp :: "'c \<Rightarrow> content_digest" and retry :: "'r \<Rightarrow> bool" +
  assumes keeps_stages: "run now c d = Inr (r, d') \<Longrightarrow> evidence_inv d \<Longrightarrow> stage_inv now d \<Longrightarrow> stage_inv now d'"
begin

lemma keeps_all:
  "run now c d = Inr (r, d') \<Longrightarrow> evidence_inv d \<and> ticket_inv d \<and> stage_inv now d \<Longrightarrow>
     evidence_inv d' \<and> ticket_inv d' \<and> stage_inv now d'"
  using keeps_both keeps_stages by blast

end

lemma staged_commandI:
  assumes "authority_command run who cmd op fp retry"
    and run: "\<And>now c d r d'. run now c d = Inr (r, d') \<Longrightarrow>
      audited (find_audit_entry (conflict c) (out_of_range c) d (who c) (cmd c) op (fp c)) (replay c d) (fresh now c d) d = Inr (r, d')"
    and fresh: "\<And>now c d r d'. fresh now c d = Inr (r, d') \<Longrightarrow> stage_inv now d \<Longrightarrow> evidence_inv d \<Longrightarrow> stage_inv now d'"
  shows "staged_command run who cmd op fp retry"
proof (rule staged_command.intro [OF assms(1)], unfold_locales)
  fix now c d r d'
  assume ok: "run now c d = Inr (r, d')" and inv: "evidence_inv d" "stage_inv now d"
  show "stage_inv now d'" using run [OF ok] by (rule audited_cases) (use inv fresh in auto)
qed

interpretation sc_staged: staged_command "submit_candidate_cmd hash" "\<lambda>c. sc_principal c" "\<lambda>c. sc_command_id c"
  CANDIDATE_SUBMIT_OPERATION "\<lambda>c. hash (submit_candidate_preimage c)" cr_receipt_was_idempotent_retry for hash
  by (rule staged_commandI, fact sc_auth.authority_command_axioms, erule submit_candidate_cmd_audited)
    (rule submit_candidate_fresh_stage_inv, assumption+, rule evidence_inv_tables, assumption)

interpretation rv_staged: staged_command "record_validation_cmd hash" "\<lambda>c. rv_principal c" "\<lambda>c. rv_command_id c"
  VALIDATION_RECORD_OPERATION "\<lambda>c. hash (validation_preimage c)" vr_was_idempotent_retry for hash
  by (rule staged_commandI, fact rv_auth.authority_command_axioms, erule record_validation_cmd_audited)
    (rule record_validation_fresh_stage_inv; assumption)

interpretation ac_staged: staged_command "\<lambda>_. attach_candidate_commit_cmd hash" "\<lambda>c. ac_principal c" "\<lambda>c. ac_command_id c"
  CANDIDATE_COMMIT_ATTACH_OPERATION "\<lambda>c. hash (commit_preimage c)" cr_receipt_was_idempotent_retry for hash
  by (rule staged_commandI, fact ac_auth.authority_command_axioms, erule attach_candidate_commit_cmd_audited)
    (rule attach_candidate_commit_fresh_stage_inv; assumption)

interpretation qr_staged: staged_command "\<lambda>_. submit_quality_review_cmd hash" "\<lambda>c. qr_principal c" "\<lambda>c. qr_command_id c"
  REVIEW_SUBMIT_OPERATION "\<lambda>c. hash (review_preimage c)" rr_was_idempotent_retry for hash
  by (rule staged_commandI, fact qr_auth.authority_command_axioms, erule submit_quality_review_cmd_audited)
    (rule submit_quality_review_fresh_stage_inv; assumption)

interpretation st_staged: staged_command "sponsor_ticket_cmd hash" "\<lambda>c. sd_principal (st_decision c)" "\<lambda>c. st_command_id c"
  SPONSOR_OPERATION "\<lambda>c. hash (sponsorship_preimage c)" sp_was_idempotent_retry for hash
  by (rule staged_commandI, fact st_auth.authority_command_axioms, erule sponsor_ticket_cmd_audited)
    (rule sponsor_ticket_fresh_stage_inv; assumption)

interpretation rl_staged: staged_command "release_ticket_attempt_cmd hash" "\<lambda>c. rd_principal (rl_decision c)" "\<lambda>c. rl_command_id c"
  RELEASE_OPERATION "\<lambda>c. hash (release_preimage c)" le_was_idempotent_retry for hash
  by (rule staged_commandI, fact rl_auth.authority_command_axioms, erule release_ticket_attempt_cmd_audited)
    (rule release_fresh_stage_inv; assumption)

interpretation dc_staged: staged_command "decide_candidate_cmd hash" "\<lambda>c. cd_principal (dc_request c)" "\<lambda>c. dc_command_id c"
  CANDIDATE_DECIDE_OPERATION "\<lambda>c. hash (candidate_decision_preimage c)" dr_was_idempotent_retry for hash
  by (rule staged_commandI, fact dc_auth.authority_command_axioms, erule decide_candidate_cmd_audited)
    (rule decide_candidate_fresh_stage_inv; assumption)

interpretation dv_staged: staged_command "record_delivery_cmd hash" "\<lambda>c. dv_principal c" "\<lambda>c. dv_command_id c"
  DELIVERY_RECORD_OPERATION "\<lambda>c. hash (delivery_preimage c)" dy_was_idempotent_retry for hash
  by (rule staged_commandI, fact dv_auth.authority_command_axioms, erule record_delivery_cmd_audited)
    (rule record_delivery_fresh_stage_inv; assumption)

interpretation pp_staged: staged_command "\<lambda>_. submit_ticket_proposal_cmd hash" "\<lambda>c. pp_principal c" "\<lambda>c. pp_command_id c"
  PROPOSE_OPERATION "\<lambda>c. hash (proposal_preimage c)" pr_was_idempotent_retry for hash
  by (rule staged_commandI, fact pp_auth.authority_command_axioms, erule submit_ticket_proposal_cmd_audited)
    (rule submit_ticket_proposal_transition_stage_inv; assumption)

interpretation sr_staged: staged_command "sponsor_ticket_revision_cmd hash" "\<lambda>c. sr_principal c" "\<lambda>c. sr_command_id c"
  TICKET_SPONSOR_OPERATION "\<lambda>c. hash (sponsor_preimage c)" sq_was_idempotent_retry for hash
  by (rule staged_commandI, fact sr_auth.authority_command_axioms, erule sponsor_ticket_revision_cmd_audited)
    (rule sponsor_ticket_revision_fresh_stage_inv; assumption)

interpretation cl_staged: staged_command "claim_sponsored_ticket_cmd hash" "\<lambda>c. cl_principal c" "\<lambda>c. cl_command_id c"
  CLAIM_OPERATION "\<lambda>c. hash (claim_preimage c)" ct_was_idempotent_retry for hash
  by (rule staged_commandI, fact cl_auth.authority_command_axioms, erule claim_sponsored_ticket_cmd_audited)
    (rule claim_sponsored_ticket_fresh_stage_inv; assumption)

interpretation fa_staged: staged_command "fail_ticket_attempt_cmd hash" "\<lambda>c. fa_principal c" "\<lambda>c. fa_command_id c"
  FAIL_OPERATION "\<lambda>c. hash (failure_preimage c)" tt_was_idempotent_retry for hash
  by (rule staged_commandI, fact fa_auth.authority_command_axioms, erule fail_ticket_attempt_cmd_audited)
    (rule fail_ticket_attempt_fresh_stage_inv, assumption+, rule evidence_inv_tables, assumption)

interpretation rqa_staged: staged_command "retry_quality_attempt_cmd hash" "\<lambda>c. rqa_principal c" "\<lambda>c. rqa_command_id c"
  QUALITY_RETRY_OPERATION "\<lambda>c. hash (quality_retry_preimage c)" tt_was_idempotent_retry for hash
  by (rule staged_commandI, fact rqa_auth.authority_command_axioms, erule retry_quality_attempt_cmd_audited)
    (rule retry_quality_attempt_fresh_stage_inv, assumption+, rule evidence_inv_tables, assumption)

interpretation rea_staged: staged_command "\<lambda>_. retry_engineering_attempt_cmd hash" "\<lambda>c. rea_principal c" "\<lambda>c. rea_command_id c"
  ENGINEERING_RETRY_OPERATION "\<lambda>c. hash (engineering_retry_preimage c)" tt_was_idempotent_retry for hash
  by (rule staged_commandI, fact rea_auth.authority_command_axioms, erule retry_engineering_attempt_cmd_audited)
    (rule retry_engineering_attempt_fresh_stage_inv, assumption+, rule evidence_inv_tables, assumption)

interpretation rt_staged: staged_command "attempt_release_cmd hash" "\<lambda>c. rt_principal c" "\<lambda>c. rt_command_id c"
  ATTEMPT_RELEASE_OPERATION "\<lambda>c. hash (attempt_release_preimage c)" rx_was_idempotent_retry for hash
  by (rule staged_commandI, fact rt_auth.authority_command_axioms, erule attempt_release_cmd_audited)
    (rule attempt_release_fresh_stage_inv; assumption)

end
