(* ===== verification/Kernel_Run.thy ===== *)
theory Kernel_Run
  imports Stage_Invariant
begin

text \<open>
  The kernel as a transition system.  A state is a clock and a database; a step is one of the sixteen
  commands of the two authorities, run at a time not before the last step, or a write of any other
  store.  Commands that fail leave no state.  The other stores (campaign and session processes,
  artifacts, application activation, the forum) never write the ticket, attempt, candidate, validation,
  review, decision and delivery tables, and only append to the audit log; everything else they do is
  arbitrary.  A reachable state starts from an empty database.
\<close>

section \<open>Commands\<close>

datatype kernel_command =
    SubmitCandidate submit_candidate
  | RecordValidation record_validation
  | AttachCandidateCommit attach_candidate_commit
  | SubmitQualityReview submit_quality_review
  | SponsorTicket sponsor_ticket
  | ReleaseByDecision release_ticket_attempt
  | DecideCandidate decide_candidate
  | RecordDelivery record_delivery
  | SubmitTicketProposal submit_ticket_proposal
  | SponsorTicketRevision sponsor_ticket_revision
  | ClaimSponsoredTicket claim_sponsored_ticket
  | FailTicketAttempt fail_ticket_attempt
  | RetryQualityAttempt retry_quality_attempt
  | RetryEngineeringAttempt retry_engineering_attempt
  | ReleaseTicketAttempt attempt_release
  | CompleteCampaignAtTarget complete_campaign_at_delivery_target

fun committed_db :: "('e, 'r \<times> db) result \<Rightarrow> db option" where
  "committed_db (Inr (_, d)) = Some d"
| "committed_db (Inl _) = None"

lemma committed_db_Some [simp]: "committed_db m = Some d' \<longleftrightarrow> (\<exists>r. m = Inr (r, d'))"
  by (cases m) auto

fun command_step :: "(byte list \<Rightarrow> content_digest) \<Rightarrow> int \<Rightarrow> kernel_command \<Rightarrow> db \<Rightarrow> db option" where
  "command_step hash now (SubmitCandidate c) d = committed_db (submit_candidate_cmd hash now c d)"
| "command_step hash now (RecordValidation c) d = committed_db (record_validation_cmd hash now c d)"
| "command_step hash now (AttachCandidateCommit c) d = committed_db (attach_candidate_commit_cmd hash c d)"
| "command_step hash now (SubmitQualityReview c) d = committed_db (submit_quality_review_cmd hash c d)"
| "command_step hash now (SponsorTicket c) d = committed_db (sponsor_ticket_cmd hash now c d)"
| "command_step hash now (ReleaseByDecision c) d = committed_db (release_ticket_attempt_cmd hash now c d)"
| "command_step hash now (DecideCandidate c) d = committed_db (decide_candidate_cmd hash now c d)"
| "command_step hash now (RecordDelivery c) d = committed_db (record_delivery_cmd hash now c d)"
| "command_step hash now (SubmitTicketProposal c) d = committed_db (submit_ticket_proposal_cmd hash c d)"
| "command_step hash now (SponsorTicketRevision c) d = committed_db (sponsor_ticket_revision_cmd hash now c d)"
| "command_step hash now (ClaimSponsoredTicket c) d = committed_db (claim_sponsored_ticket_cmd hash now c d)"
| "command_step hash now (FailTicketAttempt c) d = committed_db (fail_ticket_attempt_cmd hash now c d)"
| "command_step hash now (RetryQualityAttempt c) d = committed_db (retry_quality_attempt_cmd hash now c d)"
| "command_step hash now (RetryEngineeringAttempt c) d = committed_db (retry_engineering_attempt_cmd hash c d)"
| "command_step hash now (ReleaseTicketAttempt c) d = committed_db (attempt_release_cmd hash now c d)"
| "command_step hash now (CompleteCampaignAtTarget c) d =
     committed_db (complete_campaign_at_delivery_target_cmd hash c d)"

fun command_identity :: "kernel_command \<Rightarrow> string \<times> string" where
  "command_identity (SubmitCandidate c) = (sc_principal c, sc_command_id c)"
| "command_identity (RecordValidation c) = (rv_principal c, rv_command_id c)"
| "command_identity (AttachCandidateCommit c) = (ac_principal c, ac_command_id c)"
| "command_identity (SubmitQualityReview c) = (qr_principal c, qr_command_id c)"
| "command_identity (SponsorTicket c) = (sd_principal (st_decision c), st_command_id c)"
| "command_identity (ReleaseByDecision c) = (rd_principal (rl_decision c), rl_command_id c)"
| "command_identity (DecideCandidate c) = (cd_principal (dc_request c), dc_command_id c)"
| "command_identity (RecordDelivery c) = (dv_principal c, dv_command_id c)"
| "command_identity (SubmitTicketProposal c) = (pp_principal c, pp_command_id c)"
| "command_identity (SponsorTicketRevision c) = (sr_principal c, sr_command_id c)"
| "command_identity (ClaimSponsoredTicket c) = (cl_principal c, cl_command_id c)"
| "command_identity (FailTicketAttempt c) = (fa_principal c, fa_command_id c)"
| "command_identity (RetryQualityAttempt c) = (rqa_principal c, rqa_command_id c)"
| "command_identity (RetryEngineeringAttempt c) = (rea_principal c, rea_command_id c)"
| "command_identity (ReleaseTicketAttempt c) = (rt_principal c, rt_command_id c)"
| "command_identity (CompleteCampaignAtTarget c) = (cp_principal c, cp_command_id c)"

fun command_operation :: "kernel_command \<Rightarrow> string" where
  "command_operation (SubmitCandidate c) = CANDIDATE_SUBMIT_OPERATION"
| "command_operation (RecordValidation c) = VALIDATION_RECORD_OPERATION"
| "command_operation (AttachCandidateCommit c) = CANDIDATE_COMMIT_ATTACH_OPERATION"
| "command_operation (SubmitQualityReview c) = REVIEW_SUBMIT_OPERATION"
| "command_operation (SponsorTicket c) = SPONSOR_OPERATION"
| "command_operation (ReleaseByDecision c) = RELEASE_OPERATION"
| "command_operation (DecideCandidate c) = CANDIDATE_DECIDE_OPERATION"
| "command_operation (RecordDelivery c) = DELIVERY_RECORD_OPERATION"
| "command_operation (SubmitTicketProposal c) = PROPOSE_OPERATION"
| "command_operation (SponsorTicketRevision c) = TICKET_SPONSOR_OPERATION"
| "command_operation (ClaimSponsoredTicket c) = CLAIM_OPERATION"
| "command_operation (FailTicketAttempt c) = FAIL_OPERATION"
| "command_operation (RetryQualityAttempt c) = QUALITY_RETRY_OPERATION"
| "command_operation (RetryEngineeringAttempt c) = ENGINEERING_RETRY_OPERATION"
| "command_operation (ReleaseTicketAttempt c) = ATTEMPT_RELEASE_OPERATION"
| "command_operation (CompleteCampaignAtTarget c) = COMPLETE_CAMPAIGN_OPERATION"

fun command_preimage :: "kernel_command \<Rightarrow> byte list" where
  "command_preimage (SubmitCandidate c) = submit_candidate_preimage c"
| "command_preimage (RecordValidation c) = validation_preimage c"
| "command_preimage (AttachCandidateCommit c) = commit_preimage c"
| "command_preimage (SubmitQualityReview c) = review_preimage c"
| "command_preimage (SponsorTicket c) = sponsorship_preimage c"
| "command_preimage (ReleaseByDecision c) = release_preimage c"
| "command_preimage (DecideCandidate c) = candidate_decision_preimage c"
| "command_preimage (RecordDelivery c) = delivery_preimage c"
| "command_preimage (SubmitTicketProposal c) = proposal_preimage c"
| "command_preimage (SponsorTicketRevision c) = sponsor_preimage c"
| "command_preimage (ClaimSponsoredTicket c) = claim_preimage c"
| "command_preimage (FailTicketAttempt c) = failure_preimage c"
| "command_preimage (RetryQualityAttempt c) = quality_retry_preimage c"
| "command_preimage (RetryEngineeringAttempt c) = engineering_retry_preimage c"
| "command_preimage (ReleaseTicketAttempt c) = attempt_release_preimage c"
| "command_preimage (CompleteCampaignAtTarget c) = completion_preimage c"

section \<open>Every command replays or commits\<close>

definition recorded :: "(byte list \<Rightarrow> content_digest) \<Rightarrow> kernel_command \<Rightarrow> db \<Rightarrow> bool" where
  "recorded hash c d \<longleftrightarrow> (\<exists>i a. audit_lookup d (fst (command_identity c)) (snd (command_identity c)) = Some (i, a)
     \<and> au_operation a = command_operation c \<and> au_command_fingerprint a = hash (command_preimage c))"

definition appends :: "(byte list \<Rightarrow> content_digest) \<Rightarrow> kernel_command \<Rightarrow> db \<Rightarrow> db \<Rightarrow> bool" where
  "appends hash c d d' \<longleftrightarrow> audit_commits d (fst (command_identity c)) (snd (command_identity c))
     (command_operation c) (hash (command_preimage c)) d'"

lemma command_step_replays_or_appends:
  assumes "command_step hash now c d = Some d'"
  shows "d' = d \<and> recorded hash c d \<or> appends hash c d d'"
proof (cases c)
  case (SubmitCandidate x)
  then show ?thesis using assms sc_command.replayed [where hash = hash and now = now] sc_command.appended [where hash = hash and now = now]
    by (fastforce simp: recorded_def appends_def)
next
  case (RecordValidation x)
  then show ?thesis using assms rv_command.replayed [where hash = hash and now = now] rv_command.appended [where hash = hash and now = now]
    by (fastforce simp: recorded_def appends_def)
next
  case (AttachCandidateCommit x)
  then show ?thesis using assms ac_command.replayed [where hash = hash] ac_command.appended [where hash = hash]
    by (fastforce simp: recorded_def appends_def)
next
  case (SubmitQualityReview x)
  then show ?thesis using assms qr_command.replayed [where hash = hash] qr_command.appended [where hash = hash]
    by (fastforce simp: recorded_def appends_def)
next
  case (SponsorTicket x)
  then show ?thesis using assms st_command.replayed [where hash = hash and now = now] st_command.appended [where hash = hash and now = now]
    by (fastforce simp: recorded_def appends_def)
next
  case (ReleaseByDecision x)
  then show ?thesis using assms rl_command.replayed [where hash = hash and now = now] rl_command.appended [where hash = hash and now = now]
    by (fastforce simp: recorded_def appends_def)
next
  case (DecideCandidate x)
  then show ?thesis using assms dc_command.replayed [where hash = hash and now = now] dc_command.appended [where hash = hash and now = now]
    by (fastforce simp: recorded_def appends_def)
next
  case (RecordDelivery x)
  then show ?thesis using assms dv_command.replayed [where hash = hash and now = now] dv_command.appended [where hash = hash and now = now]
    by (fastforce simp: recorded_def appends_def)
next
  case (SubmitTicketProposal x)
  then show ?thesis using assms pp_auth.replayed [where hash = hash] pp_auth.appended [where hash = hash]
    by (fastforce simp: recorded_def appends_def)
next
  case (SponsorTicketRevision x)
  then show ?thesis using assms sr_auth.replayed [where hash = hash and now = now] sr_auth.appended [where hash = hash and now = now]
    by (fastforce simp: recorded_def appends_def)
next
  case (ClaimSponsoredTicket x)
  then show ?thesis using assms cl_auth.replayed [where hash = hash and now = now] cl_auth.appended [where hash = hash and now = now]
    by (fastforce simp: recorded_def appends_def)
next
  case (FailTicketAttempt x)
  then show ?thesis using assms fa_auth.replayed [where hash = hash and now = now] fa_auth.appended [where hash = hash and now = now]
    by (fastforce simp: recorded_def appends_def)
next
  case (RetryQualityAttempt x)
  then show ?thesis using assms rqa_auth.replayed [where hash = hash and now = now] rqa_auth.appended [where hash = hash and now = now]
    by (fastforce simp: recorded_def appends_def)
next
  case (RetryEngineeringAttempt x)
  then show ?thesis using assms rea_auth.replayed [where hash = hash] rea_auth.appended [where hash = hash]
    by (fastforce simp: recorded_def appends_def)
next
  case (ReleaseTicketAttempt x)
  then show ?thesis using assms rt_auth.replayed [where hash = hash and now = now] rt_auth.appended [where hash = hash and now = now]
    by (fastforce simp: recorded_def appends_def)
next
  case (CompleteCampaignAtTarget x)
  then show ?thesis using assms
    by (auto simp: recorded_def appends_def elim!: complete_campaign_cmd_cases dest: complete_campaign_fresh_audit)
qed

lemma command_step_keeps:
  assumes "command_step hash now c d = Some d'" "evidence_inv d" "ticket_inv d" "stage_inv now d"
  shows "evidence_inv d' \<and> ticket_inv d' \<and> stage_inv now d' \<and> evidence_grows d d'"
proof (cases c)
  case (SubmitCandidate x)
  then show ?thesis using assms sc_staged.keeps_all [where hash = hash and now = now] sc_command.keeps [where hash = hash and now = now]
    by fastforce
next
  case (RecordValidation x)
  then show ?thesis using assms rv_staged.keeps_all [where hash = hash and now = now] rv_command.keeps [where hash = hash and now = now]
    by fastforce
next
  case (AttachCandidateCommit x)
  then show ?thesis using assms ac_staged.keeps_all [where hash = hash and now = now] ac_command.keeps [where hash = hash]
    by fastforce
next
  case (SubmitQualityReview x)
  then show ?thesis using assms qr_staged.keeps_all [where hash = hash and now = now] qr_command.keeps [where hash = hash]
    by fastforce
next
  case (SponsorTicket x)
  then show ?thesis using assms st_staged.keeps_all [where hash = hash and now = now] st_command.keeps [where hash = hash and now = now]
    by fastforce
next
  case (ReleaseByDecision x)
  then show ?thesis using assms rl_staged.keeps_all [where hash = hash and now = now] rl_command.keeps [where hash = hash and now = now]
    by fastforce
next
  case (DecideCandidate x)
  then show ?thesis using assms dc_staged.keeps_all [where hash = hash and now = now] dc_command.keeps [where hash = hash and now = now]
    by fastforce
next
  case (RecordDelivery x)
  then show ?thesis using assms dv_staged.keeps_all [where hash = hash and now = now] dv_command.keeps [where hash = hash and now = now]
    by fastforce
next
  case (SubmitTicketProposal x)
  then show ?thesis using assms pp_staged.keeps_all [where hash = hash and now = now] pp_auth.keeps [where hash = hash]
    by fastforce
next
  case (SponsorTicketRevision x)
  then show ?thesis using assms sr_staged.keeps_all [where hash = hash and now = now] sr_auth.keeps [where hash = hash and now = now]
    by fastforce
next
  case (ClaimSponsoredTicket x)
  then show ?thesis using assms cl_staged.keeps_all [where hash = hash and now = now] cl_auth.keeps [where hash = hash and now = now]
    by fastforce
next
  case (FailTicketAttempt x)
  then show ?thesis using assms fa_staged.keeps_all [where hash = hash and now = now] fa_auth.keeps [where hash = hash and now = now]
    by fastforce
next
  case (RetryQualityAttempt x)
  then show ?thesis using assms rqa_staged.keeps_all [where hash = hash and now = now] rqa_auth.keeps [where hash = hash and now = now]
    by fastforce
next
  case (RetryEngineeringAttempt x)
  then show ?thesis using assms rea_staged.keeps_all [where hash = hash and now = now] rea_auth.keeps [where hash = hash]
    by fastforce
next
  case (ReleaseTicketAttempt x)
  then show ?thesis using assms rt_staged.keeps_all [where hash = hash and now = now] rt_auth.keeps [where hash = hash and now = now]
    by fastforce
next
  case (CompleteCampaignAtTarget x)
  then obtain r where x: "complete_campaign_at_delivery_target_cmd hash x d = Inr (r, d')" using assms(1) by auto
  show ?thesis
    using complete_campaign_cmd_keeps [OF x assms(2,3)]
      complete_campaign_cmd_same [OF x evidence_inv_tables [OF assms(2)]] stage_inv_same [OF assms(4)] by simp
qed

lemma recorded_extends: "recorded hash c d \<Longrightarrow> audit_extends d d' \<Longrightarrow> recorded hash c d'"
  by (fastforce simp: recorded_def audit_extends_def)

lemma appends_recorded: "appends hash c d d' \<Longrightarrow> recorded hash c d' \<and> audit_extends d d'"
  using audit_commits_lookup unfolding appends_def recorded_def by blast

lemma appends_new: "appends hash c d d' \<Longrightarrow>
    audit_lookup d (fst (command_identity c)) (snd (command_identity c)) = None"
  by (auto simp: appends_def audit_commits_def)

lemma command_step_extends: "command_step hash now c d = Some d' \<Longrightarrow> audit_extends d d'"
  using command_step_replays_or_appends appends_recorded by fastforce

lemma command_step_recorded: "command_step hash now c d = Some d' \<Longrightarrow> recorded hash c d'"
  using command_step_replays_or_appends appends_recorded by blast

lemma command_step_log:
  "command_step hash now c d = Some d' \<Longrightarrow> tables_ok d \<Longrightarrow> keeps_rows (audit_log d) (audit_log d')"
  using command_step_replays_or_appends [of hash now c d d']
  by (auto simp: appends_def audit_commits_def tables_ok_def)

section \<open>The transition system\<close>

record kernel_state =
  clock :: int
  store :: db

definition protocol_same :: "db \<Rightarrow> db \<Rightarrow> bool" where
  "protocol_same d d' \<longleftrightarrow> evidence_same d d' \<and> tickets_same d d' \<and> ticket_attempts d' = ticket_attempts d"

inductive kernel_step :: "(byte list \<Rightarrow> content_digest) \<Rightarrow> kernel_state \<Rightarrow> kernel_state \<Rightarrow> bool" for hash where
  command: "clock s \<le> now \<Longrightarrow> command_step hash now c (store s) = Some d' \<Longrightarrow>
     kernel_step hash s \<lparr>clock = now, store = d'\<rparr>"
| other_store: "clock s \<le> now \<Longrightarrow> protocol_same (store s) d' \<Longrightarrow> tables_ok d' \<Longrightarrow>
     keeps_rows (audit_log (store s)) (audit_log d') \<Longrightarrow> audit_extends (store s) d' \<Longrightarrow>
     kernel_step hash s \<lparr>clock = now, store = d'\<rparr>"

inductive_cases kernel_stepE: "kernel_step hash s s'"

inductive kernel_run :: "(byte list \<Rightarrow> content_digest) \<Rightarrow> kernel_state \<Rightarrow> kernel_state \<Rightarrow> bool" for hash where
  stop: "kernel_run hash s s"
| go: "kernel_run hash s s' \<Longrightarrow> kernel_step hash s' s'' \<Longrightarrow> kernel_run hash s s''"

definition reachable :: "(byte list \<Rightarrow> content_digest) \<Rightarrow> kernel_state \<Rightarrow> bool" where
  "reachable hash s \<longleftrightarrow> (\<exists>t. kernel_run hash \<lparr>clock = t, store = empty_db\<rparr> s)"

definition kernel_inv :: "kernel_state \<Rightarrow> bool" where
  "kernel_inv s \<longleftrightarrow> evidence_inv (store s) \<and> ticket_inv (store s) \<and> stage_inv (clock s) (store s)"

text \<open>What every step grows: evidence, the audit log, and the clock.\<close>

definition kernel_grows :: "kernel_state \<Rightarrow> kernel_state \<Rightarrow> bool" where
  "kernel_grows s s' \<longleftrightarrow> evidence_grows (store s) (store s') \<and> audit_extends (store s) (store s')
     \<and> keeps_rows (audit_log (store s)) (audit_log (store s')) \<and> clock s \<le> clock s'"

lemma candidate_evolves_trans: "candidate_evolves a b \<Longrightarrow> candidate_evolves b c \<Longrightarrow> candidate_evolves a c"
  unfolding candidate_evolves_def by (cases a; cases b; cases c) auto

lemma keeps_rows_trans: "keeps_rows a b \<Longrightarrow> keeps_rows b c \<Longrightarrow> keeps_rows a c"
  by (simp add: keeps_rows_def)

lemma evidence_grows_trans:
  assumes "evidence_grows a b" "evidence_grows b c"
  shows "evidence_grows a c"
  unfolding evidence_grows_def
proof (intro conjI allI impI)
  fix i x
  assume "get_row (candidates a) i = Some x"
  then obtain y where "get_row (candidates b) i = Some y" "candidate_evolves x y"
    using assms(1) unfolding evidence_grows_def by blast
  moreover then obtain z where "get_row (candidates c) i = Some z" "candidate_evolves y z"
    using assms(2) unfolding evidence_grows_def by blast
  ultimately show "\<exists>z. get_row (candidates c) i = Some z \<and> candidate_evolves x z"
    using candidate_evolves_trans by blast
qed (use assms keeps_rows_trans in \<open>auto simp: evidence_grows_def\<close>)

lemma kernel_grows_refl [simp]: "kernel_grows s s"
  by (simp add: kernel_grows_def)

lemma kernel_grows_trans: "kernel_grows a b \<Longrightarrow> kernel_grows b c \<Longrightarrow> kernel_grows a c"
  using evidence_grows_trans audit_extends_trans keeps_rows_trans unfolding kernel_grows_def by fastforce

lemma kernel_step_inv:
  assumes "kernel_step hash s s'" "kernel_inv s"
  shows "kernel_inv s' \<and> kernel_grows s s'"
  using assms(1)
proof (cases rule: kernel_step.cases)
  case (command now c d')
  have "stage_inv now (store s)" using assms(2) stage_inv_mono [OF _ command(2)] by (simp add: kernel_inv_def)
  then show ?thesis
    using command_step_keeps [OF command(3)] command_step_extends [OF command(3)] command_step_log [OF command(3)]
      assms(2) command(1,2) by (simp add: kernel_inv_def kernel_grows_def evidence_inv_tables)
next
  case (other_store now d')
  have "stage_inv now (store s)" using assms(2) stage_inv_mono [OF _ other_store(2)] by (simp add: kernel_inv_def)
  then have "stage_inv now d'"
    by (rule stage_inv_same) (use other_store(3) in \<open>simp_all add: protocol_same_def evidence_same_def\<close>)
  moreover have "evidence_grows (store s) d' \<and> evidence_inv d'"
    using evidence_same_inv [of "store s", OF _ other_store(4)] other_store(3) assms(2) by (simp add: protocol_same_def kernel_inv_def)
  moreover have "ticket_inv d'"
    using tickets_same_inv [of "store s", OF _ other_store(4)] other_store(3) assms(2) by (simp add: protocol_same_def kernel_inv_def)
  ultimately show ?thesis using other_store(1,2,5,6) by (simp add: kernel_inv_def kernel_grows_def)
qed

lemma kernel_run_inv:
  "kernel_run hash s s' \<Longrightarrow> kernel_inv s \<Longrightarrow> kernel_inv s' \<and> kernel_grows s s'"
  by (induction rule: kernel_run.induct) (auto dest: kernel_step_inv intro: kernel_grows_trans)

lemma kernel_run_trans: "kernel_run hash b c \<Longrightarrow> kernel_run hash a b \<Longrightarrow> kernel_run hash a c"
  by (induction rule: kernel_run.induct) (auto intro: kernel_run.go)

lemma get_empty [simp]: "get_row empty_table i = None"
  by (simp add: get_row_def empty_table_def)

lemma kernel_inv_empty: "kernel_inv \<lparr>clock = t, store = empty_db\<rparr>"
  by (simp add: kernel_inv_def evidence_inv_def ticket_inv_def stage_inv_def tables_ok_def evidence_chain_def
      evidence_keys_def unique_key_def empty_db_def)

lemma reachable_inv: "reachable hash s \<Longrightarrow> kernel_inv s"
  using kernel_run_inv kernel_inv_empty unfolding reachable_def by blast

lemma reachable_run: "reachable hash s \<Longrightarrow> kernel_run hash s s' \<Longrightarrow> reachable hash s' \<and> kernel_grows s s'"
  using kernel_run_trans kernel_run_inv reachable_inv unfolding reachable_def by blast

lemma reachableD:
  assumes "reachable hash s"
  shows "evidence_inv (store s)" "ticket_inv (store s)" "stage_inv (clock s) (store s)" "tables_ok (store s)"
  using reachable_inv [OF assms] by (simp_all add: kernel_inv_def evidence_inv_tables)

end
