(* ===== verification/Scheduler_Run.thy ===== *)
theory Scheduler_Run
  imports Kernel_Run
begin

text \<open>
  The scheduler on reachable states.  A status read from one snapshot of a reachable state is consistent:
  its downstream head has an action, its ready head exists exactly when there is ready work, and its
  counters are the exact counts.  So an action of the scheduler is about the rows it names, and applying it
  to the same snapshot succeeds.
\<close>

section \<open>What a status says\<close>

lemma u32_exact: "u32_from_sql v f = Inr w \<Longrightarrow> uint w = v"
  by (auto simp: u32_from_sql_def unsigned_of_int take_bit_int_eq_self_iff split: if_splits)

lemma ticket_buffer_statusE:
  assumes "ticket_buffer_status_of s now i = Inr st"
  obtains campaign application where
    "get_row (campaigns (sn_campaign s)) i = Some campaign"
    "get_row (application_revisions (sn_campaign s)) (ca_application_revision_id campaign) = Some application"
    "0 < ca_application_revision_id campaign"
    "bs_campaign_id st = i" "0 \<le> ca_revision campaign" "bs_campaign_revision st = word_of_int (ca_revision campaign)"
    "bs_campaign_is_running st \<longleftrightarrow> ca_lifecycle campaign = CAMPAIGN_RUNNING"
    "bs_campaign_deadline_open st \<longleftrightarrow> now < ca_deadline campaign"
    "bs_campaign_cost_known st \<longleftrightarrow> ca_cost_state campaign = COST_KNOWN"
    "bs_paid_session_active st \<longleftrightarrow> paid_session_active (sn_sessions s)"
    "uint (bs_delivery_target st) = ca_delivery_target campaign"
    "uint (bs_delivered_attempt_count st) = delivered_attempt_count (sn_delivered s) i"
    "uint (bs_ready_count st) =
       application_revision_ticket_count (sn_ready s) (ca_application_revision_id campaign) TICKET_SPONSORED"
    "uint (bs_proposed_count st) =
       application_revision_ticket_count (sn_proposed s) (ca_application_revision_id campaign) TICKET_PROPOSED"
    "uint (bs_in_flight_count st) =
       application_revision_ticket_count (sn_in_flight s) (ca_application_revision_id campaign) TICKET_IN_FLIGHT"
    "uint (bs_downstream_attempt_count st) =
       int (count_rows (is_downstream (sn_downstream s) (ca_application_revision_id campaign)) (ticket_attempts (sn_downstream s)))"
    "(case (downstream_head (sn_downstream s) (ca_application_revision_id campaign),
         Option.bind (downstream_head (sn_downstream s) (ca_application_revision_id campaign))
           (\<lambda>(i, _). newest_candidate (sn_downstream s) i)) of
        (Some h, Some c) \<Rightarrow> downstream_action_of (sn_downstream s) h c
      | _ \<Rightarrow> Inr None) = Inr (bs_downstream_action st)"
    "case oldest_sponsored (sn_oldest s) (ca_application_revision_id campaign) of
        None \<Rightarrow> bs_oldest_sponsored_ticket st = None
      | Some (k, tr) \<Rightarrow> 0 < k \<and> 0 \<le> tr_revision tr \<and> bs_oldest_sponsored_ticket st =
          Some \<lparr>sx_ticket_revision_id = k, sx_revision = word_of_int (tr_revision tr)\<rparr>"
proof -
  show thesis using assms unfolding ticket_buffer_status_of_def
    apply (clarsimp simp: Let_def store_revision_from_sql_def identifier_new_def split del: if_split)
    apply (rule that)
    apply assumption
    apply assumption
    apply (auto simp: identifier_new_def dest: u32_exact split: if_splits option.splits)
    done
qed

lemma newest_of_staged:
  assumes t: "table_ok (candidates d)" and staged: "attempt_staged (candidates d) j s"
  shows "case newest_candidate d j of
      None \<Rightarrow> s = ATTEMPT_ENGINEERING \<or> s = ATTEMPT_FAILED \<or> s = ATTEMPT_CANCELLED
    | Some (i, c) \<Rightarrow> stage_fits s (cr_lifecycle c)"
  using staged unfolding attempt_staged_def
proof
  assume "\<exists>i c. is_newest (candidates d) j i c \<and> stage_fits s (cr_lifecycle c)"
  then obtain i c where n: "is_newest (candidates d) j i c" and fits: "stage_fits s (cr_lifecycle c)" by blast
  have "newest_candidate d j = Some (i, c)"
    unfolding newest_candidate_def
    by (rule first_row_unique [OF t]) (use n in \<open>fastforce simp: is_newest_def\<close>)+
  then show ?thesis using fits by simp
next
  assume none: "has_no_candidate (candidates d) j \<and> (s = ATTEMPT_ENGINEERING \<or> s = ATTEMPT_FAILED \<or> s = ATTEMPT_CANCELLED)"
  have "newest_candidate d j = None"
    using none by (simp add: newest_candidate_def first_row_None [OF t] has_no_candidate_def)
  then show ?thesis using none by simp
qed

section \<open>Heads agree with counts\<close>

lemma downstream_head_None:
  assumes "table_ok (ticket_attempts d)"
  shows "downstream_head d i = None \<longleftrightarrow> count_rows (is_downstream d i) (ticket_attempts d) = 0"
  using assms by (simp add: downstream_head_def first_row_None count_rows_0)

lemma oldest_sponsored_None:
  assumes "table_ok (ticket_revisions d)"
  shows "oldest_sponsored d i = None \<longleftrightarrow> application_revision_ticket_count d i TICKET_SPONSORED = 0"
  using assms by (simp add: oldest_sponsored_def first_row_None application_revision_ticket_count_def count_rows_0)

text \<open>Every pair of a downstream stage and a fitting candidate has an action.\<close>

lemma downstream_stage_has_action:
  assumes "stage_fits s l" "ATTEMPT_HARD_VALIDATION \<le> s" "s \<le> ATTEMPT_REWORK_QUALITY"
  shows "from_attempt_and_candidate s l committed reviewed \<noteq> None"
proof -
  have "s \<in> {1, 2, 3, 4, 5, 6}" using assms(2,3) by auto
  then show ?thesis using assms(1) by (auto simp: from_attempt_and_candidate_def stage_fits_def)
qed

lemma downstream_action_ok:
  assumes tabs: "tables_ok d" and stages: "stage_inv t d" and head: "downstream_head d i = Some (j, a)"
    and act: "(case (downstream_head d i, Option.bind (downstream_head d i) (\<lambda>(i, _). newest_candidate d i)) of
        (Some h, Some c) \<Rightarrow> downstream_action_of d h c | _ \<Rightarrow> Inr None) = Inr action"
  obtains k c stage x where "newest_candidate d j = Some (k, c)" "action = Some x" "da_ticket_attempt_id x = j"
    "da_candidate_id x = k" "da_stage x = stage" "from_attempt_and_candidate (ta_stage a) (cr_lifecycle c)
       (cr_commit c \<noteq> None) (candidate_review d k \<noteq> None) = Some stage"
    "get_row (ticket_attempts d) j = Some a" "is_downstream d i j a"
proof -
  have t: "table_ok (ticket_attempts d)" "table_ok (candidates d)" using tabs by (simp_all add: tables_ok_def)
  note h = first_row_Some(1,2) [OF t(1) head [unfolded downstream_head_def]]
  have down: "ATTEMPT_HARD_VALIDATION \<le> ta_stage a" "ta_stage a \<le> ATTEMPT_REWORK_QUALITY"
    using h(2) by (simp_all add: is_downstream_def)
  have "attempt_staged (candidates d) j (ta_stage a)" using stages h(1) by (rule stage_inv_attempt)
  from newest_of_staged [OF t(2) this] down obtain k c where c: "newest_candidate d j = Some (k, c)"
      "stage_fits (ta_stage a) (cr_lifecycle c)"
    by (auto split: option.splits)
  from downstream_stage_has_action [OF this(2) down] obtain stage where stage:
      "from_attempt_and_candidate (ta_stage a) (cr_lifecycle c) (cr_commit c \<noteq> None) (candidate_review d k \<noteq> None) = Some stage"
    by (auto simp del: not_None_eq)
  have "downstream_action_of d (j, a) (k, c) = Inr action" using act head c(1) by simp
  then obtain x where "action = Some x" "da_ticket_attempt_id x = j" "da_candidate_id x = k" "da_stage x = stage"
    using stage h(2)
    by (auto simp: downstream_action_of_def is_downstream_def identifier_new_def simp del: not_None_eq split: option.splits if_splits)
  then show thesis using that c(1) stage h by blast
qed

lemma word_0_iff_uint: "w = 0 \<longleftrightarrow> uint w = 0" for w :: "'a::len word"
  by (metis uint_0_iff)

lemma status_heads_agree:
  assumes tabs: "tables_ok d" and stages: "stage_inv t d"
    and st: "ticket_buffer_status_of (one_snapshot d) now i = Inr st"
  shows "bs_downstream_attempt_count st = 0 \<longleftrightarrow> bs_downstream_action st = None"
    and "bs_ready_count st = 0 \<longleftrightarrow> bs_oldest_sponsored_ticket st = None"
proof -
  have t: "table_ok (ticket_attempts d)" "table_ok (ticket_revisions d)" using tabs by (simp_all add: tables_ok_def)
  show "bs_downstream_attempt_count st = 0 \<longleftrightarrow> bs_downstream_action st = None"
    using st
  proof (rule ticket_buffer_statusE)
    fix campaign
    let ?r = "ca_application_revision_id campaign" and ?d = "sn_downstream (one_snapshot d)"
    assume n: "uint (bs_downstream_attempt_count st) = int (count_rows (is_downstream ?d ?r) (ticket_attempts ?d))"
      and act: "(case (downstream_head ?d ?r, Option.bind (downstream_head ?d ?r) (\<lambda>(i, _). newest_candidate ?d i)) of
        (Some h, Some c) \<Rightarrow> downstream_action_of ?d h c | _ \<Rightarrow> Inr None) = Inr (bs_downstream_action st)"
    have d: "?d = d" by (simp add: one_snapshot_def)
    have n0: "bs_downstream_attempt_count st = 0 \<longleftrightarrow> downstream_head d ?r = None"
      using n unfolding d word_0_iff_uint downstream_head_None [OF t(1)] by simp
    show ?thesis
    proof (cases "downstream_head d ?r")
      case None
      then show ?thesis using n0 act by (simp add: d)
    next
      case (Some h)
      obtain j a where "h = (j, a)" by (cases h)
      then obtain x where "bs_downstream_action st = Some x"
        using downstream_action_ok [OF tabs stages, of ?r j a "bs_downstream_action st"] act [unfolded d] Some by metis
      then show ?thesis using n0 Some by simp
    qed
  qed
  show "bs_ready_count st = 0 \<longleftrightarrow> bs_oldest_sponsored_ticket st = None"
    using st
  proof (rule ticket_buffer_statusE)
    fix campaign
    let ?r = "ca_application_revision_id campaign"
    assume n: "uint (bs_ready_count st) = application_revision_ticket_count (sn_ready (one_snapshot d)) ?r TICKET_SPONSORED"
      and o: "case oldest_sponsored (sn_oldest (one_snapshot d)) ?r of
        None \<Rightarrow> bs_oldest_sponsored_ticket st = None
      | Some (k, tr) \<Rightarrow> 0 < k \<and> 0 \<le> tr_revision tr \<and> bs_oldest_sponsored_ticket st =
          Some \<lparr>sx_ticket_revision_id = k, sx_revision = word_of_int (tr_revision tr)\<rparr>"
    have "bs_ready_count st = 0 \<longleftrightarrow> oldest_sponsored d ?r = None"
      using n by (simp add: word_0_iff_uint oldest_sponsored_None [OF t(2)] one_snapshot_def)
    then show ?thesis using o by (auto simp: one_snapshot_def split: option.splits)
  qed
qed

section \<open>What the claim and the retries read back\<close>

definition ticket_lock :: "int \<Rightarrow> ticket_revision_row \<Rightarrow> ticket_state \<Rightarrow> ticket_revision_locked" where
  "ticket_lock i tr state = \<lparr>tl_ticket_id = tr_ticket_id tr, tl_ticket_revision_id = i,
     tl_application_revision_id = tr_application_revision_id tr, tl_state = state,
     tl_revision = word_of_int (tr_revision tr),
     tl_expected_observation_artifact_id = tr_expected_observation_artifact_id tr,
     tl_discovery_observation_artifact_id = tr_discovery_observation_artifact_id tr\<rparr>"

lemma ticket_inv_linked:
  assumes "ticket_inv d" "get_row (ticket_revisions d) i = Some tr"
  obtains t where "get_row (tickets d) (tr_ticket_id tr) = Some t" "ti_current_ticket_revision_id t = i"
    "ti_lifecycle t = tr_lifecycle tr" "ti_revision t = tr_revision tr" "0 \<le> tr_revision tr" "0 < tr_ticket_id tr"
    "0 < tr_application_revision_id tr" "0 < tr_expected_observation_artifact_id tr"
    "0 < tr_discovery_observation_artifact_id tr"
proof -
  have "ticket_linked d i tr" using assms by (simp add: ticket_inv_def)
  moreover then have "0 < tr_ticket_id tr"
    using tbl.get_pos ticket_inv_tables [OF assms(1)] by (fastforce simp: ticket_linked_def tables_ok_def)
  ultimately show thesis using that by (auto simp: ticket_linked_def)
qed

lemma identifier_new_pos [simp]: "0 < i \<Longrightarrow> identifier_new k i = Inr i"
  by (simp add: identifier_new_def)

lemma ticket_locked_of_linked:
  assumes "ticket_inv d" "get_row (ticket_revisions d) i = Some tr" "ticket_state_from_sql (tr_lifecycle tr) = Inr state"
    and "get_row (tickets d) (tr_ticket_id tr) = Some t"
  shows "ticket_locked_of i tr t = Inr (ticket_lock i tr state)"
proof -
  obtain t' where "get_row (tickets d) (tr_ticket_id tr) = Some t'" "ti_current_ticket_revision_id t' = i"
    "ti_lifecycle t' = tr_lifecycle tr" "ti_revision t' = tr_revision tr" "0 \<le> tr_revision tr" "0 < tr_ticket_id tr"
    "0 < tr_application_revision_id tr" "0 < tr_expected_observation_artifact_id tr"
    "0 < tr_discovery_observation_artifact_id tr"
    by (rule ticket_inv_linked [OF assms(1,2)])
  then show ?thesis using assms(3,4)
    by (simp add: ticket_locked_of_def ticket_lock_def store_contract_def store_revision_from_sql_def revision_of_sql_def)
qed

lemma store_lock_linked:
  assumes "ticket_inv d" "get_row (ticket_revisions d) i = Some tr" "ticket_state_from_sql (tr_lifecycle tr) = Inr state"
  shows "store_lock_ticket_revision d i = Inr (ticket_lock i tr state)"
proof -
  obtain t where t: "get_row (tickets d) (tr_ticket_id tr) = Some t" by (rule ticket_inv_linked [OF assms(1,2)])
  show ?thesis using ticket_locked_of_linked [OF assms t] assms(2) t by (simp add: store_lock_ticket_revision_def)
qed

lemma lock_attempt_linked:
  assumes "ticket_inv d" "get_row (ticket_attempts d) i = Some a" "get_row (ticket_revisions d) (ta_ticket_revision_id a) = Some tr"
    and "ticket_state_from_sql (tr_lifecycle tr) = Inr state" "0 \<le> ta_revision a"
  shows "lock_ticket_attempt d i = Inr \<lparr>al_ticket_id = tr_ticket_id tr, al_ticket_revision_id = ta_ticket_revision_id a,
     al_stage = ta_stage a, al_released = (ta_released a \<noteq> None), al_revision = word_of_int (ta_revision a),
     al_ticket_revision = word_of_int (tr_revision tr), al_ticket_state = state,
     al_ticket = ticket_lock (ta_ticket_revision_id a) tr state\<rparr>"
proof -
  obtain t where t: "get_row (tickets d) (tr_ticket_id tr) = Some t" by (rule ticket_inv_linked [OF assms(1,3)])
  have "0 < ta_ticket_revision_id a"
    using tbl.get_pos [OF _ assms(3)] ticket_inv_tables [OF assms(1)] by (simp add: tables_ok_def)
  then show ?thesis
    using assms(2,3,5) t ticket_locked_of_linked [OF assms(1,3,4) t]
    by (simp add: lock_ticket_attempt_def store_contract_def store_revision_from_sql_def revision_of_sql_def ticket_lock_def)
qed

lemma live_reproducer_kept:
  assumes "ticket_inv d" "get_row (ticket_revisions d) i = Some tr" "tr_lifecycle tr \<noteq> TICKET_BLOCKED"
  shows "live_reproducer_free d i state"
proof -
  have t: "table_ok (ticket_revisions d)" and u: "unique_key (get_row (ticket_revisions d)) live_reproducer_key"
    using assms(1) by (simp_all add: ticket_inv_def tables_ok_def)
  have "j = i" if "get_row (ticket_revisions d) j = Some r" "tr_application_revision_id r = tr_application_revision_id tr"
      "tr_reproducer_artifact_id r = tr_reproducer_artifact_id tr" "tr_lifecycle r \<noteq> TICKET_BLOCKED" for j r
    using unique_keyD [OF u that(1) assms(2)] that(2-4) assms(3) by (simp add: live_reproducer_key_def)
  then show ?thesis using assms(2) by (auto simp: live_reproducer_free_def tbl.ex_get t)
qed

lemma revision_next_below:
  assumes "uint r < I64_MAX"
  shows "\<exists>n. revision_next r = Inr n \<and> uint n \<le> I64_MAX"
proof -
  have "checked_add r 1 \<noteq> None" using assms by (simp add: checked_add_None I64_MAX_def)
  then obtain n where n: "checked_add r 1 = Some n" by blast
  then have "uint n = uint r + 1" using n by (simp add: checked_add_uint)
  then show ?thesis using assms n by (simp add: revision_next_def)
qed

lemma insert_ticket_audit_fresh:
  assumes "uint r \<le> I64_MAX" "audit_log d' = audit_log d" "audit_lookup d p c = None"
  shows "\<exists>i e. insert_ticket_audit d' p c op fp k sub r = Inr (i, e)"
  using assms audit_lookup_cong [OF assms(2), of p c]
  by (simp add: insert_ticket_audit_def insert_audit_entry_def sql_of_revision_def)

lemma claim_transition_succeeds:
  assumes inv: "ticket_inv d" and tr: "get_row (ticket_revisions d) k = Some tr" "tr_lifecycle tr = TICKET_SPONSORED"
    and c: "cl_ticket_revision_id c = k" and nxt: "uint nxt \<le> I64_MAX"
  shows "\<exists>x d'. claim_transition now c (ticket_lock k tr TicketSponsored) nxt cl d = Inr (x, d') \<and> audit_log d' = audit_log d"
proof -
  have free: "live_reproducer_free d' k state" if "ticket_revisions d' = ticket_revisions d" for d' state
    using live_reproducer_kept [OF inv tr(1)] tr(2) live_reproducer_free_cong [OF that] by simp
  have pos: "0 < next_id (ticket_attempts d)"
    using ticket_inv_tables [OF inv] by (simp add: tables_ok_def tbl.fresh_pos)
  have "\<not> unreleased_attempt_exists d k" using inv tr by (auto simp: ticket_inv_def owned_state_def)
  then show ?thesis
    using nxt c free pos
    by (cases cl) (simp_all add: claim_transition_def Let_def update_requalification_and_ticket_state_def
        revision_to_sql_def sql_of_revision_def ticket_lock_def store_contract_def)
qed

lemma classify_succeeds:
  assumes "\<And>i. i \<in> {tl_expected_observation_artifact_id t, tl_discovery_observation_artifact_id t,
      first_actual_observation_artifact_id v, second_actual_observation_artifact_id v} \<Longrightarrow> is_ok (store_artifact_digest d i)"
  shows "\<exists>cl. store_classify_requalification d t v = Inr cl"
proof -
  obtain a b c e where "store_artifact_digest d (tl_expected_observation_artifact_id t) = Inr a"
    "store_artifact_digest d (tl_discovery_observation_artifact_id t) = Inr b"
    "store_artifact_digest d (first_actual_observation_artifact_id v) = Inr c"
    "store_artifact_digest d (second_actual_observation_artifact_id v) = Inr e"
    using assms unfolding is_ok_iff by (metis insertI1 insertI2)
  then show ?thesis by (simp add: store_classify_requalification_def)
qed

end
