(* ===== verification/Attempt_Progress.thy ===== *)
theory Attempt_Progress
  imports Kernel_Run
begin

text \<open>
  An attempt cannot cycle.  \<open>attempt_budget\<close> counts what is left to it: one rework, one Quality retry, one
  Engineering retry, and the stages before the end.  Every step of the kernel that moves the stage of an
  attempt spends some of it, so an attempt moves at most thirty-nine times.
\<close>

section \<open>The budget\<close>

definition stage_rank :: "int \<Rightarrow> nat" where
  "stage_rank s =
     (if s = ATTEMPT_ENGINEERING then 9 else if s = ATTEMPT_HARD_VALIDATION then 8
      else if s = ATTEMPT_QUALITY then 7 else if s = ATTEMPT_REWORK_ENGINEERING then 6
      else if s = ATTEMPT_REWORK_VALIDATION then 5 else if s = ATTEMPT_REWORK_QUALITY then 4
      else if s = ATTEMPT_AWAITING_ARCHITECT then 3 else if s = ATTEMPT_FAILED then 1 else 0)"

definition quality_retried :: "db \<Rightarrow> int \<Rightarrow> bool" where
  "quality_retried d j = prior_retry_exists d QUALITY_RETRY_OPERATION QUALITY_RETRY_SUBJECT j"

definition engineering_retried :: "db \<Rightarrow> int \<Rightarrow> bool" where
  "engineering_retried d j = prior_retry_exists d ENGINEERING_RETRY_OPERATION ENGINEERING_RETRY_SUBJECT j"

definition attempt_budget :: "db \<Rightarrow> int \<Rightarrow> ticket_attempt_row \<Rightarrow> nat" where
  "attempt_budget d j a =
     (if ta_rework_ordinal a = 0 then 10 else 0) + (if quality_retried d j then 0 else 10)
     + (if engineering_retried d j then 0 else 10) + stage_rank (ta_stage a)"

lemma attempt_budget_bound: "attempt_budget d j a \<le> 39"
  by (simp add: attempt_budget_def stage_rank_def)

text \<open>One stage move: forward, into rework, or a retry that is recorded.\<close>

definition advances :: "db \<Rightarrow> db \<Rightarrow> int \<Rightarrow> ticket_attempt_row \<Rightarrow> ticket_attempt_row \<Rightarrow> bool" where
  "advances d d' j a a' \<longleftrightarrow>
     ta_rework_ordinal a' = ta_rework_ordinal a \<and>
       (ta_stage a' = ta_stage a \<or> stage_rank (ta_stage a') < stage_rank (ta_stage a)
        \<or> \<not> quality_retried d j \<and> quality_retried d' j \<or> \<not> engineering_retried d j \<and> engineering_retried d' j)
     \<or> ta_rework_ordinal a = 0 \<and> ta_rework_ordinal a' = 1"

definition all_advance :: "db \<Rightarrow> db \<Rightarrow> bool" where
  "all_advance d d' \<longleftrightarrow> (\<forall>j a. get_row (ticket_attempts d) j = Some a \<longrightarrow>
     (\<exists>a'. get_row (ticket_attempts d') j = Some a' \<and> advances d d' j a a'))"

lemma advances_refl [simp]: "advances d d' j a a"
  by (simp add: advances_def)

lemma all_advance_update:
  assumes "ticket_attempts d' = update_row j f (ticket_attempts d)"
    and "\<And>a. get_row (ticket_attempts d) j = Some a \<Longrightarrow> advances d d' j a (f a)"
  shows "all_advance d d'"
  using assms by (auto simp: all_advance_def tbl.get_upd)

lemma all_advance_same: "ticket_attempts d' = ticket_attempts d \<Longrightarrow> all_advance d d'"
  by (simp add: all_advance_def)

lemma prior_retry_keeps:
  "tables_ok d \<Longrightarrow> tables_ok d' \<Longrightarrow> keeps_rows (audit_log d) (audit_log d') \<Longrightarrow>
     prior_retry_exists d op k j \<Longrightarrow> prior_retry_exists d' op k j"
  using exists_row_keeps by (fastforce simp: prior_retry_exists_def tables_ok_def)

lemma advances_budget:
  assumes "tables_ok d" "tables_ok d'" "keeps_rows (audit_log d) (audit_log d')" "advances d d' j a a'"
  shows "attempt_budget d' j a' \<le> attempt_budget d j a"
    and "ta_stage a' \<noteq> ta_stage a \<Longrightarrow> attempt_budget d' j a' < attempt_budget d j a"
proof -
  have q: "quality_retried d j \<longrightarrow> quality_retried d' j" and e: "engineering_retried d j \<longrightarrow> engineering_retried d' j"
    using prior_retry_keeps [OF assms(1-3)] by (simp_all add: quality_retried_def engineering_retried_def)
  have "stage_rank s \<le> 9" for s by (simp add: stage_rank_def)
  from this [of "ta_stage a'"]
  show "attempt_budget d' j a' \<le> attempt_budget d j a"
    and "ta_stage a' \<noteq> ta_stage a \<Longrightarrow> attempt_budget d' j a' < attempt_budget d j a"
    using q e assms(4) unfolding attempt_budget_def advances_def by (auto split: if_splits)
qed

section \<open>Every command advances\<close>

lemma submit_candidate_fresh_advances:
  assumes "submit_candidate_fresh fp now c d = Inr (r, d')"
  shows "all_advance d d'"
  using assms
proof (rule submit_candidate_freshE)
  fix attempt :: attempt_view and ra
  let ?f = "\<lambda>a. a\<lparr>ta_candidate_ordinal := at_candidate_ordinal attempt + 1,
       ta_stage := (if at_stage attempt = ATTEMPT_ENGINEERING then ATTEMPT_HARD_VALIDATION
                             else ATTEMPT_REWORK_VALIDATION), ta_revision := ra\<rparr>"
  assume at: "lock_candidate_attempt d (sc_ticket_attempt_id c) = Inr attempt"
      "at_stage attempt = ATTEMPT_ENGINEERING \<or> at_stage attempt = ATTEMPT_REWORK_ENGINEERING"
    and ta: "ticket_attempts d' = update_row (sc_ticket_attempt_id c) ?f (ticket_attempts d)"
  show ?thesis
    by (rule all_advance_update [OF ta])
      (use at(2) lock_candidate_attempt_stage(2) [OF at(1)] in \<open>auto simp: advances_def stage_rank_def\<close>)
qed

lemma record_validation_fresh_advances:
  assumes "record_validation_fresh fp now c d = Inr (r, d')"
  shows "all_advance d d'"
  using assms
proof (rule record_validation_freshE)
  fix cv and attempt :: attempt_view and row rc ra
  let ?n = "validation_successor (rv_result c) (rv_scope c) (at_stage attempt)"
  let ?f = "\<lambda>a. a\<lparr>ta_stage := snd ?n, ta_revision := ra,
        ta_failed := (if snd ?n = ATTEMPT_FAILED then Some (now, ''hard validation did not pass'') else ta_failed a)\<rparr>"
  assume at: "lock_candidate_attempt d (cv_ticket_attempt_id cv) = Inr attempt"
      "at_stage attempt = required_stage (rv_scope c) (at_stage attempt)"
    and ta: "ticket_attempts d' = update_row (at_id attempt) ?f (ticket_attempts d)"
  have "stage_rank (snd ?n) < stage_rank (at_stage attempt)"
    using at(2) by (cases "rv_scope c") (auto simp: validation_successor_def stage_rank_def split: if_splits)
  then show ?thesis
    by (intro all_advance_update [OF ta])
      (use lock_candidate_attempt_stage [OF at(1)] in \<open>auto simp: advances_def\<close>)
qed

lemma submit_quality_review_fresh_advances:
  assumes "submit_quality_review_fresh fp c d = Inr (r, d')"
  shows "all_advance d d'"
  using assms
proof (rule submit_quality_review_freshE)
  fix cv attempt qv row rc ra
  assume at: "lock_candidate_attempt d (cv_ticket_attempt_id cv) = Inr attempt" "at_stage attempt = ATTEMPT_AWAITING_ARCHITECT"
    and ta: "ticket_attempts d' = update_row (at_id attempt) (\<lambda>a. a\<lparr>
        ta_stage := ATTEMPT_AWAITING_ARCHITECT, ta_revision := ra\<rparr>) (ticket_attempts d)"
  show ?thesis
    by (rule all_advance_update [OF ta])
      (use at(2) lock_candidate_attempt_stage [OF at(1)] in \<open>auto simp: advances_def\<close>)
qed

lemma release_fresh_advances:
  "release_fresh fp now c d = Inr (r, d') \<Longrightarrow> all_advance d d'"
  by (erule release_freshE) (erule all_advance_update, simp add: advances_def)

lemma decide_candidate_fresh_advances:
  assumes "decide_candidate_fresh fp now c d = Inr (r, d')"
  shows "all_advance d d'"
  using assms
proof (rule decide_candidate_freshE)
  fix cv attempt rv row rc ra
  let ?n = "decision_transition (cd_decision (dc_request c))"
  let ?f = "\<lambda>a. a\<lparr>ta_stage := snd ?n,
        ta_rework_ordinal := ta_rework_ordinal a + (if cd_decision (dc_request c) = Rework then 1 else 0),
        ta_failed := (if snd ?n = ATTEMPT_FAILED
                      then Some (now, ''architect rejected reviewed candidate'') else ta_failed a), ta_revision := ra\<rparr>"
  assume at: "lock_candidate_attempt d (cv_ticket_attempt_id cv) = Inr attempt" "at_stage attempt = ATTEMPT_AWAITING_ARCHITECT"
    and rework: "cd_decision (dc_request c) = Rework \<Longrightarrow> at_rework_ordinal attempt = 0"
    and ta: "ticket_attempts d' = update_row (at_id attempt) ?f (ticket_attempts d)"
  obtain x where x: "get_row (ticket_attempts d) (at_id attempt) = Some x" "ta_stage x = ATTEMPT_AWAITING_ARCHITECT"
      "ta_rework_ordinal x = at_rework_ordinal attempt"
    using at lock_candidate_attempt_stage [OF at(1)] lock_candidate_attemptE [OF at(1)] by fastforce
  show ?thesis
    by (rule all_advance_update [OF ta])
      (use x rework in \<open>cases "cd_decision (dc_request c)"; auto simp: advances_def stage_rank_def\<close>)
qed

lemma record_delivery_fresh_advances:
  assumes "record_delivery_fresh fp now c d = Inr (r, d')"
  shows "all_advance d d'"
  using assms
proof (rule record_delivery_freshE)
  fix cv attempt campaign row rc ra
  assume at: "lock_candidate_attempt d (cv_ticket_attempt_id cv) = Inr attempt" "at_stage attempt = ATTEMPT_AWAITING_ARCHITECT"
    and ta: "ticket_attempts d' = update_row (at_id attempt)
        (\<lambda>a. a\<lparr>ta_stage := ATTEMPT_DELIVERED, ta_revision := ra\<rparr>) (ticket_attempts d)"
  show ?thesis
    by (rule all_advance_update [OF ta])
      (use at(2) lock_candidate_attempt_stage [OF at(1)] in \<open>auto simp: advances_def stage_rank_def\<close>)
qed

lemma submit_ticket_proposal_transition_advances:
  "submit_ticket_proposal_transition fp c d = Inr (r, d') \<Longrightarrow> all_advance d d'"
  unfolding submit_ticket_proposal_transition_def
  by (auto elim!: submit_ticket_proposal_freshE dest!: insert_ticket_audit_frame(3) intro!: all_advance_same)

lemma sponsor_ticket_revision_fresh_advances:
  "sponsor_ticket_revision_fresh fp now c d = Inr (r, d') \<Longrightarrow> all_advance d d'"
  by (erule sponsor_ticket_revision_freshE)
    (auto dest!: insert_ticket_audit_frame(3) update_ticket_states_frame(3) intro!: all_advance_same)

lemma claim_sponsored_ticket_fresh_advances:
  assumes "claim_sponsored_ticket_fresh fp now c d = Inr (r, d')" "tables_ok d"
  shows "all_advance d d'"
  using assms(1)
proof (rule claim_sponsored_ticket_freshE)
  fix status cl nxt dm kind subject
  assume m: "claim_transition now c status nxt cl d = Inr ((ct_outcome r, kind, subject), dm)"
    and ins: "insert_ticket_audit dm (cl_principal c) (cl_command_id c) CLAIM_OPERATION fp kind subject nxt
       = Inr (ct_audit_log_id r, d')"
  have "ticket_attempts d' = (if cl = Reproduced then insert_row (claimed_attempt_row c now) (ticket_attempts d)
           else ticket_attempts d)"
    using insert_ticket_audit_frame(3) [OF ins] claim_transition_frame(3) [OF m] by simp
  then show ?thesis using assms(2) tbl.get_ins_old by (fastforce simp: all_advance_def tables_ok_def)
qed

lemma move_attempt_logs:
  assumes "move_attempt d i a st failed p c op fp sub = Inr (r, d')" "tables_ok d"
  shows "prior_retry_exists d' op sub i"
proof -
  obtain dm nxt audit where ins: "insert_audit_entry StoreDatabase StoreRevisionOutOfRange dm p c op fp sub i nxt = Inr (audit, d')"
    and dm: "audit_log dm = audit_log d"
    using assms(1) by (auto simp: move_attempt_def Let_def case_prod_unfold insert_ticket_audit_def)
  show ?thesis
    using insert_audit_entry_ok(4) [OF ins] assms(2) by (simp add: prior_retry_exists_def dm tbl.ex_ins tables_ok_def)
qed

lemma move_attempt_advances:
  assumes m: "move_attempt d i a st failed p c op fp sub = Inr (r, d')" and tabs: "tables_ok d"
    and adv: "\<And>x ra. get_row (ticket_attempts d) i = Some x \<Longrightarrow>
        advances d d' i x (x\<lparr>ta_stage := st, ta_failed := failed, ta_revision := ra\<rparr>)"
  shows "all_advance d d'"
proof -
  obtain ra where "ticket_attempts d' = update_row i (\<lambda>a. a\<lparr>ta_stage := st, ta_failed := failed, ta_revision := ra\<rparr>) (ticket_attempts d)"
    using move_attempt_ok(1) [OF m tabs] by blast
  then show ?thesis by (rule all_advance_update) (rule adv)
qed

lemma fail_ticket_attempt_fresh_advances:
  assumes "fail_ticket_attempt_fresh fp now c d = Inr (r, d')" "tables_ok d"
  shows "all_advance d d'"
proof -
  obtain a where a: "lock_ticket_attempt d (fa_ticket_attempt_id c) = Inr a" "attempt_is_live (al_stage a)"
    and m: "move_attempt d (fa_ticket_attempt_id c) a ATTEMPT_FAILED (Some (now, fa_reason c))
       (fa_principal c) (fa_command_id c) FAIL_OPERATION fp FAILED_ATTEMPT_SUBJECT = Inr (r, d')"
    using assms(1) by (auto simp: fail_ticket_attempt_fresh_def lock_fenced_attempt_def)
  show ?thesis
    by (rule move_attempt_advances [OF m assms(2)])
      (use a(2) lock_ticket_attempt_stage [OF a(1)] in \<open>auto simp: advances_def stage_rank_def attempt_is_live_def\<close>)
qed

lemma retry_quality_attempt_fresh_advances:
  assumes "retry_quality_attempt_fresh fp now c d = Inr (r, d')" "tables_ok d"
  shows "all_advance d d'"
  using assms(1)
proof (rule retry_quality_attempt_freshE)
  fix a
  assume new: "\<not> prior_retry_exists d QUALITY_RETRY_OPERATION QUALITY_RETRY_SUBJECT (rqa_ticket_attempt_id c)"
    and m: "move_attempt d (rqa_ticket_attempt_id c) a ATTEMPT_REWORK_QUALITY (Some (now, rqa_reason c))
       (rqa_principal c) (rqa_command_id c) QUALITY_RETRY_OPERATION fp QUALITY_RETRY_SUBJECT = Inr (r, d')"
  show ?thesis
    by (rule move_attempt_advances [OF m assms(2)])
      (use new move_attempt_logs [OF m assms(2)] in \<open>simp add: advances_def quality_retried_def\<close>)
qed

lemma retry_engineering_attempt_fresh_advances:
  assumes "retry_engineering_attempt_fresh fp c d = Inr (r, d')" "tables_ok d"
  shows "all_advance d d'"
  using assms(1)
proof (rule retry_engineering_attempt_freshE)
  fix a
  assume new: "\<not> prior_retry_exists d ENGINEERING_RETRY_OPERATION ENGINEERING_RETRY_SUBJECT (rea_ticket_attempt_id c)"
    and m: "move_attempt d (rea_ticket_attempt_id c) a ATTEMPT_ENGINEERING None
       (rea_principal c) (rea_command_id c) ENGINEERING_RETRY_OPERATION fp ENGINEERING_RETRY_SUBJECT = Inr (r, d')"
  show ?thesis
    by (rule move_attempt_advances [OF m assms(2)])
      (use new move_attempt_logs [OF m assms(2)] in \<open>simp add: advances_def engineering_retried_def\<close>)
qed

lemma attempt_release_fresh_advances:
  assumes "attempt_release_fresh fp now c d = Inr (r, d')"
  shows "all_advance d d'"
  using assms
proof (rule attempt_release_freshE)
  fix a cl dm d1 nxt ra na
  assume d1: "d1 = d\<lparr>ticket_attempts := update_row (rt_ticket_attempt_id c) (\<lambda>a. a\<lparr>
         ta_released := Some (now, rt_reason c), ta_revision := ra\<rparr>) (ticket_attempts d)\<rparr>"
    and u: "update_requalification_and_ticket_state d1 (al_ticket a) (fst (snd (release_transition cl))) nxt
       (fst (snd (snd (release_transition cl)))) (rt_requalification c) (snd (snd (snd (release_transition cl)))) now = Inr dm"
    and ins: "insert_ticket_audit dm (rt_principal c) (rt_command_id c) ATTEMPT_RELEASE_OPERATION fp
       (release_subject cl) (rt_ticket_attempt_id c) na = Inr (rx_audit_log_id r, d')"
  have "ticket_attempts d' = update_row (rt_ticket_attempt_id c) (\<lambda>a. a\<lparr>
         ta_released := Some (now, rt_reason c), ta_revision := ra\<rparr>) (ticket_attempts d)"
    using insert_ticket_audit_frame(3) [OF ins] update_requalification_frame(3) [OF u] by (simp add: d1)
  then show ?thesis by (rule all_advance_update) (simp add: advances_def)
qed

lemma audited_advances:
  assumes "audited (find_audit_entry e e' d p c op fp) replay fresh d = Inr (r, d')"
    and "fresh = Inr (r, d') \<Longrightarrow> all_advance d d'"
  shows "all_advance d d'"
  using assms(1) by (rule audited_cases) (use assms(2) all_advance_same in auto)

lemma command_step_advances:
  assumes "command_step hash now c d = Some d'" "tables_ok d"
  shows "all_advance d d'"
  using assms
proof (cases c)
  case (SubmitCandidate x)
  then obtain r where "submit_candidate_cmd hash now x d = Inr (r, d')" using assms(1) by auto
  then show ?thesis by (rule audited_advances [OF submit_candidate_cmd_audited]) (erule submit_candidate_fresh_advances)
next
  case (RecordValidation x)
  then obtain r where "record_validation_cmd hash now x d = Inr (r, d')" using assms(1) by auto
  then show ?thesis by (rule audited_advances [OF record_validation_cmd_audited]) (erule record_validation_fresh_advances)
next
  case (AttachCandidateCommit x)
  then obtain r where "attach_candidate_commit_cmd hash x d = Inr (r, d')" using assms(1) by auto
  then show ?thesis by (rule audited_advances [OF attach_candidate_commit_cmd_audited]) (erule attach_candidate_commit_freshE, erule all_advance_same)
next
  case (SubmitQualityReview x)
  then obtain r where "submit_quality_review_cmd hash x d = Inr (r, d')" using assms(1) by auto
  then show ?thesis by (rule audited_advances [OF submit_quality_review_cmd_audited]) (erule submit_quality_review_fresh_advances)
next
  case (SponsorTicket x)
  then obtain r where "sponsor_ticket_cmd hash now x d = Inr (r, d')" using assms(1) by auto
  then show ?thesis by (rule audited_advances [OF sponsor_ticket_cmd_audited]) (erule sponsor_ticket_freshE, erule all_advance_same)
next
  case (ReleaseByDecision x)
  then obtain r where "release_ticket_attempt_cmd hash now x d = Inr (r, d')" using assms(1) by auto
  then show ?thesis by (rule audited_advances [OF release_ticket_attempt_cmd_audited]) (erule release_fresh_advances)
next
  case (DecideCandidate x)
  then obtain r where "decide_candidate_cmd hash now x d = Inr (r, d')" using assms(1) by auto
  then show ?thesis by (rule audited_advances [OF decide_candidate_cmd_audited]) (erule decide_candidate_fresh_advances)
next
  case (RecordDelivery x)
  then obtain r where "record_delivery_cmd hash now x d = Inr (r, d')" using assms(1) by auto
  then show ?thesis by (rule audited_advances [OF record_delivery_cmd_audited]) (erule record_delivery_fresh_advances)
next
  case (SubmitTicketProposal x)
  then obtain r where "submit_ticket_proposal_cmd hash x d = Inr (r, d')" using assms(1) by auto
  then show ?thesis by (rule audited_advances [OF submit_ticket_proposal_cmd_audited]) (erule submit_ticket_proposal_transition_advances)
next
  case (SponsorTicketRevision x)
  then obtain r where "sponsor_ticket_revision_cmd hash now x d = Inr (r, d')" using assms(1) by auto
  then show ?thesis by (rule audited_advances [OF sponsor_ticket_revision_cmd_audited]) (erule sponsor_ticket_revision_fresh_advances)
next
  case (ClaimSponsoredTicket x)
  then obtain r where "claim_sponsored_ticket_cmd hash now x d = Inr (r, d')" using assms(1) by auto
  then show ?thesis by (rule audited_advances [OF claim_sponsored_ticket_cmd_audited]) (erule claim_sponsored_ticket_fresh_advances [OF _ assms(2)])
next
  case (FailTicketAttempt x)
  then obtain r where "fail_ticket_attempt_cmd hash now x d = Inr (r, d')" using assms(1) by auto
  then show ?thesis by (rule audited_advances [OF fail_ticket_attempt_cmd_audited]) (erule fail_ticket_attempt_fresh_advances [OF _ assms(2)])
next
  case (RetryQualityAttempt x)
  then obtain r where "retry_quality_attempt_cmd hash now x d = Inr (r, d')" using assms(1) by auto
  then show ?thesis by (rule audited_advances [OF retry_quality_attempt_cmd_audited]) (erule retry_quality_attempt_fresh_advances [OF _ assms(2)])
next
  case (RetryEngineeringAttempt x)
  then obtain r where "retry_engineering_attempt_cmd hash x d = Inr (r, d')" using assms(1) by auto
  then show ?thesis by (rule audited_advances [OF retry_engineering_attempt_cmd_audited]) (erule retry_engineering_attempt_fresh_advances [OF _ assms(2)])
next
  case (ReleaseTicketAttempt x)
  then obtain r where "attempt_release_cmd hash now x d = Inr (r, d')" using assms(1) by auto
  then show ?thesis by (rule audited_advances [OF attempt_release_cmd_audited]) (erule attempt_release_fresh_advances)
next
  case (CompleteCampaignAtTarget x)
  then obtain r where "complete_campaign_at_delivery_target_cmd hash x d = Inr (r, d')" using assms(1) by auto
  then show ?thesis using complete_campaign_cmd_same [OF _ assms(2)] all_advance_same by blast
qed

lemma kernel_step_advances:
  assumes "kernel_step hash s s'" "tables_ok (store s)"
  shows "all_advance (store s) (store s')"
  using assms(1) by (rule kernel_stepE) (use command_step_advances [OF _ assms(2)] all_advance_same in \<open>auto simp: protocol_same_def\<close>)

end
