(* ===== verification/Pilot.thy ===== *)
theory Pilot
  imports Attempt_Progress
begin

text \<open>
  One complete delivery, evaluated: a ticket is proposed, sponsored and claimed, its candidate passes
  hard validation, gets its commit, passes the full suite and the Quality review, and is delivered.  The
  run is a witness that the reachable states of the kernel are not empty where it matters.
\<close>

definition pilot_hash :: "byte list \<Rightarrow> content_digest" where
  "pilot_hash _ = replicate 32 0"

definition pilot_digest :: "int \<Rightarrow> content_digest" where
  "pilot_digest i = replicate 32 (word_of_int i)"

definition pilot_artifact :: "int \<Rightarrow> sealed_artifact_reference" where
  "pilot_artifact i = \<lparr>artifact_id = i, digest = pilot_digest i, byte_length = 1\<rparr>"

definition pilot_oid :: "char \<Rightarrow> object_id" where
  "pilot_oid c = replicate 40 c"

text \<open>
  What the other stores have written before the ticket: five artifacts, a kernel build, an application
  revision with a campaign, and a finished Engineering and Quality session.
\<close>

definition pilot_campaign :: campaign_row where
  "pilot_campaign = \<lparr>ca_kernel_build_id = 1, ca_application_revision_id = 1, ca_lifecycle = CAMPAIGN_RUNNING,
     ca_deadline = 1000, ca_delivery_target = 1, ca_revision = 0, ca_measured_cost_micro_usd = 7, ca_cost_state = COST_KNOWN,
     ca_repository_id = 1, ca_aggregate_budget_micro_usd = 100, ca_failure_reason = None\<rparr>"

definition pilot_model :: model_columns where
  "pilot_model = \<lparr>mc_provider = ''provider'', mc_model_id = ''model'', mc_thinking_level = 0, mc_input_price = 1,
     mc_output_price = 1, mc_cache_read_price = 1, mc_cache_write_price = 1\<rparr>"

definition pilot_terminal :: session_terminal_columns where
  "pilot_terminal = \<lparr>sm_transcript_artifact_id = 5, sm_execution_summary_artifact_id = Some 5, sm_stdout_artifact_id = 5,
     sm_stderr_artifact_id = 5, sm_partial_transcript_artifact_id = None, sm_required_read_assertion_artifact_id = 5,
     sm_required_read_expected_count = 1, sm_required_read_satisfied_count = 1, sm_input_tokens = Some 1,
     sm_output_tokens = Some 1, sm_cache_read_tokens = None, sm_cache_write_tokens = None, sm_reasoning_tokens = None,
     sm_reported_cost_micro_usd = Some 3, sm_cost_state = COST_KNOWN, sm_cost_micro_usd = Some 3, sm_stop_reason = 0,
     sm_terminal_operation = Some 1, sm_failure_class = None, sm_terminal_at = 4\<rparr>"

definition pilot_session :: "int \<Rightarrow> int \<Rightarrow> session_row" where
  "pilot_session assignment role = \<lparr>se_assignment_id = assignment, se_campaign_id = 1, se_kernel_build_id = 1,
     se_application_revision_id = 1, se_office_id = role, se_assignment_role = role, se_model = pilot_model, se_pid = 2,
     se_pgid = 2, se_process_started_at_unix_millis = 1, se_lifecycle = SESSION_SUCCEEDED,
     se_terminal = Some pilot_terminal, se_started_at = 1, se_revision = 1\<rparr>"

definition pilot_db :: db where
  "pilot_db = empty_db\<lparr>
     artifacts := \<lparr>rows = map (\<lambda>i. (i, \<lparr>ar_digest = pilot_digest i, ar_byte_length = 1\<rparr>)) [1, 2, 3, 4, 5], next_id = 6\<rparr>,
     kernel_builds := \<lparr>rows = [(1, \<lparr>kb_build_digest = pilot_digest 9, kb_is_current = True\<rparr>)], next_id = 2\<rparr>,
     application_revisions := \<lparr>rows = [(1, \<lparr>ap_application_key = ''xsh'', ap_aggregate_revision = 0,
       ap_ticket_low_water = 1, ap_ticket_target = 2, ap_ticket_maximum = Some 3, ap_proposal_maximum = 2,
       ap_repository_id = 1, ap_is_active = True\<rparr>)], next_id = 2\<rparr>,
     campaigns := \<lparr>rows = [(1, pilot_campaign)], next_id = 2\<rparr>,
     sessions := \<lparr>rows = [(1, pilot_session 1 OFFICE_ENGINEERING), (2, pilot_session 2 OFFICE_QUALITY)], next_id = 3\<rparr>\<rparr>"

definition pilot_requalification :: current_head_requalification where
  "pilot_requalification = \<lparr>current_head_commit = pilot_oid CHR ''a'', current_head_tree = pilot_oid CHR ''b'',
     first_actual_observation_artifact_id = 4, second_actual_observation_artifact_id = 4\<rparr>"

definition pilot_propose :: submit_ticket_proposal where
  "pilot_propose = \<lparr>pp_principal = ''kernel'', pp_command_id = ''c1'', pp_expected_application_revision = 0,
     pp_application_revision_id = 1, pp_proposal_artifact_id = 1, pp_reproducer_artifact_id = 2,
     pp_expected_observation_artifact_id = 3, pp_first_actual_observation_artifact_id = 4,
     pp_second_actual_observation_artifact_id = 4, pp_discovery_commit = pilot_oid CHR ''a'',
     pp_discovery_tree = pilot_oid CHR ''b''\<rparr>"

definition pilot_sponsor :: sponsor_ticket_revision where
  "pilot_sponsor = \<lparr>sr_principal = ''kernel'', sr_command_id = ''c2'', sr_ticket_revision_id = 1,
     sr_expected_ticket_revision = 0, sr_reason = ''reproducible''\<rparr>"

definition pilot_claim :: claim_sponsored_ticket where
  "pilot_claim = \<lparr>cl_principal = ''kernel'', cl_command_id = ''c3'', cl_campaign_id = 1,
     cl_expected_campaign_revision = 0, cl_ticket_revision_id = 1, cl_expected_ticket_revision = 1,
     cl_requalification = pilot_requalification\<rparr>"

definition pilot_submit :: submit_candidate where
  "pilot_submit = \<lparr>sc_principal = ''kernel'', sc_command_id = ''c4'', sc_ticket_attempt_id = 1,
     sc_expected_attempt_revision = 0, sc_expected_ticket_revision = 2, sc_engineering_session_id = 1,
     sc_base_commit = pilot_oid CHR ''a'', sc_base_tree = pilot_oid CHR ''b'',
     sc_regression_tree = pilot_oid CHR ''c'', sc_candidate_tree = pilot_oid CHR ''d'',
     sc_changed_paths = pilot_artifact 5, sc_regression_patch = pilot_artifact 5,
     sc_regression_command_set = pilot_artifact 5, sc_regression_log = pilot_artifact 5,
     sc_candidate_patch = pilot_artifact 5, sc_engineering_report = pilot_artifact 5,
     sc_engineering_risks = pilot_artifact 5,
     sc_submission = \<lparr>commit_subject = ''Fix'', commit_body = ''It failed.'', regression_test_identity = ''t1''\<rparr>\<rparr>"

definition pilot_validate :: "string \<Rightarrow> validation_scope \<Rightarrow> aggregate_revision \<Rightarrow> aggregate_revision \<Rightarrow> ident \<Rightarrow> record_validation" where
  "pilot_validate command_id scope candidate_revision attempt_revision session =
     \<lparr>rv_principal = ''kernel'', rv_command_id = command_id, rv_candidate_id = 1,
      rv_expected_candidate_revision = candidate_revision, rv_expected_attempt_revision = attempt_revision,
      rv_scope = scope, rv_kernel_build_id = pilot_digest 9, rv_performed_by_session_id = session,
      rv_validation_profile = ''standard'', rv_pristine_tree = pilot_oid CHR ''d'', rv_command_set = pilot_artifact 5,
      rv_result = ResultPassed, rv_duration_millis = 10, rv_log = pilot_artifact 5\<rparr>"

definition pilot_attach :: attach_candidate_commit where
  "pilot_attach = \<lparr>ac_principal = ''kernel'', ac_command_id = ''c6'', ac_candidate_id = 1,
     ac_expected_candidate_revision = 1, ac_candidate_commit = pilot_oid CHR ''e'',
     ac_candidate_ref = ''refs/heads/factory/1/1''\<rparr>"

definition pilot_review :: submit_quality_review where
  "pilot_review = \<lparr>qr_principal = ''kernel'', qr_command_id = ''c8'', qr_candidate_id = 1,
     qr_expected_candidate_revision = 3, qr_expected_attempt_revision = 3, qr_quality_session_id = 2,
     qr_submission = \<lparr>full_suite_validation_id = 2, verdict = VerdictAccept, rationale = pilot_artifact 5,
       risks = pilot_artifact 5, additional_probes = pilot_artifact 5\<rparr>\<rparr>"

definition pilot_decide :: decide_candidate where
  "pilot_decide = \<lparr>dc_command_id = ''c9'', dc_expected_candidate_revision = 4, dc_expected_attempt_revision = 4,
     dc_expected_ticket_revision = 2,
     dc_request = \<lparr>cd_candidate_id = 1, cd_review_id = 1, cd_decision = Deliver, cd_rationale = pilot_artifact 5,
       quality_rejection_override = None, cd_principal = ''Architect''\<rparr>\<rparr>"

definition pilot_deliver :: record_delivery where
  "pilot_deliver = \<lparr>dv_principal = ''kernel'', dv_command_id = ''c10'', dv_candidate_id = 1,
     dv_expected_candidate_revision = 5, dv_expected_attempt_revision = 5, dv_expected_ticket_revision = 2,
     dv_expected_campaign_revision = 0, dv_expected_old_commit = pilot_oid CHR ''a'',
     dv_candidate_commit = pilot_oid CHR ''e'', dv_resulting_commit = pilot_oid CHR ''e'',
     dv_resulting_tree = pilot_oid CHR ''d'', dv_factory_cost_micro_usd = 7, dv_receipt = pilot_artifact 5\<rparr>"

definition pilot_commands :: "kernel_command list" where
  "pilot_commands =
     [SubmitTicketProposal pilot_propose, SponsorTicketRevision pilot_sponsor, ClaimSponsoredTicket pilot_claim,
      SubmitCandidate pilot_submit, RecordValidation (pilot_validate ''c5'' HardCandidate 0 1 1),
      AttachCandidateCommit pilot_attach, RecordValidation (pilot_validate ''c7'' QualityFullSuite 2 2 2),
      SubmitQualityReview pilot_review, DecideCandidate pilot_decide, RecordDelivery pilot_deliver]"

definition pilot_audit :: "string \<Rightarrow> string \<Rightarrow> string \<Rightarrow> int \<Rightarrow> int \<Rightarrow> int \<Rightarrow> audit_row" where
  "pilot_audit prin command_id operation kind subject revision =
     \<lparr>au_principal = prin, au_command_id = command_id, au_operation = operation,
      au_command_fingerprint = pilot_hash [], au_subject_kind = kind, au_subject_id = subject,
      au_resulting_revision = revision\<rparr>"

text \<open>The database when the hard validation has passed, and when the candidate is delivered.\<close>

definition pilot_mid :: db where
  "pilot_mid = pilot_db\<lparr>
     tickets := \<lparr>rows = [(1, \<lparr>ti_application_revision_id = 1, ti_lifecycle = 2,
       ti_current_ticket_revision_id = 1, ti_revision = 2\<rparr>)], next_id = 2\<rparr>,
     ticket_revisions := \<lparr>rows = [(1, \<lparr>tr_ticket_id = 1, tr_application_revision_id = 1,
       tr_revision_ordinal = 1, tr_lifecycle = 2, tr_proposal_artifact_id = 1, tr_reproducer_artifact_id = 2,
       tr_expected_observation_artifact_id = 3, tr_discovery_observation_artifact_id = 4, tr_discovery_commit =
       pilot_oid CHR ''a'', tr_discovery_tree = pilot_oid CHR ''b'', tr_sponsored_at = Some 5,
       tr_sponsorship_reason = Some ''reproducible'', tr_last_requalification = Some \<lparr>rq_outcome = 0,
       rq_commit = pilot_oid CHR ''a'', rq_tree = pilot_oid CHR ''b'', rq_first_observation_artifact_id = 4,
       rq_second_observation_artifact_id = 4, rq_at = 5\<rparr>, tr_blocked_reason = None, tr_revision =
       2\<rparr>)], next_id = 2\<rparr>,
     ticket_attempts := \<lparr>rows = [(1, \<lparr>ta_ticket_revision_id = 1, ta_campaign_id = 1,
       ta_claimed_commit = pilot_oid CHR ''a'', ta_claimed_tree = pilot_oid CHR ''b'', ta_stage = 2,
       ta_candidate_ordinal = 1, ta_rework_ordinal = 0, ta_failed = None, ta_released = None, ta_revision = 2,
       ta_created_at = 5\<rparr>)], next_id = 2\<rparr>,
     candidates := \<lparr>rows = [(1, \<lparr>cr_ticket_attempt_id = 1, cr_application_revision_id = 1,
       cr_base_commit = pilot_oid CHR ''a'', cr_base_tree = pilot_oid CHR ''b'', cr_regression_tree = pilot_oid
       CHR ''c'', cr_candidate_tree = pilot_oid CHR ''d'', cr_changed_paths_artifact_id = 5,
       cr_regression_patch_artifact_id = 5, cr_regression_command_set_artifact_id = 5,
       cr_regression_log_artifact_id = 5, cr_patch_artifact_id = 5, cr_engineering_session_id = 1,
       cr_engineering_report_artifact_id = 5, cr_commit_subject = ''Fix'', cr_commit_body = ''It failed.'',
       cr_regression_test_identity = ''t1'', cr_risks_artifact_id = 5, cr_commit = None, cr_ref = None,
       cr_lifecycle = 1, cr_revision = 1, cr_created_at = 5\<rparr>)], next_id = 2\<rparr>,
     validations := \<lparr>rows = [(1, \<lparr>va_candidate_id = 1, va_kernel_build_id = 1,
       va_performed_by_session_id = 1, va_scope = 0, va_profile = ''standard'', va_pristine_tree = pilot_oid CHR
       ''d'', va_command_set_artifact_id = 5, va_lifecycle = 1, va_duration_millis = 10, va_log_artifact_id = 5,
       va_created_at = 5\<rparr>)], next_id = 2\<rparr>,
     audit_log := \<lparr>rows = [(1, pilot_audit ''kernel'' ''c1'' ''ticket.propose'' 30 1 0), (2, pilot_audit
       ''kernel'' ''c2'' ''ticket.sponsor'' 31 1 1), (3, pilot_audit ''kernel'' ''c3'' ''ticket.claim'' 32 1 2),
       (4, pilot_audit ''kernel'' ''c4'' ''candidate.submit'' 40 1 0), (5, pilot_audit ''kernel'' ''c5''
       ''validation.record'' 41 1 1)], next_id = 6\<rparr>\<rparr>"

definition pilot_end :: db where
  "pilot_end = pilot_db\<lparr>
     campaigns := \<lparr>rows = [(1, pilot_campaign\<lparr>ca_lifecycle := CAMPAIGN_COMPLETED, ca_revision := 1\<rparr>)], next_id = 2\<rparr>,
     tickets := \<lparr>rows = [(1, \<lparr>ti_application_revision_id = 1, ti_lifecycle = 3,
       ti_current_ticket_revision_id = 1, ti_revision = 3\<rparr>)], next_id = 2\<rparr>,
     ticket_revisions := \<lparr>rows = [(1, \<lparr>tr_ticket_id = 1, tr_application_revision_id = 1,
       tr_revision_ordinal = 1, tr_lifecycle = 3, tr_proposal_artifact_id = 1, tr_reproducer_artifact_id = 2,
       tr_expected_observation_artifact_id = 3, tr_discovery_observation_artifact_id = 4, tr_discovery_commit =
       pilot_oid CHR ''a'', tr_discovery_tree = pilot_oid CHR ''b'', tr_sponsored_at = Some 5,
       tr_sponsorship_reason = Some ''reproducible'', tr_last_requalification = Some \<lparr>rq_outcome = 0,
       rq_commit = pilot_oid CHR ''a'', rq_tree = pilot_oid CHR ''b'', rq_first_observation_artifact_id = 4,
       rq_second_observation_artifact_id = 4, rq_at = 5\<rparr>, tr_blocked_reason = None, tr_revision =
       3\<rparr>)], next_id = 2\<rparr>,
     ticket_attempts := \<lparr>rows = [(1, \<lparr>ta_ticket_revision_id = 1, ta_campaign_id = 1,
       ta_claimed_commit = pilot_oid CHR ''a'', ta_claimed_tree = pilot_oid CHR ''b'', ta_stage = 7,
       ta_candidate_ordinal = 1, ta_rework_ordinal = 0, ta_failed = None, ta_released = None, ta_revision = 6,
       ta_created_at = 5\<rparr>)], next_id = 2\<rparr>,
     candidates := \<lparr>rows = [(1, \<lparr>cr_ticket_attempt_id = 1, cr_application_revision_id = 1,
       cr_base_commit = pilot_oid CHR ''a'', cr_base_tree = pilot_oid CHR ''b'', cr_regression_tree = pilot_oid
       CHR ''c'', cr_candidate_tree = pilot_oid CHR ''d'', cr_changed_paths_artifact_id = 5,
       cr_regression_patch_artifact_id = 5, cr_regression_command_set_artifact_id = 5,
       cr_regression_log_artifact_id = 5, cr_patch_artifact_id = 5, cr_engineering_session_id = 1,
       cr_engineering_report_artifact_id = 5, cr_commit_subject = ''Fix'', cr_commit_body = ''It failed.'',
       cr_regression_test_identity = ''t1'', cr_risks_artifact_id = 5, cr_commit = Some (pilot_oid CHR ''e''),
       cr_ref = Some ''refs/heads/factory/1/1'', cr_lifecycle = 4, cr_revision = 6, cr_created_at = 5\<rparr>)],
       next_id = 2\<rparr>,
     validations := \<lparr>rows = [(1, \<lparr>va_candidate_id = 1, va_kernel_build_id = 1,
       va_performed_by_session_id = 1, va_scope = 0, va_profile = ''standard'', va_pristine_tree = pilot_oid CHR
       ''d'', va_command_set_artifact_id = 5, va_lifecycle = 1, va_duration_millis = 10, va_log_artifact_id = 5,
       va_created_at = 5\<rparr>), (2, \<lparr>va_candidate_id = 1, va_kernel_build_id = 1,
       va_performed_by_session_id = 2, va_scope = 1, va_profile = ''standard'', va_pristine_tree = pilot_oid CHR
       ''d'', va_command_set_artifact_id = 5, va_lifecycle = 1, va_duration_millis = 10, va_log_artifact_id = 5,
       va_created_at = 5\<rparr>)], next_id = 3\<rparr>,
     reviews := \<lparr>rows = [(1, \<lparr>re_candidate_id = 1, re_quality_session_id = 2,
       re_full_suite_validation_id = 2, re_verdict = 0, re_rationale_artifact_id = 5, re_risks_artifact_id = 5,
       re_additional_probes_artifact_id = 5, re_revision = 0\<rparr>)], next_id = 2\<rparr>,
     architect_decisions := \<lparr>rows = [(1, \<lparr>de_kind = 2, de_ticket_revision_id = None,
       de_ticket_attempt_id = None, de_candidate_id = Some 1, de_review_id = Some 1, de_rationale_artifact_id =
       5, de_principal = ''Architect'', de_overrides_quality_rejection = False, de_created_at = 5\<rparr>)],
       next_id = 2\<rparr>,
     deliveries := \<lparr>rows = [(1, \<lparr>dl_candidate_id = 1, dl_candidate_commit = pilot_oid CHR ''e'',
       dl_expected_old_commit = pilot_oid CHR ''a'', dl_resulting_commit = pilot_oid CHR ''e'',
       dl_resulting_tree = pilot_oid CHR ''d'', dl_factory_cost_micro_usd = 7, dl_receipt_artifact_id =
       5\<rparr>)], next_id = 2\<rparr>,
     audit_log := \<lparr>rows = [(1, pilot_audit ''kernel'' ''c1'' ''ticket.propose'' 30 1 0), (2, pilot_audit
       ''kernel'' ''c2'' ''ticket.sponsor'' 31 1 1), (3, pilot_audit ''kernel'' ''c3'' ''ticket.claim'' 32 1 2),
       (4, pilot_audit ''kernel'' ''c4'' ''candidate.submit'' 40 1 0), (5, pilot_audit ''kernel'' ''c5''
       ''validation.record'' 41 1 1), (6, pilot_audit ''kernel'' ''c6'' ''candidate.commit.attach'' 40 1 2), (7,
       pilot_audit ''kernel'' ''c7'' ''validation.record'' 41 2 3), (8, pilot_audit ''kernel'' ''c8''
       ''quality.review.submit'' 42 1 4), (9, pilot_audit ''Architect'' ''c9'' ''architect.candidate.decide'' 43
       1 5), (10, pilot_audit ''kernel'' ''c10'' ''delivery.record'' 44 1 6)], next_id = 11\<rparr>\<rparr>"

fun play :: "(byte list \<Rightarrow> content_digest) \<Rightarrow> int \<Rightarrow> kernel_command list \<Rightarrow> db \<Rightarrow> db option" where
  "play hash now [] d = Some d"
| "play hash now (c # cs) d = Option.bind (command_step hash now c d) (play hash now cs)"

lemma play_append: "play hash now (xs @ ys) d = Option.bind (play hash now xs d) (play hash now ys)"
  by (induction xs arbitrary: d) (auto simp: bind_eq_Some_conv split: Option.bind_splits)

lemma play_run:
  "play hash now cs d = Some d' \<Longrightarrow> kernel_run hash \<lparr>clock = now, store = d\<rparr> \<lparr>clock = now, store = d'\<rparr>"
proof (induction cs arbitrary: d)
  case (Cons c cs)
  then obtain e where e: "command_step hash now c d = Some e" "play hash now cs e = Some d'"
    by (auto simp: bind_eq_Some_conv)
  have "kernel_step hash \<lparr>clock = now, store = d\<rparr> \<lparr>clock = now, store = e\<rparr>"
    using kernel_step.command [of "\<lparr>clock = now, store = d\<rparr>" now hash c e] e(1) by simp
  then show ?case using Cons.IH [OF e(2)] kernel_run_trans kernel_run.intros by blast
qed (simp add: kernel_run.stop)

lemma pilot_to_mid: "play pilot_hash 5 (take 5 pilot_commands) pilot_db = Some pilot_mid"
  by code_simp

lemma pilot_to_end: "play pilot_hash 5 (drop 5 pilot_commands) pilot_mid = Some pilot_end"
  by code_simp

lemma pilot_db_step: "kernel_step hash \<lparr>clock = 0, store = empty_db\<rparr> \<lparr>clock = 5, store = pilot_db\<rparr>"
proof -
  have "tables_ok pilot_db" by (simp add: tables_ok_def pilot_db_def table_ok_def empty_db_def empty_table_def)
  then show ?thesis
    using kernel_step.other_store [of "\<lparr>clock = 0, store = empty_db\<rparr>" 5 pilot_db hash]
    by (simp add: protocol_same_def evidence_same_def tickets_same_def pilot_db_def empty_db_def keeps_rows_def
        audit_extends_def audit_lookup_def)
qed

definition pilot_claimed :: kernel_state where
  "pilot_claimed = \<lparr>clock = 5, store = pilot_mid\<rparr>"

definition pilot_delivered :: kernel_state where
  "pilot_delivered = \<lparr>clock = 5, store = pilot_end\<rparr>"

lemma pilot_opened_reachable: "reachable pilot_hash \<lparr>clock = 5, store = pilot_db\<rparr>"
  using pilot_db_step kernel_run.intros unfolding reachable_def by blast

lemma pilot_claimed_reachable: "reachable pilot_hash pilot_claimed"
  using play_run [OF pilot_to_mid] pilot_db_step kernel_run_trans kernel_run.intros
  unfolding reachable_def pilot_claimed_def by blast

lemma pilot_runs: "kernel_run pilot_hash pilot_claimed pilot_delivered"
  using play_run [OF pilot_to_end] by (simp add: pilot_claimed_def pilot_delivered_def)

lemma pilot_delivered_reachable: "reachable pilot_hash pilot_delivered"
  using reachable_run [OF pilot_claimed_reachable pilot_runs] by blast

end
