(* ===== verification/Pilot_Runs.thy ===== *)
theory Pilot_Runs
  imports Pilot
begin

text \<open>
  Further runs from the pilot's databases, each evaluated once with what is needed of its last database:
  the states before the claim and before the decision, an attempt that fails in Engineering and one that
  fails in Quality, their retries, a rejecting review, and a released attempt that is retried.
\<close>

lemma play_reachable:
  "reachable pilot_hash \<lparr>clock = 5, store = d\<rparr> \<Longrightarrow> play pilot_hash 5 cs d = Some e \<Longrightarrow> reachable pilot_hash \<lparr>clock = 5, store = e\<rparr>"
  using play_run reachable_run by blast

lemma map_option_the: "map_option f m = Some y \<Longrightarrow> m = Some (the m) \<and> f (the m) = y"
  by auto

definition accepts :: "kernel_command \<Rightarrow> db \<Rightarrow> bool" where
  "accepts c d = (command_step pilot_hash 6 c d \<noteq> None)"

section \<open>Commands\<close>

definition fail_command :: "string \<Rightarrow> aggregate_revision \<Rightarrow> kernel_command" where
  "fail_command command_id attempt_revision = FailTicketAttempt \<lparr>fa_principal = ''kernel'', fa_command_id = command_id,
     fa_ticket_attempt_id = 1, fa_expected_attempt_revision = attempt_revision, fa_expected_ticket_revision = 2,
     fa_reason = ''host lost''\<rparr>"

definition retry_engineering :: retry_engineering_attempt where
  "retry_engineering = \<lparr>rea_principal = ''kernel'', rea_command_id = ''r1'', rea_ticket_attempt_id = 1,
     rea_expected_attempt_revision = 1, rea_expected_ticket_revision = 2, rea_reason = ''host is back''\<rparr>"

definition engineering_failure_commands :: "kernel_command list" where
  "engineering_failure_commands = take 3 pilot_commands @ [fail_command ''f1'' 0]"

definition engineering_retry_commands :: "kernel_command list" where
  "engineering_retry_commands = engineering_failure_commands @ [RetryEngineeringAttempt retry_engineering]"

definition quality_failure_commands :: "kernel_command list" where
  "quality_failure_commands = [AttachCandidateCommit pilot_attach, fail_command ''f2'' 2]"

definition retry_quality :: "aggregate_revision \<Rightarrow> aggregate_revision \<Rightarrow> retry_quality_attempt" where
  "retry_quality attempt_revision ticket_revision = \<lparr>rqa_principal = ''kernel'', rqa_command_id = ''r2'',
     rqa_ticket_attempt_id = 1, rqa_candidate_id = 1, rqa_expected_attempt_revision = attempt_revision,
     rqa_expected_ticket_revision = ticket_revision, rqa_reason = ''suite was interrupted''\<rparr>"

definition release_attempt :: attempt_release where
  "release_attempt = \<lparr>rt_principal = ''kernel'', rt_command_id = ''x1'', rt_ticket_attempt_id = 1,
     rt_expected_attempt_revision = 3, rt_expected_ticket_revision = 2, rt_reason = ''try again'',
     rt_requalification = pilot_requalification\<rparr>"

definition claim_again :: claim_sponsored_ticket where
  "claim_again = \<lparr>cl_principal = ''kernel'', cl_command_id = ''x2'', cl_campaign_id = 1,
     cl_expected_campaign_revision = 0, cl_ticket_revision_id = 1, cl_expected_ticket_revision = 3,
     cl_requalification = pilot_requalification\<rparr>"

definition revival_commands :: "kernel_command list" where
  "revival_commands = quality_failure_commands @ [ReleaseTicketAttempt release_attempt,
     ClaimSponsoredTicket claim_again, RetryQualityAttempt (retry_quality 4 4)]"

definition reviewed_commands :: "kernel_command list" where
  "reviewed_commands = [AttachCandidateCommit pilot_attach, RecordValidation (pilot_validate ''c7'' QualityFullSuite 2 2 2),
     SubmitQualityReview pilot_review]"

definition reject_review :: submit_quality_review where
  "reject_review = pilot_review\<lparr>qr_submission := (qr_submission pilot_review)\<lparr>verdict := VerdictReject\<rparr>\<rparr>"

definition rejected_commands :: "kernel_command list" where
  "rejected_commands = [AttachCandidateCommit pilot_attach, RecordValidation (pilot_validate ''c7'' QualityFullSuite 2 2 2),
     SubmitQualityReview reject_review]"

definition send_back :: "candidate_decision \<Rightarrow> decide_candidate" where
  "send_back q = pilot_decide\<lparr>dc_request := (dc_request pilot_decide)\<lparr>cd_decision := q\<rparr>\<rparr>"

definition pilot_action :: claim_ready_ticket_action where
  "pilot_action = \<lparr>cx_campaign_id = 1, cx_expected_campaign_revision = 0,
     cx_ticket = \<lparr>sx_ticket_revision_id = 1, sx_revision = 1\<rparr>\<rparr>"

section \<open>Databases\<close>

definition pilot_first :: db where
  "pilot_first = the (play pilot_hash 5 (take 1 pilot_commands) pilot_db)"

definition pilot_ready :: db where
  "pilot_ready = the (play pilot_hash 5 (take 2 pilot_commands) pilot_db)"

definition engineering_failure :: db where
  "engineering_failure = the (play pilot_hash 5 engineering_failure_commands pilot_db)"

definition engineering_retry :: db where
  "engineering_retry = the (play pilot_hash 5 engineering_retry_commands pilot_db)"

definition quality_failure :: db where
  "quality_failure = the (play pilot_hash 5 quality_failure_commands pilot_mid)"

definition revived :: db where
  "revived = the (play pilot_hash 5 revival_commands pilot_mid)"

definition reviewed :: db where
  "reviewed = the (play pilot_hash 5 reviewed_commands pilot_mid)"

definition rejected :: db where
  "rejected = the (play pilot_hash 5 rejected_commands pilot_mid)"

section \<open>What is evaluated of them\<close>

definition engineering_context :: engineering_failure_context where
  "engineering_context = \<lparr>ex_ticket_attempt_id = 1, ex_attempt_revision = 1, ex_ticket_revision = 2\<rparr>"

definition quality_context :: downstream_action_context where
  "quality_context = \<lparr>da_stage = DownReworkQuality, da_ticket_attempt_id = 1, da_ticket_attempt_revision = 3,
     da_ticket_revision = 2, da_candidate_id = 1, da_candidate_revision = 2\<rparr>"

definition first_facts :: "db \<Rightarrow> bool" where
  "first_facts d = accepts (SubmitTicketProposal pilot_propose) d"

definition ready_facts :: "db \<Rightarrow> bool" where
  "ready_facts d = (next_action (one_snapshot d) 6 1 = Inr (ClaimReadyTicket pilot_action)
     \<and> audit_lookup d ''kernel'' ''c3'' = None
     \<and> map_option (\<lambda>tr. (tr_expected_observation_artifact_id tr, tr_discovery_observation_artifact_id tr))
         (get_row (ticket_revisions d) 1) = Some (3, 4)
     \<and> is_ok (store_artifact_digest d 3) \<and> is_ok (store_artifact_digest d 4))"

definition engineering_failure_facts :: "db \<Rightarrow> bool" where
  "engineering_failure_facts d = (recoverable_engineering_failure d 1 = Inr (Some engineering_context)
     \<and> audit_lookup d ''kernel'' ''r1'' = None)"

definition engineering_retry_facts :: "db \<Rightarrow> bool" where
  "engineering_retry_facts d = (engineering_retried d 1 \<and> accepts (RetryEngineeringAttempt retry_engineering) d)"

definition quality_failure_facts :: "db \<Rightarrow> bool" where
  "quality_failure_facts d = (recoverable_quality_failure d 1 = Inr (Some quality_context)
     \<and> audit_lookup d ''kernel'' ''r2'' = None)"

definition attempt_facts :: "db \<Rightarrow> int \<Rightarrow> (int \<times> bool \<times> int \<times> bool) option" where
  "attempt_facts d i = map_option (\<lambda>a. (ta_ticket_revision_id a, ta_released a \<noteq> None, ta_stage a, is_downstream d 1 i a))
     (get_row (ticket_attempts d) i)"

definition revived_facts :: "db \<Rightarrow> bool" where
  "revived_facts d = (attempt_facts d 1 = Some (1, True, ATTEMPT_REWORK_QUALITY, True)
     \<and> map_option (\<lambda>(i, released, stage, _). (i, released, stage)) (attempt_facts d 2) = Some (1, False, ATTEMPT_ENGINEERING))"

definition reviewed_facts :: "db \<Rightarrow> bool" where
  "reviewed_facts d = (audit_lookup d ''Architect'' ''c9'' = None \<and> accepts (DecideCandidate pilot_decide) d)"

definition rejected_facts :: "db \<Rightarrow> bool" where
  "rejected_facts d = (map_option re_verdict (get_row (reviews d) 1) = Some REVIEW_REJECT
     \<and> \<not> accepts (DecideCandidate (send_back Rework)) d \<and> \<not> accepts (DecideCandidate (send_back Reject)) d)"

lemma evaluated_upstream:
  "map_option first_facts (play pilot_hash 5 (take 1 pilot_commands) pilot_db) = Some True
   \<and> map_option ready_facts (play pilot_hash 5 (take 2 pilot_commands) pilot_db) = Some True
   \<and> map_option engineering_failure_facts (play pilot_hash 5 engineering_failure_commands pilot_db) = Some True
   \<and> map_option engineering_retry_facts (play pilot_hash 5 engineering_retry_commands pilot_db) = Some True"
  by code_simp

lemma evaluated_downstream:
  "map_option quality_failure_facts (play pilot_hash 5 quality_failure_commands pilot_mid) = Some True
   \<and> map_option revived_facts (play pilot_hash 5 revival_commands pilot_mid) = Some True
   \<and> map_option reviewed_facts (play pilot_hash 5 reviewed_commands pilot_mid) = Some True
   \<and> map_option rejected_facts (play pilot_hash 5 rejected_commands pilot_mid) = Some True"
  by code_simp

lemma runs:
  "play pilot_hash 5 (take 1 pilot_commands) pilot_db = Some pilot_first" "first_facts pilot_first"
  "play pilot_hash 5 (take 2 pilot_commands) pilot_db = Some pilot_ready" "ready_facts pilot_ready"
  "play pilot_hash 5 engineering_failure_commands pilot_db = Some engineering_failure"
  "engineering_failure_facts engineering_failure"
  "play pilot_hash 5 engineering_retry_commands pilot_db = Some engineering_retry" "engineering_retry_facts engineering_retry"
  "play pilot_hash 5 quality_failure_commands pilot_mid = Some quality_failure" "quality_failure_facts quality_failure"
  "play pilot_hash 5 revival_commands pilot_mid = Some revived" "revived_facts revived"
  "play pilot_hash 5 reviewed_commands pilot_mid = Some reviewed" "reviewed_facts reviewed"
  "play pilot_hash 5 rejected_commands pilot_mid = Some rejected" "rejected_facts rejected"
  using evaluated_upstream evaluated_downstream
  by (auto simp: pilot_first_def pilot_ready_def engineering_failure_def engineering_retry_def quality_failure_def
      revived_def reviewed_def rejected_def)

lemma runs_reachable:
  "reachable pilot_hash \<lparr>clock = 5, store = pilot_first\<rparr>" "reachable pilot_hash \<lparr>clock = 5, store = pilot_ready\<rparr>"
  "reachable pilot_hash \<lparr>clock = 5, store = engineering_failure\<rparr>" "reachable pilot_hash \<lparr>clock = 5, store = engineering_retry\<rparr>"
  "reachable pilot_hash \<lparr>clock = 5, store = quality_failure\<rparr>" "reachable pilot_hash \<lparr>clock = 5, store = revived\<rparr>"
  "reachable pilot_hash \<lparr>clock = 5, store = reviewed\<rparr>" "reachable pilot_hash \<lparr>clock = 5, store = rejected\<rparr>"
  using play_reachable [OF pilot_opened_reachable runs(1)] play_reachable [OF pilot_opened_reachable runs(3)]
    play_reachable [OF pilot_opened_reachable runs(5)] play_reachable [OF pilot_opened_reachable runs(7)]
    play_reachable [OF pilot_claimed_reachable [unfolded pilot_claimed_def] runs(9)]
    play_reachable [OF pilot_claimed_reachable [unfolded pilot_claimed_def] runs(11)]
    play_reachable [OF pilot_claimed_reachable [unfolded pilot_claimed_def] runs(13)]
    play_reachable [OF pilot_claimed_reachable [unfolded pilot_claimed_def] runs(15)]
  by blast+

end
