(* ===== verification/Scheduler_Guarantees.thy ===== *)
theory Scheduler_Guarantees
  imports Scheduler_Run Pilot_Runs
begin

text \<open>
  What the scheduler promises on a snapshot of a reachable state: it never blocks on a head that does not
  match its count, it picks the oldest work, it starts paid work only when nothing else is under way, and
  the actions it returns succeed when they are applied to that snapshot.
\<close>

section \<open>No spurious block\<close>

lemma decide_head_blocks:
  "decide st = SchedulerBlocked DownstreamActionHeadMissing \<Longrightarrow>
     bs_downstream_attempt_count st \<noteq> 0 \<and> bs_downstream_action st = None"
  "decide st = SchedulerBlocked DownstreamActionHeadUnexpected \<Longrightarrow>
     bs_downstream_attempt_count st = 0 \<and> bs_downstream_action st \<noteq> None"
  "decide st = SchedulerBlocked ReadyBufferHeadMissing \<Longrightarrow>
     bs_ready_count st \<noteq> 0 \<and> bs_oldest_sponsored_ticket st = None"
  "decide st = SchedulerBlocked ReadyBufferHeadUnexpected \<Longrightarrow>
     bs_ready_count st = 0 \<and> bs_oldest_sponsored_ticket st \<noteq> None"
  by (auto simp: decide_unfold split: if_splits option.splits)

text \<open>
  C24. On a snapshot of a reachable state the scheduler never blocks because a head is missing or unexpected:
  every downstream attempt at the front of the queue has an action, and the ready head exists exactly when
  there is ready work.
\<close>

theorem scheduler_heads_agree:
  assumes "reachable hash s" "next_action (one_snapshot (store s)) now i = Inr act"
  shows "act \<notin> {SchedulerBlocked DownstreamActionHeadMissing, SchedulerBlocked DownstreamActionHeadUnexpected,
    SchedulerBlocked ReadyBufferHeadMissing, SchedulerBlocked ReadyBufferHeadUnexpected}"
proof -
  obtain st where st: "ticket_buffer_status_of (one_snapshot (store s)) now i = Inr st" and act: "act = decide st"
    using assms(2) by (auto simp: next_action_def)
  note heads = status_heads_agree [OF reachableD(4,3) [OF assms(1)] st]
  show ?thesis using heads decide_head_blocks [of st] by (auto simp: act simp del: not_None_eq)
qed

theorem scheduler_heads_agree_witness: "ClaimReadyTicket pilot_action \<noteq> SchedulerBlocked ReadyBufferHeadUnexpected"
  using scheduler_heads_agree [OF runs_reachable(2), of 6 1 "ClaimReadyTicket pilot_action"] runs(4)
  by (simp add: ready_facts_def)

section \<open>Paid work\<close>

lemma next_action_status:
  assumes "next_action s now i = Inr act"
  obtains st where "ticket_buffer_status_of s now i = Inr st" "act = decide st"
  using assms by (auto simp: next_action_def)

lemma no_tickets_in:
  assumes "tables_ok d" "application_revision_ticket_count d r state = 0" "ticket_inv d"
    and "get_row (ticket_revisions d) k = Some tr" "tr_application_revision_id tr = r"
  shows "tr_lifecycle tr \<noteq> state"
  using assms ticket_inv_current [OF assms(3,4)]
  by (auto simp: application_revision_ticket_count_def count_rows_0 tables_ok_def)

text \<open>
  C23. Product discovery is requested only into an empty pipeline: the campaign is running before its deadline
  with known cost, no paid session runs, and no ticket of its application revision is proposed, sponsored or
  in flight.  The low-water mark and the target therefore only matter as being positive.
\<close>

theorem replenishment_needs_an_empty_pipeline:
  assumes "reachable hash s" "next_action (one_snapshot (store s)) now i = Inr (ReplenishProduct j r)"
  shows "\<exists>campaign application. j = i \<and> get_row (campaigns (store s)) i = Some campaign
     \<and> get_row (application_revisions (store s)) (ca_application_revision_id campaign) = Some application
     \<and> ca_lifecycle campaign = CAMPAIGN_RUNNING \<and> now < ca_deadline campaign \<and> ca_cost_state campaign = COST_KNOWN
     \<and> \<not> paid_session_active (store s)
     \<and> (\<forall>k tr. get_row (ticket_revisions (store s)) k = Some tr
          \<longrightarrow> tr_application_revision_id tr = ca_application_revision_id campaign
          \<longrightarrow> tr_lifecycle tr \<noteq> TICKET_PROPOSED \<and> tr_lifecycle tr \<noteq> TICKET_SPONSORED
            \<and> tr_lifecycle tr \<noteq> TICKET_IN_FLIGHT)"
  using assms(2)
proof (rule next_action_status)
  let ?d = "store s"
  fix st
  assume st: "ticket_buffer_status_of (one_snapshot ?d) now i = Inr st" and act: "ReplenishProduct j r = decide st"
  have dec: "upstream_open st" "bs_ready_count st = 0" "bs_proposed_count st = 0" "j = bs_campaign_id st"
    using decide_replenish [OF act [symmetric]] by simp_all
  note tabs = reachableD(4) [OF assms(1)] and inv = reachableD(2) [OF assms(1)]
  from st show ?thesis
  proof (rule ticket_buffer_statusE)
    fix campaign :: campaign_row and application :: application_revision_row
    let ?r = "ca_application_revision_id campaign"
    assume c: "get_row (campaigns (sn_campaign (one_snapshot ?d))) i = Some campaign"
        "get_row (application_revisions (sn_campaign (one_snapshot ?d))) ?r = Some application"
        "bs_campaign_id st = i" "bs_campaign_is_running st \<longleftrightarrow> ca_lifecycle campaign = CAMPAIGN_RUNNING"
        "bs_campaign_deadline_open st \<longleftrightarrow> now < ca_deadline campaign"
        "bs_campaign_cost_known st \<longleftrightarrow> ca_cost_state campaign = COST_KNOWN"
        "bs_paid_session_active st \<longleftrightarrow> paid_session_active (sn_sessions (one_snapshot ?d))"
      and n: "uint (bs_ready_count st) = application_revision_ticket_count (sn_ready (one_snapshot ?d)) ?r TICKET_SPONSORED"
        "uint (bs_proposed_count st) = application_revision_ticket_count (sn_proposed (one_snapshot ?d)) ?r TICKET_PROPOSED"
        "uint (bs_in_flight_count st) = application_revision_ticket_count (sn_in_flight (one_snapshot ?d)) ?r TICKET_IN_FLIGHT"
    have "application_revision_ticket_count ?d ?r TICKET_SPONSORED = 0"
      "application_revision_ticket_count ?d ?r TICKET_PROPOSED = 0" "application_revision_ticket_count ?d ?r TICKET_IN_FLIGHT = 0"
      using n dec(1-3) by (simp_all add: upstream_open_def one_snapshot_def)
    then have "tr_lifecycle tr \<noteq> TICKET_PROPOSED \<and> tr_lifecycle tr \<noteq> TICKET_SPONSORED \<and> tr_lifecycle tr \<noteq> TICKET_IN_FLIGHT"
      if "get_row (ticket_revisions ?d) k = Some tr" "tr_application_revision_id tr = ?r" for k tr
      using no_tickets_in [OF tabs _ inv that] by blast
    then show ?thesis using c dec(1,4) by (auto simp: one_snapshot_def upstream_open_def)
  qed
qed

lemma pilot_first_action: "next_action (one_snapshot pilot_db) 6 1 = Inr (ReplenishProduct 1 0)"
  by code_simp

theorem replenishment_needs_an_empty_pipeline_witness: "\<not> paid_session_active pilot_db"
  using replenishment_needs_an_empty_pipeline [OF pilot_opened_reachable, of 6 1 1 0] pilot_first_action by auto

text \<open>The one revision a claim action names.\<close>

lemma claim_actionE:
  assumes "next_action (one_snapshot d) now i = Inr (ClaimReadyTicket action)" "tables_ok d"
  obtains campaign application tr where
    "get_row (campaigns d) i = Some campaign"
    "get_row (application_revisions d) (ca_application_revision_id campaign) = Some application"
    "cx_campaign_id action = i" "cx_expected_campaign_revision action = word_of_int (ca_revision campaign)"
    "0 \<le> ca_revision campaign" "ca_lifecycle campaign = CAMPAIGN_RUNNING" "now < ca_deadline campaign"
    "ca_cost_state campaign = COST_KNOWN" "\<not> paid_session_active d"
    "application_revision_ticket_count d (ca_application_revision_id campaign) TICKET_IN_FLIGHT = 0"
    "get_row (ticket_revisions d) (sx_ticket_revision_id (cx_ticket action)) = Some tr"
    "tr_application_revision_id tr = ca_application_revision_id campaign" "tr_lifecycle tr = TICKET_SPONSORED"
    "sx_revision (cx_ticket action) = word_of_int (tr_revision tr)" "0 \<le> tr_revision tr"
    "\<And>k x. get_row (ticket_revisions d) k = Some x \<Longrightarrow> is_current d k x \<Longrightarrow> tr_lifecycle x = TICKET_SPONSORED
       \<Longrightarrow> tr_application_revision_id x = ca_application_revision_id campaign \<Longrightarrow>
       (nulls_last (tr_sponsored_at tr), sx_ticket_revision_id (cx_ticket action)) \<le> (nulls_last (tr_sponsored_at x), k)"
  using assms(1)
proof (rule next_action_status)
  fix st
  assume st: "ticket_buffer_status_of (one_snapshot d) now i = Inr st" and act: "ClaimReadyTicket action = decide st"
  note dec = decide_claim [OF act [symmetric]]
  have t: "table_ok (ticket_revisions d)" using assms(2) by (simp add: tables_ok_def)
  from st show thesis
  proof (rule ticket_buffer_statusE)
    fix campaign :: campaign_row and application :: application_revision_row
    let ?r = "ca_application_revision_id campaign"
    assume c: "get_row (campaigns (sn_campaign (one_snapshot d))) i = Some campaign"
        "get_row (application_revisions (sn_campaign (one_snapshot d))) ?r = Some application"
        "bs_campaign_id st = i" "0 \<le> ca_revision campaign" "bs_campaign_revision st = word_of_int (ca_revision campaign)"
        "bs_campaign_is_running st \<longleftrightarrow> ca_lifecycle campaign = CAMPAIGN_RUNNING"
        "bs_campaign_deadline_open st \<longleftrightarrow> now < ca_deadline campaign"
        "bs_campaign_cost_known st \<longleftrightarrow> ca_cost_state campaign = COST_KNOWN"
        "bs_paid_session_active st \<longleftrightarrow> paid_session_active (sn_sessions (one_snapshot d))"
      and n: "uint (bs_in_flight_count st) = application_revision_ticket_count (sn_in_flight (one_snapshot d)) ?r TICKET_IN_FLIGHT"
      and o: "case oldest_sponsored (sn_oldest (one_snapshot d)) ?r of
        None \<Rightarrow> bs_oldest_sponsored_ticket st = None
      | Some (k, tr) \<Rightarrow> 0 < k \<and> 0 \<le> tr_revision tr \<and> bs_oldest_sponsored_ticket st =
          Some \<lparr>sx_ticket_revision_id = k, sx_revision = word_of_int (tr_revision tr)\<rparr>"
    obtain k tr where k: "oldest_sponsored d ?r = Some (k, tr)" "0 \<le> tr_revision tr"
        "cx_ticket action = \<lparr>sx_ticket_revision_id = k, sx_revision = word_of_int (tr_revision tr)\<rparr>"
      using o dec by (auto simp: one_snapshot_def split: option.splits)
    note f = first_row_Some [OF t k(1) [unfolded oldest_sponsored_def]]
    have "application_revision_ticket_count d ?r TICKET_IN_FLIGHT = 0"
      using n dec by (simp add: upstream_open_def one_snapshot_def)
    then show thesis
      using f(1,2) k(2,3) c dec by (intro that [of campaign application tr])
        (use f(3) in \<open>auto simp: one_snapshot_def upstream_open_def\<close>)
  qed
qed

text \<open>
  C22. The claim action is first-in first-out: it names the sponsored revision that was sponsored first, the
  lowest identifier among equals, of the current revisions of the campaign's application revision.
\<close>

theorem claim_is_first_in_first_out:
  assumes "reachable hash s" "next_action (one_snapshot (store s)) now i = Inr (ClaimReadyTicket action)"
  shows "\<exists>tr. get_row (ticket_revisions (store s)) (sx_ticket_revision_id (cx_ticket action)) = Some tr
     \<and> tr_lifecycle tr = TICKET_SPONSORED
     \<and> (\<forall>k x. get_row (ticket_revisions (store s)) k = Some x \<longrightarrow> tr_lifecycle x = TICKET_SPONSORED
          \<longrightarrow> tr_application_revision_id x = tr_application_revision_id tr
          \<longrightarrow> (nulls_last (tr_sponsored_at tr), sx_ticket_revision_id (cx_ticket action)) \<le> (nulls_last (tr_sponsored_at x), k))"
  using assms(2) reachableD(4) [OF assms(1)]
proof (rule claim_actionE)
  fix campaign :: campaign_row and tr :: ticket_revision_row
  assume "get_row (ticket_revisions (store s)) (sx_ticket_revision_id (cx_ticket action)) = Some tr"
    "tr_application_revision_id tr = ca_application_revision_id campaign" "tr_lifecycle tr = TICKET_SPONSORED"
    "\<And>k x. get_row (ticket_revisions (store s)) k = Some x \<Longrightarrow> is_current (store s) k x \<Longrightarrow> tr_lifecycle x = TICKET_SPONSORED
       \<Longrightarrow> tr_application_revision_id x = ca_application_revision_id campaign \<Longrightarrow>
       (nulls_last (tr_sponsored_at tr), sx_ticket_revision_id (cx_ticket action)) \<le> (nulls_last (tr_sponsored_at x), k)"
  then show ?thesis using ticket_inv_current [OF reachableD(2) [OF assms(1)]] by metis
qed

theorem claim_is_first_in_first_out_witness:
  "\<exists>tr. get_row (ticket_revisions pilot_ready) 1 = Some tr \<and> tr_lifecycle tr = TICKET_SPONSORED"
  using claim_is_first_in_first_out [OF runs_reachable(2), of 6 1 pilot_action] runs(4)
  by (auto simp: ready_facts_def pilot_action_def)

text \<open>
  C12. A scheduled claim succeeds.  Applied to the snapshot it was decided on, under a valid command identity not
  used before, with observations that are sealed artifacts and a ticket revision below its maximum, the
  claim passes every guard of the ticket authority and commits.
\<close>

theorem scheduled_claim_succeeds:
  assumes "reachable hash s" "next_action (one_snapshot (store s)) now i = Inr (ClaimReadyTicket action)"
    and "store_validate_command prin command_id = Inr ()" "store_validate_requalification v = Inr ()"
    and "audit_lookup (store s) prin command_id = None" "uint (sx_revision (cx_ticket action)) < I64_MAX"
    and "\<And>tr k. get_row (ticket_revisions (store s)) (sx_ticket_revision_id (cx_ticket action)) = Some tr \<Longrightarrow>
      k \<in> {tr_expected_observation_artifact_id tr, tr_discovery_observation_artifact_id tr,
        first_actual_observation_artifact_id v, second_actual_observation_artifact_id v} \<Longrightarrow>
      is_ok (store_artifact_digest (store s) k)"
  shows "\<exists>r d'. claim_ready_ticket hash now prin command_id action v (store s) = Inr (r, d') \<and> \<not> ct_was_idempotent_retry r"
  using assms(2) reachableD(4) [OF assms(1)]
proof (rule claim_actionE)
  let ?d = "store s" and ?k = "sx_ticket_revision_id (cx_ticket action)"
  let ?c = "\<lparr>cl_principal = prin, cl_command_id = command_id, cl_campaign_id = cx_campaign_id action,
        cl_expected_campaign_revision = cx_expected_campaign_revision action, cl_ticket_revision_id = ?k,
        cl_expected_ticket_revision = sx_revision (cx_ticket action), cl_requalification = v\<rparr>"
  fix campaign :: campaign_row and application :: application_revision_row and tr :: ticket_revision_row
  assume c: "get_row (campaigns ?d) i = Some campaign"
    "get_row (application_revisions ?d) (ca_application_revision_id campaign) = Some application"
    "cx_campaign_id action = i" "cx_expected_campaign_revision action = word_of_int (ca_revision campaign)"
    "0 \<le> ca_revision campaign" "ca_lifecycle campaign = CAMPAIGN_RUNNING" "now < ca_deadline campaign"
    "ca_cost_state campaign = COST_KNOWN" "\<not> paid_session_active ?d"
    "application_revision_ticket_count ?d (ca_application_revision_id campaign) TICKET_IN_FLIGHT = 0"
    and tr: "get_row (ticket_revisions ?d) ?k = Some tr"
    "tr_application_revision_id tr = ca_application_revision_id campaign" "tr_lifecycle tr = TICKET_SPONSORED"
    "sx_revision (cx_ticket action) = word_of_int (tr_revision tr)"
  let ?l = "ticket_lock ?k tr TicketSponsored"
  note inv = reachableD(2) [OF assms(1)]
  have l: "store_lock_ticket_revision ?d ?k = Inr ?l" using store_lock_linked [OF inv tr(1)] tr(3) by simp
  have guards: "validate_claim_campaign now ?c ?l ?d = Inr ()"
    using c tr(2) by (simp add: validate_claim_campaign_def Let_def ticket_lock_def store_revision_from_sql_def
        require_expected_def)
  obtain cl where cl: "store_classify_requalification ?d ?l v = Inr cl"
    using classify_succeeds [of ?l v ?d] assms(7) [OF tr(1)] by (auto simp: ticket_lock_def)
  obtain nxt where nxt: "revision_next (tl_revision ?l) = Inr nxt" "uint nxt \<le> I64_MAX"
    using revision_next_below assms(6) tr(4) by (auto simp: ticket_lock_def)
  obtain x d1 where x: "claim_transition now ?c ?l nxt cl ?d = Inr (x, d1)" "audit_log d1 = audit_log ?d"
    using claim_transition_succeeds [OF inv tr(1,3), of ?c nxt now cl] nxt(2) by auto
  obtain k e where "insert_ticket_audit d1 prin command_id CLAIM_OPERATION (hash (claim_preimage ?c)) (fst (snd (fst (x, d1))))
      (snd (snd (fst (x, d1)))) nxt = Inr (k, e)"
    using insert_ticket_audit_fresh [OF nxt(2) x(2) assms(5)] by blast
  then have "claim_sponsored_ticket_fresh (hash (claim_preimage ?c)) now ?c ?d =
      Inr (\<lparr>ct_ticket_id = tl_ticket_id ?l, ct_ticket_revision_id = ?k, ct_outcome = fst x,
           ct_resulting_ticket_revision = nxt, ct_audit_log_id = k, ct_was_idempotent_retry = False\<rparr>, e)"
    using l guards cl nxt(1) x(1) tr(4)
    by (simp add: claim_sponsored_ticket_fresh_def case_prod_unfold require_expected_def store_require_ticket_state_def
        store_contract_def) (simp add: ticket_lock_def)
  then show ?thesis
    using assms(3-5) by (auto simp: claim_ready_ticket_def claim_sponsored_ticket_cmd_def Let_def audited_def
        find_ticket_audit_def find_audit_entry_def)
qed

lemma pilot_claim_facts:
  "store_validate_command ''kernel'' ''c3'' = Inr ()" "store_validate_requalification pilot_requalification = Inr ()"
  "uint (sx_revision (cx_ticket pilot_action)) < I64_MAX"
  by code_simp+

theorem scheduled_claim_succeeds_witness:
  "\<exists>r d'. claim_ready_ticket pilot_hash 6 ''kernel'' ''c3'' pilot_action pilot_requalification pilot_ready = Inr (r, d')"
proof -
  note ready = runs(4) [unfolded ready_facts_def]
  have art: "is_ok (store_artifact_digest pilot_ready k)"
    if "get_row (ticket_revisions pilot_ready) (sx_ticket_revision_id (cx_ticket pilot_action)) = Some tr"
      "k \<in> {tr_expected_observation_artifact_id tr, tr_discovery_observation_artifact_id tr,
        first_actual_observation_artifact_id pilot_requalification, second_actual_observation_artifact_id pilot_requalification}"
    for tr k
    using that ready by (auto simp: pilot_action_def pilot_requalification_def)
  show ?thesis
    using scheduled_claim_succeeds [OF runs_reachable(2) _ pilot_claim_facts(1,2) _ pilot_claim_facts(3), where i = 1 and now = 6]
      art ready by fastforce
qed

section \<open>Completion\<close>


text \<open>A campaign the process authority reopened after its last delivery.\<close>

definition pilot_reopened :: kernel_state where
  "pilot_reopened = \<lparr>clock = 6, store = pilot_end\<lparr>campaigns :=
     update_row 1 (\<lambda>g. g\<lparr>ca_lifecycle := CAMPAIGN_RUNNING\<rparr>) (campaigns pilot_end)\<rparr>\<rparr>"

lemma pilot_reopened_reachable: "reachable pilot_hash pilot_reopened"
proof -
  have "tables_ok pilot_end" using reachableD(4) [OF pilot_delivered_reachable] by (simp add: pilot_delivered_def)
  then have "kernel_step pilot_hash pilot_delivered pilot_reopened"
    using kernel_step.other_store [of pilot_delivered 6 "store pilot_reopened" pilot_hash]
    by (simp add: pilot_reopened_def pilot_delivered_def protocol_same_def evidence_same_def tickets_same_def
        tables_ok_def table_simps audit_extends_def audit_lookup_def)
  then show ?thesis using reachable_run [OF pilot_delivered_reachable] kernel_run.intros by blast
qed

definition pilot_completion :: complete_campaign_action where
  "pilot_completion = \<lparr>cq_campaign_id = 1, cq_expected_campaign_revision = 1\<rparr>"

lemma pilot_completion_facts:
  "next_action (one_snapshot (store pilot_reopened)) 7 1 = Inr (CompleteCampaign pilot_completion)"
  "store_validate_command ''kernel'' ''c11'' = Inr ()" "audit_lookup (store pilot_reopened) ''kernel'' ''c11'' = None"
  "uint (cq_expected_campaign_revision pilot_completion) < I64_MAX"
  by code_simp+


section \<open>Downstream work\<close>

text \<open>
  C21. The scheduler continues the oldest downstream attempt of the application revision on its newest candidate,
  with the stage the two rows stand for; it may do so after the deadline only to deliver an accepted
  candidate.
\<close>

theorem downstream_work_is_oldest_first:
  assumes "reachable hash s" "next_action (one_snapshot (store s)) now i = Inr (ContinueDownstream x)"
  shows "\<exists>campaign a c. get_row (campaigns (store s)) i = Some campaign
     \<and> get_row (ticket_attempts (store s)) (da_ticket_attempt_id x) = Some a
     \<and> newest_candidate (store s) (da_ticket_attempt_id x) = Some (da_candidate_id x, c)
     \<and> from_attempt_and_candidate (ta_stage a) (cr_lifecycle c) (cr_commit c \<noteq> None)
         (candidate_review (store s) (da_candidate_id x) \<noteq> None) = Some (da_stage x)
     \<and> (\<forall>k b. get_row (ticket_attempts (store s)) k = Some b
          \<longrightarrow> is_downstream (store s) (ca_application_revision_id campaign) k b
          \<longrightarrow> (ta_created_at a, da_ticket_attempt_id x) \<le> (ta_created_at b, k))
     \<and> (now < ca_deadline campaign \<or> da_stage x = DownDeliverAccepted)"
  using assms(2)
proof (rule next_action_status)
  let ?d = "store s"
  fix st
  assume st: "ticket_buffer_status_of (one_snapshot ?d) now i = Inr st" and act: "ContinueDownstream x = decide st"
  note dec = decide_continue [OF act [symmetric]] and r = reachableD(4,3) [OF assms(1)]
  have t: "table_ok (ticket_attempts ?d)" using r(1) by (simp add: tables_ok_def)
  from st show ?thesis
  proof (rule ticket_buffer_statusE)
    fix campaign :: campaign_row
    let ?r = "ca_application_revision_id campaign" and ?e = "sn_downstream (one_snapshot ?d)"
    assume c: "get_row (campaigns (sn_campaign (one_snapshot ?d))) i = Some campaign"
        "bs_campaign_deadline_open st \<longleftrightarrow> now < ca_deadline campaign"
      and act: "(case (downstream_head ?e ?r, Option.bind (downstream_head ?e ?r) (\<lambda>(i, _). newest_candidate ?e i)) of
        (Some h, Some c) \<Rightarrow> downstream_action_of ?e h c | _ \<Rightarrow> Inr None) = Inr (bs_downstream_action st)"
    have e: "?e = ?d" by (simp add: one_snapshot_def)
    from act dec obtain j a where h: "downstream_head ?d ?r = Some (j, a)"
      by (cases "downstream_head ?d ?r") (auto simp: e)
    note act' = act [unfolded e]
    show ?thesis
    proof (rule downstream_action_ok [OF r h act'])
      fix k y stage z
      assume "newest_candidate ?d j = Some (k, y)" "bs_downstream_action st = Some z" "da_ticket_attempt_id z = j"
        "da_candidate_id z = k" "da_stage z = stage" "from_attempt_and_candidate (ta_stage a) (cr_lifecycle y)
          (cr_commit y \<noteq> None) (candidate_review ?d k \<noteq> None) = Some stage" "get_row (ticket_attempts ?d) j = Some a"
      moreover have "(ta_created_at a, j) \<le> (ta_created_at b, k)"
        if "get_row (ticket_attempts ?d) k = Some b" "is_downstream ?d ?r k b" for k b
        using first_row_Some(3) [OF t h [unfolded downstream_head_def] that] .
      ultimately show ?thesis
        using c dec by (intro exI [of _ campaign] exI [of _ a] exI [of _ y]) (auto simp: one_snapshot_def)
    qed
  qed
qed

definition pilot_downstream :: downstream_action_context where
  "pilot_downstream = \<lparr>da_stage = DownCandidateCommitAttachRequired, da_ticket_attempt_id = 1,
     da_ticket_attempt_revision = 2, da_ticket_revision = 2, da_candidate_id = 1, da_candidate_revision = 1\<rparr>"

lemma pilot_downstream_action: "next_action (one_snapshot (store pilot_claimed)) 6 1 = Inr (ContinueDownstream pilot_downstream)"
  by code_simp

theorem downstream_work_is_oldest_first_witness:
  "\<exists>c. newest_candidate (store pilot_claimed) 1 = Some (1, c)"
  using downstream_work_is_oldest_first [OF pilot_claimed_reachable pilot_downstream_action]
  by (auto simp: pilot_downstream_def)

end
