(* ===== verification/Command_Guarantees.thy ===== *)
theory Command_Guarantees
  imports Scheduler_Run Pilot_Runs
begin

text \<open>
  What the sixteen commands promise together: a command takes effect once, its identity is not reused,
  a fingerprint binds the command it stands for, and an attempt moves a bounded number of times.
\<close>

section \<open>Exactly once\<close>

text \<open>
  C5. A command takes effect at most once.  After it has committed, however the kernel runs on, running it
  again either fails or leaves the database exactly as it is.
\<close>

theorem command_takes_effect_once:
  assumes "reachable hash s" "clock s \<le> now" "command_step hash now c (store s) = Some d"
    and "kernel_run hash \<lparr>clock = now, store = d\<rparr> s'" "command_step hash later c (store s') = Some d'"
  shows "d' = store s'"
proof -
  have "kernel_run hash s \<lparr>clock = now, store = d\<rparr>"
    using kernel_run.go [OF kernel_run.stop kernel_step.command] assms(2,3) by blast
  then have "kernel_grows \<lparr>clock = now, store = d\<rparr> s'"
    using reachable_run assms(1,4) by blast
  then have "recorded hash c (store s')"
    using recorded_extends command_step_recorded [OF assms(3)] by (simp add: kernel_grows_def)
  then show ?thesis
    using command_step_replays_or_appends [OF assms(5)] appends_new by (fastforce simp: recorded_def)
qed

theorem command_takes_effect_once_witness:
  "command_step pilot_hash 6 (SubmitTicketProposal pilot_propose) pilot_first = Some pilot_first"
proof -
  have step: "command_step pilot_hash 5 (SubmitTicketProposal pilot_propose) pilot_db = Some pilot_first"
    using runs(1) by (simp add: pilot_commands_def bind_eq_Some_conv del: command_step.simps)
  obtain d' where d': "command_step pilot_hash 6 (SubmitTicketProposal pilot_propose) pilot_first = Some d'"
    using runs(2) by (auto simp: first_facts_def accepts_def simp del: command_step.simps)
  then show ?thesis
    using command_takes_effect_once [OF pilot_opened_reachable _ _ kernel_run.stop, of 5 "SubmitTicketProposal pilot_propose" pilot_first 6 d']
      step by (simp del: command_step.simps)
qed

text \<open>
  C29. A command identity is never reused: under a principal and command identifier that the audit log holds
  for another operation or another fingerprint, every command fails.
\<close>

theorem reused_identity_is_rejected:
  assumes "audit_lookup d (fst (command_identity c)) (snd (command_identity c)) = Some (i, a)"
    and "au_operation a \<noteq> command_operation c \<or> au_command_fingerprint a \<noteq> hash (command_preimage c)"
  shows "command_step hash now c d = None"
proof (rule ccontr)
  assume "command_step hash now c d \<noteq> None"
  then obtain d' where "command_step hash now c d = Some d'" by blast
  then show False
    using command_step_replays_or_appends [of hash now c d d'] appends_new [of hash c d d'] assms by (auto simp: recorded_def)
qed

definition pilot_impostor :: kernel_command where
  "pilot_impostor = SponsorTicketRevision (pilot_sponsor\<lparr>sr_command_id := ''c1''\<rparr>)"

theorem reused_identity_is_rejected_witness: "command_step pilot_hash 6 pilot_impostor pilot_mid = None"
proof -
  have "map_option (\<lambda>(i, a). au_operation a = ''ticket.propose'') (audit_lookup pilot_mid ''kernel'' ''c1'') = Some True"
    by code_simp
  then obtain i a where "audit_lookup pilot_mid ''kernel'' ''c1'' = Some (i, a)" "au_operation a = ''ticket.propose''"
    by auto
  then show ?thesis
    by (intro reused_identity_is_rejected [where i = i and a = a])
      (simp_all add: pilot_impostor_def pilot_sponsor_def TICKET_SPONSOR_OPERATION_def)
qed

section \<open>Progress\<close>

text \<open>A run of the kernel, counting how often the attempt changes its stage.\<close>

inductive stage_moves :: "(byte list \<Rightarrow> content_digest) \<Rightarrow> int \<Rightarrow> nat \<Rightarrow> kernel_state \<Rightarrow> kernel_state \<Rightarrow> bool" for hash j where
  none: "stage_moves hash j 0 s s"
| stays: "stage_moves hash j n s s' \<Longrightarrow> kernel_step hash s' s'' \<Longrightarrow>
     map_option ta_stage (get_row (ticket_attempts (store s'')) j) = map_option ta_stage (get_row (ticket_attempts (store s')) j) \<Longrightarrow>
     stage_moves hash j n s s''"
| moves: "stage_moves hash j n s s' \<Longrightarrow> kernel_step hash s' s'' \<Longrightarrow>
     map_option ta_stage (get_row (ticket_attempts (store s'')) j) \<noteq> map_option ta_stage (get_row (ticket_attempts (store s')) j) \<Longrightarrow>
     stage_moves hash j (Suc n) s s''"

lemma stage_moves_run: "stage_moves hash j n s s' \<Longrightarrow> kernel_run hash s s'"
  by (induction rule: stage_moves.induct) (auto intro: kernel_run.intros)

lemma run_stage_moves: "kernel_run hash s s' \<Longrightarrow> \<exists>n. stage_moves hash j n s s'"
proof (induction rule: kernel_run.induct)
  case (go s s' s'')
  then obtain n where "stage_moves hash j n s s'" by blast
  then show ?case
    using go.hyps(2) stage_moves.stays stage_moves.moves
    by (cases "map_option ta_stage (get_row (ticket_attempts (store s'')) j) = map_option ta_stage (get_row (ticket_attempts (store s')) j)")
      blast+
qed (blast intro: stage_moves.none)

lemma stage_moves_spend:
  assumes "stage_moves hash j n s s'" "reachable hash s" "get_row (ticket_attempts (store s)) j = Some a"
  shows "\<exists>a'. get_row (ticket_attempts (store s')) j = Some a'
     \<and> n + attempt_budget (store s') j a' \<le> attempt_budget (store s) j a"
  using assms
proof (induction rule: stage_moves.induct)
  case (none s)
  then show ?case by simp
next
  case (stays n s s' s'')
  obtain b where b: "get_row (ticket_attempts (store s')) j = Some b" "n + attempt_budget (store s') j b \<le> attempt_budget (store s) j a"
    using stays by blast
  have r: "reachable hash s'" using reachable_run [OF stays.prems(1) stage_moves_run [OF stays.hyps(1)]] by simp
  note g = kernel_step_inv [OF stays.hyps(2) reachable_inv [OF r]]
  then have t: "tables_ok (store s')" "tables_ok (store s'')" "keeps_rows (audit_log (store s')) (audit_log (store s''))"
    using reachableD(4) [OF r] by (simp_all add: kernel_inv_def kernel_grows_def evidence_inv_tables)
  obtain b' where "get_row (ticket_attempts (store s'')) j = Some b'" "advances (store s') (store s'') j b b'"
    using kernel_step_advances [OF stays.hyps(2) t(1)] b(1) by (auto simp: all_advance_def)
  then show ?case using advances_budget(1) [OF t, of j b b'] b(2) by fastforce
next
  case (moves n s s' s'')
  obtain b where b: "get_row (ticket_attempts (store s')) j = Some b" "n + attempt_budget (store s') j b \<le> attempt_budget (store s) j a"
    using moves by blast
  have r: "reachable hash s'" using reachable_run [OF moves.prems(1) stage_moves_run [OF moves.hyps(1)]] by simp
  note g = kernel_step_inv [OF moves.hyps(2) reachable_inv [OF r]]
  then have t: "tables_ok (store s')" "tables_ok (store s'')" "keeps_rows (audit_log (store s')) (audit_log (store s''))"
    using reachableD(4) [OF r] by (simp_all add: kernel_inv_def kernel_grows_def evidence_inv_tables)
  obtain b' where b': "get_row (ticket_attempts (store s'')) j = Some b'" "advances (store s') (store s'') j b b'"
    using kernel_step_advances [OF moves.hyps(2) t(1)] b(1) by (auto simp: all_advance_def)
  then have "ta_stage b' \<noteq> ta_stage b" using moves.hyps(3) b(1) by auto
  then show ?case using advances_budget(2) [OF t, of j b b'] b' b(2) by fastforce
qed

text \<open>
  C14. An attempt cannot cycle.  In every run from a reachable state, however long, an attempt changes its
  stage at most thirty-nine times: it is reworked, retried by Quality and retried by Engineering at most once
  each, and otherwise only moves forward.
\<close>

theorem attempt_moves_are_bounded:
  assumes "reachable hash s" "get_row (ticket_attempts (store s)) j = Some a" "kernel_run hash s s'"
  shows "(\<exists>n. stage_moves hash j n s s') \<and> (\<forall>n. stage_moves hash j n s s' \<longrightarrow> n \<le> attempt_budget (store s) j a)
     \<and> attempt_budget (store s) j a \<le> 39"
  using run_stage_moves [OF assms(3)] stage_moves_spend [OF _ assms(1,2)] attempt_budget_bound
  by (fastforce dest: stage_moves_spend [OF _ assms(1,2)])

lemma pilot_claimed_attempt:
  "\<exists>a. get_row (ticket_attempts (store pilot_claimed)) 1 = Some a \<and> ta_stage a = ATTEMPT_QUALITY \<and> ta_rework_ordinal a = 0"
  by (simp add: pilot_claimed_def pilot_mid_def get_row_def)

theorem attempt_moves_are_bounded_witness: "\<exists>n. stage_moves pilot_hash 1 n pilot_claimed pilot_delivered"
  using attempt_moves_are_bounded [OF pilot_claimed_reachable _ pilot_runs, of 1] pilot_claimed_attempt by blast

text \<open>A retry that is not a replay is the first of its kind for the attempt, and leaves its audit row.\<close>

lemma quality_retry_cmd:
  assumes "retry_quality_attempt_cmd hash now c d = Inr (r, d')" "tables_ok d"
  shows "tt_was_idempotent_retry r \<and> d' = d
     \<or> \<not> quality_retried d (rqa_ticket_attempt_id c) \<and> quality_retried d' (rqa_ticket_attempt_id c)"
  using retry_quality_attempt_cmd_audited [OF assms(1)]
proof (rule audited_cases)
  assume "retry_quality_attempt_fresh (hash (quality_retry_preimage c)) now c d = Inr (r, d')"
  then show ?thesis
    by (rule retry_quality_attempt_freshE) (use move_attempt_logs [OF _ assms(2)] in \<open>auto simp: quality_retried_def\<close>)
qed (use ticket_replay_retry in blast)

lemma engineering_retry_cmd:
  assumes "retry_engineering_attempt_cmd hash c d = Inr (r, d')" "tables_ok d"
  shows "tt_was_idempotent_retry r \<and> d' = d
     \<or> \<not> engineering_retried d (rea_ticket_attempt_id c) \<and> engineering_retried d' (rea_ticket_attempt_id c)"
  using retry_engineering_attempt_cmd_audited [OF assms(1)]
proof (rule audited_cases)
  assume "retry_engineering_attempt_fresh (hash (engineering_retry_preimage c)) c d = Inr (r, d')"
  then show ?thesis
    by (rule retry_engineering_attempt_freshE) (use move_attempt_logs [OF _ assms(2)] in \<open>auto simp: engineering_retried_def\<close>)
qed (use ticket_replay_retry in blast)

text \<open>
  C28. An attempt is retried by Quality at most once and by Engineering at most once, under whatever command
  identities: however the kernel runs on after the first retry, a second one changes nothing.
\<close>

theorem retries_happen_once:
  assumes "reachable hash s" "kernel_run hash s s'"
    and "quality_retried (store s) j \<and> retry_quality_attempt_cmd hash now q (store s') = Inr (r, d) \<and> rqa_ticket_attempt_id q = j
       \<or> engineering_retried (store s) j \<and> retry_engineering_attempt_cmd hash e (store s') = Inr (r, d) \<and> rea_ticket_attempt_id e = j"
  shows "d = store s'"
proof -
  have r: "reachable hash s'" "kernel_grows s s'" using reachable_run [OF assms(1,2)] by simp_all
  note t = reachableD(4) [OF assms(1)] reachableD(4) [OF r(1)]
  have keeps: "keeps_rows (audit_log (store s)) (audit_log (store s'))" using r(2) by (simp add: kernel_grows_def)
  show ?thesis
    using assms(3) prior_retry_keeps [OF t keeps] quality_retry_cmd [OF _ t(2), of hash now q r d]
      engineering_retry_cmd [OF _ t(2), of hash e r d]
    by (auto simp: quality_retried_def engineering_retried_def)
qed

end
