(* ===== verification/Recovery.thy ===== *)
theory Recovery
  imports Command_Guarantees
begin

text \<open>
  Recovery after a failed attempt: what the two recovery queries select can be retried, once each.  A run at
  the end shows what the Quality query does not look at: whether the attempt was released.
\<close>

section \<open>What the recovery queries select can be retried\<close>

lemma move_attempt_succeeds:
  assumes "uint (al_revision a) < I64_MAX" "audit_lookup d p c = None"
  shows "\<exists>r d' (nxt :: aggregate_revision). move_attempt d i a stage failed p c op fp sub = Inr (r, d') \<and> \<not> tt_was_idempotent_retry r
     \<and> ticket_attempts d' = update_row i (\<lambda>x. x\<lparr>ta_stage := stage, ta_failed := failed, ta_revision := uint nxt\<rparr>) (ticket_attempts d)"
proof -
  obtain nxt where n: "revision_next (al_revision a) = Inr nxt" "uint nxt \<le> I64_MAX"
    using revision_next_below [OF assms(1)] by blast
  let ?d1 = "d\<lparr>ticket_attempts := update_row i (\<lambda>x. x\<lparr>ta_stage := stage, ta_failed := failed, ta_revision := uint nxt\<rparr>)
     (ticket_attempts d)\<rparr>"
  obtain k e where "insert_ticket_audit ?d1 p c op fp sub i nxt = Inr (k, e)"
    using insert_ticket_audit_fresh [OF n(2) _ assms(2), of ?d1 op fp sub i] by auto
  moreover from this have "ticket_attempts e = ticket_attempts ?d1" using insert_ticket_audit_frame(3) by blast
  ultimately show ?thesis using n
    by (intro exI [of _ "\<lparr>tt_ticket_attempt_id = i, tt_resulting_attempt_revision = nxt, tt_audit_log_id = k,
        tt_was_idempotent_retry = False\<rparr>"] exI [of _ e] exI [of _ nxt])
      (simp add: move_attempt_def revision_to_sql_def sql_of_revision_def)
qed

lemma in_flight_revisionE:
  assumes "in_flight_revision d a = Some tr"
  shows "get_row (ticket_revisions d) (ta_ticket_revision_id a) = Some tr" "tr_lifecycle tr = TICKET_IN_FLIGHT"
  using assms by (auto simp: in_flight_revision_def split: option.splits if_splits)

text \<open>The lock and the fences of an attempt whose ticket is in flight, at the revisions the query read.\<close>

lemma lock_in_flight:
  assumes "ticket_inv d" "get_row (ticket_attempts d) i = Some a" "in_flight_revision d a = Some tr" "0 \<le> ta_revision a"
  obtains x where "lock_fenced_attempt d i (word_of_int (ta_revision a)) (word_of_int (tr_revision tr)) = Inr x"
    "al_stage x = ta_stage a" "al_released x = (ta_released a \<noteq> None)" "al_revision x = word_of_int (ta_revision a)"
proof -
  note tr = in_flight_revisionE [OF assms(3)]
  have "ticket_state_from_sql (tr_lifecycle tr) = Inr TicketInFlight" by (simp add: tr(2) ticket_state_from_sql_def)
  then obtain x where "lock_ticket_attempt d i = Inr x" "al_stage x = ta_stage a" "al_released x = (ta_released a \<noteq> None)"
      "al_revision x = word_of_int (ta_revision a)" "al_ticket_revision x = word_of_int (tr_revision tr)"
      "al_ticket_state x = TicketInFlight"
    using lock_attempt_linked [OF assms(1,2) tr(1) _ assms(4)] by simp
  then show thesis
    by (intro that [of x]) (simp_all add: lock_fenced_attempt_def require_expected_def store_require_ticket_state_def)
qed

text \<open>
  C26. A recoverable Engineering failure can be retried: the attempt the query selects passes every guard of
  the retry under a valid fresh identity, and is back in Engineering with its failure cleared.
\<close>

theorem engineering_recovery_succeeds:
  assumes "reachable hash s" "recoverable_engineering_failure (store s) i = Inr (Some x)"
    and "store_validate_command prin command_id = Inr ()" "validate_reason reason ''Engineering retry reason'' = Inr ()"
    and "audit_lookup (store s) prin command_id = None" "uint (ex_attempt_revision x) < I64_MAX"
  shows "\<exists>r d' a. retry_engineering_attempt_cmd hash \<lparr>rea_principal = prin, rea_command_id = command_id,
        rea_ticket_attempt_id = ex_ticket_attempt_id x, rea_expected_attempt_revision = ex_attempt_revision x,
        rea_expected_ticket_revision = ex_ticket_revision x, rea_reason = reason\<rparr> (store s) = Inr (r, d')
     \<and> \<not> tt_was_idempotent_retry r \<and> get_row (ticket_attempts d') (ex_ticket_attempt_id x) = Some a
     \<and> ta_stage a = ATTEMPT_ENGINEERING \<and> ta_failed a = None"
proof -
  let ?d = "store s"
  note inv = reachableD(2) [OF assms(1)]
  have t: "table_ok (ticket_attempts ?d)" using reachableD(4) [OF assms(1)] by (simp add: tables_ok_def)
  obtain j a tr where f: "first_row (engineering_recoverable ?d i) (\<lambda>i a. (nulls_last (map_option fst (ta_failed a)), i))
        (ticket_attempts ?d) = Some (j, a)" "in_flight_revision ?d a = Some tr" "0 \<le> ta_revision a"
      "ex_ticket_attempt_id x = j" "ex_attempt_revision x = word_of_int (ta_revision a)"
      "ex_ticket_revision x = word_of_int (tr_revision tr)"
    using assms(2) unfolding recoverable_engineering_failure_def
    by (auto simp: bind_eq_Some_conv store_revision_from_sql_def identifier_new_def split: option.splits if_splits)
  note a = first_row_Some(1,2) [OF t f(1)]
  obtain y where y: "lock_fenced_attempt ?d j (ex_attempt_revision x) (ex_ticket_revision x) = Inr y"
      "al_stage y = ta_stage a" "al_released y = (ta_released a \<noteq> None)" "al_revision y = ex_attempt_revision x"
    by (rule lock_in_flight [OF inv a(1) f(2,3)]) (use f(5,6) in auto)
  have below: "uint (al_revision y) < I64_MAX" using y(4) assms(6) by simp
  obtain r d' and nxt :: aggregate_revision where m: "move_attempt ?d j y ATTEMPT_ENGINEERING None prin command_id ENGINEERING_RETRY_OPERATION
        (hash (engineering_retry_preimage \<lparr>rea_principal = prin, rea_command_id = command_id,
        rea_ticket_attempt_id = j, rea_expected_attempt_revision = ex_attempt_revision x,
        rea_expected_ticket_revision = ex_ticket_revision x, rea_reason = reason\<rparr>)) ENGINEERING_RETRY_SUBJECT = Inr (r, d')"
      "\<not> tt_was_idempotent_retry r"
      "ticket_attempts d' = update_row j (\<lambda>x. x\<lparr>ta_stage := ATTEMPT_ENGINEERING, ta_failed := None, ta_revision := uint nxt\<rparr>)
         (ticket_attempts ?d)"
    using move_attempt_succeeds [OF below assms(5)] by blast
  show ?thesis
    using a(2) y m f(4) assms(3-5) a(1)
    by (auto simp: retry_engineering_attempt_cmd_def retry_engineering_attempt_fresh_def Let_def audited_def
        find_ticket_audit_def find_audit_entry_def engineering_recoverable_def attempt_campaign_def
        can_retry_engineering_attempt_def tbl.get_upd split: option.splits)
qed

lemma recovery_command_facts:
  "store_validate_command ''kernel'' ''r1'' = Inr ()" "validate_reason ''host is back'' ''Engineering retry reason'' = Inr ()"
  "store_validate_command ''kernel'' ''r2'' = Inr ()" "validate_reason ''suite was interrupted'' ''Quality retry reason'' = Inr ()"
  "uint (ex_attempt_revision engineering_context) < I64_MAX" "uint (da_ticket_attempt_revision quality_context) < I64_MAX"
  by code_simp+

theorem engineering_recovery_succeeds_witness:
  "\<exists>r d'. retry_engineering_attempt_cmd pilot_hash retry_engineering engineering_failure = Inr (r, d')"
  using engineering_recovery_succeeds [OF runs_reachable(3), of 1 engineering_context "''kernel''" "''r1''" "''host is back''"]
    runs(6) [unfolded engineering_failure_facts_def] recovery_command_facts by (fastforce simp: retry_engineering_def engineering_context_def)

text \<open>
  C27. A recoverable Quality failure can be retried: the attempt and candidate the query selects pass every guard
  of the Quality retry under a valid fresh identity, and the attempt is back in rework Quality.
\<close>

theorem quality_recovery_succeeds:
  assumes "reachable hash s" "recoverable_quality_failure (store s) i = Inr (Some x)"
    and "store_validate_command prin command_id = Inr ()" "validate_reason reason ''Quality retry reason'' = Inr ()"
    and "audit_lookup (store s) prin command_id = None" "uint (da_ticket_attempt_revision x) < I64_MAX"
  shows "\<exists>r d' a. retry_quality_attempt_cmd hash now \<lparr>rqa_principal = prin, rqa_command_id = command_id,
        rqa_ticket_attempt_id = da_ticket_attempt_id x, rqa_candidate_id = da_candidate_id x,
        rqa_expected_attempt_revision = da_ticket_attempt_revision x,
        rqa_expected_ticket_revision = da_ticket_revision x, rqa_reason = reason\<rparr> (store s) = Inr (r, d')
     \<and> \<not> tt_was_idempotent_retry r \<and> get_row (ticket_attempts d') (da_ticket_attempt_id x) = Some a
     \<and> ta_stage a = ATTEMPT_REWORK_QUALITY"
proof -
  let ?d = "store s"
  note inv = reachableD(2) [OF assms(1)]
  have t: "table_ok (candidates ?d)" using reachableD(4) [OF assms(1)] by (simp add: tables_ok_def)
  obtain k c a tr where f: "first_row (quality_recoverable ?d i) (quality_failure_key ?d) (candidates ?d) = Some (k, c)"
      "get_row (ticket_attempts ?d) (cr_ticket_attempt_id c) = Some a" "in_flight_revision ?d a = Some tr" "0 \<le> ta_revision a"
      "da_ticket_attempt_id x = cr_ticket_attempt_id c" "da_ticket_attempt_revision x = word_of_int (ta_revision a)"
      "da_ticket_revision x = word_of_int (tr_revision tr)" "da_candidate_id x = k"
    using assms(2) unfolding recoverable_quality_failure_def
    by (auto simp: bind_eq_Some_conv store_revision_from_sql_def identifier_new_def split: option.splits if_splits)
  note c = first_row_Some(1,2) [OF t f(1)]
  obtain y where y: "lock_fenced_attempt ?d (cr_ticket_attempt_id c) (da_ticket_attempt_revision x) (da_ticket_revision x) = Inr y"
      "al_stage y = ta_stage a" "al_revision y = da_ticket_attempt_revision x"
    by (rule lock_in_flight [OF inv f(2,3,4)]) (use f(6,7) in auto)
  have below: "uint (al_revision y) < I64_MAX" using y(3) assms(6) by simp
  obtain r d' and nxt :: aggregate_revision where m: "move_attempt ?d (cr_ticket_attempt_id c) y ATTEMPT_REWORK_QUALITY (Some (now, reason)) prin command_id
        QUALITY_RETRY_OPERATION (hash (quality_retry_preimage \<lparr>rqa_principal = prin, rqa_command_id = command_id,
        rqa_ticket_attempt_id = cr_ticket_attempt_id c, rqa_candidate_id = k,
        rqa_expected_attempt_revision = da_ticket_attempt_revision x,
        rqa_expected_ticket_revision = da_ticket_revision x, rqa_reason = reason\<rparr>)) QUALITY_RETRY_SUBJECT = Inr (r, d')"
      "\<not> tt_was_idempotent_retry r"
      "ticket_attempts d' = update_row (cr_ticket_attempt_id c) (\<lambda>x. x\<lparr>ta_stage := ATTEMPT_REWORK_QUALITY,
         ta_failed := Some (now, reason), ta_revision := uint nxt\<rparr>) (ticket_attempts ?d)"
    using move_attempt_succeeds [OF below assms(5)] by blast
  show ?thesis
    using c y m f(2,5,8) assms(3-5)
    by (auto simp: retry_quality_attempt_cmd_def retry_quality_attempt_fresh_def Let_def audited_def
        find_ticket_audit_def find_audit_entry_def quality_recoverable_def
        can_retry_quality_attempt_def tbl.get_upd split: option.splits)
qed

theorem quality_recovery_succeeds_witness:
  "\<exists>r d'. retry_quality_attempt_cmd pilot_hash 6 (retry_quality 3 2) quality_failure = Inr (r, d')"
  using quality_recovery_succeeds [OF runs_reachable(5), of 1 quality_context "''kernel''" "''r2''" "''suite was interrupted''" 6]
    runs(10) [unfolded quality_failure_facts_def] recovery_command_facts
  by (fastforce simp: retry_quality_def quality_context_def)

theorem retries_happen_once_witness:
  "\<exists>r. retry_engineering_attempt_cmd pilot_hash retry_engineering engineering_retry = Inr (r, engineering_retry)"
proof -
  obtain r d where d: "retry_engineering_attempt_cmd pilot_hash retry_engineering engineering_retry = Inr (r, d)"
    using runs(8) by (cases "retry_engineering_attempt_cmd pilot_hash retry_engineering engineering_retry")
      (auto simp: engineering_retry_facts_def accepts_def)
  moreover have "rea_ticket_attempt_id retry_engineering = 1" by (simp add: retry_engineering_def)
  ultimately show ?thesis
    using retries_happen_once [OF runs_reachable(4) kernel_run.stop, where j = 1 and r = r and d = d and e = retry_engineering]
      runs(8) by (auto simp: engineering_retry_facts_def)
qed

section \<open>A released attempt can be revived\<close>

text \<open>
  C31. The Quality retry does not look at the release of an attempt.  In a reachable state the released attempt
  of a ticket is back in rework Quality while the attempt that claimed the ticket after it is in Engineering, so
  two attempts of one in-flight ticket are worked on at once.
\<close>

theorem released_attempt_revived:
  "\<exists>s a b. reachable pilot_hash s \<and> get_row (ticket_attempts (store s)) 1 = Some a \<and> get_row (ticket_attempts (store s)) 2 = Some b
     \<and> ta_ticket_revision_id a = ta_ticket_revision_id b \<and> ta_released a \<noteq> None \<and> ta_stage a = ATTEMPT_REWORK_QUALITY
     \<and> ta_released b = None \<and> ta_stage b = ATTEMPT_ENGINEERING \<and> is_downstream (store s) 1 1 a"
proof -
  obtain a b where "get_row (ticket_attempts revived) 1 = Some a" "get_row (ticket_attempts revived) 2 = Some b"
      "ta_ticket_revision_id a = 1" "ta_ticket_revision_id b = 1" "ta_released a \<noteq> None" "ta_stage a = ATTEMPT_REWORK_QUALITY"
      "ta_released b = None" "ta_stage b = ATTEMPT_ENGINEERING" "is_downstream revived 1 1 a"
    using runs(12) by (auto simp: revived_facts_def attempt_facts_def simp del: not_None_eq not_Some_eq)
  then show ?thesis using runs_reachable(6)
    by (intro exI [of _ "\<lparr>clock = 5, store = revived\<rparr>"] exI [of _ a] exI [of _ b]) simp
qed

end
