(* ===== verification/Base64.thy ===== *)
theory Base64
  imports Values
begin

text \<open>
  The base64 of the packet boundary: the encoder of \<open>assignment_runtime.rs\<close>, the decoder with which
  \<open>process.rs\<close> reads a packet back, and the strict decoder of \<open>factory-protocol/src/wire.rs\<close> that
  admits one.  A chunk of four characters is one step of each loop.
\<close>

section \<open>Definitions\<close>

definition base64_value :: "byte \<Rightarrow> byte option" where
  "base64_value b =
     (if 65 \<le> b \<and> b \<le> 90 then Some (b - 65)
      else if 97 \<le> b \<and> b \<le> 122 then Some (b - 97 + 26)
      else if 48 \<le> b \<and> b \<le> 57 then Some (b - 48 + 52)
      else if b = 43 then Some 62
      else if b = 47 then Some 63
      else None)"

definition base64_table :: "byte list" where
  "base64_table = bytes_of ''ABCDEFGHIJKLMNOPQRSTUVWXYZabcdefghijklmnopqrstuvwxyz0123456789+/''"

definition base64_digit :: "32 word \<Rightarrow> byte" where
  "base64_digit v = base64_table ! unat (v AND 63)"

definition base64_group :: "byte \<Rightarrow> byte \<Rightarrow> byte \<Rightarrow> 32 word" where
  "base64_group a b c = push_bit 16 (ucast a) OR push_bit 8 (ucast b) OR ucast c"

fun base64_bytes :: "byte list \<Rightarrow> byte list" where
  "base64_bytes [] = []"
| "base64_bytes [a] = (let v = base64_group a 0 0 in
     [base64_digit (drop_bit 18 v), base64_digit (drop_bit 12 v), 61, 61])"
| "base64_bytes [a, b] = (let v = base64_group a b 0 in
     [base64_digit (drop_bit 18 v), base64_digit (drop_bit 12 v), base64_digit (drop_bit 6 v), 61])"
| "base64_bytes (a # b # c # rest) = (let v = base64_group a b c in
     [base64_digit (drop_bit 18 v), base64_digit (drop_bit 12 v), base64_digit (drop_bit 6 v), base64_digit v]
     @ base64_bytes rest)"

definition base64 :: "byte list \<Rightarrow> string" where
  "base64 bs = map (\<lambda>b. char_of (unat b)) (base64_bytes bs)"

text \<open>The lenient decoder; a padding byte counts as zero wherever it stands in the second half of a chunk.\<close>

definition pad_or_value :: "byte \<Rightarrow> byte option" where
  "pad_or_value b = (if b = 61 then Some 0 else base64_value b)"

fun decode_chunks :: "byte list \<Rightarrow> byte list option" where
  "decode_chunks (p # q # r # s # rest) =
     Option.bind (base64_value p) (\<lambda>a. Option.bind (base64_value q) (\<lambda>b.
     Option.bind (pad_or_value r) (\<lambda>c. Option.bind (pad_or_value s) (\<lambda>d.
     map_option (\<lambda>out. [push_bit 2 a OR drop_bit 4 b]
         @ (if r \<noteq> 61 then [push_bit 4 b OR drop_bit 2 c] else [])
         @ (if s \<noteq> 61 then [push_bit 6 c OR d] else []) @ out) (decode_chunks rest)))))"
| "decode_chunks _ = Some []"

definition decode_base64 :: "string \<Rightarrow> byte list option" where
  "decode_base64 v = (if length v mod 4 \<noteq> 0 then None else decode_chunks (bytes_of v))"

text \<open>The strict check and decoder of the wire.\<close>

definition trailing_padding :: "byte list \<Rightarrow> nat" where
  "trailing_padding bs = length (takeWhile (\<lambda>b. b = 61) (rev bs))"

definition base64_body :: "byte list \<Rightarrow> byte list" where
  "base64_body bs = take (length bs - trailing_padding bs) bs"

definition base64_alphabet :: "byte \<Rightarrow> bool" where
  "base64_alphabet b = (65 \<le> b \<and> b \<le> 90 \<or> 97 \<le> b \<and> b \<le> 122 \<or> 48 \<le> b \<and> b \<le> 57 \<or> b = 43 \<or> b = 47)"

definition validate_base64 :: "string \<Rightarrow> bool" where
  "validate_base64 v =
     (let bytes = bytes_of v; body = base64_body bytes in
      v \<noteq> [] \<and> length v mod 4 = 0 \<and> trailing_padding bytes \<le> 2 \<and> 61 \<notin> set body
      \<and> list_all base64_alphabet body)"

fun strict_chunks :: "byte list \<Rightarrow> byte list option" where
  "strict_chunks (p # q # r # s # rest) =
     Option.bind (base64_value p) (\<lambda>a. Option.bind (base64_value q) (\<lambda>b.
     Option.bind
       (if r \<noteq> 61
        then Option.bind (base64_value r) (\<lambda>c.
             map_option (\<lambda>tail. (push_bit 4 b OR drop_bit 2 c) # tail)
               (if s \<noteq> 61 then map_option (\<lambda>d. [push_bit 6 c OR d]) (base64_value s) else Some []))
        else Some []) (\<lambda>tail.
     map_option (\<lambda>out. (push_bit 2 a OR drop_bit 4 b) # tail @ out) (strict_chunks rest))))"
| "strict_chunks _ = Some []"

definition unused_bits_zero :: "byte list \<Rightarrow> bool" where
  "unused_bits_zero body =
     (body = [] \<or>
      (if length body mod 4 = 2 then (case base64_value (last body) of Some v \<Rightarrow> v AND 15 = 0 | None \<Rightarrow> False)
       else if length body mod 4 = 3 then (case base64_value (last body) of Some v \<Rightarrow> v AND 3 = 0 | None \<Rightarrow> False)
       else True))"

definition strict_decode_base64 :: "string \<Rightarrow> byte list option" where
  "strict_decode_base64 v =
     (if \<not> validate_base64 v then None
      else Option.bind (strict_chunks (bytes_of v)) (\<lambda>out.
        if unused_bits_zero (base64_body (bytes_of v)) then Some out else None))"

section \<open>Digits\<close>

definition sextet :: "byte \<Rightarrow> byte" where
  "sextet v = (if v < 26 then v + 65 else if v < 52 then v + 71 else if v < 62 then v - 4 else if v = 62 then 43 else 47)"

lemma base64_table_sextet: "base64_table = map (\<lambda>n. sextet (of_nat n)) [0..<64]"
  by code_simp

text \<open>The same two maps on natural numbers, where linear arithmetic decides them.\<close>

definition nat_value :: "nat \<Rightarrow> nat option" where
  "nat_value k = (if 65 \<le> k \<and> k \<le> 90 then Some (k - 65) else if 97 \<le> k \<and> k \<le> 122 then Some (k - 71)
     else if 48 \<le> k \<and> k \<le> 57 then Some (k + 4) else if k = 43 then Some 62 else if k = 47 then Some 63 else None)"

definition nat_sextet :: "nat \<Rightarrow> nat" where
  "nat_sextet k = (if k < 26 then k + 65 else if k < 52 then k + 71 else if k < 62 then k - 4 else if k = 62 then 43 else 47)"

lemma base64_value_nat: "base64_value b = map_option of_nat (nat_value (unat b))"
  by (simp add: base64_value_def nat_value_def word_le_nat_alt word_unat_eq_iff [of b] of_nat_diff)

lemma sextet_nat: "v < 64 \<Longrightarrow> sextet v = of_nat (nat_sextet (unat v))"
  by (simp add: sextet_def nat_sextet_def word_less_nat_alt word_unat_eq_iff of_nat_diff)

lemma nat_value_sextet: "k < 64 \<Longrightarrow> nat_value (nat_sextet k) = Some k \<and> nat_sextet k < 256"
  by (auto simp: nat_value_def nat_sextet_def)

lemma nat_sextet_value: "nat_value k = Some v \<Longrightarrow> v < 64 \<and> nat_sextet v = k \<and> k \<noteq> 61"
  by (auto simp: nat_value_def nat_sextet_def split: if_splits)

lemma unat_byte: "k < 256 \<Longrightarrow> unat (of_nat k :: byte) = k"
  by (simp add: unat_of_nat)

lemma base64_value_sextet: "v < 64 \<Longrightarrow> base64_value (sextet v) = Some v"
  using nat_value_sextet [of "unat v"] by (simp add: base64_value_nat sextet_nat unat_byte word_less_nat_alt)

lemma sextet_base64_value:
  assumes "base64_value b = Some v"
  shows "v < 64" "sextet v = b" "b \<noteq> 61"
proof -
  obtain k where k: "nat_value (unat b) = Some k" "v = of_nat k" using assms by (auto simp: base64_value_nat)
  note n = nat_sextet_value [OF k(1)]
  show v: "v < 64" using n by (simp add: k(2) word_less_nat_alt unat_byte)
  show "sextet v = b" using n using sextet_nat [OF v] by (simp add: k(2) unat_byte)
  show "b \<noteq> 61" using n by auto
qed

lemma base64_alphabet_value: "base64_alphabet b \<longleftrightarrow> base64_value b \<noteq> None"
  unfolding base64_value_def base64_alphabet_def by auto

lemma sextet_not_pad [simp]: "v < 64 \<Longrightarrow> sextet v \<noteq> 61"
  using base64_value_sextet sextet_base64_value(3) by blast

section \<open>Groups\<close>

lemma mask6: "(63 :: 32 word) = mask 6" "(15 :: byte) = mask 4" "(3 :: byte) = mask 2"
  by (simp_all add: mask_numeral)

lemma small_bits: "(v :: byte) < 64 \<longleftrightarrow> drop_bit 6 v = 0"
proof -
  have "drop_bit 6 v = 0 \<longleftrightarrow> unat (drop_bit 6 v) = 0" by (simp add: word_unat_eq_iff)
  also have "\<dots> \<longleftrightarrow> unat v div 64 = 0" by (simp only: unat_drop_bit_eq) (simp add: drop_bit_eq_div)
  finally have "drop_bit 6 v = 0 \<longleftrightarrow> unat v div 64 = 0" .
  then show ?thesis by (simp add: word_less_nat_alt div_eq_0_iff)
qed

lemma base64_digit_sextet: "base64_digit v = sextet (ucast (v AND 63))"
proof -
  have "v AND 63 < 64" using and_mask_less' [of 6 v] by (simp add: mask6)
  then have "unat (v AND 63) < 64" by (simp add: word_less_nat_alt)
  moreover have "(of_nat (unat (v AND 63)) :: byte) = ucast (v AND 63)"
    by (simp add: word_unat_eq_iff unat_of_nat unsigned_ucast_eq take_bit_eq_mod)
  ultimately show ?thesis by (simp add: base64_digit_def base64_table_sextet)
qed

text \<open>The four sextets of three bytes, and the three bytes of four sextets.\<close>

lemma byte_eqI:
  assumes "bit a 0 = bit b 0" "bit a 1 = bit b 1" "bit a 2 = bit b 2" "bit a 3 = bit b 3"
    "bit a 4 = bit b 4" "bit a 5 = bit b 5" "bit a 6 = bit b 6" "bit a 7 = bit b 7"
  shows "a = (b :: byte)"
proof (rule bit_word_eqI)
  fix n assume "n < LENGTH(8)"
  then have "n \<in> {0, 1, 2, 3, 4, 5, 6, 7}" by auto
  then show "bit a n = bit b n" using assms by auto
qed

lemma byte_bit_beyond [simp]: "8 \<le> n \<Longrightarrow> \<not> bit (a :: byte) n"
  using bit_imp_le_length [of a n] by auto

definition second_sextet :: "byte \<Rightarrow> byte \<Rightarrow> byte" where
  "second_sextet a b = (push_bit 4 a AND mask 6) OR drop_bit 4 b"

definition third_sextet :: "byte \<Rightarrow> byte \<Rightarrow> byte" where
  "third_sextet b c = (push_bit 2 b AND mask 6) OR drop_bit 6 c"

lemma group_sextets:
  "ucast (drop_bit 18 (base64_group a b c) AND mask 6) = drop_bit 2 a"
  "ucast (drop_bit 12 (base64_group a b c) AND mask 6) = second_sextet a b"
  "ucast (drop_bit 6 (base64_group a b c) AND mask 6) = third_sextet b c"
  "ucast (base64_group a b c AND mask 6) = c AND mask 6"
  unfolding base64_group_def second_sextet_def third_sextet_def
  by (rule byte_eqI; simp add: bit_simps)+

lemma bytes_of_sextets:
  "push_bit 2 (drop_bit 2 a) OR drop_bit 4 (second_sextet a b) = a"
  "push_bit 4 (second_sextet a b) OR drop_bit 2 (third_sextet b c) = b"
  "push_bit 6 (third_sextet b c) OR (c AND mask 6) = c"
  unfolding second_sextet_def third_sextet_def by (rule byte_eqI; simp add: bit_simps)+

lemma sextets_small:
  "drop_bit 2 a < (64 :: byte)" "second_sextet a b < 64" "third_sextet b c < 64" "c AND mask 6 < (64 :: byte)"
  unfolding small_bits second_sextet_def third_sextet_def by (rule byte_eqI; simp add: bit_simps)+

text \<open>Four sextets are the sextets of their bytes.\<close>

lemma sextets_of_bytes:
  assumes "p < 64" "q < 64" "r < 64" "s < (64 :: byte)"
  shows "drop_bit 2 (push_bit 2 p OR drop_bit 4 q) = p"
    and "second_sextet (push_bit 2 p OR drop_bit 4 q) (push_bit 4 q OR drop_bit 2 r) = q"
    and "third_sextet (push_bit 4 q OR drop_bit 2 r) (push_bit 6 r OR s) = r"
    and "(push_bit 6 r OR s) AND mask 6 = s"
    and "q AND mask 4 = 0 \<Longrightarrow> second_sextet (push_bit 2 p OR drop_bit 4 q) 0 = q"
    and "r AND mask 2 = 0 \<Longrightarrow> third_sextet (push_bit 4 q OR drop_bit 2 r) 0 = r"
proof -
  have high: "\<not> bit v 6" "\<not> bit v 7" if "v < 64" for v :: byte
  proof -
    have "bit v 6 = bit (drop_bit 6 v) 0" "bit v 7 = bit (drop_bit 6 v) 1" by (simp_all add: bit_simps)
    then show "\<not> bit v 6" "\<not> bit v 7" using that by (simp_all add: small_bits)
  qed
  note h = high [OF assms(1)] high [OF assms(2)] high [OF assms(3)] high [OF assms(4)]
  show "drop_bit 2 (push_bit 2 p OR drop_bit 4 q) = p" using h by (intro byte_eqI) (simp_all add: bit_simps)
  show "second_sextet (push_bit 2 p OR drop_bit 4 q) (push_bit 4 q OR drop_bit 2 r) = q"
    using h unfolding second_sextet_def by (intro byte_eqI) (simp_all add: bit_simps)
  show "third_sextet (push_bit 4 q OR drop_bit 2 r) (push_bit 6 r OR s) = r"
    using h unfolding third_sextet_def by (intro byte_eqI) (simp_all add: bit_simps)
  show "(push_bit 6 r OR s) AND mask 6 = s" using h by (intro byte_eqI) (simp_all add: bit_simps)
  have zero: "\<not> bit v n" if "v AND mask m = 0" "n < m" "n < 8" for v :: byte and m n
  proof -
    have "bit (v AND mask m) n = bit v n" using that(2,3) by (simp add: bit_simps)
    then show ?thesis by (simp add: that(1))
  qed
  show "second_sextet (push_bit 2 p OR drop_bit 4 q) 0 = q" if "q AND mask 4 = 0"
    using h zero [OF that, of 0] zero [OF that, of 1] zero [OF that, of 2] zero [OF that, of 3]
    unfolding second_sextet_def by (intro byte_eqI) (simp_all add: bit_simps)
  show "third_sextet (push_bit 4 q OR drop_bit 2 r) 0 = r" if "r AND mask 2 = 0"
    using h zero [OF that, of 0] zero [OF that, of 1]
    unfolding third_sextet_def by (intro byte_eqI) (simp_all add: bit_simps)
qed

lemma base64_bytes_sextets:
  "base64_bytes [a] = [sextet (drop_bit 2 a), sextet (second_sextet a 0), 61, 61]"
  "base64_bytes [a, b] = [sextet (drop_bit 2 a), sextet (second_sextet a b), sextet (third_sextet b 0), 61]"
  "base64_bytes (a # b # c # rest) = [sextet (drop_bit 2 a), sextet (second_sextet a b), sextet (third_sextet b c),
     sextet (c AND mask 6)] @ base64_bytes rest"
  by (simp_all add: Let_def base64_digit_sextet mask6 group_sextets)

section \<open>Decoding what was encoded\<close>

lemma decode_encoded: "decode_chunks (base64_bytes bs) = Some bs"
proof (induction bs rule: base64_bytes.induct)
  case (2 a)
  then show ?case
    using bytes_of_sextets(1) [of a 0] by (simp add: base64_bytes_sextets base64_value_sextet sextets_small pad_or_value_def del: base64_bytes.simps)
next
  case (3 a b)
  then show ?case
    using bytes_of_sextets(1) [of a b] bytes_of_sextets(2) [of a b 0]
    by (simp add: base64_bytes_sextets base64_value_sextet sextets_small pad_or_value_def del: base64_bytes.simps)
next
  case (4 a b c rest)
  then show ?case
    using bytes_of_sextets(1) [of a b] bytes_of_sextets(2) [of a b c] bytes_of_sextets(3) [of b c]
    by (simp add: base64_bytes_sextets base64_value_sextet sextets_small pad_or_value_def Let_def del: base64_bytes.simps)
qed simp

lemma length_base64_bytes: "length (base64_bytes bs) mod 4 = 0"
  by (induction bs rule: base64_bytes.induct) (simp_all add: base64_bytes_sextets del: base64_bytes.simps(2-))

lemma char_byte_of [simp]: "char_byte (char_of (unat b)) = b"
proof -
  have "unat b < 256" using unsigned_less [of b, where 'a = nat] by simp
  then have "(of_nat (of_char (char_of (unat b) :: char)) :: byte) = b" by simp
  then show ?thesis by (simp only: char_byte_def of_nat_of_char)
qed

lemma bytes_of_base64: "bytes_of (base64 bs) = base64_bytes bs"
  by (simp add: bytes_of_def base64_def comp_def)

lemma length_base64: "length (base64 bs) = length (base64_bytes bs)"
  by (simp add: base64_def)

section \<open>The strict decoder\<close>

lemma split_padding: "bs = base64_body bs @ replicate (trailing_padding bs) 61"
proof -
  let ?t = "takeWhile (\<lambda>b. b = 61) (rev bs)"
  have t: "?t = replicate (length ?t) 61" by (auto simp: list_eq_iff_nth_eq dest: nth_mem set_takeWhileD)
  have "rev bs = ?t @ dropWhile (\<lambda>b. b = 61) (rev bs)" by simp
  then have "bs = rev (dropWhile (\<lambda>b. b = 61) (rev bs)) @ rev ?t" by (metis rev_append rev_rev_ident)
  moreover have "rev ?t = replicate (length ?t) 61" by (subst t) (simp only: rev_replicate)
  ultimately obtain xs where xs: "bs = xs @ replicate (length ?t) 61" by metis
  then have "base64_body bs = xs" by (metis append_eq_conv_conj base64_body_def diff_add_inverse2 length_append length_replicate trailing_padding_def)
  then show ?thesis using xs by (simp add: trailing_padding_def)
qed

lemma padding_of:
  assumes "61 \<notin> set xs"
  shows "trailing_padding (xs @ replicate k 61) = k" "base64_body (xs @ replicate k 61) = xs"
proof -
  have "takeWhile (\<lambda>b. b = 61) (rev xs) = []" using assms by (cases "rev xs") (auto simp: takeWhile_eq_Nil_iff dest: arg_cong [where f = set])
  then have "takeWhile (\<lambda>b. b = 61) (replicate k 61 @ rev xs) = replicate k 61" by (induction k) auto
  then show "trailing_padding (xs @ replicate k 61) = k" by (simp add: trailing_padding_def)
  then show "base64_body (xs @ replicate k 61) = xs" by (simp add: base64_body_def)
qed

lemma unused_bits_zero_chunk:
  "rest \<noteq> [] \<Longrightarrow> unused_bits_zero (p # q # r # s # rest) = unused_bits_zero rest"
  "unused_bits_zero [p, q, r, s]"
  "unused_bits_zero [p, q] \<longleftrightarrow> (\<exists>v. base64_value q = Some v \<and> v AND mask 4 = 0)"
  "unused_bits_zero [p, q, r] \<longleftrightarrow> (\<exists>v. base64_value r = Some v \<and> v AND mask 2 = 0)"
  by (auto simp: unused_bits_zero_def mask6 split: option.splits)

lemma sextet_alphabet: "v < 64 \<Longrightarrow> base64_alphabet (sextet v)"
  by (simp add: base64_alphabet_value base64_value_sextet)

lemma two_pads: "replicate 2 x = [x, x]"
  by (simp add: numeral_2_eq_2)

lemma base64_bytes_shape:
  "\<exists>xs k. base64_bytes bs = xs @ replicate k 61 \<and> k \<le> 2 \<and> list_all base64_alphabet xs \<and> unused_bits_zero xs"
proof (induction bs rule: base64_bytes.induct)
  case 1
  then show ?case by (intro exI [of _ "[]"] exI [of _ 0]) (simp add: unused_bits_zero_def)
next
  case (2 a)
  have "second_sextet a 0 AND mask 4 = 0" unfolding second_sextet_def by (rule byte_eqI; simp add: bit_simps)
  then show ?case
    by (intro exI [of _ "[sextet (drop_bit 2 a), sextet (second_sextet a 0)]"] exI [of _ 2])
      (simp add: base64_bytes_sextets base64_alphabet_value base64_value_sextet sextets_small unused_bits_zero_chunk
        two_pads del: base64_bytes.simps)
next
  case (3 a b)
  have "third_sextet b 0 AND mask 2 = 0" unfolding third_sextet_def by (rule byte_eqI; simp add: bit_simps)
  then show ?case
    by (intro exI [of _ "[sextet (drop_bit 2 a), sextet (second_sextet a b), sextet (third_sextet b 0)]"] exI [of _ 1])
      (simp add: base64_bytes_sextets base64_alphabet_value base64_value_sextet sextets_small unused_bits_zero_chunk
        del: base64_bytes.simps)
next
  case (4 a b c rest)
  then obtain xs k where ih: "base64_bytes rest = xs @ replicate k 61" "k \<le> 2" "list_all base64_alphabet xs" "unused_bits_zero xs"
    by auto
  let ?q = "[sextet (drop_bit 2 a), sextet (second_sextet a b), sextet (third_sextet b c), sextet (c AND mask 6)]"
  have "unused_bits_zero (?q @ xs)" using ih(4) by (cases "xs = []") (simp_all add: unused_bits_zero_chunk)
  then show ?case
    using ih(1-3)
    by (intro exI [of _ "?q @ xs"] exI [of _ k])
      (simp add: base64_bytes_sextets sextet_alphabet sextets_small del: base64_bytes.simps)
qed

lemma alphabet_not_pad: "list_all base64_alphabet xs \<Longrightarrow> 61 \<notin> set xs"
  by (auto simp: list_all_iff base64_alphabet_value dest: sextet_base64_value(3))

lemma strict_chunks_sextets:
  assumes "a < 64" "b < 64"
  shows "c < 64 \<Longrightarrow> d < 64 \<Longrightarrow> strict_chunks (sextet a # sextet b # sextet c # sextet d # rest) =
     map_option (\<lambda>out. (push_bit 2 a OR drop_bit 4 b) # (push_bit 4 b OR drop_bit 2 c) # (push_bit 6 c OR d) # out) (strict_chunks rest)"
    and "c < 64 \<Longrightarrow> strict_chunks (sextet a # sextet b # sextet c # 61 # rest) =
     map_option (\<lambda>out. (push_bit 2 a OR drop_bit 4 b) # (push_bit 4 b OR drop_bit 2 c) # out) (strict_chunks rest)"
    and "strict_chunks (sextet a # sextet b # 61 # s # rest) =
     map_option (\<lambda>out. (push_bit 2 a OR drop_bit 4 b) # out) (strict_chunks rest)"
  using assms by (simp_all add: base64_value_sextet comp_def)

lemma strict_encoded: "strict_chunks (base64_bytes bs) = Some bs"
proof (induction bs rule: base64_bytes.induct)
  case (2 a)
  then show ?case using bytes_of_sextets(1) [of a 0]
    by (simp add: base64_bytes_sextets strict_chunks_sextets sextets_small del: base64_bytes.simps strict_chunks.simps(1))
next
  case (3 a b)
  then show ?case using bytes_of_sextets(1) [of a b] bytes_of_sextets(2) [of a b 0]
    by (simp add: base64_bytes_sextets strict_chunks_sextets sextets_small del: base64_bytes.simps strict_chunks.simps(1))
next
  case (4 a b c rest)
  then show ?case
    using bytes_of_sextets(1) [of a b] bytes_of_sextets(2) [of a b c] bytes_of_sextets(3) [of b c]
    by (simp add: base64_bytes_sextets strict_chunks_sextets sextets_small Let_def del: base64_bytes.simps strict_chunks.simps(1))
qed simp

text \<open>The strict decoder is injective on what it accepts: only the canonical text of a byte string passes.\<close>

lemma alphabet_sextet: "base64_alphabet x \<Longrightarrow> \<exists>v<64. x = sextet v"
  by (auto simp: base64_alphabet_value dest: sextet_base64_value)

lemma four_of_append:
  "p # q # r # s # rest = xs @ zs \<Longrightarrow> 4 \<le> length xs \<Longrightarrow> \<exists>ys. xs = p # q # r # s # ys \<and> rest = ys @ zs"
  by (cases xs; cases "tl xs"; cases "tl (tl xs)"; cases "tl (tl (tl xs))") auto

lemma strict_last_chunk:
  assumes "strict_chunks [p, q, r, s] = Some out" "[p, q, r, s] = xs @ replicate k 61" "length xs < 4" "k \<le> 2"
    "list_all base64_alphabet xs" "unused_bits_zero xs"
  shows "[p, q, r, s] = base64_bytes out"
proof -
  have "length xs + k = 4" using arg_cong [OF assms(2), of length] by simp
  then consider "k = 2" "length xs = 2" | "k = 1" "length xs = 3" using assms(3,4) by fastforce
  then show ?thesis
  proof cases
    case 1
    then have prs: "xs = [p, q]" "r = 61" "s = 61" using assms(2) by (auto simp: Cons_eq_append_conv two_pads)
    obtain a b where v: "a < 64" "b < 64" "p = sextet a" "q = sextet b"
      using assms(5) alphabet_sextet [of p] alphabet_sextet [of q] unfolding prs by auto
    have "b AND mask 4 = 0" using assms(6) v by (auto simp: prs unused_bits_zero_chunk base64_value_sextet)
    then show ?thesis
      using assms(1) sextets_of_bytes(1,5) [OF v(1,2), of 0 0] v(1,2)
      by (auto simp: v(3,4) prs strict_chunks_sextets base64_bytes_sextets simp del: base64_bytes.simps strict_chunks.simps(1))
  next
    case 2
    then have prs: "xs = [p, q, r]" "s = 61" using assms(2) by (auto simp: Cons_eq_append_conv)
    obtain a b c where v: "a < 64" "b < 64" "c < 64" "p = sextet a" "q = sextet b" "r = sextet c"
      using assms(5) alphabet_sextet [of p] alphabet_sextet [of q] alphabet_sextet [of r] unfolding prs by auto
    have "c AND mask 2 = 0" using assms(6) v by (auto simp: prs unused_bits_zero_chunk base64_value_sextet)
    then show ?thesis
      using assms(1) sextets_of_bytes(1,2,6) [OF v(1-3), of 0] v(1-3)
      by (auto simp: v(4-6) prs strict_chunks_sextets base64_bytes_sextets simp del: base64_bytes.simps strict_chunks.simps(1))
  qed
qed

lemma strict_inverse:
  "strict_chunks bs = Some out \<Longrightarrow> bs = xs @ replicate k 61 \<Longrightarrow> length bs mod 4 = 0 \<Longrightarrow> k \<le> 2
     \<Longrightarrow> list_all base64_alphabet xs \<Longrightarrow> unused_bits_zero xs \<Longrightarrow> bs = base64_bytes out"
proof (induction bs arbitrary: out xs rule: strict_chunks.induct)
  case (1 p q r s rest)
  have len: "length xs + k = length rest + 4" using arg_cong [OF "1.prems"(2), of length] by simp
  show ?case
  proof (cases "4 \<le> length xs")
    case True
    then obtain ys where xs: "xs = p # q # r # s # ys" "rest = ys @ replicate k 61"
      using four_of_append [OF "1.prems"(2)] by auto
    obtain a b c d where v: "a < 64" "b < 64" "c < 64" "d < 64" "p = sextet a" "q = sextet b" "r = sextet c" "s = sextet d"
      using "1.prems"(5) alphabet_sextet [of p] alphabet_sextet [of q] alphabet_sextet [of r] alphabet_sextet [of s]
      unfolding xs(1) by auto
    obtain out' where o: "strict_chunks rest = Some out'"
        "out = (push_bit 2 a OR drop_bit 4 b) # (push_bit 4 b OR drop_bit 2 c) # (push_bit 6 c OR d) # out'"
      using "1.prems"(1) unfolding v(5-8) strict_chunks_sextets(1) [OF v(1-4), of rest] by auto
    have z: "unused_bits_zero ys" using "1.prems"(6) by (cases "ys = []") (simp_all add: xs(1) unused_bits_zero_chunk(1), simp add: unused_bits_zero_def)
    have ih: "rest = base64_bytes out'" if "base64_value p = Some a" "base64_value q = Some b"
      using "1.IH" [OF _ _ _ o(1) xs(2)] "1.prems"(3-5) z that o(1) v unfolding xs(1) by (auto simp: base64_value_sextet)
    then show ?thesis
      using sextets_of_bytes(1-4) [OF v(1-4)] v
      by (simp add: o(2) base64_bytes_sextets base64_value_sextet del: base64_bytes.simps)
  next
    case False
    have "length rest mod 4 = 0" using "1.prems"(3) by simp
    moreover have "length rest < 4" using len False "1.prems"(4) by simp
    ultimately have rest: "rest = []" by simp
    show ?thesis
      using "1.prems" False unfolding rest by (intro strict_last_chunk [of p q r s out xs k]) simp_all
  qed
qed (simp, simp (no_asm_use), simp (no_asm_use), simp (no_asm_use))

text \<open>
  C32. The strict decoder of the wire accepts exactly the canonical encodings: what it decodes is nonempty
  and the text is the encoding of the result.  Two texts never decode to the same policy source.
\<close>

theorem strict_base64_is_canonical:
  "strict_decode_base64 v = Some bs \<longleftrightarrow> bs \<noteq> [] \<and> v = base64 bs"
proof
  assume *: "strict_decode_base64 v = Some bs"
  let ?b = "bytes_of v"
  from * have v: "validate_base64 v" and o: "strict_chunks ?b = Some bs" "unused_bits_zero (base64_body ?b)"
    by (auto simp: strict_decode_base64_def bind_eq_Some_conv split: if_splits)
  from v have "?b = base64_bytes bs"
    by (intro strict_inverse [OF o(1) split_padding]) (simp_all add: o(2) validate_base64_def Let_def)
  then have "v = base64 bs" by (metis bytes_of_base64 bytes_of_inject)
  moreover have "v \<noteq> []" using v by (simp add: validate_base64_def Let_def)
  ultimately show "bs \<noteq> [] \<and> v = base64 bs" by (auto simp: base64_def)
next
  assume *: "bs \<noteq> [] \<and> v = base64 bs"
  obtain xs k where x: "base64_bytes bs = xs @ replicate k 61" "k \<le> 2" "list_all base64_alphabet xs" "unused_bits_zero xs"
    using base64_bytes_shape by blast
  have "v \<noteq> []" using * by (cases bs rule: base64_bytes.cases) (auto simp: base64_def Let_def)
  then show "strict_decode_base64 v = Some bs"
    using * x padding_of [OF alphabet_not_pad [OF x(3)], of k] alphabet_not_pad [OF x(3)] strict_encoded [of bs]
      length_base64 [of bs] length_base64_bytes [of bs]
    by (simp add: strict_decode_base64_def validate_base64_def Let_def bytes_of_base64 flip: x(1))
qed

text \<open>
  What the kernel encodes it reads back unchanged, with the lenient decoder of the process store as with
  the strict one of the wire.
\<close>

theorem base64_roundtrip: "decode_base64 (base64 bs) = Some bs"
  by (simp add: decode_base64_def length_base64 length_base64_bytes bytes_of_base64 decode_encoded)

end
