(* ===== verification/Packet_Wire.thy ===== *)
theory Packet_Wire
  imports Candidate_Contract Base64
begin

text \<open>
  The assignment packet on the wire: the closed JSON structure of \<open>factory-protocol/src/process.rs\<close>, the
  frames and the packet admission of \<open>factory-protocol/src/wire.rs\<close>, and the two places where
  \<open>factory-kernel/src/process.rs\<close> relates the wire structure to the typed packet: the field by field
  comparison of an admission and the reconstruction of a restart.  The JSON library is outside the
  repository: \<open>decode_json\<close> parses the structure (the error is its debug text) and \<open>print_json\<close> prints it
  with sorted keys.  \<open>hash\<close> is BLAKE3.
\<close>

section \<open>Frames\<close>

datatype frame_error =
    Truncated nat nat
  | TrailingBytes nat nat
  | Oversized nat nat
  | MissingLength
  | InvalidUtf8
  | InvalidJson string string

definition FRAME_PREFIX_BYTES :: nat where
  "FRAME_PREFIX_BYTES = 4"

definition encode_frame :: "byte list \<Rightarrow> nat \<Rightarrow> (frame_error, byte list) result" where
  "encode_frame payload maximum =
     (if maximum < length payload then Inl (Oversized (length payload) maximum)
      else if 2 ^ 32 \<le> length payload then Inl (Oversized (length payload) maximum)
      else Inr (be_bytes 4 (length payload) @ payload))"

definition be_number :: "byte list \<Rightarrow> nat" where
  "be_number bs = foldl (\<lambda>n b. n * 256 + unat b) 0 bs"

definition decode_frame :: "byte list \<Rightarrow> nat \<Rightarrow> (frame_error, byte list) result" where
  "decode_frame frame maximum =
     (if length frame < FRAME_PREFIX_BYTES then Inl MissingLength
      else let n = be_number (take FRAME_PREFIX_BYTES frame); expected = FRAME_PREFIX_BYTES + n in
        if maximum < n then Inl (Oversized n maximum)
        else if length frame < expected then Inl (Truncated expected (length frame))
        else if expected < length frame then Inl (TrailingBytes expected (length frame))
        else Inr (drop FRAME_PREFIX_BYTES frame))"

section \<open>The wire structure\<close>

record model_wire =
  mw_provider :: string
  mw_model_id :: string
  mw_thinking_level :: string
  mw_context_token_limit :: "32 word"
  mw_output_token_limit :: "32 word"
  mw_price_input :: "64 word"
  mw_price_output :: "64 word"
  mw_price_cache_read :: "64 word"
  mw_price_cache_write :: "64 word"
  mw_capability_flags :: "string list"

record limits_wire =
  lw_wall_limit_millis :: "64 word"
  lw_output_byte_limit :: "32 word"

record runtime_wire =
  rw_host_executable :: string
  rw_core_head :: string
  rw_core_source_digest :: string
  rw_rust_toolchain :: string
  rw_credential_env :: string

record read_wire =
  dw_path :: string
  dw_digest :: string
  dw_reason :: string

record evidence_wire =
  ew_role :: string
  ew_artifact_id :: int
  ew_digest :: string
  ew_byte_length :: "64 word"

record packet_wire =
  w_format_version :: "16 word"
  w_campaign_id :: int
  w_assignment_id :: int
  w_application_revision_id :: int
  w_kernel_build_id :: string
  w_assignment_role :: string
  w_target :: string
  w_repository_base_identity :: string
  w_factory_base_identity :: string
  w_ticket_attempt_id :: "int option"
  w_candidate_id :: "int option"
  w_system_prompt_artifact_id :: int
  w_assignment_prompt_artifact_id :: int
  w_required_read_manifest_artifact_id :: int
  w_system_prompt_digest :: string
  w_assignment_prompt_digest :: string
  w_system_prompt_bytes_b64 :: string
  w_assignment_prompt_bytes_b64 :: string
  w_policy_digest :: string
  w_policy_byte_limit :: "32 word"
  w_policy_bytes_b64 :: string
  w_policy_entrypoint :: string
  w_workspace_root :: string
  w_staging_root :: string
  w_model :: model_wire
  w_limits :: limits_wire
  w_runtime :: runtime_wire
  w_required_reads :: "read_wire list"
  w_assignment_evidence :: "evidence_wire list"
  w_tools :: "string list"
  w_terminal_operations :: "string list"
  w_remaining_campaign_allowance :: "64 word"
  w_aggregate_revision :: "64 word"
  w_packet_digest :: string

section \<open>Closed vocabularies\<close>

definition digest_hex :: "content_digest \<Rightarrow> string" where
  "digest_hex d = map (\<lambda>b. char_of (unat b)) (hex_encode d)"

fun role_name :: "assignment_role \<Rightarrow> string" where
  "role_name ProductResearch = ''product_research''"
| "role_name Engineering = ''engineering''"
| "role_name Quality = ''quality''"

fun thinking_name :: "thinking_level \<Rightarrow> string" where
  "thinking_name ThinkingNone = ''none''"
| "thinking_name ThinkingLow = ''low''"
| "thinking_name ThinkingMedium = ''medium''"
| "thinking_name ThinkingHigh = ''high''"
| "thinking_name ThinkingXHigh = ''xhigh''"

fun terminal_operation_name :: "terminal_operation \<Rightarrow> string" where
  "terminal_operation_name OpWorkComplete = ''work_complete''"
| "terminal_operation_name OpCandidateSubmit = ''candidate_submit''"
| "terminal_operation_name OpQualitySubmitReview = ''quality_submit_review''"

fun capability_name :: "model_capability \<Rightarrow> string" where
  "capability_name Reasoning = ''reasoning''"

definition policy_entrypoint_name :: "policy_entrypoint \<Rightarrow> string" where
  "policy_entrypoint_name e = ''factory_policy''"

fun tool_name :: "actor_tool \<Rightarrow> string" where
  "tool_name WorkspaceRead = ''workspace_read''"
| "tool_name WorkspaceWrite = ''workspace_write''"
| "tool_name WorkspaceEdit = ''workspace_edit''"
| "tool_name WorkspaceSearch = ''workspace_search''"
| "tool_name WorkspaceList = ''workspace_list''"
| "tool_name Shell = ''shell''"
| "tool_name ForumSearch = ''forum_search''"
| "tool_name ForumListTopics = ''forum_list_topics''"
| "tool_name ForumListThreads = ''forum_list_threads''"
| "tool_name ForumReadThread = ''forum_read_thread''"
| "tool_name PublicationCreate = ''publication_create''"
| "tool_name ArtifactSeal = ''artifact_seal''"
| "tool_name ArtifactRead = ''artifact_read''"
| "tool_name ProductSubmitTicket = ''product_submit_ticket''"
| "tool_name CandidateCheckpointRegression = ''candidate_checkpoint_regression''"
| "tool_name CandidateSubmit = ''candidate_submit''"
| "tool_name QualityRunFullSuite = ''quality_run_full_suite''"
| "tool_name QualitySubmitReview = ''quality_submit_review''"
| "tool_name WorkComplete = ''work_complete''"

text \<open>The \<open>match\<close> of \<open>ActorToolV2::parse\<close>: the tool whose spelling it is.\<close>

definition tool_parse :: "string \<Rightarrow> actor_tool option" where
  "tool_parse v = find (\<lambda>t. tool_name t = v) actor_tool_ALL"

definition role_parse :: "string \<Rightarrow> assignment_role option" where
  "role_parse v = (if v = ''product_research'' then Some ProductResearch
     else if v = ''engineering'' then Some Engineering else if v = ''quality'' then Some Quality else None)"

definition thinking_parse :: "string \<Rightarrow> thinking_level option" where
  "thinking_parse v = (if v = ''none'' then Some ThinkingNone else if v = ''low'' then Some ThinkingLow
     else if v = ''medium'' then Some ThinkingMedium else if v = ''high'' then Some ThinkingHigh
     else if v = ''xhigh'' then Some ThinkingXHigh else None)"

definition terminal_operation_parse :: "string \<Rightarrow> terminal_operation option" where
  "terminal_operation_parse v = (if v = ''work_complete'' then Some OpWorkComplete
     else if v = ''candidate_submit'' then Some OpCandidateSubmit
     else if v = ''quality_submit_review'' then Some OpQualitySubmitReview else None)"

definition capability_parse :: "string \<Rightarrow> model_capability option" where
  "capability_parse v = (if v = ''reasoning'' then Some Reasoning else None)"

section \<open>Packet admission\<close>

definition packet_error :: "string \<Rightarrow> string \<Rightarrow> frame_error" where
  "packet_error field detail = InvalidJson ''assignment packet'' (field @ '': '' @ detail)"

definition bounded_packet_text :: "string \<Rightarrow> string \<Rightarrow> nat \<Rightarrow> (frame_error, unit) result" where
  "bounded_packet_text field v maximum =
     require (\<not> (v = [] \<or> maximum < length v \<or> CHR 0x00 \<in> set v))
       (packet_error field ''text is empty, oversized, or contains NUL'')"

definition validate_digest :: "string \<Rightarrow> string \<Rightarrow> (frame_error, unit) result" where
  "validate_digest field v = require (\<not> (length v \<noteq> 64 \<or> \<not> list_all lower_hex v))
     (packet_error field ''must be a lower-case 32-byte hex digest'')"

definition validate_unique_strings :: "string \<Rightarrow> string list \<Rightarrow> (frame_error, unit) result" where
  "validate_unique_strings field vs =
     require (\<not> ([] \<in> set vs \<or> \<not> distinct vs)) (packet_error field ''values must be nonempty and unique'')"

definition validate_credential_environment :: "string \<Rightarrow> string \<Rightarrow> (frame_error, unit) result" where
  "validate_credential_environment field v =
     require (credential_name_valid v) (packet_error field ''must be a valid upper-case environment name'')"

definition wire_validate_base64 :: "string \<Rightarrow> string \<Rightarrow> (frame_error, unit) result" where
  "wire_validate_base64 field v =
     (if v = [] \<or> length v mod 4 \<noteq> 0 then Inl (packet_error field ''must be nonempty canonical base64'')
      else require (validate_base64 v) (packet_error field ''must be canonical base64''))"

definition wire_decode_base64 :: "string \<Rightarrow> string \<Rightarrow> (frame_error, byte list) result" where
  "wire_decode_base64 field v =
     and_then (wire_validate_base64 field v) (\<lambda>_.
       ok_or (strict_decode_base64 v) (packet_error field ''invalid canonical base64''))"

definition wire_target_shape :: "packet_wire \<Rightarrow> bool" where
  "wire_target_shape w =
     (w_assignment_role w = ''product_research'' \<and> w_ticket_attempt_id w = None \<and> w_candidate_id w = None
      \<or> w_assignment_role w = ''engineering'' \<and> w_ticket_attempt_id w \<noteq> None \<and> w_candidate_id w = None
      \<or> w_assignment_role w = ''quality'' \<and> w_ticket_attempt_id w \<noteq> None \<and> w_candidate_id w \<noteq> None)"

fun validate_wire_reads :: "string list \<Rightarrow> read_wire list \<Rightarrow> (frame_error, unit) result" where
  "validate_wire_reads seen [] = Inr ()"
| "validate_wire_reads seen (r # rs) =
     (if dw_path r \<in> set seen then Inl (packet_error ''required_reads'' ''paths must be unique'')
      else and_then (first_error
        [bounded_packet_text ''required read path'' (dw_path r) 4096,
         validate_digest ''required read digest'' (dw_digest r),
         bounded_packet_text ''required read reason'' (dw_reason r) 240]) (\<lambda>_.
        validate_wire_reads (dw_path r # seen) rs))"

fun validate_wire_evidence :: "string list \<Rightarrow> evidence_wire list \<Rightarrow> (frame_error, unit) result" where
  "validate_wire_evidence seen [] = Inr ()"
| "validate_wire_evidence seen (e # es) =
     and_then (first_error
       [require (is_ok (parse_wire_name (ew_role e)))
          (packet_error ''assignment_evidence.role'' ''is not a closed evidence role''),
        require (ew_role e \<notin> set seen) (packet_error ''assignment_evidence'' ''roles must be unique''),
        require (0 < ew_artifact_id e) (packet_error ''assignment_evidence.artifact_id'' ''is not a positive identity''),
        validate_digest ''assignment_evidence.digest'' (ew_digest e)]) (\<lambda>_.
       validate_wire_evidence (ew_role e # seen) es)"

definition validate_wire_identity :: "bool \<Rightarrow> packet_wire \<Rightarrow> (frame_error, unit) result" where
  "validate_wire_identity allow_empty_digest w = first_error
     [require (w_format_version w = ASSIGNMENT_PACKET_V2_FORMAT)
        (packet_error ''format_version'' ''unsupported packet version''),
      try_each (\<lambda>(field, v). require (0 < v) (packet_error field ''must be greater than zero''))
        [(''campaign_id'', w_campaign_id w), (''assignment_id'', w_assignment_id w),
         (''application_revision_id'', w_application_revision_id w),
         (''system_prompt_artifact_id'', w_system_prompt_artifact_id w),
         (''assignment_prompt_artifact_id'', w_assignment_prompt_artifact_id w),
         (''required_read_manifest_artifact_id'', w_required_read_manifest_artifact_id w)],
      try_each (\<lambda>(field, v). require (case v of Some i \<Rightarrow> 0 < i | None \<Rightarrow> True)
          (packet_error field ''must be greater than zero when present''))
        [(''ticket_attempt_id'', w_ticket_attempt_id w), (''candidate_id'', w_candidate_id w)],
      try_each (\<lambda>(field, v). validate_digest field v)
        [(''kernel_build_id'', w_kernel_build_id w), (''repository_base_identity'', w_repository_base_identity w),
         (''factory_base_identity'', w_factory_base_identity w), (''system_prompt_digest'', w_system_prompt_digest w),
         (''assignment_prompt_digest'', w_assignment_prompt_digest w), (''policy_digest'', w_policy_digest w),
         (''runtime.core_source_digest'', rw_core_source_digest (w_runtime w))],
      (if \<not> allow_empty_digest \<or> w_packet_digest w \<noteq> []
       then validate_digest ''packet_digest'' (w_packet_digest w) else Inr ()),
      require (role_parse (w_assignment_role w) \<noteq> None) (packet_error ''office'' ''unknown office''),
      require (wire_target_shape w)
        (packet_error ''assignment target identity'' ''office requires its exact durable target shape''),
      bounded_packet_text ''target'' (w_target w) 4096,
      bounded_packet_text ''workspace_root'' (w_workspace_root w) 4096,
      bounded_packet_text ''staging_root'' (w_staging_root w) 4096]"

definition validate_wire_policy :: "(byte list \<Rightarrow> content_digest) \<Rightarrow> packet_wire \<Rightarrow> (frame_error, unit) result" where
  "validate_wire_policy hash w =
     and_then (first_error
       [wire_validate_base64 ''system_prompt_bytes_b64'' (w_system_prompt_bytes_b64 w),
        wire_validate_base64 ''assignment_prompt_bytes_b64'' (w_assignment_prompt_bytes_b64 w)]) (\<lambda>_.
     and_then (wire_decode_base64 ''policy_bytes_b64'' (w_policy_bytes_b64 w)) (\<lambda>bytes. first_error
       [require (\<not> (w_policy_byte_limit w = 0 \<or> MAX_POLICY_ARTIFACT_BYTES < unat (w_policy_byte_limit w)))
          (packet_error ''policy_byte_limit'' ''must be positive and within the policy ceiling''),
        require (\<not> (bytes = [] \<or> unat (w_policy_byte_limit w) < length bytes))
          (packet_error ''policy_bytes_b64'' ''source exceeds its declared byte limit''),
        require (\<not> (\<not> utf8_valid bytes \<or> 0 \<in> set bytes))
          (packet_error ''policy_bytes_b64'' ''source must be UTF-8 without NUL''),
        require (digest_hex (hash bytes) = w_policy_digest w)
          (packet_error ''policy_digest'' ''does not match policy source bytes''),
        require (is_ok (policy_entrypoint_parse (w_policy_entrypoint w)))
          (packet_error ''policy_entrypoint'' ''policy entrypoint is invalid: only factory_policy is admitted'')]))"

definition validate_wire_session :: "packet_wire \<Rightarrow> (frame_error, unit) result" where
  "validate_wire_session w = first_error
     [require (\<not> (mw_provider (w_model w) = [] \<or> mw_model_id (w_model w) = []))
        (packet_error ''model'' ''provider and model_id are required''),
      require (thinking_parse (mw_thinking_level (w_model w)) \<noteq> None)
        (packet_error ''model.thinking_level'' ''unknown thinking level''),
      require (\<not> (mw_context_token_limit (w_model w) = 0 \<or> mw_output_token_limit (w_model w) = 0))
        (packet_error ''model limits'' ''must be positive''),
      require (\<not> (lw_wall_limit_millis (w_limits w) = 0 \<or> lw_output_byte_limit (w_limits w) = 0
                 \<or> ucast (lw_output_byte_limit (w_limits w)) > MAX_SESSION_OUTPUT_BYTES))
        (packet_error ''limits'' ''must be positive and output must fit one CAS object''),
      require (w_remaining_campaign_allowance w \<noteq> 0)
        (packet_error ''remaining_campaign_allowance_micro_usd'' ''must be positive''),
      require (\<not> (w_required_reads w = [] \<or> w_tools w = [] \<or> w_terminal_operations w = []))
        (packet_error ''assignment sets'' ''reads, tools, and terminal operations are required''),
      validate_unique_strings ''tools'' (w_tools w),
      try_each (\<lambda>t. require (tool_parse t \<noteq> None) (packet_error ''tools'' ''unknown host tool'')) (w_tools w),
      validate_unique_strings ''model.capability_flags'' (mw_capability_flags (w_model w)),
      try_each (\<lambda>f. require (f = ''reasoning'')
          (InvalidJson ''application bundle'' ''model.capability_flags: unknown model capability''))
        (mw_capability_flags (w_model w)),
      validate_unique_strings ''terminal_operations'' (w_terminal_operations w),
      try_each (\<lambda>x. require (terminal_operation_parse x \<noteq> None)
          (packet_error ''terminal_operations'' ''unknown terminal operation'')) (w_terminal_operations w)]"

definition validate_wire_closure :: "packet_wire \<Rightarrow> (frame_error, unit) result" where
  "validate_wire_closure w = first_error
     [validate_wire_reads [] (w_required_reads w),
      require (\<not> length (w_assignment_evidence w) > 24)
        (packet_error ''assignment_evidence'' ''exceeds the closed evidence reference limit''),
      require (\<not> (w_assignment_role w = ''product_research'' \<and> w_assignment_evidence w \<noteq> []))
        (packet_error ''assignment_evidence'' ''Product has no upstream assignment evidence''),
      require (\<not> (w_assignment_role w \<noteq> ''product_research'' \<and> w_assignment_evidence w = []))
        (packet_error ''assignment_evidence'' ''Engineering and Quality require upstream evidence''),
      validate_wire_evidence [] (w_assignment_evidence w),
      bounded_packet_text ''runtime.host_executable'' (rw_host_executable (w_runtime w)) 4096,
      require (hd (rw_host_executable (w_runtime w)) = CHR ''/'')
        (packet_error ''runtime.host_executable'' ''must be an absolute host path''),
      require (\<not> (length (rw_core_head (w_runtime w)) \<noteq> 40 \<or> \<not> list_all lower_hex (rw_core_head (w_runtime w))))
        (packet_error ''runtime.core_head'' ''must be exactly 40 lower-case hexadecimal characters''),
      bounded_packet_text ''runtime.rust_toolchain'' (rw_rust_toolchain (w_runtime w)) 240,
      validate_credential_environment ''runtime.credential_env'' (rw_credential_env (w_runtime w))]"

definition validate_assignment_packet_wire ::
  "(byte list \<Rightarrow> content_digest) \<Rightarrow> packet_wire \<Rightarrow> bool \<Rightarrow> (frame_error, unit) result" where
  "validate_assignment_packet_wire hash w allow_empty_digest = first_error
     [validate_wire_identity allow_empty_digest w, validate_wire_policy hash w,
      validate_wire_session w, validate_wire_closure w]"

section \<open>The seal\<close>

text \<open>The JSON library as two functions: the parser of the structure, and the printer with sorted keys.\<close>

record json_library =
  decode_json :: "byte list \<Rightarrow> (string, packet_wire) result"
  print_json :: "packet_wire \<Rightarrow> byte list"

definition canonical_assignment_packet_json ::
  "(byte list \<Rightarrow> content_digest) \<Rightarrow> json_library \<Rightarrow> packet_wire \<Rightarrow> (frame_error, byte list) result" where
  "canonical_assignment_packet_json hash json w =
     and_then (validate_assignment_packet_wire hash w True) (\<lambda>_. Inr (print_json json w))"

definition unsigned_assignment_packet_digest ::
  "(byte list \<Rightarrow> content_digest) \<Rightarrow> json_library \<Rightarrow> packet_wire \<Rightarrow> (frame_error, content_digest) result" where
  "unsigned_assignment_packet_digest hash json w =
     and_then (canonical_assignment_packet_json hash json (w\<lparr>w_packet_digest := []\<rparr>)) (\<lambda>canonical. Inr (hash canonical))"

definition parse_assignment_packet ::
  "(byte list \<Rightarrow> content_digest) \<Rightarrow> json_library \<Rightarrow> byte list \<Rightarrow> (frame_error, packet_wire) result" where
  "parse_assignment_packet hash json payload =
     and_then (require (utf8_valid payload) InvalidUtf8) (\<lambda>_.
     and_then (map_err (InvalidJson ''assignment packet'') (decode_json json payload)) (\<lambda>w.
     and_then (canonical_assignment_packet_json hash json w) (\<lambda>canonical.
     and_then (require (canonical = payload)
       (InvalidJson ''assignment packet'' ''packet bytes are not canonical V2 JSON or contain unknown fields'')) (\<lambda>_.
     and_then (validate_assignment_packet_wire hash w False) (\<lambda>_. Inr w)))))"

text \<open>The kernel discards the error of \<open>verify_assignment_packet_v2\<close>, so its three digest errors share their text here.\<close>

definition verify_assignment_packet ::
  "(byte list \<Rightarrow> content_digest) \<Rightarrow> json_library \<Rightarrow> byte list \<Rightarrow> string \<Rightarrow> (frame_error, packet_wire) result" where
  "verify_assignment_packet hash json payload expected_digest =
     (let bad = InvalidJson ''assignment packet'' ''packet digest does not match canonical unsigned bytes'' in
      and_then (parse_assignment_packet hash json payload) (\<lambda>w.
      and_then (unsigned_assignment_packet_digest hash json w) (\<lambda>computed.
      and_then (map_err (\<lambda>_. bad) (digest_from_str (w_packet_digest w))) (\<lambda>packet_digest.
      and_then (map_err (\<lambda>_. bad) (digest_from_str expected_digest)) (\<lambda>expected.
      and_then (require (\<not> (computed \<noteq> packet_digest \<or> packet_digest \<noteq> expected)) bad) (\<lambda>_. Inr w))))))"

end
