(* ===== verification/Packet_Mapping.thy ===== *)
theory Packet_Mapping
  imports Packet_Wire
begin

text \<open>
  The two relations of \<open>factory-kernel/src/process.rs\<close> between the wire packet and the typed packet:
  \<open>verify_wire_domain_mapping\<close>, the comparison with which an assignment is admitted, and
  \<open>assignment_packet_from_wire\<close>, with which a restarted daemon rebuilds the typed packet from the sealed
  bytes; and the errors of the process store.
\<close>

section \<open>Errors\<close>

datatype harness_error =
    HarnessContract contract_error
  | HarnessDatabase
  | UnsupportedCompilerVersion
  | ContextLimitExceeded
  | CompilerVersionOutOfRange
  | HarnessIdempotencyConflict

datatype process_error =
    ProcessContract contract_error
  | ProcessDatabase
  | ProcessCas
  | ProcessHarness harness_error
  | CorruptDigestColumn
  | AuditSubjectKindMismatch
  | ProcessRevisionConflict aggregate_revision aggregate_revision
  | ProcessIdempotencyConflict string string
  | ProcessRevisionOutOfRange
  | InvalidProcessCommand string
  | HarnessPacketArtifactMismatch
  | UnknownCampaign ident
  | CampaignClosed ident
  | CampaignAlreadyRunning
  | CampaignHasRunningSession ident
  | CampaignCostFrozen ident
  | CampaignDeadlineElapsed
  | UnknownApplicationRevision ident
  | ApplicationRevisionInactive ident
  | NoCurrentKernelBuild
  | UnknownAssignment ident
  | UnknownSession ident
  | UnknownArtifact ident
  | InvalidPacketDigest
  | PacketIdentityMismatch
  | RemainingAllowanceMismatch
  | PacketArtifactDigestMismatch
  | AssignmentStateConflict ident
  | SessionAlreadyTerminal ident
  | PaidSessionAlreadyRunning
  | TerminalOperationNotAllowed
  | TerminalCostMismatch
  | ProviderEffectNotStarted
  | ProviderEffectConflict
  | CorruptLifecycleColumn
  | CorruptCostColumn
  | RequiredReadIncomplete
  | RequiredReadManifestMismatch
  | UnregisteredTerminalArtifact

type_synonym 'a process_result = "(process_error, 'a) result"

definition process_contract :: "'a contract \<Rightarrow> 'a process_result" where
  "process_contract m = map_err ProcessContract m"

section \<open>The comparison\<close>

definition same_identity :: "packet_wire \<Rightarrow> assignment_packet \<Rightarrow> content_digest \<Rightarrow> content_digest \<Rightarrow> bool" where
  "same_identity w p build seal =
     (w_campaign_id w = pk_campaign_id p
      \<and> w_assignment_id w = pk_assignment_id p
      \<and> w_application_revision_id w = pk_application_revision_id p
      \<and> build = pk_kernel_build_id p
      \<and> w_assignment_role w = role_name (assignment_role p)
      \<and> w_target w = target p
      \<and> w_ticket_attempt_id w = pk_ticket_attempt_id p
      \<and> w_candidate_id w = pk_candidate_id p
      \<and> w_system_prompt_artifact_id w = system_prompt_artifact_id p
      \<and> w_assignment_prompt_artifact_id w = assignment_prompt_artifact_id p
      \<and> w_required_read_manifest_artifact_id w = required_read_manifest_artifact_id p
      \<and> w_workspace_root w = workspace_root p
      \<and> w_staging_root w = staging_root p
      \<and> w_remaining_campaign_allowance w = remaining_campaign_allowance p
      \<and> w_aggregate_revision w = pk_revision p
      \<and> seal = packet_digest p)"

definition same_model :: "model_wire \<Rightarrow> model_profile \<Rightarrow> bool" where
  "same_model w m =
     (mw_provider w = provider m
      \<and> mw_model_id w = model_id m
      \<and> mw_thinking_level w = thinking_name (thinking_level m)
      \<and> mw_context_token_limit w = context_token_limit m
      \<and> mw_output_token_limit w = output_token_limit m
      \<and> mw_price_input w = price_input m
      \<and> mw_price_output w = price_output m
      \<and> mw_price_cache_read w = price_cache_read m
      \<and> mw_price_cache_write w = price_cache_write m
      \<and> list_all2 (\<lambda>x y. x = capability_name y) (mw_capability_flags w) (capability_flags m))"

definition same_limits_and_runtime :: "packet_wire \<Rightarrow> assignment_packet \<Rightarrow> bool" where
  "same_limits_and_runtime w p =
     (lw_wall_limit_millis (w_limits w) = wall_limit (limits p)
      \<and> lw_output_byte_limit (w_limits w) = output_byte_limit (limits p)
      \<and> rw_host_executable (w_runtime w) = host_executable (runtime p)
      \<and> rw_core_head (w_runtime w) = core_head (runtime p)
      \<and> rw_core_source_digest (w_runtime w) = digest_hex (core_source_digest (runtime p))
      \<and> rw_rust_toolchain (w_runtime w) = rust_toolchain (runtime p))"

definition same_read :: "read_wire \<Rightarrow> read_exact_file \<Rightarrow> bool" where
  "same_read w r = (dw_path w = rx_path r \<and> dw_digest w = digest_hex (rx_digest r) \<and> dw_reason w = rx_reason r)"

definition evidence_matches :: "evidence_wire \<Rightarrow> assignment_evidence \<Rightarrow> bool" where
  "evidence_matches w e = (ew_role w = wire_name (ev_role e) \<and> ew_artifact_id w = ev_artifact_id e
     \<and> ew_digest w = digest_hex (ev_digest e) \<and> ew_byte_length w = ev_byte_length e)"

definition verify_wire_domain_mapping :: "packet_wire \<Rightarrow> assignment_packet \<Rightarrow> unit process_result" where
  "verify_wire_domain_mapping w p =
     and_then (map_err (\<lambda>_. InvalidPacketDigest) (digest_from_str (w_kernel_build_id w))) (\<lambda>build.
     and_then (map_err (\<lambda>_. InvalidPacketDigest) (digest_from_str (w_packet_digest w))) (\<lambda>seal.
     and_then (first_error
       [require (same_identity w p build seal) PacketIdentityMismatch,
        require (same_model (w_model w) (model p)) PacketIdentityMismatch,
        require (same_limits_and_runtime w p) PacketIdentityMismatch,
        require (rw_credential_env (w_runtime w) = credential_env (runtime p)) PacketIdentityMismatch]) (\<lambda>_.
     and_then (ok_or (decode_base64 (w_policy_bytes_b64 w)) InvalidPacketDigest) (\<lambda>bytes.
     and_then (map_err (\<lambda>_. InvalidPacketDigest) (digest_from_str (w_policy_digest w))) (\<lambda>policy.
     and_then (map_err (\<lambda>_. PacketIdentityMismatch) (policy_entrypoint_parse (w_policy_entrypoint w))) (\<lambda>entrypoint.
     first_error
       [require (\<not> (policy \<noteq> policy_digest p \<or> w_policy_byte_limit w \<noteq> policy_byte_limit p
                  \<or> bytes \<noteq> policy_bytes p \<or> entrypoint \<noteq> policy_entrypoint p)) PacketIdentityMismatch,
        require (list_all2 same_read (w_required_reads w) (required_reads p)
                 \<and> list_all2 (\<lambda>x y. x = terminal_operation_name y) (w_terminal_operations w) (terminal_operations p))
          PacketIdentityMismatch,
        require (list_all2 evidence_matches (w_assignment_evidence w) (assignment_evidence p)) PacketIdentityMismatch]))))))"

section \<open>The reconstruction\<close>

definition read_from_wire :: "read_wire \<Rightarrow> read_exact_file contract" where
  "read_from_wire w =
     and_then (repository_relative_path_parse (dw_path w)) (\<lambda>path.
     and_then (digest_from_str (dw_digest w)) (\<lambda>seal.
     Inr \<lparr>rx_path = path, rx_digest = seal, rx_reason = dw_reason w\<rparr>))"

definition evidence_from_wire :: "evidence_wire \<Rightarrow> assignment_evidence contract" where
  "evidence_from_wire w =
     and_then (parse_wire_name (ew_role w)) (\<lambda>role.
     and_then (identifier_new ''artifact ID'' (ew_artifact_id w)) (\<lambda>i.
     and_then (digest_from_str (ew_digest w)) (\<lambda>seal.
     Inr \<lparr>ev_role = role, ev_artifact_id = i, ev_digest = seal, ev_byte_length = ew_byte_length w\<rparr>)))"

definition model_from_wire :: "model_wire \<Rightarrow> thinking_level \<Rightarrow> model_capability list \<Rightarrow> model_profile" where
  "model_from_wire w level flags =
     \<lparr>provider = mw_provider w, model_id = mw_model_id w, thinking_level = level,
      context_token_limit = mw_context_token_limit w, output_token_limit = mw_output_token_limit w,
      price_input = mw_price_input w, price_output = mw_price_output w,
      price_cache_read = mw_price_cache_read w, price_cache_write = mw_price_cache_write w,
      capability_flags = flags\<rparr>"

definition optional_identifier :: "string \<Rightarrow> int option \<Rightarrow> ident option contract" where
  "optional_identifier kind v =
     (case v of None \<Rightarrow> Inr None | Some i \<Rightarrow> and_then (identifier_new kind i) (\<lambda>i. Inr (Some i)))"

definition assignment_packet_from_wire ::
  "(byte list \<Rightarrow> content_digest) \<Rightarrow> packet_wire \<Rightarrow> assignment_packet process_result" where
  "assignment_packet_from_wire hash w =
     and_then (ok_or (role_parse (w_assignment_role w)) PacketIdentityMismatch) (\<lambda>role.
     and_then (ok_or (thinking_parse (mw_thinking_level (w_model w))) PacketIdentityMismatch) (\<lambda>level.
     and_then (try_map (\<lambda>f. ok_or (capability_parse f) PacketIdentityMismatch) (mw_capability_flags (w_model w))) (\<lambda>flags.
     and_then (process_contract (try_map read_from_wire (w_required_reads w))) (\<lambda>reads.
     and_then (ok_or (decode_base64 (w_policy_bytes_b64 w)) InvalidPacketDigest) (\<lambda>bytes.
     and_then (map_err (\<lambda>_. InvalidPacketDigest) (digest_from_str (w_policy_digest w))) (\<lambda>policy.
     and_then (map_err (\<lambda>_. PacketIdentityMismatch) (policy_entrypoint_parse (w_policy_entrypoint w))) (\<lambda>entrypoint.
     and_then (try_map (\<lambda>x. ok_or (terminal_operation_parse x) PacketIdentityMismatch) (w_terminal_operations w)) (\<lambda>operations.
     and_then (try_each (\<lambda>t. require (tool_parse t \<noteq> None) PacketIdentityMismatch) (w_tools w)) (\<lambda>_.
     and_then (process_contract (identifier_new ''campaign ID'' (w_campaign_id w))) (\<lambda>campaign.
     and_then (process_contract (identifier_new ''assignment ID'' (w_assignment_id w))) (\<lambda>assignment.
     and_then (process_contract (digest_from_str (w_kernel_build_id w))) (\<lambda>build.
     and_then (process_contract (identifier_new ''application revision ID'' (w_application_revision_id w))) (\<lambda>application.
     and_then (process_contract (optional_identifier ''ticket attempt ID'' (w_ticket_attempt_id w))) (\<lambda>attempt.
     and_then (process_contract (optional_identifier ''candidate ID'' (w_candidate_id w))) (\<lambda>candidate.
     and_then (process_contract (identifier_new ''artifact ID'' (w_system_prompt_artifact_id w))) (\<lambda>system_prompt.
     and_then (process_contract (identifier_new ''artifact ID'' (w_assignment_prompt_artifact_id w))) (\<lambda>assignment_prompt.
     and_then (process_contract (identifier_new ''artifact ID'' (w_required_read_manifest_artifact_id w))) (\<lambda>manifest.
     and_then (process_contract (absolute_host_path_parse (w_workspace_root w))) (\<lambda>workspace.
     and_then (process_contract (absolute_host_path_parse (w_staging_root w))) (\<lambda>staging.
     and_then (process_contract (absolute_host_path_parse (rw_host_executable (w_runtime w)))) (\<lambda>host.
     and_then (process_contract (digest_from_str (rw_core_source_digest (w_runtime w)))) (\<lambda>core.
     and_then (process_contract (try_map evidence_from_wire (w_assignment_evidence w))) (\<lambda>evidence.
     and_then (process_contract (digest_from_str (w_packet_digest w))) (\<lambda>seal.
     let p = \<lparr>format_version = w_format_version w, pk_campaign_id = campaign, pk_assignment_id = assignment,
        pk_kernel_build_id = build, pk_application_revision_id = application, assignment_role = role,
        target = w_target w, pk_ticket_attempt_id = attempt, pk_candidate_id = candidate,
        system_prompt_artifact_id = system_prompt, assignment_prompt_artifact_id = assignment_prompt,
        required_read_manifest_artifact_id = manifest, policy_digest = policy,
        policy_byte_limit = w_policy_byte_limit w, policy_bytes = bytes, policy_entrypoint = entrypoint,
        workspace_root = workspace, staging_root = staging, model = model_from_wire (w_model w) level flags,
        limits = \<lparr>wall_limit = lw_wall_limit_millis (w_limits w), output_byte_limit = lw_output_byte_limit (w_limits w)\<rparr>,
        runtime = \<lparr>host_executable = host, core_head = rw_core_head (w_runtime w), core_source_digest = core,
          rust_toolchain = rw_rust_toolchain (w_runtime w), credential_env = rw_credential_env (w_runtime w)\<rparr>,
        required_reads = reads, assignment_evidence = evidence, terminal_operations = operations,
        remaining_campaign_allowance = w_remaining_campaign_allowance w, pk_revision = w_aggregate_revision w,
        packet_digest = seal\<rparr> in
     and_then (process_contract (assignment_packet_validate hash p)) (\<lambda>_. Inr p)))))))))))))))))))))))))"

section \<open>Vocabularies and digests\<close>

lemma role_parse_name [simp]: "role_parse v = Some r \<longleftrightarrow> v = role_name r"
  by (cases r) (auto simp: role_parse_def)

lemma thinking_parse_name [simp]: "thinking_parse v = Some l \<longleftrightarrow> v = thinking_name l"
  by (cases l) (auto simp: thinking_parse_def)

lemma terminal_operation_parse_name [simp]: "terminal_operation_parse v = Some x \<longleftrightarrow> v = terminal_operation_name x"
  by (cases x) (auto simp: terminal_operation_parse_def)

lemma capability_parse_name [simp]: "capability_parse v = Some c \<longleftrightarrow> v = capability_name c"
  by (cases c) (auto simp: capability_parse_def)

lemma bytes_of_chars: "bytes_of (map (\<lambda>b. char_of (unat b)) bs) = bs"
  by (simp add: bytes_of_def comp_def)

lemma digest_from_str_hex: "digest_from_str v = Inr d \<longleftrightarrow> digest_ok d \<and> v = digest_hex d"
proof -
  have "bytes_of v = hex_encode d \<longleftrightarrow> v = digest_hex d"
    by (metis bytes_of_chars bytes_of_inject digest_hex_def)
  then show ?thesis
    using digest_parses_hex by simp
qed

section \<open>The reconstruction is the inverse of the comparison\<close>

text \<open>What the types of the kernel guarantee of a packet: identifiers, digests and paths are parsed values.\<close>

definition packet_typed :: "assignment_packet \<Rightarrow> bool" where
  "packet_typed p \<longleftrightarrow>
     0 < pk_campaign_id p \<and> 0 < pk_assignment_id p \<and> 0 < pk_application_revision_id p
     \<and> (\<forall>i. pk_ticket_attempt_id p = Some i \<longrightarrow> 0 < i) \<and> (\<forall>i. pk_candidate_id p = Some i \<longrightarrow> 0 < i)
     \<and> 0 < system_prompt_artifact_id p \<and> 0 < assignment_prompt_artifact_id p \<and> 0 < required_read_manifest_artifact_id p
     \<and> digest_ok (pk_kernel_build_id p) \<and> digest_ok (policy_digest p) \<and> digest_ok (packet_digest p)
     \<and> digest_ok (core_source_digest (runtime p))
     \<and> is_ok (absolute_host_path_parse (workspace_root p)) \<and> is_ok (absolute_host_path_parse (staging_root p))
     \<and> is_ok (absolute_host_path_parse (host_executable (runtime p)))
     \<and> (\<forall>r \<in> set (required_reads p). is_ok (repository_relative_path_parse (rx_path r)) \<and> digest_ok (rx_digest r))
     \<and> (\<forall>e \<in> set (assignment_evidence p). 0 < ev_artifact_id e \<and> digest_ok (ev_digest e))"

lemma read_from_wire_ok:
  "read_from_wire w = Inr r \<longleftrightarrow>
     same_read w r \<and> is_ok (repository_relative_path_parse (rx_path r)) \<and> digest_ok (rx_digest r)"
  by (cases r) (auto simp: read_from_wire_def same_read_def digest_from_str_hex is_ok_iff
      repository_relative_path_parse_def validate_safe_relative_ok)

lemma evidence_from_wire_ok:
  "evidence_from_wire w = Inr e \<longleftrightarrow> evidence_matches w e \<and> 0 < ev_artifact_id e \<and> digest_ok (ev_digest e)"
  by (cases e; cases w) (auto simp: evidence_from_wire_def evidence_matches_def digest_from_str_hex wire_name_parses)

lemma optional_identifier_ok:
  "optional_identifier k v = Inr r \<longleftrightarrow> v = r \<and> (\<forall>i. r = Some i \<longrightarrow> 0 < i)"
  by (cases v) (auto simp: optional_identifier_def)

lemma absolute_host_path_parse_ok:
  "absolute_host_path_parse v = Inr r \<longleftrightarrow> v = r \<and> is_ok (absolute_host_path_parse r)"
  by (auto simp: absolute_host_path_parse_def split: if_splits)

lemma try_map_typed:
  assumes "\<And>w x. f w = Inr x \<longleftrightarrow> R w x \<and> P x"
  shows "try_map f ws = Inr xs \<longleftrightarrow> list_all2 R ws xs \<and> (\<forall>x \<in> set xs. P x)"
proof -
  have "list_all2 (\<lambda>w x. R w x \<and> P x) ws xs \<longleftrightarrow> list_all2 R ws xs \<and> (\<forall>x \<in> set xs. P x)"
    by (induction ws arbitrary: xs) (auto simp: list_all2_Cons1)
  then show ?thesis by (simp add: try_map_eq_Inr assms)
qed

lemma process_contract_ok [simp]: "process_contract m = Inr x \<longleftrightarrow> m = Inr x"
  by (simp add: process_contract_def)

lemmas from_wire_pieces =
  try_map_typed [of read_from_wire, OF read_from_wire_ok]
  try_map_typed [of evidence_from_wire, OF evidence_from_wire_ok]
  optional_identifier_ok digest_from_str_hex

lemma model_from_wire_same:
  "same_model w (model_from_wire w level flags) \<longleftrightarrow>
     mw_thinking_level w = thinking_name level \<and> list_all2 (\<lambda>x y. x = capability_name y) (mw_capability_flags w) flags"
  by (simp add: same_model_def model_from_wire_def)

lemma same_model_from_wire: "same_model w m \<Longrightarrow> model_from_wire w (thinking_level m) (capability_flags m) = m"
  by (cases m) (simp add: same_model_def model_from_wire_def)

lemma flags_from_wire:
  "try_map (\<lambda>f. ok_or (capability_parse f) e) fs = Inr xs \<longleftrightarrow> list_all2 (\<lambda>x y. x = capability_name y) fs xs"
  by (simp add: try_map_eq_Inr)

lemma operations_from_wire:
  "try_map (\<lambda>x. ok_or (terminal_operation_parse x) e) ws = Inr xs \<longleftrightarrow> list_all2 (\<lambda>x y. x = terminal_operation_name y) ws xs"
  by (simp add: try_map_eq_Inr)

lemma from_wire_compares:
  assumes "assignment_packet_from_wire hash w = Inr p"
  shows "verify_wire_domain_mapping w p = Inr () \<and> packet_typed p \<and> assignment_packet_validate hash p = Inr ()"
  using assms
  by (auto simp: assignment_packet_from_wire_def Let_def from_wire_pieces absolute_host_path_parse_ok
      flags_from_wire operations_from_wire verify_wire_domain_mapping_def same_identity_def model_from_wire_same
      same_limits_and_runtime_def packet_typed_def)

lemma packet_eta:
  "\<lparr>format_version = format_version p, pk_campaign_id = pk_campaign_id p, pk_assignment_id = pk_assignment_id p,
    pk_kernel_build_id = pk_kernel_build_id p, pk_application_revision_id = pk_application_revision_id p,
    assignment_role = assignment_role p, target = target p, pk_ticket_attempt_id = pk_ticket_attempt_id p,
    pk_candidate_id = pk_candidate_id p, system_prompt_artifact_id = system_prompt_artifact_id p,
    assignment_prompt_artifact_id = assignment_prompt_artifact_id p,
    required_read_manifest_artifact_id = required_read_manifest_artifact_id p, policy_digest = policy_digest p,
    policy_byte_limit = policy_byte_limit p, policy_bytes = policy_bytes p, policy_entrypoint = policy_entrypoint p,
    workspace_root = workspace_root p, staging_root = staging_root p, model = model p, limits = limits p,
    runtime = runtime p, required_reads = required_reads p, assignment_evidence = assignment_evidence p,
    terminal_operations = terminal_operations p, remaining_campaign_allowance = remaining_campaign_allowance p,
    pk_revision = pk_revision p, packet_digest = packet_digest p\<rparr> = (p :: assignment_packet)"
  by simp

lemma host_path: "is_ok (absolute_host_path_parse v) \<Longrightarrow> absolute_host_path_parse v = Inr v"
  by (simp add: absolute_host_path_parse_def split: if_splits)

lemma compares_from_wire:
  assumes map: "verify_wire_domain_mapping w p = Inr ()" and typed: "packet_typed p"
    and valid: "assignment_packet_validate hash p = Inr ()"
    and rest: "w_format_version w = format_version p" "\<forall>t \<in> set (w_tools w). tool_parse t \<noteq> None"
  shows "assignment_packet_from_wire hash w = Inr p"
proof -
  note typed = typed [unfolded packet_typed_def]
  from map have eqs:
      "w_campaign_id w = pk_campaign_id p" "w_assignment_id w = pk_assignment_id p"
      "w_application_revision_id w = pk_application_revision_id p" "w_assignment_role w = role_name (assignment_role p)"
      "w_target w = target p" "w_ticket_attempt_id w = pk_ticket_attempt_id p" "w_candidate_id w = pk_candidate_id p"
      "w_system_prompt_artifact_id w = system_prompt_artifact_id p"
      "w_assignment_prompt_artifact_id w = assignment_prompt_artifact_id p"
      "w_required_read_manifest_artifact_id w = required_read_manifest_artifact_id p"
      "w_workspace_root w = workspace_root p" "w_staging_root w = staging_root p"
      "w_remaining_campaign_allowance w = remaining_campaign_allowance p" "w_aggregate_revision w = pk_revision p"
      "decode_base64 (w_policy_bytes_b64 w) = Some (policy_bytes p)" "w_policy_byte_limit w = policy_byte_limit p"
      "digest_from_str (w_policy_digest w) = Inr (policy_digest p)"
      "policy_entrypoint_parse (w_policy_entrypoint w) = Inr (policy_entrypoint p)"
      "digest_from_str (w_kernel_build_id w) = Inr (pk_kernel_build_id p)"
      "digest_from_str (w_packet_digest w) = Inr (packet_digest p)"
    and m: "same_model (w_model w) (model p)"
    and lr: "same_limits_and_runtime w p" "rw_credential_env (w_runtime w) = credential_env (runtime p)"
    and lists: "list_all2 same_read (w_required_reads w) (required_reads p)"
      "list_all2 (\<lambda>x y. x = terminal_operation_name y) (w_terminal_operations w) (terminal_operations p)"
      "list_all2 evidence_matches (w_assignment_evidence w) (assignment_evidence p)"
    by (simp_all add: verify_wire_domain_mapping_def same_identity_def)
  have level: "mw_thinking_level (w_model w) = thinking_name (thinking_level (model p))"
      "list_all2 (\<lambda>x y. x = capability_name y) (mw_capability_flags (w_model w)) (capability_flags (model p))"
    using m by (simp_all add: same_model_def)
  have nested: "\<lparr>wall_limit = lw_wall_limit_millis (w_limits w), output_byte_limit = lw_output_byte_limit (w_limits w)\<rparr> = limits p"
      "\<lparr>host_executable = host_executable (runtime p), core_head = rw_core_head (w_runtime w),
        core_source_digest = core_source_digest (runtime p), rust_toolchain = rw_rust_toolchain (w_runtime w),
        credential_env = rw_credential_env (w_runtime w)\<rparr> = runtime p"
    using lr by (simp_all add: same_limits_and_runtime_def)
  have core: "rw_host_executable (w_runtime w) = host_executable (runtime p)"
      "digest_from_str (rw_core_source_digest (w_runtime w)) = Inr (core_source_digest (runtime p))"
    using lr(1) typed by (simp_all add: same_limits_and_runtime_def digest_from_str_hex)
  have parses: "try_map read_from_wire (w_required_reads w) = Inr (required_reads p)"
      "try_map evidence_from_wire (w_assignment_evidence w) = Inr (assignment_evidence p)"
      "try_map (\<lambda>x. ok_or (terminal_operation_parse x) PacketIdentityMismatch) (w_terminal_operations w) = Inr (terminal_operations p)"
      "try_map (\<lambda>f. ok_or (capability_parse f) PacketIdentityMismatch) (mw_capability_flags (w_model w)) = Inr (capability_flags (model p))"
      "optional_identifier ''ticket attempt ID'' (pk_ticket_attempt_id p) = Inr (pk_ticket_attempt_id p)"
      "optional_identifier ''candidate ID'' (pk_candidate_id p) = Inr (pk_candidate_id p)"
      "try_each (\<lambda>t. require (tool_parse t \<noteq> None) PacketIdentityMismatch) (w_tools w) = Inr ()"
    using lists level(2) typed rest(2) by (simp_all add: from_wire_pieces flags_from_wire operations_from_wire)
  have names: "role_parse (role_name (assignment_role p)) = Some (assignment_role p)"
      "thinking_parse (thinking_name (thinking_level (model p))) = Some (thinking_level (model p))" by simp_all
  have ids: "identifier_new k i = Inr i" if "0 < i" for k i using that by simp
  have paths: "absolute_host_path_parse (workspace_root p) = Inr (workspace_root p)"
      "absolute_host_path_parse (staging_root p) = Inr (staging_root p)"
      "absolute_host_path_parse (host_executable (runtime p)) = Inr (host_executable (runtime p))"
    using typed host_path by blast+
  show ?thesis
    unfolding assignment_packet_from_wire_def process_contract_def Let_def
    by (simp only: eqs level(1) core nested parses names ids paths same_model_from_wire [OF m] typed
        rest(1) packet_eta valid ok_or.simps map_err.simps and_then.simps)
qed

text \<open>
  C20. What a restart rebuilds is what was admitted.  On a wire packet that passes its own validation, the
  reconstruction yields a typed packet exactly when that packet passes the comparison of the admission,
  has well-formed parts and is valid; in particular a valid packet admitted with these bytes is rebuilt
  field for field, and nothing the comparison would refuse is ever rebuilt.
\<close>

theorem restart_rebuilds_the_admitted_packet:
  assumes "validate_assignment_packet_wire hash w False = Inr ()"
  shows "assignment_packet_from_wire hash w = Inr p \<longleftrightarrow>
    verify_wire_domain_mapping w p = Inr () \<and> packet_typed p \<and> assignment_packet_validate hash p = Inr ()"
proof
  assume "verify_wire_domain_mapping w p = Inr () \<and> packet_typed p \<and> assignment_packet_validate hash p = Inr ()"
  moreover have "w_format_version w = ASSIGNMENT_PACKET_V2_FORMAT" "\<forall>t \<in> set (w_tools w). tool_parse t \<noteq> None"
    using assms by (simp_all add: validate_assignment_packet_wire_def validate_wire_identity_def validate_wire_session_def)
  moreover have "assignment_packet_validate hash p = Inr () \<Longrightarrow> format_version p = ASSIGNMENT_PACKET_V2_FORMAT"
    by (simp add: assignment_packet_validate_def)
  ultimately show "assignment_packet_from_wire hash w = Inr p" by (intro compares_from_wire) simp_all
qed (rule from_wire_compares)

end
