(* ===== verification/Process_Store.thy ===== *)
theory Process_Store
  imports Store Packet_Mapping
begin

text \<open>
  The process authority of \<open>factory-kernel/src/process.rs\<close>: campaigns, sessions and their cost.  Every
  command holds the advisory lock of \<open>lock_process_transaction\<close>, so commands are serial; a command is a
  function from the database to an error, which rolls back, or to its receipt and the committed database.
  \<open>to_timestamp\<close> of PostgreSQL is the parameter \<open>timestamp\<close>, \<open>now\<close> is the transaction's time, \<open>hash\<close> is
  BLAKE3.  Constraints of the schema a write can violate are guards with the error \<open>ProcessDatabase\<close>.
\<close>

section \<open>Codes\<close>

definition CAMPAIGN_FAILED :: int where [simp]: "CAMPAIGN_FAILED = 2"
definition CAMPAIGN_CANCELLED :: int where [simp]: "CAMPAIGN_CANCELLED = 3"
definition ASSIGNMENT_PREPARED :: int where [simp]: "ASSIGNMENT_PREPARED = 0"

definition CAMPAIGN_SUBJECT :: int where [simp]: "CAMPAIGN_SUBJECT = 4"
definition ASSIGNMENT_SUBJECT :: int where [simp]: "ASSIGNMENT_SUBJECT = 5"
definition SESSION_SUBJECT :: int where [simp]: "SESSION_SUBJECT = 6"
definition CAMPAIGN_START :: string where "CAMPAIGN_START = ''campaign.start''"
definition CAMPAIGN_CANCEL :: string where "CAMPAIGN_CANCEL = ''campaign.cancel''"
definition CAMPAIGN_FAIL :: string where "CAMPAIGN_FAIL = ''campaign.fail''"
definition ASSIGNMENT_CREATE :: string where "ASSIGNMENT_CREATE = ''assignment.create''"
definition SESSION_START :: string where "SESSION_START = ''session.start''"
definition SESSION_TERMINAL :: string where "SESSION_TERMINAL = ''session.terminal''"

definition UNKNOWN_TERMINAL_COST_FAILURE_REASON :: string where
  "UNKNOWN_TERMINAL_COST_FAILURE_REASON = ''terminal session cost is unknown''"
definition EXCEEDED_TERMINAL_COST_FAILURE_REASON :: string where
  "EXCEEDED_TERMINAL_COST_FAILURE_REASON = ''terminal session exceeded the campaign cost limit''"

fun assignment_role_code :: "assignment_role \<Rightarrow> int" where
  "assignment_role_code ProductResearch = 0"
| "assignment_role_code Engineering = 1"
| "assignment_role_code Quality = 2"

fun thinking_code :: "thinking_level \<Rightarrow> int" where
  "thinking_code ThinkingNone = 0"
| "thinking_code ThinkingLow = 1"
| "thinking_code ThinkingMedium = 2"
| "thinking_code ThinkingHigh = 3"
| "thinking_code ThinkingXHigh = 4"

fun terminal_operation_code :: "terminal_operation \<Rightarrow> int" where
  "terminal_operation_code OpWorkComplete = 0"
| "terminal_operation_code OpCandidateSubmit = 1"
| "terminal_operation_code OpQualitySubmitReview = 2"

fun operation_mask_one :: "terminal_operation option \<Rightarrow> 64 word" where
  "operation_mask_one None = 0"
| "operation_mask_one (Some x) = push_bit (nat (terminal_operation_code x)) 1"

definition operation_mask :: "terminal_operation list \<Rightarrow> 64 word" where
  "operation_mask xs = foldl (\<lambda>m x. m OR operation_mask_one (Some x)) 0 xs"

fun session_state_of :: "stop_reason \<Rightarrow> session_state" where
  "session_state_of StopCompleted = SessionSucceeded"
| "session_state_of StopCancelled = SessionCancelled"
| "session_state_of StopCostLimit = SessionFailed"
| "session_state_of StopDaemonDisconnected = SessionInterrupted"
| "session_state_of StopDeadline = SessionInterrupted"
| "session_state_of _ = SessionFailed"

fun assignment_state_code :: "session_state \<Rightarrow> int" where
  "assignment_state_code SessionSucceeded = 2"
| "assignment_state_code SessionCancelled = 4"
| "assignment_state_code SessionInterrupted = 5"
| "assignment_state_code _ = 3"

fun session_state_code :: "session_state \<Rightarrow> int" where
  "session_state_code SessionPrepared = 0"
| "session_state_code SessionRunning = 1"
| "session_state_code SessionSucceeded = 2"
| "session_state_code SessionFailed = 3"
| "session_state_code SessionCancelled = 4"
| "session_state_code SessionInterrupted = 5"

definition session_state_from_code :: "int \<Rightarrow> session_state process_result" where
  "session_state_from_code v =
     (if v = 0 then Inr SessionPrepared else if v = 1 then Inr SessionRunning else if v = 2 then Inr SessionSucceeded
      else if v = 3 then Inr SessionFailed else if v = 4 then Inr SessionCancelled
      else if v = 5 then Inr SessionInterrupted else Inl CorruptLifecycleColumn)"

definition campaign_state_from_code :: "int \<Rightarrow> campaign_state process_result" where
  "campaign_state_from_code v =
     (if v = 0 then Inr CampaignRunning else if v = 1 then Inr CampaignCompleted else if v = 2 then Inr CampaignFailed
      else if v = 3 then Inr CampaignCancelled else Inl CorruptLifecycleColumn)"

fun stop_reason_code :: "stop_reason \<Rightarrow> int" where
  "stop_reason_code StopCompleted = 0"
| "stop_reason_code StopCancelled = 1"
| "stop_reason_code StopDeadline = 2"
| "stop_reason_code StopDaemonDisconnected = 3"
| "stop_reason_code StopNonZeroExit = 4"
| "stop_reason_code StopOutputLimit = 5"
| "stop_reason_code StopProtocolError = 6"
| "stop_reason_code StopUnknownCost = 7"
| "stop_reason_code StopCostLimit = 8"

definition failure_code :: "stop_reason \<Rightarrow> int option" where
  "failure_code r = (if r \<noteq> StopCompleted then Some (stop_reason_code r) else None)"

text \<open>Conversions of \<open>u32\<close> and \<open>u64\<close> values to the columns, and back.\<close>

definition MAX_I32 :: int where "MAX_I32 = 2 ^ 31 - 1"

definition sql_i64 :: "process_error \<Rightarrow> 64 word \<Rightarrow> int process_result" where
  "sql_i64 e v = (if I64_MAX < uint v then Inl e else Inr (uint v))"

definition sql_i32 :: "process_error \<Rightarrow> 32 word \<Rightarrow> int process_result" where
  "sql_i32 e v = (if MAX_I32 < uint v then Inl e else Inr (uint v))"

definition u64_of_sql :: "process_error \<Rightarrow> int \<Rightarrow> 64 word process_result" where
  "u64_of_sql e v = (if v < 0 then Inl e else Inr (word_of_int v))"

definition u32_of_sql :: "process_error \<Rightarrow> int \<Rightarrow> 32 word process_result" where
  "u32_of_sql e v = (if v < 0 \<or> 2 ^ 32 \<le> v then Inl e else Inr (word_of_int v))"

definition process_revision :: "int \<Rightarrow> aggregate_revision process_result" where
  "process_revision v = revision_of_sql ProcessRevisionOutOfRange v"

definition process_revision_sql :: "aggregate_revision \<Rightarrow> int process_result" where
  "process_revision_sql r = sql_of_revision ProcessRevisionOutOfRange r"

definition optional_sql :: "process_error \<Rightarrow> 64 word option \<Rightarrow> int option process_result" where
  "optional_sql e v = (case v of None \<Rightarrow> Inr None | Some x \<Rightarrow> and_then (sql_i64 e x) (\<lambda>i. Inr (Some i)))"

definition usage_sql :: "usage_totals \<Rightarrow>
    (int option \<times> int option \<times> int option \<times> int option \<times> int option \<times> int option) process_result" where
  "usage_sql u =
     (let range = InvalidProcessCommand ''usage total'' in
      and_then (optional_sql range (input_tokens u)) (\<lambda>a.
      and_then (optional_sql range (output_tokens u)) (\<lambda>b.
      and_then (optional_sql range (cache_read_tokens u)) (\<lambda>c.
      and_then (optional_sql range (cache_write_tokens u)) (\<lambda>d.
      and_then (optional_sql range (reasoning_tokens u)) (\<lambda>e.
      and_then (optional_sql range (reported_cost_micro_usd u)) (\<lambda>f. Inr (a, b, c, d, e, f))))))))"

definition db_cost :: "int option \<Rightarrow> int option \<Rightarrow> terminal_cost option process_result" where
  "db_cost state v = (case (state, v) of
      (None, None) \<Rightarrow> Inr None
    | (Some s, Some x) \<Rightarrow>
        if s = COST_KNOWN then and_then (u64_of_sql CorruptCostColumn x) (\<lambda>m. Inr (Some (CostKnown m)))
        else if s = COST_EXCEEDED then and_then (u64_of_sql CorruptCostColumn x) (\<lambda>m. Inr (Some (CostExceeded m)))
        else Inl CorruptCostColumn
    | (Some s, None) \<Rightarrow> if s = COST_UNKNOWN then Inr (Some CostUnknown) else Inl CorruptCostColumn
    | (None, Some _) \<Rightarrow> Inl CorruptCostColumn)"

section \<open>Command identity and audit\<close>

definition process_validate_command :: "string \<Rightarrow> string \<Rightarrow> unit process_result" where
  "process_validate_command prin command_id =
     try_each (\<lambda>(field, v). require (command_component_ok v) (InvalidProcessCommand field))
       [(''principal'', prin), (''command ID'', command_id)]"

definition validate_failure_reason :: "string \<Rightarrow> unit process_result" where
  "validate_failure_reason reason =
     require (\<not> (reason = [] \<or> length reason > 240 \<or> CHR 0x00 \<in> set reason))
       (InvalidProcessCommand ''campaign failure reason'')"

definition process_find_audit :: "db \<Rightarrow> string \<Rightarrow> string \<Rightarrow> string \<Rightarrow> content_digest \<Rightarrow> audit_receipt option process_result" where
  "process_find_audit d prin command_id operation fingerprint =
     find_audit_entry (ProcessIdempotencyConflict prin command_id) ProcessRevisionOutOfRange d prin command_id operation fingerprint"

definition process_insert_audit :: "db \<Rightarrow> string \<Rightarrow> string \<Rightarrow> string \<Rightarrow> content_digest \<Rightarrow> int \<Rightarrow> int \<Rightarrow> aggregate_revision
    \<Rightarrow> (int \<times> db) process_result" where
  "process_insert_audit d prin command_id operation fingerprint kind subject revision =
     insert_audit_entry ProcessDatabase ProcessRevisionOutOfRange d prin command_id operation fingerprint kind subject revision"

definition process_require_subject :: "audit_receipt \<Rightarrow> int \<Rightarrow> unit process_result" where
  "process_require_subject receipt expected = require (rc_subject_kind receipt = expected) AuditSubjectKindMismatch"

definition process_require_revision :: "aggregate_revision \<Rightarrow> aggregate_revision \<Rightarrow> unit process_result" where
  "process_require_revision expected current = require (expected = current) (ProcessRevisionConflict expected current)"

definition hash_u32 :: "32 word \<Rightarrow> byte list" where
  "hash_u32 v = be_bytes 4 (unat v)"

section \<open>Campaigns\<close>

record start_campaign =
  cs_principal :: string
  cs_command_id :: string
  cs_expected_application_revision :: aggregate_revision
  cs_application_revision_id :: ident
  cs_aggregate_budget :: micro_usd
  cs_deadline_unix_millis :: "64 word"
  cs_delivery_target :: "32 word"

record cancel_campaign =
  cc_principal :: string
  cc_command_id :: string
  cc_expected_revision :: aggregate_revision
  cc_campaign_id :: ident

record fail_campaign =
  cf_principal :: string
  cf_command_id :: string
  cf_expected_revision :: aggregate_revision
  cf_campaign_id :: ident
  cf_reason :: string

record campaign_receipt =
  cn_campaign_id :: ident
  cn_resulting_revision :: aggregate_revision
  cn_kernel_build_id :: content_digest
  cn_application_revision_id :: ident
  cn_repository_id :: ident
  cn_audit_log_id :: int
  cn_was_idempotent_retry :: bool

datatype campaign_cancellation_admission = CancellationCompleted campaign_receipt | ActiveSession ident

record reconciled_session_cancellation =
  rs_campaign_id :: ident
  rs_session_id :: ident
  rs_campaign_revision :: aggregate_revision

definition start_campaign_preimage :: "start_campaign \<Rightarrow> byte list" where
  "start_campaign_preimage c =
     hash_string CAMPAIGN_START @ hash_string (cs_principal c) @ hash_string (cs_command_id c)
     @ hash_u64 (cs_expected_application_revision c) @ hash_i64 (cs_application_revision_id c)
     @ hash_u64 (cs_aggregate_budget c) @ hash_u64 (cs_deadline_unix_millis c) @ hash_u32 (cs_delivery_target c)"

definition cancel_campaign_preimage :: "cancel_campaign \<Rightarrow> byte list" where
  "cancel_campaign_preimage c =
     hash_string CAMPAIGN_CANCEL @ hash_string (cc_principal c) @ hash_string (cc_command_id c)
     @ hash_u64 (cc_expected_revision c) @ hash_i64 (cc_campaign_id c)"

definition fail_campaign_preimage :: "fail_campaign \<Rightarrow> byte list" where
  "fail_campaign_preimage c =
     hash_string CAMPAIGN_FAIL @ hash_string (cf_principal c) @ hash_string (cf_command_id c)
     @ hash_u64 (cf_expected_revision c) @ hash_i64 (cf_campaign_id c) @ hash_string (cf_reason c)"

text \<open>What a receipt pins of its campaign: build, application revision and repository.\<close>

definition campaign_pinning :: "db \<Rightarrow> ident \<Rightarrow> (content_digest \<times> ident \<times> ident) process_result" where
  "campaign_pinning d i =
     and_then (ok_or (get_row (campaigns d) i) (UnknownCampaign i)) (\<lambda>g.
     and_then (ok_or (get_row (kernel_builds d) (ca_kernel_build_id g)) (UnknownCampaign i)) (\<lambda>b.
     and_then (require (digest_ok (kb_build_digest b)) CorruptDigestColumn) (\<lambda>_.
     and_then (process_contract (identifier_new ''application revision ID'' (ca_application_revision_id g))) (\<lambda>a.
     and_then (process_contract (identifier_new ''repository ID'' (ca_repository_id g))) (\<lambda>r.
     Inr (kb_build_digest b, a, r))))))"

definition campaign_receipt_of ::
  "db \<Rightarrow> ident \<Rightarrow> aggregate_revision \<Rightarrow> int \<Rightarrow> bool \<Rightarrow> campaign_receipt process_result" where
  "campaign_receipt_of d i revision audit_log_id retry =
     and_then (campaign_pinning d i) (\<lambda>(build, application, repository).
     Inr \<lparr>cn_campaign_id = i, cn_resulting_revision = revision, cn_kernel_build_id = build,
          cn_application_revision_id = application, cn_repository_id = repository,
          cn_audit_log_id = audit_log_id, cn_was_idempotent_retry = retry\<rparr>)"

definition campaign_replay :: "db \<Rightarrow> audit_receipt \<Rightarrow> campaign_receipt process_result" where
  "campaign_replay d receipt =
     and_then (process_require_subject receipt CAMPAIGN_SUBJECT) (\<lambda>_.
     and_then (process_contract (identifier_new ''campaign ID'' (rc_subject_id receipt))) (\<lambda>i.
     campaign_receipt_of d i (rc_resulting_revision receipt) (rc_audit_log_id receipt) True))"

definition campaign_running_exists :: "db \<Rightarrow> bool" where
  "campaign_running_exists d = exists_row (\<lambda>_ g. ca_lifecycle g = CAMPAIGN_RUNNING) (campaigns d)"

definition start_campaign_fresh ::
  "(int \<Rightarrow> int) \<Rightarrow> content_digest \<Rightarrow> int \<Rightarrow> start_campaign \<Rightarrow> db \<Rightarrow> (campaign_receipt \<times> db) process_result" where
  "start_campaign_fresh timestamp fingerprint now c d =
     and_then (require (\<not> campaign_running_exists d) CampaignAlreadyRunning) (\<lambda>_.
     and_then (ok_or (find_row (\<lambda>_ b. kb_is_current b) (kernel_builds d)) NoCurrentKernelBuild) (\<lambda>(build_id, b).
     and_then (require (digest_ok (kb_build_digest b)) CorruptDigestColumn) (\<lambda>_.
     and_then (ok_or (get_row (application_revisions d) (cs_application_revision_id c))
       (UnknownApplicationRevision (cs_application_revision_id c))) (\<lambda>a.
     and_then (process_revision (ap_aggregate_revision a)) (\<lambda>revision.
     and_then (first_error
       [process_require_revision (cs_expected_application_revision c) revision,
        require (ap_is_active a) (ApplicationRevisionInactive (cs_application_revision_id c))]) (\<lambda>_.
     and_then (process_contract (identifier_new ''repository ID'' (ap_repository_id a))) (\<lambda>repository.
     and_then (sql_i64 (InvalidProcessCommand ''aggregate budget'') (cs_aggregate_budget c)) (\<lambda>budget.
     and_then (sql_i64 (InvalidProcessCommand ''deadline'') (cs_deadline_unix_millis c)) (\<lambda>deadline.
     and_then (sql_i32 (InvalidProcessCommand ''delivery target'') (cs_delivery_target c)) (\<lambda>target.
     and_then (require (timestamp deadline > now) CampaignDeadlineElapsed) (\<lambda>_.
     let i = next_id (campaigns d);
         d1 = d\<lparr>campaigns := insert_row
           \<lparr>ca_kernel_build_id = build_id, ca_application_revision_id = cs_application_revision_id c,
            ca_lifecycle = CAMPAIGN_RUNNING, ca_deadline = timestamp deadline, ca_delivery_target = target,
            ca_revision = 0, ca_measured_cost_micro_usd = 0, ca_cost_state = COST_KNOWN,
            ca_repository_id = repository, ca_aggregate_budget_micro_usd = budget,
            ca_failure_reason = None\<rparr> (campaigns d)\<rparr> in
     and_then (process_insert_audit d1 (cs_principal c) (cs_command_id c) CAMPAIGN_START fingerprint
                 CAMPAIGN_SUBJECT i revision_initial) (\<lambda>(audit_log_id, d2).
     and_then (process_contract (identifier_new ''campaign ID'' i)) (\<lambda>i.
     Inr (\<lparr>cn_campaign_id = i, cn_resulting_revision = revision_initial, cn_kernel_build_id = kb_build_digest b,
           cn_application_revision_id = cs_application_revision_id c, cn_repository_id = repository,
           cn_audit_log_id = audit_log_id, cn_was_idempotent_retry = False\<rparr>, d2))))))))))))))"

definition start_campaign_cmd ::
  "(byte list \<Rightarrow> content_digest) \<Rightarrow> (int \<Rightarrow> int) \<Rightarrow> int \<Rightarrow> start_campaign \<Rightarrow> db \<Rightarrow> (campaign_receipt \<times> db) process_result" where
  "start_campaign_cmd hash timestamp now c d =
     and_then (process_validate_command (cs_principal c) (cs_command_id c)) (\<lambda>_.
     and_then (require (\<not> (cs_delivery_target c = 0 \<or> cs_deadline_unix_millis c = 0))
       (InvalidProcessCommand ''campaign bounds'')) (\<lambda>_.
     let fingerprint = hash (start_campaign_preimage c) in
     audited (process_find_audit d (cs_principal c) (cs_command_id c) CAMPAIGN_START fingerprint)
       (campaign_replay d) (start_campaign_fresh timestamp fingerprint now c d) d))"

definition cancel_campaign_in_transaction ::
  "content_digest \<Rightarrow> cancel_campaign \<Rightarrow> aggregate_revision \<Rightarrow> db \<Rightarrow> (campaign_receipt \<times> db) process_result" where
  "cancel_campaign_in_transaction fingerprint c current d =
     and_then (process_contract (revision_next current)) (\<lambda>nxt.
     and_then (process_revision_sql nxt) (\<lambda>r.
     let d1 = d\<lparr>campaigns := update_row (cc_campaign_id c)
           (\<lambda>g. g\<lparr>ca_lifecycle := CAMPAIGN_CANCELLED, ca_revision := r\<rparr>) (campaigns d)\<rparr> in
     and_then (process_insert_audit d1 (cc_principal c) (cc_command_id c) CAMPAIGN_CANCEL fingerprint
                 CAMPAIGN_SUBJECT (cc_campaign_id c) nxt) (\<lambda>(audit_log_id, d2).
     and_then (campaign_receipt_of d2 (cc_campaign_id c) nxt audit_log_id False) (\<lambda>receipt.
     Inr (receipt, d2)))))"

text \<open>The first running session of a campaign: \<open>SELECT id ... LIMIT 1\<close>.\<close>

definition running_session :: "db \<Rightarrow> ident \<Rightarrow> (int \<times> session_row) option" where
  "running_session d campaign =
     find_row (\<lambda>_ s. se_campaign_id s = campaign \<and> se_lifecycle s = SESSION_RUNNING) (sessions d)"

definition admit_cancellation_fresh ::
  "content_digest \<Rightarrow> cancel_campaign \<Rightarrow> db \<Rightarrow> (campaign_cancellation_admission \<times> db) process_result" where
  "admit_cancellation_fresh fingerprint c d =
     and_then (ok_or (get_row (campaigns d) (cc_campaign_id c)) (UnknownCampaign (cc_campaign_id c))) (\<lambda>g.
     and_then (process_revision (ca_revision g)) (\<lambda>current.
     and_then (first_error
       [process_require_revision (cc_expected_revision c) current,
        require (ca_lifecycle g = CAMPAIGN_RUNNING) (CampaignClosed (cc_campaign_id c))]) (\<lambda>_.
     case running_session d (cc_campaign_id c) of
       Some (s, _) \<Rightarrow> and_then (process_contract (identifier_new ''session ID'' s)) (\<lambda>s. Inr (ActiveSession s, d))
     | None \<Rightarrow> and_then (cancel_campaign_in_transaction fingerprint c current d) (\<lambda>(receipt, d').
         Inr (CancellationCompleted receipt, d')))))"

definition admit_campaign_cancellation ::
  "(byte list \<Rightarrow> content_digest) \<Rightarrow> cancel_campaign \<Rightarrow> db \<Rightarrow> (campaign_cancellation_admission \<times> db) process_result" where
  "admit_campaign_cancellation hash c d =
     and_then (process_validate_command (cc_principal c) (cc_command_id c)) (\<lambda>_.
     let fingerprint = hash (cancel_campaign_preimage c) in
     audited (process_find_audit d (cc_principal c) (cc_command_id c) CAMPAIGN_CANCEL fingerprint)
       (\<lambda>receipt. and_then (campaign_replay d receipt) (\<lambda>r. Inr (CancellationCompleted r)))
       (admit_cancellation_fresh fingerprint c d) d)"

definition finish_cancellation_fresh ::
  "content_digest \<Rightarrow> cancel_campaign \<Rightarrow> reconciled_session_cancellation \<Rightarrow> db \<Rightarrow> (campaign_receipt \<times> db) process_result" where
  "finish_cancellation_fresh fingerprint c reconciled d =
     and_then (ok_or (get_row (campaigns d) (cc_campaign_id c)) (UnknownCampaign (cc_campaign_id c))) (\<lambda>g.
     and_then (process_revision (ca_revision g)) (\<lambda>current.
     and_then (first_error
       [require (ca_lifecycle g = CAMPAIGN_RUNNING) (CampaignClosed (cc_campaign_id c)),
        require (current = rs_campaign_revision reconciled)
          (ProcessRevisionConflict (rs_campaign_revision reconciled) current)]) (\<lambda>_.
     cancel_campaign_in_transaction fingerprint c current d)))"

definition finish_campaign_cancellation ::
  "(byte list \<Rightarrow> content_digest) \<Rightarrow> cancel_campaign \<Rightarrow> reconciled_session_cancellation \<Rightarrow> db
     \<Rightarrow> (campaign_receipt \<times> db) process_result" where
  "finish_campaign_cancellation hash c reconciled d =
     and_then (process_validate_command (cc_principal c) (cc_command_id c)) (\<lambda>_.
     and_then (require (rs_campaign_id reconciled = cc_campaign_id c)
       (InvalidProcessCommand ''reconciled cancellation session'')) (\<lambda>_.
     and_then (process_contract (revision_next (cc_expected_revision c))) (\<lambda>nxt.
     and_then (require (rs_campaign_revision reconciled = nxt)
       (InvalidProcessCommand ''reconciled cancellation session'')) (\<lambda>_.
     let fingerprint = hash (cancel_campaign_preimage c) in
     audited (process_find_audit d (cc_principal c) (cc_command_id c) CAMPAIGN_CANCEL fingerprint)
       (\<lambda>receipt. and_then (process_require_subject receipt CAMPAIGN_SUBJECT) (\<lambda>_.
          campaign_receipt_of d (cc_campaign_id c) (rc_resulting_revision receipt) (rc_audit_log_id receipt) True))
       (finish_cancellation_fresh fingerprint c reconciled d) d))))"

definition cancel_campaign_cmd ::
  "(byte list \<Rightarrow> content_digest) \<Rightarrow> cancel_campaign \<Rightarrow> db \<Rightarrow> (campaign_receipt \<times> db) process_result" where
  "cancel_campaign_cmd hash c d =
     and_then (admit_campaign_cancellation hash c d) (\<lambda>(admission, d').
     case admission of
       CancellationCompleted receipt \<Rightarrow> Inr (receipt, d')
     | ActiveSession _ \<Rightarrow> Inl (CampaignHasRunningSession (cc_campaign_id c)))"

definition fail_campaign_fresh ::
  "content_digest \<Rightarrow> fail_campaign \<Rightarrow> db \<Rightarrow> (campaign_receipt \<times> db) process_result" where
  "fail_campaign_fresh fingerprint c d =
     and_then (ok_or (get_row (campaigns d) (cf_campaign_id c)) (UnknownCampaign (cf_campaign_id c))) (\<lambda>g.
     and_then (process_revision (ca_revision g)) (\<lambda>current.
     and_then (first_error
       [process_require_revision (cf_expected_revision c) current,
        require (ca_lifecycle g = CAMPAIGN_RUNNING) (CampaignClosed (cf_campaign_id c)),
        require (running_session d (cf_campaign_id c) = None) (CampaignHasRunningSession (cf_campaign_id c))]) (\<lambda>_.
     and_then (process_contract (revision_next current)) (\<lambda>nxt.
     and_then (process_revision_sql nxt) (\<lambda>r.
     let d1 = d\<lparr>campaigns := update_row (cf_campaign_id c)
           (\<lambda>g. g\<lparr>ca_lifecycle := CAMPAIGN_FAILED, ca_failure_reason := Some (cf_reason c), ca_revision := r\<rparr>) (campaigns d)\<rparr> in
     and_then (process_insert_audit d1 (cf_principal c) (cf_command_id c) CAMPAIGN_FAIL fingerprint
                 CAMPAIGN_SUBJECT (cf_campaign_id c) nxt) (\<lambda>(audit_log_id, d2).
     and_then (campaign_receipt_of d2 (cf_campaign_id c) nxt audit_log_id False) (\<lambda>receipt.
     Inr (receipt, d2))))))))"

definition fail_campaign_cmd ::
  "(byte list \<Rightarrow> content_digest) \<Rightarrow> fail_campaign \<Rightarrow> db \<Rightarrow> (campaign_receipt \<times> db) process_result" where
  "fail_campaign_cmd hash c d =
     and_then (process_validate_command (cf_principal c) (cf_command_id c)) (\<lambda>_.
     and_then (validate_failure_reason (cf_reason c)) (\<lambda>_.
     let fingerprint = hash (fail_campaign_preimage c) in
     audited (process_find_audit d (cf_principal c) (cf_command_id c) CAMPAIGN_FAIL fingerprint)
       (campaign_replay d) (fail_campaign_fresh fingerprint c d) d))"

end
