(* ===== verification/Process_Sessions.thy ===== *)
theory Process_Sessions
  imports Process_Store
begin

text \<open>
  The paid session of \<open>factory-kernel/src/process.rs\<close>: \<open>start_session\<close> records the process of a prepared
  assignment, \<open>terminal_session\<close> settles it once, with its evidence, its cost and the cost of its campaign.
\<close>

section \<open>Starting a session\<close>

record start_session =
  ss_principal :: string
  ss_command_id :: string
  ss_expected_assignment_revision :: aggregate_revision
  ss_assignment_id :: ident
  ss_packet_digest :: content_digest
  ss_custody :: process_custody

record session_receipt =
  sx_session_id :: ident
  sx_resulting_revision :: aggregate_revision
  sx_assignment_revision :: aggregate_revision
  sx_audit_log_id :: int
  sx_was_idempotent_retry :: bool

definition start_session_preimage :: "start_session \<Rightarrow> byte list" where
  "start_session_preimage c =
     hash_string SESSION_START @ hash_string (ss_principal c) @ hash_string (ss_command_id c)
     @ hash_u64 (ss_expected_assignment_revision c) @ hash_i64 (ss_assignment_id c) @ ss_packet_digest c
     @ hash_u32 (pid (ss_custody c)) @ hash_u32 (pgid (ss_custody c)) @ hash_u64 (started_at_unix_millis (ss_custody c))"

text \<open>\<open>fetch_one\<close> of a revision: a missing row is a database error.\<close>

definition current_assignment_revision :: "db \<Rightarrow> ident \<Rightarrow> aggregate_revision process_result" where
  "current_assignment_revision d i =
     and_then (ok_or (get_row (assignments d) i) ProcessDatabase) (\<lambda>a. process_revision (as_revision a))"

definition current_campaign_revision :: "db \<Rightarrow> ident \<Rightarrow> aggregate_revision process_result" where
  "current_campaign_revision d i =
     and_then (ok_or (get_row (campaigns d) i) ProcessDatabase) (\<lambda>g. process_revision (ca_revision g))"

definition start_session_replay :: "start_session \<Rightarrow> db \<Rightarrow> audit_receipt \<Rightarrow> session_receipt process_result" where
  "start_session_replay c d receipt =
     and_then (process_require_subject receipt SESSION_SUBJECT) (\<lambda>_.
     and_then (current_assignment_revision d (ss_assignment_id c)) (\<lambda>r.
     and_then (process_contract (identifier_new ''session ID'' (rc_subject_id receipt))) (\<lambda>i.
     Inr \<lparr>sx_session_id = i, sx_resulting_revision = rc_resulting_revision receipt, sx_assignment_revision = r,
          sx_audit_log_id = rc_audit_log_id receipt, sx_was_idempotent_retry = True\<rparr>)))"

definition paid_session_running :: "db \<Rightarrow> bool" where
  "paid_session_running d = exists_row (\<lambda>_ s. se_lifecycle s = SESSION_RUNNING) (sessions d)"

definition start_session_fresh ::
  "content_digest \<Rightarrow> int \<Rightarrow> start_session \<Rightarrow> db \<Rightarrow> (session_receipt \<times> db) process_result" where
  "start_session_fresh fingerprint now c d =
     (let unknown = UnknownAssignment (ss_assignment_id c) in
     and_then (ok_or (get_row (assignments d) (ss_assignment_id c)) unknown) (\<lambda>a.
     and_then (ok_or (get_row (campaigns d) (as_campaign_id a)) unknown) (\<lambda>g.
     and_then (process_revision (as_revision a)) (\<lambda>current.
     and_then (first_error
       [process_require_revision (ss_expected_assignment_revision c) current,
        require (as_lifecycle a = ASSIGNMENT_PREPARED) (AssignmentStateConflict (ss_assignment_id c)),
        require (\<not> (ca_lifecycle g \<noteq> CAMPAIGN_RUNNING \<or> ca_cost_state g \<noteq> COST_KNOWN)) (CampaignCostFrozen (as_campaign_id a)),
        require (now < ca_deadline g) CampaignDeadlineElapsed,
        require (as_packet_digest a = ss_packet_digest c) PacketIdentityMismatch,
        require (\<not> paid_session_running d) PaidSessionAlreadyRunning]) (\<lambda>_.
     and_then (sql_i32 (InvalidProcessCommand ''PID'') (pid (ss_custody c))) (\<lambda>p.
     and_then (sql_i32 (InvalidProcessCommand ''PGID'') (pgid (ss_custody c))) (\<lambda>pg.
     and_then (sql_i64 (InvalidProcessCommand ''process start time'') (started_at_unix_millis (ss_custody c))) (\<lambda>started.
     and_then (require (\<not> exists_row (\<lambda>_ s. se_assignment_id s = ss_assignment_id c) (sessions d)) ProcessDatabase) (\<lambda>_.
     and_then (process_contract (revision_next current)) (\<lambda>nxt.
     and_then (process_revision_sql nxt) (\<lambda>r.
     let i = next_id (sessions d);
         d1 = d\<lparr>sessions := insert_row
             \<lparr>se_assignment_id = ss_assignment_id c, se_campaign_id = as_campaign_id a,
              se_kernel_build_id = as_kernel_build_id a, se_application_revision_id = as_application_revision_id a,
              se_office_id = as_office_id a, se_assignment_role = as_assignment_role a, se_model = as_model a,
              se_pid = p, se_pgid = pg, se_process_started_at_unix_millis = started,
              se_lifecycle = SESSION_RUNNING, se_terminal = None, se_started_at = now, se_revision = 0\<rparr> (sessions d),
           assignments := update_row (ss_assignment_id c)
             (\<lambda>a. a\<lparr>as_lifecycle := SESSION_RUNNING, as_revision := r\<rparr>) (assignments d)\<rparr> in
     and_then (process_insert_audit d1 (ss_principal c) (ss_command_id c) SESSION_START fingerprint
                 SESSION_SUBJECT i revision_initial) (\<lambda>(audit_log_id, d2).
     and_then (process_contract (identifier_new ''session ID'' i)) (\<lambda>i.
     Inr (\<lparr>sx_session_id = i, sx_resulting_revision = revision_initial, sx_assignment_revision = nxt,
           sx_audit_log_id = audit_log_id, sx_was_idempotent_retry = False\<rparr>, d2))))))))))))))"

definition start_session_cmd ::
  "(byte list \<Rightarrow> content_digest) \<Rightarrow> int \<Rightarrow> start_session \<Rightarrow> db \<Rightarrow> (session_receipt \<times> db) process_result" where
  "start_session_cmd hash now c d =
     and_then (process_validate_command (ss_principal c) (ss_command_id c)) (\<lambda>_.
     and_then (require (\<not> (pid (ss_custody c) = 0 \<or> pgid (ss_custody c) = 0 \<or> started_at_unix_millis (ss_custody c) = 0))
       (InvalidProcessCommand ''process custody'')) (\<lambda>_.
     let fingerprint = hash (start_session_preimage c) in
     audited (process_find_audit d (ss_principal c) (ss_command_id c) SESSION_START fingerprint)
       (start_session_replay c d) (start_session_fresh fingerprint now c d) d))"

section \<open>Settling a session\<close>

record verified_terminal_evidence =
  ve_transcript_artifact_id :: ident
  ve_execution_summary_artifact_id :: "ident option"
  ve_stdout_artifact_id :: ident
  ve_stderr_artifact_id :: ident
  ve_partial_transcript_artifact_id :: "ident option"
  ve_required_read_assertion_artifact_id :: ident
  ve_required_read_expected_count :: "32 word"
  ve_required_read_satisfied_count :: "32 word"
  ve_usage :: "usage_totals option"

record terminal_command =
  tc_principal :: string
  tc_command_id :: string
  tc_session_id :: ident
  tc_report :: terminal_report
  tc_evidence :: verified_terminal_evidence

record terminal_receipt =
  tx_session_id :: ident
  tx_session_state :: session_state
  tx_cost :: terminal_cost
  tx_resulting_revision :: aggregate_revision
  tx_campaign_revision :: aggregate_revision
  tx_audit_log_id :: int
  tx_was_idempotent_retry :: bool

definition hash_optional_u64 :: "64 word option \<Rightarrow> byte list" where
  "hash_optional_u64 v = (case v of Some x \<Rightarrow> hash_u32 1 @ hash_u64 x | None \<Rightarrow> hash_u32 0)"

definition hash_optional_artifact_id :: "ident option \<Rightarrow> byte list" where
  "hash_optional_artifact_id v = (case v of Some x \<Rightarrow> hash_u32 1 @ hash_i64 x | None \<Rightarrow> hash_u32 0)"

definition hash_usage :: "usage_totals option \<Rightarrow> byte list" where
  "hash_usage v = (case v of
       Some u \<Rightarrow> hash_optional_u64 (input_tokens u) @ hash_optional_u64 (output_tokens u)
         @ hash_optional_u64 (cache_read_tokens u) @ hash_optional_u64 (cache_write_tokens u)
         @ hash_optional_u64 (reasoning_tokens u) @ hash_optional_u64 (reported_cost_micro_usd u)
     | None \<Rightarrow> hash_u64 (- 1))"

definition terminal_preimage :: "terminal_command \<Rightarrow> byte list" where
  "terminal_preimage c =
     (let r = tc_report c; e = tc_evidence c in
      hash_string SESSION_TERMINAL @ hash_i64 (tc_session_id c) @ tr_packet_digest r
      @ hash_u64 (tr_expected_session_revision r) @ hash_i64 (ve_transcript_artifact_id e)
      @ hash_optional_artifact_id (ve_execution_summary_artifact_id e)
      @ hash_i64 (ve_required_read_assertion_artifact_id e)
      @ hash_u32 (ve_required_read_expected_count e) @ hash_u32 (ve_required_read_satisfied_count e)
      @ hash_u32 (word_of_int (stop_reason_code (tr_stop_reason r)))
      @ (case tr_operation r of Some x \<Rightarrow> hash_u32 (word_of_int (terminal_operation_code x)) | None \<Rightarrow> hash_u32 (- 1))
      @ hash_usage (ve_usage e) @ tr_report_digest r)"

definition terminal_replay :: "terminal_command \<Rightarrow> db \<Rightarrow> audit_receipt \<Rightarrow> terminal_receipt process_result" where
  "terminal_replay c d receipt =
     and_then (process_require_subject receipt SESSION_SUBJECT) (\<lambda>_.
     and_then (ok_or (get_row (sessions d) (tc_session_id c)) ProcessDatabase) (\<lambda>s.
     and_then (process_contract (identifier_new ''campaign ID'' (se_campaign_id s))) (\<lambda>g.
     and_then (current_campaign_revision d g) (\<lambda>campaign_revision.
     and_then (session_state_from_code (se_lifecycle s)) (\<lambda>state.
     and_then (db_cost (map_option sm_cost_state (se_terminal s)) (Option.bind (se_terminal s) sm_cost_micro_usd)) (\<lambda>cost.
     and_then (ok_or cost CorruptCostColumn) (\<lambda>cost.
     Inr \<lparr>tx_session_id = tc_session_id c, tx_session_state = state, tx_cost = cost,
          tx_resulting_revision = rc_resulting_revision receipt, tx_campaign_revision = campaign_revision,
          tx_audit_log_id = rc_audit_log_id receipt, tx_was_idempotent_retry = True\<rparr>)))))))"

text \<open>The guard on the reported stop reason, operation, reads and usage.\<close>

definition terminal_report_allowed :: "terminal_report \<Rightarrow> verified_terminal_evidence \<Rightarrow> int \<Rightarrow> unit process_result" where
  "terminal_report_allowed r e permitted = (case tr_stop_reason r of
       StopCompleted \<Rightarrow> first_error
         [require (\<not> (tr_operation r = None \<or> operation_mask_one (tr_operation r) AND word_of_int permitted = 0))
            TerminalOperationNotAllowed,
          require (ve_required_read_satisfied_count e = ve_required_read_expected_count e) RequiredReadIncomplete,
          require (ve_usage e \<noteq> None) TerminalCostMismatch]
     | StopUnknownCost \<Rightarrow> require (tr_operation r = None) TerminalCostMismatch
     | _ \<Rightarrow> require (tr_operation r = None) TerminalOperationNotAllowed)"

definition evidence_cost :: "verified_terminal_evidence \<Rightarrow> terminal_cost" where
  "evidence_cost e = (case ve_usage e of
       Some u \<Rightarrow> (case provider_cost u of Inr v \<Rightarrow> CostKnown v | Inl _ \<Rightarrow> CostUnknown)
     | None \<Rightarrow> CostUnknown)"

text \<open>\<open>u64::saturating_add\<close>.\<close>

definition saturating_add :: "64 word \<Rightarrow> 64 word \<Rightarrow> 64 word" where
  "saturating_add a b = (case checked_add a b of Some c \<Rightarrow> c | None \<Rightarrow> - 1)"

text \<open>The cost state of the session, its amount, the measured cost of the campaign and its lifecycle.\<close>

definition settle_cost ::
  "stop_reason \<Rightarrow> terminal_cost \<Rightarrow> campaign_row \<Rightarrow> 64 word \<Rightarrow> 64 word
     \<Rightarrow> (int \<times> 64 word option \<times> 64 word \<times> int) process_result" where
  "settle_cost reason cost g budget measured = (case cost of
       CostKnown v \<Rightarrow>
         if reason = StopCostLimit then
           and_then (ok_or (checked_add measured v) CorruptCostColumn) (\<lambda>total.
             Inr (COST_EXCEEDED, Some v, total, CAMPAIGN_FAILED))
         else if ca_cost_state g = COST_KNOWN then
           and_then (ok_or (checked_add measured v) CorruptCostColumn) (\<lambda>total.
             if total > budget then Inr (COST_EXCEEDED, Some v, total, CAMPAIGN_FAILED)
             else Inr (COST_KNOWN, Some v, total, ca_lifecycle g))
         else Inr (ca_cost_state g, Some v, measured, ca_lifecycle g)
     | CostExceeded v \<Rightarrow> Inr (COST_EXCEEDED, Some v, saturating_add measured v, CAMPAIGN_FAILED)
     | CostUnknown \<Rightarrow>
         if reason = StopCancelled then Inr (COST_UNKNOWN, None, measured, ca_lifecycle g)
         else Inr (COST_UNKNOWN, None, measured, CAMPAIGN_FAILED))"

definition receipt_cost :: "int \<Rightarrow> 64 word option \<Rightarrow> terminal_cost \<Rightarrow> terminal_cost" where
  "receipt_cost state v cost = (case v of
       Some x \<Rightarrow> if state = COST_EXCEEDED then CostExceeded x else cost
     | None \<Rightarrow> cost)"

definition campaign_failure_reason :: "int \<Rightarrow> int \<Rightarrow> string option" where
  "campaign_failure_reason lifecycle state =
     (if lifecycle = CAMPAIGN_FAILED \<and> state = COST_UNKNOWN then Some UNKNOWN_TERMINAL_COST_FAILURE_REASON
      else if lifecycle = CAMPAIGN_FAILED \<and> state = COST_EXCEEDED then Some EXCEEDED_TERMINAL_COST_FAILURE_REASON
      else None)"

definition artifact_exists :: "db \<Rightarrow> ident \<Rightarrow> bool" where
  "artifact_exists d i = (get_row (artifacts d) i \<noteq> None)"

definition optional_artifact_exists :: "db \<Rightarrow> ident option \<Rightarrow> bool" where
  "optional_artifact_exists d v = (case v of None \<Rightarrow> True | Some i \<Rightarrow> artifact_exists d i)"

text \<open>The foreign keys and checks of \<open>sessions\<close> on the columns a settlement writes.\<close>

definition terminal_columns_ok :: "db \<Rightarrow> int \<Rightarrow> session_terminal_columns \<Rightarrow> bool" where
  "terminal_columns_ok d lifecycle m =
     (artifact_exists d (sm_transcript_artifact_id m) \<and> artifact_exists d (sm_stdout_artifact_id m)
      \<and> artifact_exists d (sm_stderr_artifact_id m) \<and> artifact_exists d (sm_required_read_assertion_artifact_id m)
      \<and> optional_artifact_exists d (sm_execution_summary_artifact_id m)
      \<and> optional_artifact_exists d (sm_partial_transcript_artifact_id m)
      \<and> (lifecycle \<noteq> SESSION_SUCCEEDED \<or> sm_execution_summary_artifact_id m \<noteq> None)
      \<and> (sm_cost_state m \<noteq> COST_KNOWN \<or> sm_cost_micro_usd m \<noteq> None)
      \<and> (sm_cost_state m \<noteq> COST_UNKNOWN \<or> sm_cost_micro_usd m = None)
      \<and> sm_required_read_satisfied_count m \<le> sm_required_read_expected_count m)"

text \<open>The columns in the order the statement binds them; the first conversion that fails is the error.\<close>

definition terminal_columns ::
  "int \<Rightarrow> terminal_command \<Rightarrow> int \<Rightarrow> 64 word option \<Rightarrow> session_terminal_columns process_result" where
  "terminal_columns now c cost_state cost_value =
     (let r = tc_report c; e = tc_evidence c; count = InvalidProcessCommand ''required read count'' in
      and_then (case ve_usage e of None \<Rightarrow> Inr (None, None, None, None, None, None) | Some u \<Rightarrow> usage_sql u)
        (\<lambda>(inp, outp, cache_read, cache_write, reasoning, reported).
      and_then (sql_i32 count (ve_required_read_expected_count e)) (\<lambda>expected.
      and_then (sql_i32 count (ve_required_read_satisfied_count e)) (\<lambda>satisfied.
      Inr \<lparr>sm_transcript_artifact_id = ve_transcript_artifact_id e,
           sm_execution_summary_artifact_id = ve_execution_summary_artifact_id e,
           sm_stdout_artifact_id = ve_stdout_artifact_id e, sm_stderr_artifact_id = ve_stderr_artifact_id e,
           sm_partial_transcript_artifact_id = ve_partial_transcript_artifact_id e,
           sm_required_read_assertion_artifact_id = ve_required_read_assertion_artifact_id e,
           sm_required_read_expected_count = expected, sm_required_read_satisfied_count = satisfied,
           sm_input_tokens = inp, sm_output_tokens = outp, sm_cache_read_tokens = cache_read,
           sm_cache_write_tokens = cache_write, sm_reasoning_tokens = reasoning,
           sm_reported_cost_micro_usd = reported, sm_cost_state = cost_state,
           sm_cost_micro_usd = Option.bind cost_value (\<lambda>v. if I64_MAX < uint v then None else Some (uint v)),
           sm_stop_reason = stop_reason_code (tr_stop_reason r),
           sm_terminal_operation = map_option terminal_operation_code (tr_operation r),
           sm_failure_class = failure_code (tr_stop_reason r), sm_terminal_at = now\<rparr>))))"

definition terminal_session_fresh ::
  "content_digest \<Rightarrow> int \<Rightarrow> terminal_command \<Rightarrow> db \<Rightarrow> (terminal_receipt \<times> db) process_result" where
  "terminal_session_fresh fingerprint now c d =
     (let unknown = UnknownSession (tc_session_id c); r = tc_report c; e = tc_evidence c in
     and_then (ok_or (get_row (sessions d) (tc_session_id c)) unknown) (\<lambda>s.
     and_then (ok_or (get_row (assignments d) (se_assignment_id s)) unknown) (\<lambda>a.
     and_then (ok_or (get_row (campaigns d) (se_campaign_id s)) unknown) (\<lambda>g.
     and_then (process_revision (se_revision s)) (\<lambda>current.
     and_then (first_error
       [process_require_revision (tr_expected_session_revision r) current,
        require (se_lifecycle s = SESSION_RUNNING) (SessionAlreadyTerminal (tc_session_id c)),
        require (as_packet_digest a = tr_packet_digest r) PacketIdentityMismatch,
        terminal_report_allowed r e (as_terminal_operations_mask a),
        require (ve_required_read_assertion_artifact_id e \<noteq> as_required_read_manifest_artifact_id a)
          RequiredReadManifestMismatch]) (\<lambda>_.
     and_then (u64_of_sql CorruptCostColumn (ca_aggregate_budget_micro_usd g)) (\<lambda>budget.
     and_then (u64_of_sql CorruptCostColumn (ca_measured_cost_micro_usd g)) (\<lambda>measured.
     and_then (settle_cost (tr_stop_reason r) (evidence_cost e) g budget measured) (\<lambda>(cost_state, cost_value, total, lifecycle).
     let state = session_state_of (tr_stop_reason r) in
     and_then (process_contract (revision_next current)) (\<lambda>nxt.
     and_then (require (\<not> (state = SessionSucceeded \<and> ve_execution_summary_artifact_id e = None))
       (InvalidProcessCommand ''execution summary evidence'')) (\<lambda>_.
     and_then (terminal_columns now c cost_state cost_value) (\<lambda>m.
     and_then (process_revision_sql nxt) (\<lambda>session_revision.
     and_then (require (terminal_columns_ok d (session_state_code state) m) ProcessDatabase) (\<lambda>_.
     and_then (require (\<not> (as_lifecycle a = SESSION_RUNNING \<and> as_revision a = I64_MAX)) ProcessDatabase) (\<lambda>_.
     and_then (process_revision (ca_revision g)) (\<lambda>campaign_current.
     and_then (process_contract (revision_next campaign_current)) (\<lambda>campaign_revision.
     and_then (sql_i64 ProcessRevisionOutOfRange total) (\<lambda>measured_sql.
     and_then (process_revision_sql campaign_revision) (\<lambda>campaign_revision_sql.
     let failure = campaign_failure_reason lifecycle cost_state in
     and_then (require (lifecycle = CAMPAIGN_FAILED \<longleftrightarrow> failure \<noteq> None) ProcessDatabase) (\<lambda>_.
     let d1 = d\<lparr>
           sessions := update_row (tc_session_id c) (\<lambda>s. s\<lparr>se_lifecycle := session_state_code state,
               se_terminal := Some m, se_revision := session_revision\<rparr>) (sessions d),
           assignments := update_row (se_assignment_id s) (\<lambda>a. if as_lifecycle a = SESSION_RUNNING
               then a\<lparr>as_lifecycle := assignment_state_code state, as_revision := as_revision a + 1\<rparr> else a) (assignments d),
           campaigns := update_row (se_campaign_id s) (\<lambda>g. g\<lparr>ca_measured_cost_micro_usd := measured_sql,
               ca_cost_state := max cost_state (ca_cost_state g), ca_lifecycle := lifecycle,
               ca_failure_reason := failure, ca_revision := campaign_revision_sql\<rparr>) (campaigns d)\<rparr> in
     and_then (process_insert_audit d1 (tc_principal c) (tc_command_id c) SESSION_TERMINAL fingerprint
                 SESSION_SUBJECT (tc_session_id c) nxt) (\<lambda>(audit_log_id, d2).
     Inr (\<lparr>tx_session_id = tc_session_id c, tx_session_state = state,
           tx_cost = receipt_cost cost_state cost_value (evidence_cost e), tx_resulting_revision = nxt,
           tx_campaign_revision = campaign_revision, tx_audit_log_id = audit_log_id,
           tx_was_idempotent_retry = False\<rparr>, d2))))))))))))))))))))))"

definition terminal_session_cmd ::
  "(byte list \<Rightarrow> content_digest) \<Rightarrow> int \<Rightarrow> terminal_command \<Rightarrow> db \<Rightarrow> (terminal_receipt \<times> db) process_result" where
  "terminal_session_cmd hash now c d =
     and_then (process_validate_command (tc_principal c) (tc_command_id c)) (\<lambda>_.
     let fingerprint = hash (terminal_preimage c) in
     audited (process_find_audit d (tc_principal c) (tc_command_id c) SESSION_TERMINAL fingerprint)
       (terminal_replay c d) (terminal_session_fresh fingerprint now c d) d)"

section \<open>Status\<close>

record session_status =
  sv_session_id :: ident
  sv_assignment_id :: ident
  sv_state :: session_state
  sv_revision :: aggregate_revision
  sv_cost :: "terminal_cost option"

definition session_status_of :: "db \<Rightarrow> ident \<Rightarrow> session_status process_result" where
  "session_status_of d i =
     and_then (ok_or (get_row (sessions d) i) (UnknownSession i)) (\<lambda>s.
     and_then (process_contract (identifier_new ''assignment ID'' (se_assignment_id s))) (\<lambda>a.
     and_then (session_state_from_code (se_lifecycle s)) (\<lambda>state.
     and_then (process_revision (se_revision s)) (\<lambda>r.
     and_then (db_cost (map_option sm_cost_state (se_terminal s)) (Option.bind (se_terminal s) sm_cost_micro_usd)) (\<lambda>cost.
     Inr \<lparr>sv_session_id = i, sv_assignment_id = a, sv_state = state, sv_revision = r, sv_cost = cost\<rparr>)))))"

record campaign_status =
  cg_campaign_id :: ident
  cg_state :: campaign_state
  cg_kernel_build_id :: content_digest
  cg_application_revision_id :: ident
  cg_repository_id :: ident
  cg_aggregate_budget :: micro_usd
  cg_measured_cost :: terminal_cost
  cg_revision :: aggregate_revision
  cg_deadline_unix_millis :: "64 word"
  cg_delivery_target :: "32 word"
  cg_failure_reason :: "string option"

text \<open>\<open>FLOOR(EXTRACT(EPOCH FROM deadline) * 1000)\<close> is the parameter \<open>millis\<close>.\<close>

definition campaign_status_of :: "(int \<Rightarrow> int) \<Rightarrow> db \<Rightarrow> ident \<Rightarrow> campaign_status process_result" where
  "campaign_status_of millis d i =
     and_then (ok_or (get_row (campaigns d) i) (UnknownCampaign i)) (\<lambda>g.
     and_then (ok_or (get_row (kernel_builds d) (ca_kernel_build_id g)) (UnknownCampaign i)) (\<lambda>b.
     and_then (u64_of_sql CorruptCostColumn (ca_measured_cost_micro_usd g)) (\<lambda>measured.
     and_then (if ca_cost_state g = COST_KNOWN then Inr (CostKnown measured)
               else if ca_cost_state g = COST_UNKNOWN then Inr CostUnknown
               else if ca_cost_state g = COST_EXCEEDED then Inr (CostExceeded measured)
               else Inl CorruptCostColumn) (\<lambda>cost.
     and_then (campaign_state_from_code (ca_lifecycle g)) (\<lambda>state.
     and_then (require (digest_ok (kb_build_digest b)) CorruptDigestColumn) (\<lambda>_.
     and_then (process_contract (identifier_new ''application revision ID'' (ca_application_revision_id g))) (\<lambda>application.
     and_then (process_contract (identifier_new ''repository ID'' (ca_repository_id g))) (\<lambda>repository.
     and_then (u64_of_sql CorruptCostColumn (ca_aggregate_budget_micro_usd g)) (\<lambda>budget.
     and_then (process_revision (ca_revision g)) (\<lambda>revision.
     and_then (u64_of_sql (InvalidProcessCommand ''deadline'') (millis (ca_deadline g))) (\<lambda>deadline.
     and_then (u32_of_sql (InvalidProcessCommand ''delivery target'') (ca_delivery_target g)) (\<lambda>target.
     Inr \<lparr>cg_campaign_id = i, cg_state = state, cg_kernel_build_id = kb_build_digest b,
          cg_application_revision_id = application, cg_repository_id = repository, cg_aggregate_budget = budget,
          cg_measured_cost = cost, cg_revision = revision, cg_deadline_unix_millis = deadline,
          cg_delivery_target = target, cg_failure_reason = ca_failure_reason g\<rparr>))))))))))))"

end
