(* ===== verification/Provider_Effects.thy ===== *)
theory Provider_Effects
  imports Process_Sessions
begin

text \<open>
  The provider-effect ledger of \<open>factory-kernel/src/process.rs\<close>: one row for every provider request of a
  session, recorded before the request and settled once after it, and the totals a terminal
  reconciliation reads from the rows.
\<close>

section \<open>Requests\<close>

datatype provider_effect_state = EffectStarted | EffectSettled | EffectFailed | EffectCancelled

fun provider_effect_state_name :: "provider_effect_state \<Rightarrow> string" where
  "provider_effect_state_name EffectStarted = ''started''"
| "provider_effect_state_name EffectSettled = ''settled''"
| "provider_effect_state_name EffectFailed = ''failed''"
| "provider_effect_state_name EffectCancelled = ''cancelled''"

fun provider_effect_state_code :: "provider_effect_state \<Rightarrow> int" where
  "provider_effect_state_code EffectStarted = 0"
| "provider_effect_state_code EffectSettled = 1"
| "provider_effect_state_code EffectFailed = 2"
| "provider_effect_state_code EffectCancelled = 3"

definition provider_effect_state_from_code :: "int \<Rightarrow> provider_effect_state process_result" where
  "provider_effect_state_from_code v =
     (if v = 0 then Inr EffectStarted else if v = 1 then Inr EffectSettled else if v = 2 then Inr EffectFailed
      else if v = 3 then Inr EffectCancelled else Inl CorruptLifecycleColumn)"

definition provider_effect_from_settlement :: "string \<Rightarrow> provider_effect_state process_result" where
  "provider_effect_from_settlement v =
     (if v = ''settled'' then Inr EffectSettled else if v = ''failed'' then Inr EffectFailed
      else if v = ''cancelled'' then Inr EffectCancelled else Inl (InvalidProcessCommand ''provider effect outcome''))"

record effect_start_request =
  ps_client_command_id :: string
  ps_expected_revision :: "64 word"
  ps_core_run_id :: string
  ps_effect_id :: "64 word"
  ps_harness_snapshot_id :: string
  ps_harness_revision_id :: string
  ps_model_harness_profile_id :: string
  ps_provider_surface_digest :: string
  ps_provider :: string
  ps_model :: string
  ps_request_fingerprint :: string

record effect_settle_request =
  pt_client_command_id :: string
  pt_expected_revision :: "64 word"
  pt_core_run_id :: string
  pt_effect_id :: "64 word"
  pt_outcome :: string
  pt_stop_reason :: string
  pt_context_overflow :: bool
  pt_input_tokens :: "64 word option"
  pt_output_tokens :: "64 word option"
  pt_cache_read_tokens :: "64 word option"
  pt_cache_write_tokens :: "64 word option"
  pt_reasoning_tokens :: "64 word option"
  pt_reported_cost_micro_usd :: "64 word option"
  pt_failure_class :: "string option"

definition bounded_effect_text :: "string \<Rightarrow> string \<Rightarrow> nat \<Rightarrow> unit process_result" where
  "bounded_effect_text field v maximum =
     require (\<not> (v = [] \<or> maximum < length v \<or> CHR 0x00 \<in> set v)) (InvalidProcessCommand field)"

definition validate_provider_effect_start :: "effect_start_request \<Rightarrow> unit process_result" where
  "validate_provider_effect_start q =
     try_each (\<lambda>(field, v, maximum). bounded_effect_text field v maximum)
       [(''provider effect core run ID'', ps_core_run_id q, 60),
        (''provider effect harness snapshot ID'', ps_harness_snapshot_id q, 240),
        (''provider effect harness revision ID'', ps_harness_revision_id q, 240),
        (''provider effect model harness profile ID'', ps_model_harness_profile_id q, 240),
        (''provider effect provider'', ps_provider q, 160),
        (''provider effect model'', ps_model q, 240)]"

definition validate_provider_effect_settlement_identity :: "effect_settle_request \<Rightarrow> unit process_result" where
  "validate_provider_effect_settlement_identity q =
     bounded_effect_text ''provider effect core run ID'' (pt_core_run_id q) 60"

definition effect_command_id :: "string \<Rightarrow> ident \<Rightarrow> ident \<Rightarrow> string \<Rightarrow> 64 word \<Rightarrow> string" where
  "effect_command_id phase session_id assignment_id core_run_id effect_id =
     ''provider-effect-'' @ phase @ ''-session-'' @ decimal_of_int session_id @ ''-assignment-'' @ decimal_of_int assignment_id
     @ ''-run-'' @ core_run_id @ ''-effect-'' @ decimal_of_nat (unat effect_id)"

definition require_provider_effect_command ::
  "string \<Rightarrow> ident \<Rightarrow> ident \<Rightarrow> string \<Rightarrow> string \<Rightarrow> 64 word \<Rightarrow> unit process_result" where
  "require_provider_effect_command phase session_id assignment_id command_id core_run_id effect_id =
     and_then (require (command_id = effect_command_id phase session_id assignment_id core_run_id effect_id)
       (InvalidProcessCommand ''provider effect client command ID'')) (\<lambda>_.
     process_validate_command ''actor'' command_id)"

definition effect_stop_reasons :: "string list" where
  "effect_stop_reasons = [''stop'', ''tool_use'', ''length'', ''aborted'', ''cancelled'', ''error'']"

definition provider_effect_settlement ::
  "effect_settle_request \<Rightarrow> provider_effect_state \<Rightarrow> effect_settlement_columns process_result" where
  "provider_effect_settlement q state =
     (let failure_class = InvalidProcessCommand ''provider effect failure class'';
          convert = optional_sql (InvalidProcessCommand ''provider effect usage'') in
      and_then (first_error
        [require (pt_stop_reason q \<in> set effect_stop_reasons) (InvalidProcessCommand ''provider effect stop reason''),
         require (\<not> (state = EffectSettled \<and> pt_failure_class q \<noteq> None)) failure_class,
         require (pt_failure_class q \<in> {None, Some ''provider_response_error'', Some ''provider_transport_error''})
           failure_class]) (\<lambda>_.
      and_then (convert (pt_input_tokens q)) (\<lambda>a.
      and_then (convert (pt_output_tokens q)) (\<lambda>b.
      and_then (convert (pt_cache_read_tokens q)) (\<lambda>c.
      and_then (convert (pt_cache_write_tokens q)) (\<lambda>d.
      and_then (convert (pt_reasoning_tokens q)) (\<lambda>e.
      and_then (convert (pt_reported_cost_micro_usd q)) (\<lambda>f.
      Inr \<lparr>ec_stop_reason = pt_stop_reason q, ec_context_overflow = pt_context_overflow q, ec_input_tokens = a,
           ec_output_tokens = b, ec_cache_read_tokens = c, ec_cache_write_tokens = d, ec_reasoning_tokens = e,
           ec_reported_cost_micro_usd = f, ec_failure_class = pt_failure_class q\<rparr>))))))))"

section \<open>The two commands\<close>

definition effect_session_matches_settlement :: "session_row \<Rightarrow> ident \<Rightarrow> ident \<Rightarrow> 64 word \<Rightarrow> unit process_result" where
  "effect_session_matches_settlement s session_id assignment_id expected_revision =
     and_then (require (se_assignment_id s = assignment_id) PacketIdentityMismatch) (\<lambda>_.
     and_then (process_revision (se_revision s)) (\<lambda>current. first_error
       [require (current = expected_revision) (ProcessRevisionConflict expected_revision current),
        require (se_lifecycle s = SESSION_RUNNING) (SessionAlreadyTerminal session_id)]))"

definition effect_session_matches ::
  "session_row \<Rightarrow> ident \<Rightarrow> ident \<Rightarrow> 64 word \<Rightarrow> string \<Rightarrow> string \<Rightarrow> unit process_result" where
  "effect_session_matches s session_id assignment_id expected_revision prov mdl =
     and_then (effect_session_matches_settlement s session_id assignment_id expected_revision) (\<lambda>_.
     require (\<not> (mc_provider (se_model s) \<noteq> prov \<or> mc_model_id (se_model s) \<noteq> mdl)) PacketIdentityMismatch)"

definition find_effect :: "db \<Rightarrow> ident \<Rightarrow> string \<Rightarrow> int \<Rightarrow> (int \<times> provider_effect_row) option" where
  "find_effect d session_id core_run_id effect_id =
     find_row (\<lambda>_ e. pe_session_id e = session_id \<and> pe_core_run_id e = core_run_id \<and> pe_effect_id e = effect_id)
       (provider_effects d)"

definition effect_id_sql :: "64 word \<Rightarrow> int process_result" where
  "effect_id_sql v = sql_i64 (InvalidProcessCommand ''provider effect ID'') v"

definition provider_effect_start ::
  "ident \<Rightarrow> ident \<Rightarrow> effect_start_request \<Rightarrow> db \<Rightarrow> (provider_effect_state \<times> db) process_result" where
  "provider_effect_start session_id assignment_id q d =
     and_then (validate_provider_effect_start q) (\<lambda>_.
     and_then (require_provider_effect_command ''start'' session_id assignment_id (ps_client_command_id q)
       (ps_core_run_id q) (ps_effect_id q)) (\<lambda>_.
     and_then (map_err (\<lambda>_. InvalidProcessCommand ''provider effect provider surface digest'')
       (digest_from_str (ps_provider_surface_digest q))) (\<lambda>surface.
     and_then (map_err (\<lambda>_. InvalidProcessCommand ''provider effect request fingerprint'')
       (digest_from_str (ps_request_fingerprint q))) (\<lambda>fingerprint.
     and_then (ok_or (get_row (sessions d) session_id) (UnknownSession session_id)) (\<lambda>s.
     and_then (effect_session_matches s session_id assignment_id (ps_expected_revision q) (ps_provider q) (ps_model q)) (\<lambda>_.
     and_then (effect_id_sql (ps_effect_id q)) (\<lambda>effect_id.
     case find_effect d session_id (ps_core_run_id q) effect_id of
       Some (_, e) \<Rightarrow>
         and_then (require
           (pe_harness_snapshot_id e = ps_harness_snapshot_id q \<and> pe_harness_revision_id e = ps_harness_revision_id q
            \<and> pe_model_harness_profile_id e = ps_model_harness_profile_id q
            \<and> pe_provider_surface_digest e = surface \<and> pe_provider e = ps_provider q \<and> pe_model e = ps_model q
            \<and> pe_request_fingerprint e = fingerprint) ProviderEffectConflict) (\<lambda>_.
         and_then (provider_effect_state_from_code (pe_state e)) (\<lambda>state. Inr (state, d)))
     | None \<Rightarrow> Inr (EffectStarted, d\<lparr>provider_effects := insert_row
         \<lparr>pe_session_id = session_id, pe_assignment_id = assignment_id, pe_core_run_id = ps_core_run_id q,
          pe_effect_id = effect_id, pe_harness_snapshot_id = ps_harness_snapshot_id q,
          pe_harness_revision_id = ps_harness_revision_id q,
          pe_model_harness_profile_id = ps_model_harness_profile_id q, pe_provider_surface_digest = surface,
          pe_provider = ps_provider q, pe_model = ps_model q, pe_request_fingerprint = fingerprint,
          pe_state = provider_effect_state_code EffectStarted, pe_settlement = None\<rparr> (provider_effects d)\<rparr>))))))))"

definition provider_effect_settle ::
  "ident \<Rightarrow> ident \<Rightarrow> effect_settle_request \<Rightarrow> db \<Rightarrow> (provider_effect_state \<times> db) process_result" where
  "provider_effect_settle session_id assignment_id q d =
     and_then (validate_provider_effect_settlement_identity q) (\<lambda>_.
     and_then (require_provider_effect_command ''settle'' session_id assignment_id (pt_client_command_id q)
       (pt_core_run_id q) (pt_effect_id q)) (\<lambda>_.
     and_then (provider_effect_from_settlement (pt_outcome q)) (\<lambda>state.
     and_then (provider_effect_settlement q state) (\<lambda>settlement.
     and_then (ok_or (get_row (sessions d) session_id) (UnknownSession session_id)) (\<lambda>s.
     and_then (effect_session_matches_settlement s session_id assignment_id (pt_expected_revision q)) (\<lambda>_.
     and_then (effect_id_sql (pt_effect_id q)) (\<lambda>effect_id.
     and_then (ok_or (find_effect d session_id (pt_core_run_id q) effect_id) ProviderEffectNotStarted) (\<lambda>(i, e).
     and_then (provider_effect_state_from_code (pe_state e)) (\<lambda>existing.
     if existing \<noteq> EffectStarted
     then (if existing = state \<and> pe_settlement e = Some settlement then Inr (existing, d) else Inl ProviderEffectConflict)
     else Inr (state, d\<lparr>provider_effects := update_row i
         (\<lambda>e. e\<lparr>pe_state := provider_effect_state_code state, pe_settlement := Some settlement\<rparr>)
         (provider_effects d)\<rparr>))))))))))"

section \<open>The ledger\<close>

record effect_ledger_row =
  er_state :: provider_effect_state
  er_input_tokens :: "64 word option"
  er_output_tokens :: "64 word option"
  er_cache_read_tokens :: "64 word option"
  er_cache_write_tokens :: "64 word option"
  er_reasoning_tokens :: "64 word option"
  er_reported_cost_micro_usd :: "64 word option"

record provider_effect_ledger =
  el_provider_effect_count :: "32 word"
  el_settled_provider_effect_count :: "32 word"
  el_complete_usage :: bool
  el_complete_cost :: bool
  el_usage :: usage_totals

text \<open>The nullable columns of a row: null without a settlement.\<close>

definition effect_column :: "(effect_settlement_columns \<Rightarrow> int option) \<Rightarrow> provider_effect_row \<Rightarrow> 64 word option process_result" where
  "effect_column f e = (case Option.bind (pe_settlement e) f of
       None \<Rightarrow> Inr None | Some v \<Rightarrow> and_then (u64_of_sql CorruptCostColumn v) (\<lambda>w. Inr (Some w)))"

definition effect_ledger_row_of :: "provider_effect_row \<Rightarrow> effect_ledger_row process_result" where
  "effect_ledger_row_of e =
     and_then (provider_effect_state_from_code (pe_state e)) (\<lambda>state.
     and_then (effect_column ec_input_tokens e) (\<lambda>a.
     and_then (effect_column ec_output_tokens e) (\<lambda>b.
     and_then (effect_column ec_cache_read_tokens e) (\<lambda>c.
     and_then (effect_column ec_cache_write_tokens e) (\<lambda>d.
     and_then (effect_column ec_reasoning_tokens e) (\<lambda>x.
     and_then (effect_column ec_reported_cost_micro_usd e) (\<lambda>f.
     Inr \<lparr>er_state = state, er_input_tokens = a, er_output_tokens = b, er_cache_read_tokens = c,
          er_cache_write_tokens = d, er_reasoning_tokens = x, er_reported_cost_micro_usd = f\<rparr>)))))))"

fun sum_from :: "64 word option \<Rightarrow> 64 word option list \<Rightarrow> 64 word option process_result" where
  "sum_from acc [] = Inr acc"
| "sum_from acc (v # vs) = (case (acc, v) of
       (Some t, Some x) \<Rightarrow>
         and_then (ok_or (checked_add t x) (InvalidProcessCommand ''provider effect usage aggregate''))
           (\<lambda>s. sum_from (Some s) vs)
     | _ \<Rightarrow> sum_from None vs)"

definition sum_values :: "64 word option list \<Rightarrow> 64 word option process_result" where
  "sum_values vs = sum_from (Some 0) vs"

definition count_u32 :: "string \<Rightarrow> nat \<Rightarrow> 32 word process_result" where
  "count_u32 field n = (if n < 2 ^ 32 then Inr (of_nat n) else Inl (InvalidProcessCommand field))"

definition provider_effect_ledger_from_rows :: "effect_ledger_row list \<Rightarrow> provider_effect_ledger process_result" where
  "provider_effect_ledger_from_rows rs =
     (let complete = list_all (\<lambda>r. er_state r = EffectSettled) rs in
      and_then (sum_values (map er_input_tokens rs)) (\<lambda>a.
      and_then (sum_values (map er_output_tokens rs)) (\<lambda>b.
      and_then (sum_values (map er_cache_read_tokens rs)) (\<lambda>c.
      and_then (sum_values (map er_cache_write_tokens rs)) (\<lambda>d.
      and_then (sum_values (map er_reasoning_tokens rs)) (\<lambda>e.
      and_then (sum_values (map er_reported_cost_micro_usd rs)) (\<lambda>f.
      and_then (count_u32 ''provider effect count'' (length rs)) (\<lambda>n.
      and_then (count_u32 ''settled provider effect count'' (length (filter (\<lambda>r. er_state r \<noteq> EffectStarted) rs))) (\<lambda>m.
      Inr \<lparr>el_provider_effect_count = n, el_settled_provider_effect_count = m,
           el_complete_usage = (complete \<and> a \<noteq> None \<and> b \<noteq> None \<and> c \<noteq> None \<and> d \<noteq> None \<and> e \<noteq> None),
           el_complete_cost = (complete \<and> f \<noteq> None),
           el_usage = (if complete
             then \<lparr>input_tokens = a, output_tokens = b, cache_read_tokens = c, cache_write_tokens = d,
                   reasoning_tokens = e, reported_cost_micro_usd = f\<rparr>
             else \<lparr>input_tokens = None, output_tokens = None, cache_read_tokens = None, cache_write_tokens = None,
                   reasoning_tokens = None, reported_cost_micro_usd = None\<rparr>)\<rparr>)))))))))"

definition session_effects :: "db \<Rightarrow> ident \<Rightarrow> provider_effect_row list" where
  "session_effects d session_id = map snd (filter (\<lambda>(_, e). pe_session_id e = session_id) (rows (provider_effects d)))"

definition provider_effect_ledger_of :: "db \<Rightarrow> ident \<Rightarrow> provider_effect_ledger process_result" where
  "provider_effect_ledger_of d session_id =
     and_then (try_map effect_ledger_row_of (session_effects d session_id)) provider_effect_ledger_from_rows"

end
