(* ===== verification/Process_Admission.thy ===== *)
theory Process_Admission
  imports Provider_Effects
begin

text \<open>
  The admission of an assignment in \<open>factory-kernel/src/process.rs\<close> and the harness receipt it commits with
  it (\<open>factory-kernel/src/harness_store.rs\<close>).  The object store is a map from digests to bytes, read with
  the digest check of \<open>CasStore::read_verified\<close>; the relations a context reference can name outside the
  database of this development are the parameter \<open>scoped\<close>.
\<close>

section \<open>The object store\<close>

record cas_artifact =
  cas_digest :: content_digest
  cas_byte_length :: "64 word"

definition cas_read :: "(byte list \<Rightarrow> content_digest) \<Rightarrow> (content_digest \<Rightarrow> byte list option) \<Rightarrow> content_digest \<Rightarrow> byte list process_result" where
  "cas_read hash cas k = (case cas k of
       None \<Rightarrow> Inl ProcessCas | Some bytes \<Rightarrow> if hash bytes = k then Inr bytes else Inl ProcessCas)"

section \<open>Reserved identities\<close>

text \<open>\<open>nextval\<close> takes a value of the sequence; the row is written later with \<open>OVERRIDING SYSTEM VALUE\<close>.\<close>

definition reserve_assignment_identity :: "db \<Rightarrow> (ident \<times> db) process_result" where
  "reserve_assignment_identity d =
     and_then (process_contract (identifier_new ''assignment ID'' (next_id (assignments d)))) (\<lambda>i.
     Inr (i, d\<lparr>assignments := (assignments d)\<lparr>next_id := next_id (assignments d) + 1\<rparr>\<rparr>))"

definition insert_at :: "int \<Rightarrow> 'r \<Rightarrow> 'r table \<Rightarrow> 'r table" where
  "insert_at i r t = t\<lparr>rows := rows t @ [(i, r)]\<rparr>"

section \<open>Harness compilations\<close>

record record_harness =
  rh_assignment_id :: ident
  rh_application_revision_id :: ident
  rh_office_id :: ident
  rh_assignment_role :: assignment_role
  rh_compiler_version :: "16 word"
  rh_spec_artifact_id :: ident
  rh_system_prompt_artifact_id :: ident
  rh_assignment_prompt_artifact_id :: ident
  rh_packet_artifact_id :: ident
  rh_packet_digest :: content_digest
  rh_context_items :: "context_item list"

fun inclusion_class_code :: "context_inclusion_class \<Rightarrow> int" where
  "inclusion_class_code DirectTarget = 0"
| "inclusion_class_code RequiredConstraint = 1"
| "inclusion_class_code DirectEvidence = 2"
| "inclusion_class_code CurrentDecision = 3"

definition record_harness_validate :: "record_harness \<Rightarrow> (harness_error, unit) result" where
  "record_harness_validate c = first_error
     [require (rh_compiler_version c = HARNESS_COMPILER_VERSION_V2) UnsupportedCompilerVersion,
      require (\<not> HARNESS_CONTEXT_MAX_ITEMS < length (rh_context_items c)) ContextLimitExceeded,
      try_each (\<lambda>i. map_err HarnessContract (context_item_validate i)) (rh_context_items c)]"

text \<open>The scoped foreign keys of one context item.\<close>

definition context_reference_ok :: "(ident \<Rightarrow> context_reference \<Rightarrow> bool) \<Rightarrow> db \<Rightarrow> ident \<Rightarrow> context_reference \<Rightarrow> bool" where
  "context_reference_ok scoped d application r = (case r of
       RefArtifact i \<Rightarrow> artifact_exists d i
     | RefTicket i \<Rightarrow> (case get_row (tickets d) i of Some t \<Rightarrow> ti_application_revision_id t = application | None \<Rightarrow> False)
     | RefTicketRevision i \<Rightarrow>
         (case get_row (ticket_revisions d) i of Some t \<Rightarrow> tr_application_revision_id t = application | None \<Rightarrow> False)
     | RefOffice i \<Rightarrow> (case get_row (offices d) i of Some x \<Rightarrow> of_application_revision_id x = application | None \<Rightarrow> False)
     | _ \<Rightarrow> scoped application r)"

definition harness_scope_ok :: "db \<Rightarrow> record_harness \<Rightarrow> bool" where
  "harness_scope_ok d c =
     ((case get_row (assignments d) (rh_assignment_id c) of
         Some a \<Rightarrow> as_application_revision_id a = rh_application_revision_id c \<and> as_office_id a = rh_office_id c
           \<and> as_assignment_role a = assignment_role_code (rh_assignment_role c)
       | None \<Rightarrow> False)
      \<and> (case get_row (offices d) (rh_office_id c) of
           Some x \<Rightarrow> of_application_revision_id x = rh_application_revision_id c | None \<Rightarrow> False)
      \<and> artifact_exists d (rh_spec_artifact_id c) \<and> artifact_exists d (rh_system_prompt_artifact_id c)
      \<and> artifact_exists d (rh_assignment_prompt_artifact_id c) \<and> artifact_exists d (rh_packet_artifact_id c))"

definition same_compilation :: "harness_row \<Rightarrow> record_harness \<Rightarrow> bool" where
  "same_compilation h c =
     (hr_application_revision_id h = rh_application_revision_id c \<and> hr_office_id h = rh_office_id c
      \<and> hr_assignment_role h = assignment_role_code (rh_assignment_role c)
      \<and> hr_compiler_version h = uint (rh_compiler_version c) \<and> hr_spec_artifact_id h = rh_spec_artifact_id c
      \<and> hr_system_prompt_artifact_id h = rh_system_prompt_artifact_id c
      \<and> hr_assignment_prompt_artifact_id h = rh_assignment_prompt_artifact_id c
      \<and> hr_packet_artifact_id h = rh_packet_artifact_id c \<and> hr_packet_digest h = rh_packet_digest c)"

definition find_harness :: "db \<Rightarrow> ident \<Rightarrow> (int \<times> harness_row) option" where
  "find_harness d i = find_row (\<lambda>_ h. hr_assignment_id h = i) (harness_compilations d)"

definition persist_harness_compilation ::
  "(ident \<Rightarrow> context_reference \<Rightarrow> bool) \<Rightarrow> record_harness \<Rightarrow> db \<Rightarrow> (harness_error, harness_compilation \<times> db) result" where
  "persist_harness_compilation scoped c d =
     (let receipt = (\<lambda>i. \<lparr>hc_id = i, hc_assignment_id = rh_assignment_id c,
          hc_application_revision_id = rh_application_revision_id c, hc_office_id = rh_office_id c,
          hc_assignment_role = rh_assignment_role c, hc_compiler_version = rh_compiler_version c,
          spec_artifact_id = rh_spec_artifact_id c, hc_system_prompt_artifact_id = rh_system_prompt_artifact_id c,
          hc_assignment_prompt_artifact_id = rh_assignment_prompt_artifact_id c,
          packet_artifact_id = rh_packet_artifact_id c, hc_packet_digest = rh_packet_digest c,
          hc_context_items = rh_context_items c\<rparr>) in
      and_then (record_harness_validate c) (\<lambda>_.
      and_then (require (uint (rh_compiler_version c) < 2 ^ 15) CompilerVersionOutOfRange) (\<lambda>_.
      case find_harness d (rh_assignment_id c) of
        Some (i, h) \<Rightarrow>
          and_then (require (same_compilation h c) HarnessIdempotencyConflict) (\<lambda>_.
          and_then (map_err HarnessContract (identifier_new ''harness compilation ID'' i)) (\<lambda>i. Inr (receipt i, d)))
      | None \<Rightarrow>
          and_then (require (harness_scope_ok d c) HarnessDatabase) (\<lambda>_.
          and_then (map_err HarnessContract (identifier_new ''harness compilation ID'' (next_id (harness_compilations d)))) (\<lambda>i.
          and_then (require (list_all (\<lambda>x. context_reference_ok scoped d (rh_application_revision_id c) (reference x))
              (rh_context_items c)) HarnessDatabase) (\<lambda>_.
          Inr (receipt i, d\<lparr>harness_compilations := insert_row
            \<lparr>hr_assignment_id = rh_assignment_id c, hr_application_revision_id = rh_application_revision_id c,
             hr_office_id = rh_office_id c, hr_assignment_role = assignment_role_code (rh_assignment_role c),
             hr_compiler_version = uint (rh_compiler_version c), hr_spec_artifact_id = rh_spec_artifact_id c,
             hr_system_prompt_artifact_id = rh_system_prompt_artifact_id c,
             hr_assignment_prompt_artifact_id = rh_assignment_prompt_artifact_id c,
             hr_packet_artifact_id = rh_packet_artifact_id c, hr_packet_digest = rh_packet_digest c,
             hr_context_items = map (\<lambda>x. (inclusion_class_code (inclusion x), ci_reason x, reference x))
               (rh_context_items c)\<rparr> (harness_compilations d)\<rparr>)))))))"

section \<open>The command\<close>

record create_assignment =
  na_principal :: string
  na_command_id :: string
  na_expected_campaign_revision :: aggregate_revision
  na_identity :: ident
  na_packet :: assignment_packet
  na_packet_bytes :: "byte list"
  na_packet_artifact :: cas_artifact
  na_required_read_manifest_artifact_id :: ident
  na_attempt_ordinal :: "32 word"
  na_harness :: "record_harness option"

record assignment_receipt =
  ax_assignment_id :: ident
  ax_resulting_revision :: aggregate_revision
  ax_resulting_campaign_revision :: aggregate_revision
  ax_audit_log_id :: int
  ax_was_idempotent_retry :: bool

definition create_assignment_preimage :: "create_assignment \<Rightarrow> byte list" where
  "create_assignment_preimage c =
     hash_string ASSIGNMENT_CREATE @ hash_string (na_principal c) @ hash_string (na_command_id c)
     @ hash_u64 (na_expected_campaign_revision c) @ packet_digest (na_packet c) @ cas_digest (na_packet_artifact c)
     @ hash_i64 (na_required_read_manifest_artifact_id c) @ hash_u32 (na_attempt_ordinal c)"

definition validate_harness_for_assignment :: "create_assignment \<Rightarrow> record_harness \<Rightarrow> unit process_result" where
  "validate_harness_for_assignment c h =
     and_then (map_err ProcessHarness (record_harness_validate h)) (\<lambda>_.
     require (\<not> (rh_assignment_id h \<noteq> na_identity c
        \<or> rh_application_revision_id h \<noteq> pk_application_revision_id (na_packet c)
        \<or> rh_assignment_role h \<noteq> assignment_role (na_packet c)
        \<or> rh_system_prompt_artifact_id h \<noteq> system_prompt_artifact_id (na_packet c)
        \<or> rh_assignment_prompt_artifact_id h \<noteq> assignment_prompt_artifact_id (na_packet c)
        \<or> rh_packet_digest h \<noteq> packet_digest (na_packet c))) PacketIdentityMismatch)"

definition attempt_of_packet :: "db \<Rightarrow> assignment_packet \<Rightarrow> ident \<Rightarrow> ticket_attempt_row \<Rightarrow> bool" where
  "attempt_of_packet d p i a =
     (get_row (ticket_attempts d) i = Some a \<and> ta_campaign_id a = pk_campaign_id p
      \<and> (case get_row (ticket_revisions d) (ta_ticket_revision_id a) of
           Some r \<Rightarrow> tr_application_revision_id r = pk_application_revision_id p | None \<Rightarrow> False))"

definition engineering_target_exists :: "db \<Rightarrow> assignment_packet \<Rightarrow> ident \<Rightarrow> bool" where
  "engineering_target_exists d p i = (case get_row (ticket_attempts d) i of
       Some a \<Rightarrow> attempt_of_packet d p i a \<and> ta_stage a \<in> {ATTEMPT_ENGINEERING, ATTEMPT_REWORK_ENGINEERING}
     | None \<Rightarrow> False)"

definition full_suite_passed :: "db \<Rightarrow> ident \<Rightarrow> bool" where
  "full_suite_passed d c = exists_row (\<lambda>_ v. va_candidate_id v = c \<and> va_scope v = 1 \<and> va_lifecycle v = VALIDATION_PASSED) (validations d)"

definition candidate_reviewed :: "db \<Rightarrow> ident \<Rightarrow> bool" where
  "candidate_reviewed d c = exists_row (\<lambda>_ r. re_candidate_id r = c) (reviews d)"

definition quality_target_exists :: "db \<Rightarrow> assignment_packet \<Rightarrow> ident \<Rightarrow> ident \<Rightarrow> bool" where
  "quality_target_exists d p i c = (case (get_row (candidates d) c, get_row (ticket_attempts d) i) of
       (Some x, Some a) \<Rightarrow> cr_ticket_attempt_id x = i \<and> attempt_of_packet d p i a
         \<and> cr_lifecycle x = CANDIDATE_VALIDATED \<and> cr_commit x \<noteq> None
         \<and> (ta_stage a \<in> {ATTEMPT_QUALITY, ATTEMPT_REWORK_QUALITY}
            \<or> ta_stage a = ATTEMPT_AWAITING_ARCHITECT \<and> full_suite_passed d c \<and> \<not> candidate_reviewed d c)
     | _ \<Rightarrow> False)"

definition assignment_target_exists :: "db \<Rightarrow> assignment_packet \<Rightarrow> bool" where
  "assignment_target_exists d p = (case (assignment_role p, pk_ticket_attempt_id p, pk_candidate_id p) of
       (ProductResearch, None, None) \<Rightarrow> True
     | (Engineering, Some i, None) \<Rightarrow> engineering_target_exists d p i
     | (Quality, Some i, Some c) \<Rightarrow> quality_target_exists d p i c
     | _ \<Rightarrow> False)"

definition process_require_artifact :: "db \<Rightarrow> ident \<Rightarrow> unit process_result" where
  "process_require_artifact d i = require (artifact_exists d i) (UnknownArtifact i)"

definition require_artifact_seal :: "db \<Rightarrow> cas_artifact \<Rightarrow> int \<Rightarrow> ident process_result" where
  "require_artifact_seal d seal expected_length =
     and_then (ok_or (find_row (\<lambda>_ a. ar_digest a = cas_digest seal \<and> ar_byte_length a = expected_length) (artifacts d))
       UnregisteredTerminalArtifact) (\<lambda>(i, a).
     and_then (require (ar_byte_length a = sint (cas_byte_length seal)) PacketArtifactDigestMismatch) (\<lambda>_.
     process_contract (identifier_new ''artifact ID'' i)))"

definition prompt_artifact_matches :: "db \<Rightarrow> ident \<Rightarrow> content_digest \<Rightarrow> byte list \<Rightarrow> unit process_result" where
  "prompt_artifact_matches d i k bytes =
     and_then (ok_or (get_row (artifacts d) i) (UnknownArtifact i)) (\<lambda>a.
     require (\<not> (ar_digest a \<noteq> k \<or> ar_byte_length a \<noteq> int (length bytes))) PacketArtifactDigestMismatch)"

definition verify_prompt_artifacts :: "(byte list \<Rightarrow> content_digest) \<Rightarrow> packet_wire \<Rightarrow> db \<Rightarrow> unit process_result" where
  "verify_prompt_artifacts hash w d =
     and_then (ok_or (decode_base64 (w_system_prompt_bytes_b64 w)) InvalidPacketDigest) (\<lambda>system.
     and_then (ok_or (decode_base64 (w_assignment_prompt_bytes_b64 w)) InvalidPacketDigest) (\<lambda>assignment.
     and_then (map_err (\<lambda>_. InvalidPacketDigest) (digest_from_str (w_system_prompt_digest w))) (\<lambda>system_digest.
     and_then (map_err (\<lambda>_. InvalidPacketDigest) (digest_from_str (w_assignment_prompt_digest w))) (\<lambda>assignment_digest.
     first_error
       [require (\<not> (hash system \<noteq> system_digest \<or> hash assignment \<noteq> assignment_digest)) InvalidPacketDigest,
        prompt_artifact_matches d (w_system_prompt_artifact_id w) system_digest system,
        prompt_artifact_matches d (w_assignment_prompt_artifact_id w) assignment_digest assignment]))))"

text \<open>\<open>octet_length(...) BETWEEN 1 AND n\<close> of a \<open>TEXT\<close> column, which cannot hold NUL.\<close>

definition text_column_ok :: "nat \<Rightarrow> string \<Rightarrow> bool" where
  "text_column_ok n v = (v \<noteq> [] \<and> length v \<le> n \<and> CHR 0x00 \<notin> set v)"

definition assignment_row_of ::
  "create_assignment \<Rightarrow> db \<Rightarrow> 64 word \<Rightarrow> ident \<Rightarrow> assignment_row process_result" where
  "assignment_row_of c d remaining artifact =
     (let p = na_packet c; m = model p; bad = InvalidProcessCommand in
      and_then (sql_i32 (bad ''context token limit'') (context_token_limit m)) (\<lambda>context.
      and_then (sql_i32 (bad ''output token limit'') (output_token_limit m)) (\<lambda>out_tokens.
      and_then (sql_i64 (bad ''input price'') (price_input m)) (\<lambda>p_in.
      and_then (sql_i64 (bad ''output price'') (price_output m)) (\<lambda>p_out.
      and_then (sql_i64 (bad ''cache read price'') (price_cache_read m)) (\<lambda>p_read.
      and_then (sql_i64 (bad ''cache write price'') (price_cache_write m)) (\<lambda>p_write.
      and_then (sql_i64 (bad ''wall limit'') (wall_limit (limits p))) (\<lambda>wall.
      and_then (sql_i32 (bad ''output limit'') (output_byte_limit (limits p))) (\<lambda>out_bytes.
      and_then (sql_i64 CorruptCostColumn remaining) (\<lambda>allowance.
      and_then (sql_i32 (bad ''attempt ordinal'') (na_attempt_ordinal c)) (\<lambda>ordinal.
      and_then (ok_or (find_row (\<lambda>_ b. kb_build_digest b = pk_kernel_build_id p) (kernel_builds d)) ProcessDatabase) (\<lambda>(build, _).
      and_then (ok_or (find_row (\<lambda>_ x. of_application_revision_id x = pk_application_revision_id p
          \<and> of_assignment_role x = Some (assignment_role_code (assignment_role p))) (offices d)) ProcessDatabase) (\<lambda>(office, _).
      Inr \<lparr>as_campaign_id = pk_campaign_id p, as_kernel_build_id = build,
           as_application_revision_id = pk_application_revision_id p, as_office_id = office,
           as_assignment_role = assignment_role_code (assignment_role p), as_target = target p,
           as_ticket_attempt_id = pk_ticket_attempt_id p, as_candidate_id = pk_candidate_id p,
           as_packet_artifact_id = artifact, as_packet_digest = packet_digest p,
           as_system_prompt_artifact_id = system_prompt_artifact_id p,
           as_assignment_prompt_artifact_id = assignment_prompt_artifact_id p,
           as_required_read_manifest_artifact_id = na_required_read_manifest_artifact_id c,
           as_model = \<lparr>mc_provider = provider m, mc_model_id = model_id m,
             mc_thinking_level = thinking_code (thinking_level m), mc_input_price = p_in, mc_output_price = p_out,
             mc_cache_read_price = p_read, mc_cache_write_price = p_write\<rparr>,
           as_context_token_limit = context, as_output_token_limit = out_tokens, as_wall_limit_millis = wall,
           as_output_byte_limit = out_bytes, as_terminal_operations_mask = sint (operation_mask (terminal_operations p)),
           as_remaining_campaign_allowance_micro_usd = allowance, as_attempt_ordinal = ordinal,
           as_lifecycle = ASSIGNMENT_PREPARED, as_revision = 0\<rparr>)))))))))))))"

text \<open>The constraints of \<open>assignments\<close> that earlier guards do not imply.\<close>

definition assignment_row_ok :: "db \<Rightarrow> ident \<Rightarrow> assignment_row \<Rightarrow> bool" where
  "assignment_row_ok d i a =
     (get_row (assignments d) i = None
      \<and> \<not> exists_row (\<lambda>_ b. as_campaign_id b = as_campaign_id a \<and> as_attempt_ordinal b = as_attempt_ordinal a) (assignments d)
      \<and> text_column_ok 4096 (as_target a) \<and> text_column_ok 160 (mc_provider (as_model a))
      \<and> text_column_ok 240 (mc_model_id (as_model a))
      \<and> 0 < as_context_token_limit a \<and> 0 < as_output_token_limit a \<and> 0 < as_wall_limit_millis a
      \<and> 0 < as_output_byte_limit a \<and> 0 < as_terminal_operations_mask a)"

definition persist_optional_harness ::
  "(ident \<Rightarrow> context_reference \<Rightarrow> bool) \<Rightarrow> record_harness option \<Rightarrow> db \<Rightarrow> db process_result" where
  "persist_optional_harness scoped h d = (case h of
       None \<Rightarrow> Inr d
     | Some h \<Rightarrow> and_then (map_err ProcessHarness (persist_harness_compilation scoped h d)) (\<lambda>(_, d'). Inr d'))"

text \<open>The kernel environment of one admission.\<close>

record admission_environment =
  en_cas :: "content_digest \<Rightarrow> byte list option"
  en_json :: json_library
  en_scoped :: "ident \<Rightarrow> context_reference \<Rightarrow> bool"

definition create_assignment_replay ::
  "admission_environment \<Rightarrow> create_assignment \<Rightarrow> audit_receipt \<Rightarrow> db \<Rightarrow> (assignment_receipt \<times> db) process_result" where
  "create_assignment_replay env c receipt d =
     and_then (process_require_subject receipt ASSIGNMENT_SUBJECT) (\<lambda>_.
     and_then (process_contract (identifier_new ''assignment ID'' (rc_subject_id receipt))) (\<lambda>i.
     and_then (persist_optional_harness (en_scoped env) (na_harness c) d) (\<lambda>d1.
     and_then (current_campaign_revision d1 (pk_campaign_id (na_packet c))) (\<lambda>r.
     Inr (\<lparr>ax_assignment_id = i, ax_resulting_revision = rc_resulting_revision receipt,
           ax_resulting_campaign_revision = r, ax_audit_log_id = rc_audit_log_id receipt,
           ax_was_idempotent_retry = True\<rparr>, d1)))))"

definition create_assignment_fresh ::
  "(byte list \<Rightarrow> content_digest) \<Rightarrow> admission_environment \<Rightarrow> content_digest \<Rightarrow> int \<Rightarrow> packet_wire \<Rightarrow> create_assignment
     \<Rightarrow> db \<Rightarrow> (assignment_receipt \<times> db) process_result" where
  "create_assignment_fresh hash env fingerprint now w c d =
     (let p = na_packet c; unknown = UnknownCampaign (pk_campaign_id p) in
     and_then (ok_or (get_row (campaigns d) (pk_campaign_id p)) unknown) (\<lambda>g.
     and_then (ok_or (get_row (kernel_builds d) (ca_kernel_build_id g)) unknown) (\<lambda>b.
     and_then (process_revision (ca_revision g)) (\<lambda>current.
     and_then (first_error
       [process_require_revision (na_expected_campaign_revision c) current,
        require (ca_lifecycle g = CAMPAIGN_RUNNING) (CampaignClosed (pk_campaign_id p)),
        require (now < ca_deadline g) CampaignDeadlineElapsed,
        require (ca_cost_state g = COST_KNOWN) (CampaignCostFrozen (pk_campaign_id p)),
        require (\<not> (ca_application_revision_id g \<noteq> pk_application_revision_id p
                   \<or> kb_build_digest b \<noteq> pk_kernel_build_id p)) PacketIdentityMismatch,
        require (assignment_target_exists d p) PacketIdentityMismatch]) (\<lambda>_.
     and_then (u64_of_sql CorruptCostColumn (ca_aggregate_budget_micro_usd g)) (\<lambda>budget.
     and_then (u64_of_sql CorruptCostColumn (ca_measured_cost_micro_usd g)) (\<lambda>measured.
     and_then (require (measured \<le> budget) CorruptCostColumn) (\<lambda>_.
     let remaining = budget - measured in
     and_then (require (remaining_campaign_allowance p = remaining) RemainingAllowanceMismatch) (\<lambda>_.
     and_then (require_artifact_seal d (na_packet_artifact c) (int (length (na_packet_bytes c)))) (\<lambda>artifact.
     and_then (first_error
       [process_require_artifact d (system_prompt_artifact_id p), process_require_artifact d (assignment_prompt_artifact_id p),
        process_require_artifact d (na_required_read_manifest_artifact_id c), verify_prompt_artifacts hash w d,
        require (case na_harness c of Some h \<Rightarrow> rh_packet_artifact_id h = artifact | None \<Rightarrow> True)
          HarnessPacketArtifactMismatch]) (\<lambda>_.
     and_then (assignment_row_of c d remaining artifact) (\<lambda>a.
     and_then (require (assignment_row_ok d (na_identity c) a) ProcessDatabase) (\<lambda>_.
     let d1 = d\<lparr>assignments := insert_at (na_identity c) a (assignments d)\<rparr> in
     and_then (persist_optional_harness (en_scoped env) (na_harness c) d1) (\<lambda>d2.
     and_then (process_contract (revision_next current)) (\<lambda>nxt.
     and_then (process_revision_sql nxt) (\<lambda>r.
     let d3 = d2\<lparr>campaigns := update_row (pk_campaign_id p) (\<lambda>g. g\<lparr>ca_revision := r\<rparr>) (campaigns d2)\<rparr> in
     and_then (process_insert_audit d3 (na_principal c) (na_command_id c) ASSIGNMENT_CREATE fingerprint
                 ASSIGNMENT_SUBJECT (na_identity c) revision_initial) (\<lambda>(audit_log_id, d4).
     and_then (process_contract (identifier_new ''assignment ID'' (na_identity c))) (\<lambda>i.
     Inr (\<lparr>ax_assignment_id = i, ax_resulting_revision = revision_initial, ax_resulting_campaign_revision = nxt,
           ax_audit_log_id = audit_log_id, ax_was_idempotent_retry = False\<rparr>, d4)))))))))))))))))))"

text \<open>The checks before the transaction; they return the verified wire packet.\<close>

definition create_assignment_checked ::
  "(byte list \<Rightarrow> content_digest) \<Rightarrow> admission_environment \<Rightarrow> create_assignment \<Rightarrow> packet_wire process_result" where
  "create_assignment_checked hash env c =
     (let p = na_packet c in
     and_then (process_validate_command (na_principal c) (na_command_id c)) (\<lambda>_.
     and_then (process_contract (assignment_packet_validate hash p)) (\<lambda>_.
     and_then (map_err (\<lambda>_. InvalidPacketDigest)
       (verify_assignment_packet hash (en_json env) (na_packet_bytes c) (digest_hex (packet_digest p)))) (\<lambda>w.
     and_then (require (\<not> (w_assignment_id w \<noteq> na_identity c \<or> pk_assignment_id p \<noteq> na_identity c)) PacketIdentityMismatch) (\<lambda>_.
     and_then (verify_wire_domain_mapping w p) (\<lambda>_.
     and_then (cas_read hash (en_cas env) (cas_digest (na_packet_artifact c))) (\<lambda>bytes.
     and_then (first_error
       [require (bytes = na_packet_bytes c) PacketArtifactDigestMismatch,
        require (\<not> (pk_campaign_id p \<le> 0 \<or> na_attempt_ordinal c = 0)) (InvalidProcessCommand ''assignment identity''),
        require (na_required_read_manifest_artifact_id c = required_read_manifest_artifact_id p) RequiredReadManifestMismatch,
        (case na_harness c of Some h \<Rightarrow> validate_harness_for_assignment c h | None \<Rightarrow> Inr ())]) (\<lambda>_.
     Inr w))))))))"

definition create_assignment_cmd ::
  "(byte list \<Rightarrow> content_digest) \<Rightarrow> admission_environment \<Rightarrow> int \<Rightarrow> create_assignment \<Rightarrow> db
     \<Rightarrow> (assignment_receipt \<times> db) process_result" where
  "create_assignment_cmd hash env now c d =
     and_then (create_assignment_checked hash env c) (\<lambda>w.
     let fingerprint = hash (create_assignment_preimage c) in
     and_then (process_find_audit d (na_principal c) (na_command_id c) ASSIGNMENT_CREATE fingerprint) (\<lambda>found. case found of
         Some receipt \<Rightarrow> create_assignment_replay env c receipt d
       | None \<Rightarrow> create_assignment_fresh hash env fingerprint now w c d))"

end
