(* ===== verification/Process_Invariant.thy ===== *)
theory Process_Invariant
  imports Process_Admission
begin

text \<open>
  What the process authority guarantees of its tables: the measured cost of a campaign is the sum of the
  costs of its sessions and stays within the budget while the cost is known, at most one campaign and one
  paid session run, a session carries the identity of its one assignment and moves with it, a terminal
  session carries its evidence, and a provider effect is settled exactly when it is no longer started.
  There is one preservation lemma for each shape of write.
\<close>

section \<open>Money\<close>

definition session_cost :: "session_row \<Rightarrow> int" where
  "session_cost s = (case Option.bind (se_terminal s) sm_cost_micro_usd of Some v \<Rightarrow> v | None \<Rightarrow> 0)"

definition charge :: "ident \<Rightarrow> session_row \<Rightarrow> int" where
  "charge g s = (if se_campaign_id s = g then session_cost s else 0)"

definition spent :: "db \<Rightarrow> ident \<Rightarrow> int" where
  "spent d g = sum_list (map (\<lambda>(_, s). charge g s) (rows (sessions d)))"

lemma sum_list_update:
  fixes h :: "'r \<Rightarrow> int"
  assumes "distinct (map fst xs)" "map_of xs i = Some r"
  shows "sum_list (map (\<lambda>(_, x). h x) (map (\<lambda>(k, x). (k, if k = i then f x else x)) xs))
     = sum_list (map (\<lambda>(_, x). h x) xs) - h r + h (f r)"
  using assms
proof (induction xs)
  case (Cons kx xs)
  obtain k x where kx: "kx = (k, x)" by force
  have same: "map (\<lambda>(k, x). (k, if k = i then f x else x)) xs = xs" if "i \<notin> fst ` set xs"
    using that by (intro map_idI) force
  show ?case
  proof (cases "k = i")
    case True
    then show ?thesis using Cons.prems same by (simp add: kx)
  next
    case False
    then show ?thesis using Cons by (simp add: kx)
  qed
qed simp

lemma sum_list_zero:
  fixes h :: "'r \<Rightarrow> int"
  shows "(\<And>x. x \<in> set xs \<Longrightarrow> h x = 0) \<Longrightarrow> sum_list (map h xs) = 0"
  by (induction xs) auto

lemma spent_insert:
  "sessions d' = insert_row s (sessions d) \<Longrightarrow> spent d' g = spent d g + charge g s"
  by (simp add: spent_def insert_row_def)

lemma spent_update:
  assumes "sessions d' = update_row i f (sessions d)" "table_ok (sessions d)" "get_row (sessions d) i = Some s"
  shows "spent d' g = spent d g - charge g s + charge g (f s)"
  using sum_list_update [of "rows (sessions d)" i s "charge g" f] assms
  by (simp add: spent_def update_row_def table_ok_def get_row_def)

lemma spent_same: "sessions d' = sessions d \<Longrightarrow> spent d' g = spent d g"
  by (simp add: spent_def)

section \<open>The invariant\<close>

definition process_tables :: "db \<Rightarrow> bool" where
  "process_tables d \<longleftrightarrow> table_ok (campaigns d) \<and> table_ok (assignments d) \<and> table_ok (sessions d)
     \<and> table_ok (provider_effects d) \<and> table_ok (harness_compilations d)"

definition running_session_key :: "session_row \<Rightarrow> unit option" where
  "running_session_key s = (if se_lifecycle s = SESSION_RUNNING then Some () else None)"

definition running_campaign_key :: "campaign_row \<Rightarrow> unit option" where
  "running_campaign_key g = (if ca_lifecycle g = CAMPAIGN_RUNNING then Some () else None)"

definition effect_key :: "provider_effect_row \<Rightarrow> (int \<times> string \<times> int) option" where
  "effect_key e = Some (pe_session_id e, pe_core_run_id e, pe_effect_id e)"

definition process_keys :: "db \<Rightarrow> bool" where
  "process_keys d \<longleftrightarrow> unique_key (get_row (sessions d)) running_session_key
     \<and> unique_key (get_row (sessions d)) (\<lambda>s. Some (se_assignment_id s))
     \<and> unique_key (get_row (campaigns d)) running_campaign_key
     \<and> unique_key (get_row (provider_effects d)) effect_key"

definition session_of_assignment :: "session_row \<Rightarrow> assignment_row \<Rightarrow> bool" where
  "session_of_assignment s a \<longleftrightarrow> as_campaign_id a = se_campaign_id s \<and> as_lifecycle a = se_lifecycle s
     \<and> as_kernel_build_id a = se_kernel_build_id s \<and> as_application_revision_id a = se_application_revision_id s
     \<and> as_office_id a = se_office_id s \<and> as_assignment_role a = se_assignment_role s \<and> as_model a = se_model s"

definition session_funded :: "session_row \<Rightarrow> campaign_row \<Rightarrow> bool" where
  "session_funded s g \<longleftrightarrow> (se_lifecycle s = SESSION_RUNNING \<longrightarrow> ca_cost_state g = COST_KNOWN)
     \<and> (\<forall>m. se_terminal s = Some m \<longrightarrow> ca_cost_state g = COST_KNOWN \<longrightarrow> sm_cost_state m = COST_KNOWN)"

definition session_state_ok :: "session_row \<Rightarrow> bool" where
  "session_state_ok s \<longleftrightarrow> 1 \<le> se_lifecycle s \<and> se_lifecycle s \<le> 5
     \<and> (se_terminal s = None \<longleftrightarrow> se_lifecycle s = SESSION_RUNNING)
     \<and> (\<forall>m. se_terminal s = Some m \<longrightarrow> (sm_cost_micro_usd m = None \<longleftrightarrow> sm_cost_state m = COST_UNKNOWN))"

definition session_ok :: "db \<Rightarrow> session_row \<Rightarrow> bool" where
  "session_ok d s \<longleftrightarrow> session_state_ok s
     \<and> (\<exists>a. get_row (assignments d) (se_assignment_id s) = Some a \<and> session_of_assignment s a)
     \<and> (\<exists>g. get_row (campaigns d) (se_campaign_id s) = Some g \<and> session_funded s g)"

definition assignment_ok :: "db \<Rightarrow> ident \<Rightarrow> assignment_row \<Rightarrow> bool" where
  "assignment_ok d i a \<longleftrightarrow> as_lifecycle a = ASSIGNMENT_PREPARED
     \<or> (\<exists>j s. get_row (sessions d) j = Some s \<and> se_assignment_id s = i)"

definition campaign_cost_ok :: "campaign_row \<Rightarrow> bool" where
  "campaign_cost_ok g \<longleftrightarrow> 0 \<le> ca_measured_cost_micro_usd g \<and> ca_measured_cost_micro_usd g \<le> I64_MAX
     \<and> 0 \<le> ca_aggregate_budget_micro_usd g \<and> ca_aggregate_budget_micro_usd g \<le> I64_MAX
     \<and> ca_cost_state g \<in> {COST_KNOWN, COST_UNKNOWN, COST_EXCEEDED}
     \<and> (ca_cost_state g = COST_KNOWN \<longrightarrow> ca_measured_cost_micro_usd g \<le> ca_aggregate_budget_micro_usd g)
     \<and> (ca_cost_state g = COST_EXCEEDED \<longrightarrow> ca_lifecycle g = CAMPAIGN_FAILED)
     \<and> ca_lifecycle g \<in> {CAMPAIGN_RUNNING, CAMPAIGN_COMPLETED, CAMPAIGN_FAILED, CAMPAIGN_CANCELLED}
     \<and> (ca_lifecycle g = CAMPAIGN_FAILED \<longleftrightarrow> ca_failure_reason g \<noteq> None)"

definition effect_ok :: "db \<Rightarrow> provider_effect_row \<Rightarrow> bool" where
  "effect_ok d e \<longleftrightarrow> 0 \<le> pe_state e \<and> pe_state e \<le> 3 \<and> (pe_settlement e = None \<longleftrightarrow> pe_state e = 0)
     \<and> (\<exists>s. get_row (sessions d) (pe_session_id e) = Some s \<and> se_assignment_id s = pe_assignment_id e)"

definition process_rows :: "db \<Rightarrow> bool" where
  "process_rows d \<longleftrightarrow> (\<forall>i s. get_row (sessions d) i = Some s \<longrightarrow> session_ok d s)
     \<and> (\<forall>i a. get_row (assignments d) i = Some a \<longrightarrow> assignment_ok d i a)
     \<and> (\<forall>i g. get_row (campaigns d) i = Some g \<longrightarrow> campaign_cost_ok g \<and> ca_measured_cost_micro_usd g = spent d i)
     \<and> (\<forall>i e. get_row (provider_effects d) i = Some e \<longrightarrow> effect_ok d e)"

definition process_inv :: "db \<Rightarrow> bool" where
  "process_inv d \<longleftrightarrow> process_tables d \<and> process_keys d \<and> process_rows d"

lemma process_invD:
  assumes "process_inv d"
  shows "process_tables d" "process_keys d"
    and "\<And>i s. get_row (sessions d) i = Some s \<Longrightarrow> session_ok d s"
    and "\<And>i a. get_row (assignments d) i = Some a \<Longrightarrow> assignment_ok d i a"
    and "\<And>i g. get_row (campaigns d) i = Some g \<Longrightarrow> campaign_cost_ok g"
    and "\<And>i g. get_row (campaigns d) i = Some g \<Longrightarrow> ca_measured_cost_micro_usd g = spent d i"
    and "\<And>i e. get_row (provider_effects d) i = Some e \<Longrightarrow> effect_ok d e"
  using assms by (simp_all add: process_inv_def process_rows_def)

lemma process_inv_tables:
  assumes "process_inv d"
  shows "table_ok (campaigns d)" "table_ok (assignments d)" "table_ok (sessions d)"
    "table_ok (provider_effects d)" "table_ok (harness_compilations d)"
  using process_invD(1) [OF assms] by (simp_all add: process_tables_def)

section \<open>Writes that leave the authority's tables alone\<close>

definition process_same :: "db \<Rightarrow> db \<Rightarrow> bool" where
  "process_same d d' \<longleftrightarrow> campaigns d' = campaigns d \<and> assignments d' = assignments d \<and> sessions d' = sessions d
     \<and> provider_effects d' = provider_effects d"

lemma process_same_refl [simp]: "process_same d d"
  by (simp add: process_same_def)

lemma process_same_inv:
  "process_same d d' \<Longrightarrow> table_ok (harness_compilations d') \<Longrightarrow> process_inv d \<Longrightarrow> process_inv d'"
  by (simp add: process_same_def process_inv_def process_tables_def process_keys_def process_rows_def session_ok_def
      assignment_ok_def effect_ok_def spent_def)

section \<open>Writes of campaigns\<close>

lemma process_inv_campaign_insert:
  assumes inv: "process_inv d" and same: "assignments d' = assignments d" "sessions d' = sessions d"
      "provider_effects d' = provider_effects d" "harness_compilations d' = harness_compilations d"
    and cam: "campaigns d' = insert_row g (campaigns d)" and new: "campaign_cost_ok g" "ca_measured_cost_micro_usd g = 0"
    and idle: "\<not> campaign_running_exists d"
  shows "process_inv d'"
proof -
  note tabs = process_inv_tables [OF inv]
  note D = process_invD [OF inv]
  have unspent: "spent d (next_id (campaigns d)) = 0"
  proof -
    have "charge (next_id (campaigns d)) s = 0" if s: "(i, s) \<in> set (rows (sessions d))" for i s
    proof -
      have "get_row (sessions d) i = Some s" using s tabs(3) by (simp add: table_ok_def get_row_def map_of_eq_mem [symmetric])
      then have "session_ok d s" by (rule D(3))
      then obtain g' where "get_row (campaigns d) (se_campaign_id s) = Some g'" by (auto simp: session_ok_def)
      then have "se_campaign_id s \<noteq> next_id (campaigns d)" using tbl.get_fresh [OF tabs(1)] by auto
      then show ?thesis by (simp add: charge_def)
    qed
    then show ?thesis unfolding spent_def by (intro sum_list_zero) auto
  qed
  have keys: "unique_key (get_row (campaigns d')) running_campaign_key"
    unfolding cam using tabs(1) D(2) idle
    by (intro tbl.unique_key_ins) (auto simp: process_keys_def campaign_running_exists_def running_campaign_key_def tbl.ex_get split: if_splits)
  have "process_rows d'"
    using D(3-7) new unspent
    by (auto simp: process_rows_def same cam tbl.get_ins tabs session_ok_def assignment_ok_def effect_ok_def
        spent_same [OF same(2)] split: if_splits) (metis tbl.get_fresh tabs(1) option.distinct(1))+
  then show ?thesis
    using D(2) tabs keys by (simp add: process_inv_def process_tables_def process_keys_def same cam tbl.wf_ins)
qed

lemma process_inv_campaign_update:
  assumes inv: "process_inv d" and same: "assignments d' = assignments d" "sessions d' = sessions d"
      "provider_effects d' = provider_effects d" "table_ok (harness_compilations d')"
    and cam: "campaigns d' = update_row i f (campaigns d)" and g: "get_row (campaigns d) i = Some g"
    and money: "ca_measured_cost_micro_usd (f g) = ca_measured_cost_micro_usd g"
      "ca_cost_state (f g) = ca_cost_state g"
    and ok: "campaign_cost_ok (f g)" and closes: "ca_lifecycle (f g) = CAMPAIGN_RUNNING \<Longrightarrow> ca_lifecycle g = CAMPAIGN_RUNNING"
  shows "process_inv d'"
proof -
  note tabs = process_inv_tables [OF inv]
  note D = process_invD [OF inv]
  have keys: "unique_key (get_row (campaigns d')) running_campaign_key"
    unfolding cam using D(2) g closes
    by (intro tbl.unique_key_upd) (auto simp: process_keys_def running_campaign_key_def)
  have sess: "session_ok d' s" if "session_ok d s" for s
    using that g money(2) by (auto simp: session_ok_def same cam tbl.get_upd session_funded_def)
  have "process_rows d'"
    using D(3-7) sess ok money(1) g
    by (auto simp: process_rows_def same cam tbl.get_upd assignment_ok_def effect_ok_def
        spent_same [OF same(2)] split: if_splits)
  then show ?thesis
    using D(2) tabs keys same(4) by (simp add: process_inv_def process_tables_def process_keys_def same(1-3) cam tbl.wf_upd)
qed

section \<open>Writes of assignments and sessions\<close>

lemma process_inv_assignment_insert:
  assumes inv: "process_inv d" and same: "campaigns d' = campaigns d" "sessions d' = sessions d"
      "provider_effects d' = provider_effects d" "table_ok (harness_compilations d')" "table_ok (assignments d')"
    and get: "\<And>j. get_row (assignments d') j = (if j = i then Some a else get_row (assignments d) j)"
    and new: "get_row (assignments d) i = None" "as_lifecycle a = ASSIGNMENT_PREPARED"
  shows "process_inv d'"
proof -
  note D = process_invD [OF inv]
  have sess: "session_ok d' s" if "session_ok d s" for s
    using that new by (auto simp: session_ok_def same get)
  have "process_rows d'"
    using D(3-7) sess new(2)
    by (auto simp: process_rows_def same get assignment_ok_def effect_ok_def spent_same [OF same(2)] split: if_splits)
  then show ?thesis
    using D(2) process_inv_tables [OF inv] same(4,5)
    by (simp add: process_inv_def process_tables_def process_keys_def same(1-3))
qed

lemma process_inv_start:
  assumes inv: "process_inv d" and same: "campaigns d' = campaigns d" "provider_effects d' = provider_effects d"
      "harness_compilations d' = harness_compilations d"
    and ses: "sessions d' = insert_row s (sessions d)" and asg: "assignments d' = update_row i f (assignments d)"
    and a: "get_row (assignments d) i = Some a" and g: "get_row (campaigns d) (as_campaign_id a) = Some g"
    and known: "ca_cost_state g = COST_KNOWN"
    and idle: "\<not> paid_session_running d" "\<not> exists_row (\<lambda>_ s. se_assignment_id s = i) (sessions d)"
    and new: "se_assignment_id s = i" "se_campaign_id s = as_campaign_id a" "se_lifecycle s = SESSION_RUNNING"
      "se_terminal s = None" "session_of_assignment s (f a)"
  shows "process_inv d'"
proof -
  note tabs = process_inv_tables [OF inv]
  note D = process_invD [OF inv]
  have fresh: "se_assignment_id s' \<noteq> i" if "get_row (sessions d) j = Some s'" for j s'
    using idle(2) that by (auto simp: tbl.ex_get tabs)
  have keys: "unique_key (get_row (sessions d')) running_session_key"
    "unique_key (get_row (sessions d')) (\<lambda>s. Some (se_assignment_id s))"
    unfolding ses using tabs(3) D(2) idle new
    by (intro tbl.unique_key_ins; auto simp: process_keys_def paid_session_running_def running_session_key_def tbl.ex_get split: if_splits)+
  have old: "session_ok d' s'" if "get_row (sessions d) j = Some s'" for j s'
    using D(3) [OF that] fresh [OF that] by (auto simp: session_ok_def same asg tbl.get_upd)
  have spends: "spent d' k = spent d k" for k
    using spent_insert [OF ses] new(4) by (simp add: charge_def session_cost_def)
  have this_ok: "session_ok d' s"
    using new known a g by (auto simp: session_ok_def session_state_ok_def session_funded_def same asg tbl.get_upd)
  have asgs: "assignment_ok d' j x" if x: "get_row (assignments d') j = Some x" for j x
  proof (cases "j = i")
    case True
    then show ?thesis using new(1) tbl.get_ins_new [OF tabs(3)] by (auto simp: assignment_ok_def ses)
  next
    case False
    then have "get_row (assignments d) j = Some x" using x by (simp add: asg tbl.get_upd split: if_splits)
    then show ?thesis using D(4) tbl.get_ins_old [OF tabs(3)] by (fastforce simp: assignment_ok_def ses)
  qed
  have effs: "effect_ok d' e" if "get_row (provider_effects d) j = Some e" for j e
    using D(7) [OF that] tbl.get_ins_old [OF tabs(3)] by (fastforce simp: effect_ok_def ses)
  have "process_rows d'"
    using D(5,6) old this_ok asgs effs spends
    by (auto simp: process_rows_def same ses tbl.get_ins tabs split: if_splits)
  then show ?thesis
    using D(2) tabs keys by (simp add: process_inv_def process_tables_def process_keys_def same ses asg tbl.wf_ins tbl.wf_upd)
qed

text \<open>The settlement of the running session \<open>i\<close>: its row, its assignment and its campaign in one transaction.\<close>

lemma process_inv_settle:
  assumes inv: "process_inv d" and same: "provider_effects d' = provider_effects d"
      "harness_compilations d' = harness_compilations d"
    and ses: "sessions d' = update_row i f (sessions d)" and asg: "assignments d' = update_row (se_assignment_id s) ha (assignments d)"
    and cam: "campaigns d' = update_row (se_campaign_id s) hg (campaigns d)"
    and s: "get_row (sessions d) i = Some s" "se_lifecycle s = SESSION_RUNNING"
    and f: "f s = s\<lparr>se_lifecycle := l, se_terminal := Some m, se_revision := r\<rparr>"
    and m: "2 \<le> l" "l \<le> 5" "sm_cost_micro_usd m = None \<longleftrightarrow> sm_cost_state m = COST_UNKNOWN"
    and a: "\<And>a. as_lifecycle a = SESSION_RUNNING \<Longrightarrow> \<exists>v. ha a = a\<lparr>as_lifecycle := l, as_revision := v\<rparr>"
    and g: "get_row (campaigns d) (se_campaign_id s) = Some g"
    and money: "campaign_cost_ok (hg g)" "ca_measured_cost_micro_usd (hg g) = ca_measured_cost_micro_usd g + session_cost (f s)"
      "ca_cost_state (hg g) = COST_KNOWN \<Longrightarrow> sm_cost_state m = COST_KNOWN"
    and closes: "ca_lifecycle (hg g) = CAMPAIGN_RUNNING \<Longrightarrow> ca_lifecycle g = CAMPAIGN_RUNNING"
  shows "process_inv d'"
proof -
  note tabs = process_inv_tables [OF inv]
  note D = process_invD [OF inv]
  have s_ok: "session_ok d s" by (rule D(3) [OF s(1)])
  then obtain x where x: "get_row (assignments d) (se_assignment_id s) = Some x" "session_of_assignment s x"
    by (auto simp: session_ok_def)
  have known: "ca_cost_state g = COST_KNOWN" using s_ok g s(2) by (auto simp: session_ok_def session_funded_def)
  obtain v where v: "ha x = x\<lparr>as_lifecycle := l, as_revision := v\<rparr>"
    using a [of x] x(2) s(2) by (auto simp: session_of_assignment_def)
  have lone: "j = i" if "get_row (sessions d) j = Some y" "se_assignment_id y = se_assignment_id s \<or> se_lifecycle y = SESSION_RUNNING" for j y
    using D(2) that s unfolding process_keys_def running_session_key_def by (auto dest: unique_keyD)
  have keys: "unique_key (get_row (sessions d')) running_session_key"
    "unique_key (get_row (sessions d')) (\<lambda>s. Some (se_assignment_id s))"
    unfolding ses using D(2) s f m(1)
    by (intro tbl.unique_key_upd; auto simp: process_keys_def running_session_key_def)+
  have camkey: "unique_key (get_row (campaigns d')) running_campaign_key"
    unfolding cam using D(2) g closes
    by (intro tbl.unique_key_upd) (auto simp: process_keys_def running_campaign_key_def)
  have settled: "session_ok d' (f s)"
    using s_ok x v g m money(3) f
    by (auto simp: session_ok_def session_state_ok_def session_of_assignment_def session_funded_def asg cam tbl.get_upd)
  have others: "session_ok d' y" if y: "get_row (sessions d) j = Some y" "j \<noteq> i" for j y
  proof -
    have ya: "se_assignment_id y \<noteq> se_assignment_id s" "se_lifecycle y \<noteq> SESSION_RUNNING"
      using lone [OF y(1)] y(2) by blast+
    have "session_ok d y" by (rule D(3) [OF y(1)])
    then show ?thesis using ya g known by (auto simp: session_ok_def session_funded_def asg cam tbl.get_upd)
  qed
  have spends: "spent d' k = spent d k + (if k = se_campaign_id s then session_cost (f s) else 0)" for k
  proof -
    have "session_cost s = 0" using s_ok s(2) by (simp add: session_ok_def session_state_ok_def session_cost_def)
    then show ?thesis using spent_update [OF ses tabs(3) s(1), of k] f by (simp add: charge_def)
  qed
  have camp: "campaign_cost_ok c \<and> ca_measured_cost_micro_usd c = spent d' j" if c: "get_row (campaigns d') j = Some c" for j c
    using c D(5,6) g money(1,2) by (auto simp: cam tbl.get_upd spends split: if_splits)
  have kept: "\<exists>y'. get_row (sessions d') j = Some y' \<and> se_assignment_id y' = se_assignment_id y" if "get_row (sessions d) j = Some y" for j y
    using that s(1) f by (auto simp: ses tbl.get_upd)
  have asgs: "assignment_ok d' j y" if y: "get_row (assignments d') j = Some y" for j y
  proof -
    from y obtain y0 where y0: "get_row (assignments d) j = Some y0" "j \<noteq> se_assignment_id s \<Longrightarrow> y = y0"
      by (auto simp: asg tbl.get_upd split: if_splits)
    show ?thesis using D(4) [OF y0(1)] y0(2) kept kept [OF s(1)] by (fastforce simp: assignment_ok_def)
  qed
  have effs: "effect_ok d' e" if "get_row (provider_effects d) j = Some e" for j e
    using D(7) [OF that] kept by (fastforce simp: effect_ok_def)
  have "\<And>j y. get_row (sessions d') j = Some y \<Longrightarrow> session_ok d' y"
    using settled others s(1) by (auto simp: ses tbl.get_upd split: if_splits)
  then have "process_rows d'" using camp asgs effs by (simp add: process_rows_def same(1))
  then show ?thesis
    using D(2) tabs keys camkey by (simp add: process_inv_def process_tables_def process_keys_def same ses asg cam tbl.wf_upd)
qed

section \<open>Writes of provider effects\<close>

lemma process_inv_effect_insert:
  assumes inv: "process_inv d" and same: "campaigns d' = campaigns d" "assignments d' = assignments d"
      "sessions d' = sessions d" "harness_compilations d' = harness_compilations d"
    and eff: "provider_effects d' = insert_row e (provider_effects d)" and new: "effect_ok d e"
    and absent: "\<not> exists_row (\<lambda>_ x. effect_key x = effect_key e) (provider_effects d)"
  shows "process_inv d'"
proof -
  note tabs = process_inv_tables [OF inv]
  note D = process_invD [OF inv]
  have keys: "unique_key (get_row (provider_effects d')) effect_key"
    unfolding eff using D(2) absent by (intro tbl.unique_key_ins tabs) (auto simp: process_keys_def)
  have "process_rows d'"
    using D(3-7) new
    by (auto simp: process_rows_def same eff tbl.get_ins tabs session_ok_def assignment_ok_def effect_ok_def
        spent_same [OF same(3)] split: if_splits)
  then show ?thesis
    using D(2) tabs keys by (simp add: process_inv_def process_tables_def process_keys_def same eff tbl.wf_ins)
qed

lemma process_inv_effect_update:
  assumes inv: "process_inv d" and same: "campaigns d' = campaigns d" "assignments d' = assignments d"
      "sessions d' = sessions d" "harness_compilations d' = harness_compilations d"
    and eff: "provider_effects d' = update_row i f (provider_effects d)" and e: "get_row (provider_effects d) i = Some e"
    and new: "effect_ok d (f e)" "effect_key (f e) = effect_key e"
  shows "process_inv d'"
proof -
  note tabs = process_inv_tables [OF inv]
  note D = process_invD [OF inv]
  have keys: "unique_key (get_row (provider_effects d')) effect_key"
    unfolding eff using D(2) new(2) e by (intro tbl.unique_key_upd) (auto simp: process_keys_def)
  have "process_rows d'"
    using D(3-7) new(1) e
    by (auto simp: process_rows_def same eff tbl.get_upd session_ok_def assignment_ok_def effect_ok_def
        spent_same [OF same(3)] split: if_splits)
  then show ?thesis
    using D(2) tabs keys by (simp add: process_inv_def process_tables_def process_keys_def same eff tbl.wf_upd)
qed

end
