(* ===== verification/Process_Commands.thy ===== *)
theory Process_Commands
  imports Process_Invariant
begin

text \<open>
  The commands of the process authority keep its invariant.  \<open>process_command\<close> is the contract the
  composition of the kernel relies on: what a command does to the invariant, the tables it never
  writes, and the audit log it only extends; it is interpreted on every command of the authority.
\<close>

section \<open>The contract\<close>

definition authority_frame :: "db \<Rightarrow> db \<Rightarrow> bool" where
  "authority_frame d d' \<longleftrightarrow> artifacts d' = artifacts d \<and> kernel_builds d' = kernel_builds d
     \<and> application_revisions d' = application_revisions d \<and> offices d' = offices d \<and> tickets d' = tickets d
     \<and> ticket_revisions d' = ticket_revisions d \<and> ticket_attempts d' = ticket_attempts d
     \<and> candidates d' = candidates d \<and> validations d' = validations d \<and> reviews d' = reviews d
     \<and> architect_decisions d' = architect_decisions d \<and> deliveries d' = deliveries d
     \<and> audit_extends d d' \<and> (audit_log d' = audit_log d \<or> (\<exists>a. audit_log d' = insert_row a (audit_log d)))"

lemma authority_frame_refl [simp]: "authority_frame d d"
  by (simp add: authority_frame_def)

locale process_command =
  fixes run :: "int \<Rightarrow> 'c \<Rightarrow> db \<Rightarrow> ('e, 'r \<times> db) result"
    and allowed :: "'c \<Rightarrow> db \<Rightarrow> bool"
  assumes keeps: "run now c d = Inr (r, d') \<Longrightarrow> allowed c d \<Longrightarrow> process_inv d \<Longrightarrow> process_inv d'"
    and frame: "run now c d = Inr (r, d') \<Longrightarrow> allowed c d \<Longrightarrow> process_inv d \<Longrightarrow> authority_frame d d'"
begin

lemma money:
  assumes "run now c d = Inr (r, d')" "allowed c d" "process_inv d" "get_row (campaigns d') i = Some g"
  shows "ca_measured_cost_micro_usd g = spent d' i"
    and "ca_cost_state g = COST_KNOWN \<Longrightarrow> ca_measured_cost_micro_usd g \<le> ca_aggregate_budget_micro_usd g"
  using process_invD(5,6) [OF keeps [OF assms(1-3)] assms(4)] by (simp_all add: campaign_cost_ok_def)

lemma one_running_session:
  assumes "run now c d = Inr (r, d')" "allowed c d" "process_inv d"
    and "get_row (sessions d') i = Some s" "se_lifecycle s = SESSION_RUNNING"
    and "get_row (sessions d') j = Some t" "se_lifecycle t = SESSION_RUNNING"
  shows "i = j"
  using process_invD(2) [OF keeps [OF assms(1-3)]] assms(4-7)
  by (auto simp: process_keys_def running_session_key_def dest: unique_keyD)

end

lemma process_audit:
  assumes "process_insert_audit d p c op fp k s r = Inr (i, d')"
  shows "\<exists>a. d' = d\<lparr>audit_log := insert_row a (audit_log d)\<rparr>" "audit_extends d d'"
  using insert_audit_entry_ok(4) [OF assms [unfolded process_insert_audit_def]]
    insert_audit_entry_lookup(2) [OF assms [unfolded process_insert_audit_def]] by blast+

lemma process_audit_frame:
  assumes "process_insert_audit d1 p c op fp k s r = Inr (i, d')" "authority_frame d d1" "audit_log d1 = audit_log d"
  shows "authority_frame d d'"
proof -
  obtain a where "d' = d1\<lparr>audit_log := insert_row a (audit_log d1)\<rparr>" using process_audit(1) [OF assms(1)] by blast
  moreover have "audit_extends d d'"
    using process_audit(2) [OF assms(1)] assms(2) audit_extends_trans by (auto simp: authority_frame_def)
  ultimately show ?thesis using assms(2,3) by (auto simp: authority_frame_def)
qed

lemma process_audit_inv:
  assumes "process_insert_audit d1 p c op fp k s r = Inr (i, d')" "process_inv d1"
  shows "process_inv d'"
proof -
  obtain a where "d' = d1\<lparr>audit_log := insert_row a (audit_log d1)\<rparr>" using process_audit(1) [OF assms(1)] by blast
  then show ?thesis
    using process_same_inv [of d1 d'] process_inv_tables(5) [OF assms(2)] assms(2) by (simp add: process_same_def)
qed

lemma audited_process:
  assumes "audited (process_find_audit d p c op fp) replay fresh d = Inr (r, d')"
  obtains (replay) "d' = d" | (fresh) "fresh = Inr (r, d')"
  using assms by (auto simp: process_find_audit_def elim!: audited_cases)

section \<open>Conversions\<close>

lemma sql_i64_ok [simp]: "sql_i64 e v = Inr i \<longleftrightarrow> uint v \<le> I64_MAX \<and> i = uint v"
  by (auto simp: sql_i64_def)

lemma u64_of_sql_ok [simp]: "u64_of_sql e v = Inr w \<longleftrightarrow> 0 \<le> v \<and> w = word_of_int v"
  by (auto simp: u64_of_sql_def)

section \<open>Campaigns\<close>

lemma start_campaign_fresh_cases:
  assumes "start_campaign_fresh timestamp fp now c d = Inr (r, d')"
  obtains g i where "process_insert_audit (d\<lparr>campaigns := insert_row g (campaigns d)\<rparr>) (cs_principal c) (cs_command_id c)
      CAMPAIGN_START fp CAMPAIGN_SUBJECT (next_id (campaigns d)) revision_initial = Inr (i, d')"
    "ca_lifecycle g = CAMPAIGN_RUNNING" "ca_cost_state g = COST_KNOWN" "ca_measured_cost_micro_usd g = 0"
    "ca_aggregate_budget_micro_usd g = uint (cs_aggregate_budget c)" "uint (cs_aggregate_budget c) \<le> I64_MAX" "ca_failure_reason g = None"
    "\<not> campaign_running_exists d" "now < ca_deadline g"
  using assms unfolding start_campaign_fresh_def Let_def by clarsimp

lemma start_campaign_fresh_keeps:
  assumes "start_campaign_fresh timestamp fp now c d = Inr (r, d')" "process_inv d"
  shows "process_inv d'" "authority_frame d d'"
proof -
  obtain g i where 1: "process_insert_audit (d\<lparr>campaigns := insert_row g (campaigns d)\<rparr>) (cs_principal c) (cs_command_id c)
      CAMPAIGN_START fp CAMPAIGN_SUBJECT (next_id (campaigns d)) revision_initial = Inr (i, d')"
    "ca_lifecycle g = CAMPAIGN_RUNNING" "ca_cost_state g = COST_KNOWN" "ca_measured_cost_micro_usd g = 0"
    "ca_aggregate_budget_micro_usd g = uint (cs_aggregate_budget c)" "uint (cs_aggregate_budget c) \<le> I64_MAX" "ca_failure_reason g = None"
    "\<not> campaign_running_exists d"
    using assms(1) by (rule start_campaign_fresh_cases)
  let ?d1 = "d\<lparr>campaigns := insert_row g (campaigns d)\<rparr>"
  have "process_inv ?d1"
    by (rule process_inv_campaign_insert [OF assms(2)]) (use 1 in \<open>auto simp: campaign_cost_ok_def I64_MAX_def\<close>)
  then show "process_inv d'" by (rule process_audit_inv [OF 1(1)])
  show "authority_frame d d'"
    by (rule process_audit_frame [OF 1(1)]) (simp_all add: authority_frame_def audit_extends_def audit_lookup_def)
qed

text \<open>The two commands that close a campaign.\<close>

definition closes_campaign :: "string \<Rightarrow> string \<Rightarrow> string \<Rightarrow> content_digest \<Rightarrow> ident \<Rightarrow> int \<Rightarrow> string option \<Rightarrow>
    aggregate_revision \<Rightarrow> campaign_receipt \<Rightarrow> db \<Rightarrow> db \<Rightarrow> bool" where
  "closes_campaign p q op fp i l reason nxt r d d' \<longleftrightarrow>
     (\<exists>v k. process_insert_audit (d\<lparr>campaigns := update_row i v (campaigns d)\<rparr>) p q op fp CAMPAIGN_SUBJECT i nxt = Inr (k, d')
        \<and> (\<forall>g. v g = g\<lparr>ca_lifecycle := l, ca_failure_reason := (if l = CAMPAIGN_FAILED then reason else ca_failure_reason g),
              ca_revision := uint nxt\<rparr>))
     \<and> \<not> cn_was_idempotent_retry r \<and> cn_resulting_revision r = nxt \<and> cn_campaign_id r = i"

lemma cancel_campaign_closes:
  assumes "cancel_campaign_in_transaction fp c current d = Inr (r, d')"
  shows "\<exists>nxt. revision_next current = Inr nxt
    \<and> closes_campaign (cc_principal c) (cc_command_id c) CAMPAIGN_CANCEL fp (cc_campaign_id c) CAMPAIGN_CANCELLED None nxt r d d'"
  using assms unfolding cancel_campaign_in_transaction_def Let_def process_revision_sql_def campaign_receipt_of_def closes_campaign_def
  by (fastforce simp: process_contract_def)

lemma fail_campaign_fresh_closes:
  assumes "fail_campaign_fresh fp c d = Inr (r, d')"
  shows "\<exists>nxt g. get_row (campaigns d) (cf_campaign_id c) = Some g \<and> ca_lifecycle g = CAMPAIGN_RUNNING
    \<and> running_session d (cf_campaign_id c) = None
    \<and> closes_campaign (cf_principal c) (cf_command_id c) CAMPAIGN_FAIL fp (cf_campaign_id c) CAMPAIGN_FAILED (Some (cf_reason c)) nxt r d d'"
  using assms unfolding fail_campaign_fresh_def Let_def process_revision_sql_def campaign_receipt_of_def closes_campaign_def
  by (fastforce simp: process_contract_def)

lemma closes_campaign_keeps:
  assumes "closes_campaign p q op fp i l reason nxt r d d'" "process_inv d"
    and g: "get_row (campaigns d) i = Some g" "ca_lifecycle g = CAMPAIGN_RUNNING"
    and l: "l = CAMPAIGN_CANCELLED \<or> l = CAMPAIGN_FAILED \<and> reason \<noteq> None"
  shows "process_inv d'" "authority_frame d d'"
proof -
  obtain v k where 1: "process_insert_audit (d\<lparr>campaigns := update_row i v (campaigns d)\<rparr>) p q op fp CAMPAIGN_SUBJECT i nxt = Inr (k, d')"
    "\<And>g. v g = g\<lparr>ca_lifecycle := l, ca_failure_reason := (if l = CAMPAIGN_FAILED then reason else ca_failure_reason g),
              ca_revision := uint nxt\<rparr>"
    using assms(1) unfolding closes_campaign_def by blast
  let ?d1 = "d\<lparr>campaigns := update_row i v (campaigns d)\<rparr>"
  have "campaign_cost_ok g" by (rule process_invD(5) [OF assms(2) g(1)])
  then have "process_inv ?d1"
    by (intro process_inv_campaign_update [OF assms(2), where i = i and f = v and g = g])
      (use 1 l g process_inv_tables [OF assms(2)] in \<open>auto simp: campaign_cost_ok_def\<close>)
  then show "process_inv d'" by (rule process_audit_inv [OF 1(1)])
  show "authority_frame d d'"
    by (rule process_audit_frame [OF 1(1)]) (simp_all add: authority_frame_def audit_extends_def audit_lookup_def)
qed

lemma admit_cancellation_fresh_cases:
  assumes "admit_cancellation_fresh fp c d = Inr (r, d')"
  obtains (active) s x where "running_session d (cc_campaign_id c) = Some (s, x)" "r = ActiveSession s" "d' = d"
    | (closed) g current receipt where "running_session d (cc_campaign_id c) = None" "r = CancellationCompleted receipt"
        "get_row (campaigns d) (cc_campaign_id c) = Some g" "ca_lifecycle g = CAMPAIGN_RUNNING"
        "cancel_campaign_in_transaction fp c current d = Inr (receipt, d')"
  using assms unfolding admit_cancellation_fresh_def
  by (cases "running_session d (cc_campaign_id c)") (auto simp: process_contract_def identifier_new_def split: if_splits)

lemma finish_cancellation_fresh_cases:
  assumes "finish_cancellation_fresh fp c x d = Inr (r, d')"
  obtains g current where "get_row (campaigns d) (cc_campaign_id c) = Some g" "ca_lifecycle g = CAMPAIGN_RUNNING"
        "cancel_campaign_in_transaction fp c current d = Inr (r, d')"
  using assms unfolding finish_cancellation_fresh_def by auto

lemma cancel_campaign_keeps:
  assumes "cancel_campaign_in_transaction fp c current d = Inr (r, d')" "process_inv d"
    "get_row (campaigns d) (cc_campaign_id c) = Some g" "ca_lifecycle g = CAMPAIGN_RUNNING"
  shows "process_inv d' \<and> authority_frame d d'"
  using cancel_campaign_closes [OF assms(1)] closes_campaign_keeps [OF _ assms(2-4)] by blast

lemma admit_cancellation_fresh_keeps:
  "admit_cancellation_fresh fp c d = Inr (r, d') \<Longrightarrow> process_inv d \<Longrightarrow> process_inv d' \<and> authority_frame d d'"
  by (erule admit_cancellation_fresh_cases) (auto dest: cancel_campaign_keeps)

lemma finish_cancellation_fresh_keeps:
  "finish_cancellation_fresh fp c x d = Inr (r, d') \<Longrightarrow> process_inv d \<Longrightarrow> process_inv d' \<and> authority_frame d d'"
  by (erule finish_cancellation_fresh_cases) (auto dest: cancel_campaign_keeps)

lemma fail_campaign_fresh_keeps:
  "fail_campaign_fresh fp c d = Inr (r, d') \<Longrightarrow> process_inv d \<Longrightarrow> process_inv d' \<and> authority_frame d d'"
  using fail_campaign_fresh_closes closes_campaign_keeps by (metis option.distinct(1))

section \<open>Sessions\<close>

lemma start_session_fresh_cases:
  assumes "start_session_fresh fp now c d = Inr (r, d')"
  obtains a g nxt s k where
    "process_insert_audit (d\<lparr>sessions := insert_row s (sessions d),
        assignments := update_row (ss_assignment_id c)
             (\<lambda>a. a\<lparr>as_lifecycle := SESSION_RUNNING, as_revision := uint nxt\<rparr>) (assignments d)\<rparr>)
      (ss_principal c) (ss_command_id c) SESSION_START fp SESSION_SUBJECT (next_id (sessions d)) revision_initial = Inr (k, d')"
    "get_row (assignments d) (ss_assignment_id c) = Some a"
    "get_row (campaigns d) (as_campaign_id a) = Some g" "as_lifecycle a = ASSIGNMENT_PREPARED"
    "ca_lifecycle g = CAMPAIGN_RUNNING" "ca_cost_state g = COST_KNOWN" "now < ca_deadline g"
    "as_packet_digest a = ss_packet_digest c" "\<not> paid_session_running d"
    "\<not> exists_row (\<lambda>_ s. se_assignment_id s = ss_assignment_id c) (sessions d)"
    "process_revision (as_revision a) = Inr (ss_expected_assignment_revision c)"
    "revision_next (ss_expected_assignment_revision c) = Inr nxt"
    "se_assignment_id s = ss_assignment_id c" "se_campaign_id s = as_campaign_id a" "se_lifecycle s = SESSION_RUNNING"
    "se_terminal s = None" "se_revision s = 0"
    "session_of_assignment s (a\<lparr>as_lifecycle := SESSION_RUNNING, as_revision := uint nxt\<rparr>)"
    "se_pid s = uint (pid (ss_custody c))" "se_pgid s = uint (pgid (ss_custody c))"
    "r = \<lparr>sx_session_id = next_id (sessions d), sx_resulting_revision = revision_initial, sx_assignment_revision = nxt,
           sx_audit_log_id = k, sx_was_idempotent_retry = False\<rparr>"
  using assms unfolding start_session_fresh_def Let_def process_revision_sql_def process_require_revision_def sql_i32_def
  apply (clarsimp simp: process_contract_def identifier_new_def split: if_splits)
  subgoal premises p by (rule p(1)) (rule p, use p(2-) in \<open>simp_all add: session_of_assignment_def\<close>)
  done

lemma start_session_fresh_keeps:
  assumes "start_session_fresh fp now c d = Inr (r, d')" "process_inv d"
  shows "process_inv d' \<and> authority_frame d d'"
  using assms(1)
proof (rule start_session_fresh_cases)
  fix a g nxt s k
  let ?d1 = "d\<lparr>sessions := insert_row s (sessions d),
        assignments := update_row (ss_assignment_id c)
             (\<lambda>a. a\<lparr>as_lifecycle := SESSION_RUNNING, as_revision := uint nxt\<rparr>) (assignments d)\<rparr>"
  assume 1: "get_row (assignments d) (ss_assignment_id c) = Some a"
    "get_row (campaigns d) (as_campaign_id a) = Some g" "ca_cost_state g = COST_KNOWN" "\<not> paid_session_running d"
    "\<not> exists_row (\<lambda>_ s. se_assignment_id s = ss_assignment_id c) (sessions d)"
    "se_assignment_id s = ss_assignment_id c" "se_campaign_id s = as_campaign_id a" "se_lifecycle s = SESSION_RUNNING"
    "se_terminal s = None"
    "session_of_assignment s (a\<lparr>as_lifecycle := SESSION_RUNNING, as_revision := uint nxt\<rparr>)"
  assume audit: "process_insert_audit ?d1 (ss_principal c) (ss_command_id c) SESSION_START fp SESSION_SUBJECT (next_id (sessions d)) revision_initial = Inr (k, d')"
  have "process_inv ?d1"
    by (rule process_inv_start [OF assms(2) _ _ _ _ _ 1(1-3)]) (use 1 in simp_all)
  then show ?thesis
    using process_audit_inv [OF audit] process_audit_frame [OF audit, of d]
    by (simp add: authority_frame_def audit_extends_def audit_lookup_def)
qed

definition settled :: "campaign_row \<Rightarrow> int \<Rightarrow> 64 word option \<Rightarrow> 64 word \<Rightarrow> int \<Rightarrow> bool" where
  "settled g state v tot life \<longleftrightarrow>
     (state = COST_UNKNOWN \<longleftrightarrow> v = None) \<and> state \<in> {COST_KNOWN, COST_UNKNOWN, COST_EXCEEDED}
     \<and> uint tot = ca_measured_cost_micro_usd g + (case v of None \<Rightarrow> 0 | Some x \<Rightarrow> uint x)
     \<and> (state = COST_KNOWN \<longrightarrow> uint tot \<le> ca_aggregate_budget_micro_usd g \<and> life = ca_lifecycle g)
     \<and> (state = COST_EXCEEDED \<longrightarrow> life = CAMPAIGN_FAILED) \<and> (life = ca_lifecycle g \<or> life = CAMPAIGN_FAILED)"

lemma evidence_cost_not_exceeded: "evidence_cost e \<noteq> CostExceeded v"
  by (simp add: evidence_cost_def split: option.splits sum.splits)

lemma settle_cost_settled:
  assumes "settle_cost reason (evidence_cost e) g (word_of_int (ca_aggregate_budget_micro_usd g))
      (word_of_int (ca_measured_cost_micro_usd g)) = Inr (state, v, tot, life)"
    and "campaign_cost_ok g" "ca_cost_state g = COST_KNOWN"
  shows "settled g state v tot life"
proof -
  have r: "0 \<le> x \<Longrightarrow> x \<le> I64_MAX \<Longrightarrow> uint (word_of_int x :: 64 word) = x" for x
    by (simp add: I64_MAX_def uint_word_of_int)
  show ?thesis
    using assms evidence_cost_not_exceeded [of e]
    by (cases "evidence_cost e")
      (auto simp: settle_cost_def settled_def campaign_cost_ok_def checked_add_uint r word_less_def not_less
        split: if_splits)
qed

lemma terminal_session_fresh_cases:
  assumes "terminal_session_fresh fp now c d = Inr (r, d')"
  obtains s a g state v tot life m nxt cnxt k where
    "process_insert_audit (d\<lparr>
           sessions := update_row (tc_session_id c) (\<lambda>s. s\<lparr>se_lifecycle := session_state_code (session_state_of (tr_stop_reason (tc_report c))),
               se_terminal := Some m, se_revision := uint nxt\<rparr>) (sessions d),
           assignments := update_row (se_assignment_id s) (\<lambda>a. if as_lifecycle a = SESSION_RUNNING
               then a\<lparr>as_lifecycle := assignment_state_code (session_state_of (tr_stop_reason (tc_report c))),
                 as_revision := as_revision a + 1\<rparr> else a) (assignments d),
           campaigns := update_row (se_campaign_id s) (\<lambda>g. g\<lparr>ca_measured_cost_micro_usd := uint tot,
               ca_cost_state := max state (ca_cost_state g), ca_lifecycle := life,
               ca_failure_reason := campaign_failure_reason life state, ca_revision := uint cnxt\<rparr>) (campaigns d)\<rparr>)
       (tc_principal c) (tc_command_id c) SESSION_TERMINAL fp SESSION_SUBJECT (tc_session_id c) nxt = Inr (k, d')"
    "get_row (sessions d) (tc_session_id c) = Some s" "get_row (assignments d) (se_assignment_id s) = Some a"
    "get_row (campaigns d) (se_campaign_id s) = Some g" "se_lifecycle s = SESSION_RUNNING"
    "as_packet_digest a = tr_packet_digest (tc_report c)"
    "terminal_report_allowed (tc_report c) (tc_evidence c) (as_terminal_operations_mask a) = Inr ()"
    "settle_cost (tr_stop_reason (tc_report c)) (evidence_cost (tc_evidence c)) g (word_of_int (ca_aggregate_budget_micro_usd g))
      (word_of_int (ca_measured_cost_micro_usd g)) = Inr (state, v, tot, life)"
    "terminal_columns now c state v = Inr m"
    "terminal_columns_ok d (session_state_code (session_state_of (tr_stop_reason (tc_report c)))) m"
    "uint tot \<le> I64_MAX" "life = CAMPAIGN_FAILED \<longleftrightarrow> campaign_failure_reason life state \<noteq> None"
    "r = \<lparr>tx_session_id = tc_session_id c, tx_session_state = session_state_of (tr_stop_reason (tc_report c)),
           tx_cost = receipt_cost state v (evidence_cost (tc_evidence c)), tx_resulting_revision = nxt,
           tx_campaign_revision = cnxt, tx_audit_log_id = k, tx_was_idempotent_retry = False\<rparr>"
  using assms unfolding terminal_session_fresh_def Let_def process_revision_sql_def
  by (clarsimp simp: process_contract_def split: if_splits)

lemma session_codes:
  "2 \<le> session_state_code (session_state_of x)" "session_state_code (session_state_of x) \<le> 5"
  "assignment_state_code (session_state_of x) = session_state_code (session_state_of x)"
  by (cases x; simp)+

lemma terminal_columns_cost:
  assumes "terminal_columns now c state v = Inr m"
  shows "sm_cost_state m = state" "sm_cost_micro_usd m = Option.bind v (\<lambda>x. if I64_MAX < uint x then None else Some (uint x))"
  using assms by (auto simp: terminal_columns_def Let_def)

lemma settled_campaign_ok:
  assumes "settled g state v tot life" "campaign_cost_ok g" "ca_cost_state g = COST_KNOWN" "uint tot \<le> I64_MAX"
    and "life = CAMPAIGN_FAILED \<longleftrightarrow> campaign_failure_reason life state \<noteq> None"
  shows "campaign_cost_ok (g\<lparr>ca_measured_cost_micro_usd := uint tot, ca_cost_state := max state (ca_cost_state g),
      ca_lifecycle := life, ca_failure_reason := campaign_failure_reason life state, ca_revision := r\<rparr>)"
proof (cases "life = CAMPAIGN_FAILED")
  case True
  then show ?thesis using assms(1-4) assms(5) unfolding settled_def campaign_cost_ok_def by (cases v) auto
next
  case False
  then show ?thesis using assms(1-4) assms(5) unfolding settled_def campaign_cost_ok_def by (cases v) auto
qed

lemma terminal_session_fresh_keeps:
  assumes "terminal_session_fresh fp now c d = Inr (r, d')" "process_inv d"
  shows "process_inv d' \<and> authority_frame d d'"
  using assms(1)
proof (rule terminal_session_fresh_cases)
  fix s :: session_row and a :: assignment_row and g :: campaign_row and state v life and m :: session_terminal_columns and k and nxt cnxt tot :: "64 word"
  let ?l = "session_state_code (session_state_of (tr_stop_reason (tc_report c)))"
  let ?g = "\<lambda>g. g\<lparr>ca_measured_cost_micro_usd := uint tot, ca_cost_state := max state (ca_cost_state g), ca_lifecycle := life,
               ca_failure_reason := campaign_failure_reason life state, ca_revision := uint cnxt\<rparr>"
  let ?a = "\<lambda>a. if as_lifecycle a = SESSION_RUNNING
               then a\<lparr>as_lifecycle := assignment_state_code (session_state_of (tr_stop_reason (tc_report c))),
                 as_revision := as_revision a + 1\<rparr> else a"
  let ?d1 = "d\<lparr>sessions := update_row (tc_session_id c) (\<lambda>s. s\<lparr>se_lifecycle := ?l, se_terminal := Some m, se_revision := uint nxt\<rparr>) (sessions d),
           assignments := update_row (se_assignment_id s) ?a (assignments d),
           campaigns := update_row (se_campaign_id s) ?g (campaigns d)\<rparr>"
  assume audit: "process_insert_audit ?d1 (tc_principal c) (tc_command_id c) SESSION_TERMINAL fp SESSION_SUBJECT (tc_session_id c) nxt = Inr (k, d')"
    and s: "get_row (sessions d) (tc_session_id c) = Some s" "se_lifecycle s = SESSION_RUNNING"
    and g: "get_row (campaigns d) (se_campaign_id s) = Some g"
    and cost: "settle_cost (tr_stop_reason (tc_report c)) (evidence_cost (tc_evidence c)) g (word_of_int (ca_aggregate_budget_micro_usd g))
      (word_of_int (ca_measured_cost_micro_usd g)) = Inr (state, v, tot, life)"
    and m: "terminal_columns now c state v = Inr m"
    and fits: "uint tot \<le> I64_MAX" "life = CAMPAIGN_FAILED \<longleftrightarrow> campaign_failure_reason life state \<noteq> None"
  have known: "ca_cost_state g = COST_KNOWN"
    using process_invD(3) [OF assms(2) s(1)] s(2) g by (auto simp: session_ok_def session_funded_def)
  have g_ok: "campaign_cost_ok g" by (rule process_invD(5) [OF assms(2) g])
  have set: "settled g state v tot life" by (rule settle_cost_settled [OF cost g_ok known])
  have v: "sm_cost_micro_usd m = map_option uint v"
    using set fits(1) g_ok terminal_columns_cost(2) [OF m] by (cases v) (auto simp: settled_def campaign_cost_ok_def)
  have cost_m: "sm_cost_micro_usd m = None \<longleftrightarrow> sm_cost_state m = COST_UNKNOWN"
    using set v terminal_columns_cost(1) [OF m] by (simp add: settled_def)
  have total: "ca_measured_cost_micro_usd (?g g) = ca_measured_cost_micro_usd g
      + session_cost (s\<lparr>se_lifecycle := ?l, se_terminal := Some m, se_revision := uint nxt\<rparr>)"
    using set v by (simp add: settled_def session_cost_def split: option.splits)
  have kept: "ca_cost_state (?g g) = COST_KNOWN \<Longrightarrow> sm_cost_state m = COST_KNOWN"
    "ca_lifecycle (?g g) = CAMPAIGN_RUNNING \<Longrightarrow> ca_lifecycle g = CAMPAIGN_RUNNING"
    using set known terminal_columns_cost(1) [OF m] by (auto simp: settled_def)
  have moves: "\<And>a. as_lifecycle a = SESSION_RUNNING \<Longrightarrow> \<exists>v. ?a a = a\<lparr>as_lifecycle := ?l, as_revision := v\<rparr>"
    unfolding session_codes(3) by (rule exI [of _ "as_revision _ + 1"]) simp
  have "process_inv ?d1"
    by (rule process_inv_settle [where i = "tc_session_id c" and s = s and g = g and m = m and l = ?l and r = "uint nxt"
          and f = "\<lambda>s. s\<lparr>se_lifecycle := ?l, se_terminal := Some m, se_revision := uint nxt\<rparr>" and ha = ?a and hg = ?g])
      (rule assms(2) s g session_codes(1,2) cost_m total settled_campaign_ok [OF set g_ok known fits] |
        erule kept moves | simp add: session_codes(3))+
  then show ?thesis
    using process_audit_inv [OF audit] process_audit_frame [OF audit, of d]
    by (simp add: authority_frame_def audit_extends_def audit_lookup_def)
qed

end
