(* ===== verification/Admission_Guarantees.thy ===== *)
theory Admission_Guarantees
  imports Process_Commands
begin

text \<open>
  The admission of assignments and the recording of provider effects keep the invariant of the process
  authority; the interpretations of \<open>process_command\<close> on every command of the authority.
\<close>

section \<open>Admission\<close>

lemma persist_optional_harness_cases:
  assumes "persist_optional_harness scoped h d = Inr d'"
  obtains t where "d' = d\<lparr>harness_compilations := t\<rparr>"
    "table_ok (harness_compilations d) \<longrightarrow> table_ok t"
proof -
  have "d' = d\<lparr>harness_compilations := harness_compilations d'\<rparr>
    \<and> (table_ok (harness_compilations d) \<longrightarrow> table_ok (harness_compilations d'))"
    using assms unfolding persist_optional_harness_def persist_harness_compilation_def Let_def
    by (auto split: option.splits simp: tbl.wf_ins)
  then show thesis using that by blast
qed

lemma create_assignment_fresh_cases:
  assumes "create_assignment_fresh hash env fp now w c d = Inr (r, d')"
  obtains a g h t nxt remaining artifact k where
    "process_insert_audit (d\<lparr>assignments := insert_at (na_identity c) a (assignments d), harness_compilations := t,
        campaigns := update_row (pk_campaign_id (na_packet c)) (\<lambda>g. g\<lparr>ca_revision := uint nxt\<rparr>) (campaigns d)\<rparr>)
      (na_principal c) (na_command_id c) ASSIGNMENT_CREATE fp ASSIGNMENT_SUBJECT (na_identity c) revision_initial = Inr (k, d')"
    "get_row (campaigns d) (pk_campaign_id (na_packet c)) = Some g"
    "assignment_row_of c d remaining artifact = Inr a" "assignment_row_ok d (na_identity c) a"
    "table_ok (harness_compilations d) \<longrightarrow> table_ok t" "remaining_campaign_allowance (na_packet c) = remaining"
    "ca_lifecycle g = CAMPAIGN_RUNNING" "now < ca_deadline g" "ca_cost_state g = COST_KNOWN"
    "remaining = word_of_int (ca_aggregate_budget_micro_usd g) - word_of_int (ca_measured_cost_micro_usd g)"
    "assignment_target_exists d (na_packet c)" "ca_application_revision_id g = pk_application_revision_id (na_packet c)"
    "0 \<le> ca_aggregate_budget_micro_usd g" "0 \<le> ca_measured_cost_micro_usd g"
    "r = \<lparr>ax_assignment_id = na_identity c, ax_resulting_revision = revision_initial, ax_resulting_campaign_revision = nxt,
           ax_audit_log_id = k, ax_was_idempotent_retry = False\<rparr>"
  using assms unfolding create_assignment_fresh_def Let_def process_revision_sql_def
  by (clarsimp simp: process_contract_def identifier_new_def split: if_splits)
    (erule persist_optional_harness_cases, clarsimp)

lemma get_insert_at:
  "get_row (insert_at i r t) j = (case get_row t j of Some x \<Rightarrow> Some x | None \<Rightarrow> if j = i then Some r else None)"
  by (auto simp: get_row_def insert_at_def map_add_def split: option.splits)

lemma table_ok_insert_at:
  "table_ok t \<Longrightarrow> get_row t i = None \<Longrightarrow> 0 < i \<Longrightarrow> i < next_id t \<Longrightarrow> table_ok (insert_at i r t)"
  by (auto simp: table_ok_def insert_at_def get_row_def map_of_eq_None_iff)

text \<open>The identity a caller passes was taken from the sequence by \<open>reserve_assignment_identity\<close>.\<close>

definition identity_reserved :: "create_assignment \<Rightarrow> db \<Rightarrow> bool" where
  "identity_reserved c d = (0 < na_identity c \<and> na_identity c < next_id (assignments d))"

lemma create_assignment_fresh_keeps:
  assumes "create_assignment_fresh hash env fp now w c d = Inr (r, d')" "process_inv d" "identity_reserved c d"
  shows "process_inv d'"
  using assms(1)
proof (rule create_assignment_fresh_cases)
  fix a :: assignment_row and g :: campaign_row and h :: unit and t :: "harness_row table" and nxt remaining :: "64 word" and artifact k
  let ?f = "\<lambda>g :: campaign_row. g\<lparr>ca_revision := uint nxt\<rparr>"
  let ?i = "pk_campaign_id (na_packet c)"
  let ?d1 = "d\<lparr>assignments := insert_at (na_identity c) a (assignments d), harness_compilations := t\<rparr>"
  let ?d2 = "d\<lparr>assignments := insert_at (na_identity c) a (assignments d), harness_compilations := t,
        campaigns := update_row ?i ?f (campaigns d)\<rparr>"
  assume audit: "process_insert_audit ?d2 (na_principal c) (na_command_id c) ASSIGNMENT_CREATE fp ASSIGNMENT_SUBJECT (na_identity c) revision_initial = Inr (k, d')"
    and g: "get_row (campaigns d) ?i = Some g" and t: "table_ok (harness_compilations d) \<longrightarrow> table_ok t"
    and a: "assignment_row_of c d remaining artifact = Inr a" "assignment_row_ok d (na_identity c) a"
  note tabs = process_inv_tables [OF assms(2)]
  have new: "get_row (assignments d) (na_identity c) = None" using a(2) by (simp add: assignment_row_ok_def)
  have prepared: "as_lifecycle a = ASSIGNMENT_PREPARED" using a(1) by (auto simp: assignment_row_of_def Let_def)
  have ok: "table_ok (insert_at (na_identity c) a (assignments d))"
    using table_ok_insert_at [OF tabs(2) new] assms(3) by (simp add: identity_reserved_def)
  have 1: "process_inv ?d1"
    by (rule process_inv_assignment_insert [OF assms(2), where i = "na_identity c" and a = a])
      (use tabs(5) t new ok prepared in \<open>auto simp: get_insert_at split: option.splits\<close>)
  have "process_inv ?d2"
    by (rule process_inv_campaign_update [OF 1, where i = ?i and f = ?f and g = g])
      (use g tabs(5) t process_invD(5) [OF assms(2) g] in \<open>auto simp: campaign_cost_ok_def\<close>)
  then show ?thesis by (rule process_audit_inv [OF audit])
qed

lemma create_assignment_fresh_frame:
  assumes "create_assignment_fresh hash env fp now w c d = Inr (r, d')"
  shows "authority_frame d d'"
  using assms
  by (rule create_assignment_fresh_cases)
    (erule process_audit_frame, simp_all add: authority_frame_def audit_extends_def audit_lookup_def)

lemma create_assignment_cmd_cases:
  assumes "create_assignment_cmd hash env now c d = Inr (r, d')"
  obtains (replay) receipt where "create_assignment_replay env c receipt d = Inr (r, d')"
    | (fresh) w where "create_assignment_checked hash env c = Inr w"
        "create_assignment_fresh hash env (hash (create_assignment_preimage c)) now w c d = Inr (r, d')"
  using assms unfolding create_assignment_cmd_def Let_def by (auto split: option.splits)

lemma create_assignment_replay_keeps:
  assumes "create_assignment_replay env c receipt d = Inr (r, d')"
  shows "process_same d d'" "authority_frame d d'" "table_ok (harness_compilations d) \<Longrightarrow> table_ok (harness_compilations d')"
  using assms unfolding create_assignment_replay_def
  by (auto elim!: persist_optional_harness_cases simp: process_same_def authority_frame_def audit_extends_def audit_lookup_def)

interpretation create_assignment: process_command "create_assignment_cmd hash env" identity_reserved for hash env
proof
  show "process_inv d'" if run: "create_assignment_cmd hash env now c d = Inr (r, d')" and ok: "identity_reserved c d" "process_inv d"
    for now c d r d'
    using run
  proof (rule create_assignment_cmd_cases)
    fix receipt
    assume "create_assignment_replay env c receipt d = Inr (r, d')"
    from create_assignment_replay_keeps [OF this] show ?thesis
      using process_same_inv ok(2) process_inv_tables(5) [OF ok(2)] by blast
  qed (rule create_assignment_fresh_keeps [OF _ ok(2,1)])
  show "authority_frame d d'" if run: "create_assignment_cmd hash env now c d = Inr (r, d')" for now c d r d'
    using run by (rule create_assignment_cmd_cases) (auto dest: create_assignment_replay_keeps create_assignment_fresh_frame)
qed

section \<open>Provider effects\<close>

lemma find_pairs_Some: "find (\<lambda>(k, r). p k r) xs = Some (i, r) \<Longrightarrow> (i, r) \<in> set xs \<and> p i r"
  by (induction xs) (auto split: if_splits)

lemma find_row_Some: "find_row p t = Some (i, r) \<Longrightarrow> table_ok t \<Longrightarrow> get_row t i = Some r \<and> p i r"
  unfolding find_row_def by (drule find_pairs_Some) (simp add: table_ok_def get_row_def map_of_eq_mem [symmetric])

lemma find_row_None: "find_row p t = None \<longleftrightarrow> \<not> exists_row p t"
  by (auto simp: find_row_def exists_row_def find_None_iff list_ex_iff)

lemma provider_effect_start_cases:
  assumes "provider_effect_start session_id assignment_id q d = Inr (r, d')"
  obtains (recorded) i e where "find_effect d session_id (ps_core_run_id q) (uint (ps_effect_id q)) = Some (i, e)"
      "provider_effect_state_from_code (pe_state e) = Inr r" "d' = d"
    | (started) e s where "d' = d\<lparr>provider_effects := insert_row e (provider_effects d)\<rparr>" "r = EffectStarted"
      "find_effect d session_id (ps_core_run_id q) (uint (ps_effect_id q)) = None"
      "get_row (sessions d) session_id = Some s" "se_assignment_id s = assignment_id" "se_lifecycle s = SESSION_RUNNING"
      "pe_session_id e = session_id" "pe_assignment_id e = assignment_id" "pe_core_run_id e = ps_core_run_id q"
      "pe_effect_id e = uint (ps_effect_id q)" "pe_state e = 0" "pe_settlement e = None"
proof (cases "find_effect d session_id (ps_core_run_id q) (uint (ps_effect_id q))")
  case None
  then show thesis
    using assms started unfolding provider_effect_start_def effect_session_matches_def effect_session_matches_settlement_def effect_id_sql_def
    by clarsimp
next
  case (Some x)
  then show thesis
    using assms recorded [of "fst x" "snd x"] unfolding provider_effect_start_def effect_id_sql_def by (cases x) clarsimp
qed

lemma provider_effect_settle_cases:
  assumes "provider_effect_settle session_id assignment_id q d = Inr (r, d')"
  obtains (recorded) i e settlement where "find_effect d session_id (pt_core_run_id q) (uint (pt_effect_id q)) = Some (i, e)"
      "provider_effect_settlement q r = Inr settlement" "provider_effect_state_from_code (pe_state e) = Inr r"
      "pe_settlement e = Some settlement" "d' = d"
    | (settles) i e s settlement where
      "d' = d\<lparr>provider_effects := update_row i (\<lambda>e. e\<lparr>pe_state := provider_effect_state_code r,
         pe_settlement := Some settlement\<rparr>) (provider_effects d)\<rparr>"
      "find_effect d session_id (pt_core_run_id q) (uint (pt_effect_id q)) = Some (i, e)"
      "get_row (sessions d) session_id = Some s" "se_assignment_id s = assignment_id" "se_lifecycle s = SESSION_RUNNING"
      "pe_state e = 0" "r \<noteq> EffectStarted" "provider_effect_settlement q r = Inr settlement"
proof -
  obtain state settlement s i e existing where
    m: "provider_effect_from_settlement (pt_outcome q) = Inr state" "provider_effect_settlement q state = Inr settlement"
      "get_row (sessions d) session_id = Some s" "se_assignment_id s = assignment_id" "se_lifecycle s = SESSION_RUNNING"
      "find_effect d session_id (pt_core_run_id q) (uint (pt_effect_id q)) = Some (i, e)"
      "provider_effect_state_from_code (pe_state e) = Inr existing"
    and w: "(if existing \<noteq> EffectStarted
       then (if existing = state \<and> pe_settlement e = Some settlement then Inr (existing, d) else Inl ProviderEffectConflict)
       else Inr (state, d\<lparr>provider_effects := update_row i
         (\<lambda>e. e\<lparr>pe_state := provider_effect_state_code state, pe_settlement := Some settlement\<rparr>)
         (provider_effects d)\<rparr>)) = Inr (r, d')"
    using assms unfolding provider_effect_settle_def effect_session_matches_settlement_def effect_id_sql_def by clarsimp
  show thesis
  proof (cases "existing = EffectStarted")
    case True
    have "pe_state e = 0" using m(7) True by (auto simp: provider_effect_state_from_code_def split: if_splits)
    moreover have "state \<noteq> EffectStarted" using m(1) by (auto simp: provider_effect_from_settlement_def split: if_splits)
    ultimately show thesis using settles [of i settlement e s] m w True by clarsimp
  next
    case False
    then show thesis using recorded m w by (simp split: if_splits)
  qed
qed

lemma provider_effect_start_keeps:
  assumes "provider_effect_start session_id assignment_id q d = Inr (r, d')" "process_inv d"
  shows "process_inv d'"
  using assms(1)
proof (cases rule: provider_effect_start_cases)
  case (started e s)
  have "\<not> exists_row (\<lambda>_ x. effect_key x = effect_key e) (provider_effects d)"
    using started(3) unfolding find_effect_def find_row_None by (simp add: started effect_key_def)
  then show ?thesis
    by (rule process_inv_effect_insert [OF assms(2) _ _ _ _ _ _, rotated -1]) (use started in \<open>auto simp: effect_ok_def\<close>)
qed (use assms(2) in simp)

lemma provider_effect_settle_keeps:
  assumes "provider_effect_settle session_id assignment_id q d = Inr (r, d')" "process_inv d"
  shows "process_inv d'"
  using assms(1)
proof (cases rule: provider_effect_settle_cases)
  case (settles i e s settlement)
  have e: "get_row (provider_effects d) i = Some e"
    using find_row_Some [OF settles(2) [unfolded find_effect_def] process_inv_tables(4) [OF assms(2)]] by blast
  show ?thesis
    by (rule process_inv_effect_update [OF assms(2) _ _ _ _ _ e,
          where f = "\<lambda>e. e\<lparr>pe_state := provider_effect_state_code r, pe_settlement := Some settlement\<rparr>"])
      (use settles process_invD(7) [OF assms(2) e] in \<open>cases r; auto simp: effect_ok_def effect_key_def\<close>)+
qed (use assms(2) in simp)

definition anything :: "'c \<Rightarrow> db \<Rightarrow> bool" where
  "anything c d = True"

lemma effect_start_frame: "provider_effect_start session_id assignment_id q d = Inr (r, d') \<Longrightarrow> authority_frame d d'"
  by (erule provider_effect_start_cases) (simp_all add: authority_frame_def audit_extends_def audit_lookup_def)

lemma effect_settle_frame: "provider_effect_settle session_id assignment_id q d = Inr (r, d') \<Longrightarrow> authority_frame d d'"
  by (erule provider_effect_settle_cases) (simp_all add: authority_frame_def audit_extends_def audit_lookup_def)

interpretation effect_start: process_command "\<lambda>_ (s, a, q). provider_effect_start s a q" anything
  by unfold_locales (auto intro: provider_effect_start_keeps dest: effect_start_frame)

interpretation effect_settle: process_command "\<lambda>_ (s, a, q). provider_effect_settle s a q" anything
  by unfold_locales (auto intro: provider_effect_settle_keeps dest: effect_settle_frame)

section \<open>Campaigns and sessions\<close>

lemma process_commandI:
  assumes "\<And>now c d r d'. run now c d = Inr (r, d') \<Longrightarrow> process_inv d \<Longrightarrow> d' = d \<or> process_inv d' \<and> authority_frame d d'"
  shows "process_command run anything"
  using assms by unfold_locales fastforce+

lemma audited_process_cases:
  "audited (process_find_audit d p c op fp) replay fresh d = Inr (r, d') \<Longrightarrow> d' = d \<or> fresh = Inr (r, d')"
  by (auto elim!: audited_process)

interpretation start_campaign: process_command "start_campaign_cmd hash timestamp" anything for hash timestamp
  by (rule process_commandI)
    (auto simp: start_campaign_cmd_def Let_def dest!: audited_process_cases dest: start_campaign_fresh_keeps)

interpretation admit_cancellation: process_command "\<lambda>_. admit_campaign_cancellation hash" anything for hash
  by (rule process_commandI)
    (auto simp: admit_campaign_cancellation_def Let_def dest!: audited_process_cases dest: admit_cancellation_fresh_keeps)

interpretation finish_cancellation: process_command "\<lambda>_ (c, x). finish_campaign_cancellation hash c x" anything for hash
  by (rule process_commandI)
    (auto simp: finish_campaign_cancellation_def Let_def dest!: audited_process_cases dest: finish_cancellation_fresh_keeps)

interpretation cancel_campaign: process_command "\<lambda>_. cancel_campaign_cmd hash" anything for hash
proof (rule process_commandI)
  fix now c d r d'
  assume "cancel_campaign_cmd hash c d = Inr (r, d')" "process_inv d"
  then obtain x where "admit_campaign_cancellation hash c d = Inr (x, d')"
    unfolding cancel_campaign_cmd_def by (clarsimp split: campaign_cancellation_admission.splits) (metis campaign_cancellation_admission.exhaust)
  then show "d' = d \<or> process_inv d' \<and> authority_frame d d'"
    using admit_cancellation.keeps admit_cancellation.frame \<open>process_inv d\<close> by (auto simp: anything_def)
qed

interpretation fail_campaign: process_command "\<lambda>_. fail_campaign_cmd hash" anything for hash
  by (rule process_commandI)
    (auto simp: fail_campaign_cmd_def Let_def dest!: audited_process_cases dest: fail_campaign_fresh_keeps)

interpretation start_session: process_command "start_session_cmd hash" anything for hash
  by (rule process_commandI)
    (auto simp: start_session_cmd_def Let_def dest!: audited_process_cases dest: start_session_fresh_keeps)

interpretation terminal_session: process_command "terminal_session_cmd hash" anything for hash
  by (rule process_commandI)
    (auto simp: terminal_session_cmd_def Let_def dest!: audited_process_cases dest: terminal_session_fresh_keeps)

end
