(* ===== verification/Factory_Frames.thy ===== *)
theory Factory_Frames
  imports Kernel_Run Admission_Guarantees
begin

text \<open>
  What the commands of the ticket and the decision authority do to the tables of the process authority:
  nothing, but that a delivery or a completion closes the running campaign.
\<close>

definition process_kept :: "db \<Rightarrow> db \<Rightarrow> bool" where
  "process_kept d d' \<longleftrightarrow> process_same d d' \<and> harness_compilations d' = harness_compilations d"

definition process_closes :: "db \<Rightarrow> db \<Rightarrow> bool" where
  "process_closes d d' \<longleftrightarrow> assignments d' = assignments d \<and> sessions d' = sessions d
     \<and> provider_effects d' = provider_effects d \<and> harness_compilations d' = harness_compilations d
     \<and> (\<exists>i g r. get_row (campaigns d) i = Some g \<and> ca_lifecycle g = CAMPAIGN_RUNNING
          \<and> campaigns d' = update_row i (\<lambda>g. g\<lparr>ca_lifecycle := CAMPAIGN_COMPLETED, ca_revision := r\<rparr>) (campaigns d))"

lemma process_kept_refl [simp]: "process_kept d d"
  by (simp add: process_kept_def)

lemma process_kept_inv: "process_kept d d' \<Longrightarrow> process_inv d \<Longrightarrow> process_inv d'"
  using process_same_inv [of d d'] process_inv_tables(5) [of d] by (simp add: process_kept_def)

lemma process_closes_inv:
  assumes "process_closes d d'" "process_inv d"
  shows "process_inv d'"
proof -
  let ?f = "\<lambda>r g. g\<lparr>ca_lifecycle := CAMPAIGN_COMPLETED, ca_revision := r\<rparr> :: campaign_row"
  from assms(1) obtain i g r where g: "get_row (campaigns d) i = Some g" "ca_lifecycle g = CAMPAIGN_RUNNING"
      "campaigns d' = update_row i (?f r) (campaigns d)"
    and same: "assignments d' = assignments d" "sessions d' = sessions d" "provider_effects d' = provider_effects d"
      "harness_compilations d' = harness_compilations d"
    unfolding process_closes_def by blast
  show ?thesis
    by (rule process_inv_campaign_update [OF assms(2) same(1-3) _ g(3,1)])
      (use g same(4) process_inv_tables [OF assms(2)] process_invD(5) [OF assms(2) g(1)] in \<open>auto simp: campaign_cost_ok_def\<close>)
qed

section \<open>The decision authority\<close>

lemmas kept_simps = process_kept_def process_same_def insert_audit_def insert_decision_ok Let_def case_prod_unfold

lemma submit_candidate_fresh_kept: "submit_candidate_fresh fp now c d = Inr (r, d') \<Longrightarrow> process_kept d d'"
  unfolding submit_candidate_fresh_def by (clarsimp simp: kept_simps dest!: insert_audit_entry_ok(4))

lemma record_validation_fresh_kept: "record_validation_fresh fp now c d = Inr (r, d') \<Longrightarrow> process_kept d d'"
  unfolding record_validation_fresh_def by (clarsimp simp: kept_simps dest!: insert_audit_entry_ok(4))

lemma attach_candidate_commit_fresh_kept: "attach_candidate_commit_fresh fp c d = Inr (r, d') \<Longrightarrow> process_kept d d'"
  unfolding attach_candidate_commit_fresh_def by (clarsimp simp: kept_simps dest!: insert_audit_entry_ok(4))

lemma submit_quality_review_fresh_kept: "submit_quality_review_fresh fp c d = Inr (r, d') \<Longrightarrow> process_kept d d'"
  unfolding submit_quality_review_fresh_def by (clarsimp simp: kept_simps dest!: insert_audit_entry_ok(4))

lemma sponsor_ticket_fresh_kept: "sponsor_ticket_fresh fp now c d = Inr (r, d') \<Longrightarrow> process_kept d d'"
  unfolding sponsor_ticket_fresh_def
  by (clarsimp simp: kept_simps update_ticket_state_parts_def dest!: insert_audit_entry_ok(4))

lemma release_fresh_kept: "release_fresh fp now c d = Inr (r, d') \<Longrightarrow> process_kept d d'"
  unfolding release_fresh_def
  by (clarsimp simp: kept_simps update_ticket_requalification_def dest!: insert_audit_entry_ok(4))

lemma update_ticket_state_kept:
  "update_ticket_state d a s nxt sr br now = Inr d' \<Longrightarrow> process_kept d d'"
  "(if b then update_ticket_state d a s nxt sr br now else Inr d) = Inr d' \<Longrightarrow> process_kept d d'"
  by (auto simp: update_ticket_state_def update_ticket_state_parts_def process_kept_def process_same_def split: if_splits)

lemma decide_candidate_fresh_kept: "decide_candidate_fresh fp now c d = Inr (r, d') \<Longrightarrow> process_kept d d'"
  unfolding decide_candidate_fresh_def
  by (clarsimp simp: kept_simps dest!: insert_audit_entry_ok(4) update_ticket_state_kept)

text \<open>A recorded delivery reads the measured cost of its campaign, and closes the campaign at its target.\<close>

lemma lock_campaignE:
  assumes "lock_campaign d i = Inr campaign"
  obtains g where "get_row (campaigns d) i = Some g" "ca_lifecycle g = cm_lifecycle campaign"
    "ca_cost_state g = cm_cost_state campaign" "0 \<le> ca_measured_cost_micro_usd g"
    "cm_factory_cost_micro_usd campaign = word_of_int (ca_measured_cost_micro_usd g)"
proof -
  obtain g where "get_row (campaigns d) i = Some g" using assms by (auto simp: lock_campaign_def)
  then show thesis using assms that [of g] by (auto simp: lock_campaign_def)
qed

lemma complete_in_delivery_cases:
  assumes "(if b then and_then (revision_sql nxt) (\<lambda>rg. Inr (d\<lparr>campaigns := update_row i
        (\<lambda>g. g\<lparr>ca_lifecycle := CAMPAIGN_COMPLETED, ca_revision := rg\<rparr>) (campaigns d)\<rparr>)) else Inr d) = Inr d'"
    and "get_row (campaigns d) i = Some g" "ca_lifecycle g = CAMPAIGN_RUNNING"
  shows "process_kept d d' \<or> process_closes d d'"
proof (cases b)
  case True
  then obtain rg where "d' = d\<lparr>campaigns := update_row i (\<lambda>g. g\<lparr>ca_lifecycle := CAMPAIGN_COMPLETED, ca_revision := rg\<rparr>) (campaigns d)\<rparr>"
    using assms(1) by auto
  then have "process_closes d d'" using assms(2,3) by (auto simp: process_closes_def)
  then show ?thesis ..
qed (use assms(1) in simp)

lemma process_kept_closes: "process_kept d dm \<Longrightarrow> process_closes dm d' \<Longrightarrow> process_closes d d'"
  by (simp add: process_kept_def process_same_def process_closes_def)

lemma process_closes_kept: "process_closes d dm \<Longrightarrow> process_kept dm d' \<Longrightarrow> process_closes d d'"
  by (simp add: process_kept_def process_same_def process_closes_def)

lemma process_kept_trans: "process_kept d dm \<Longrightarrow> process_kept dm d' \<Longrightarrow> process_kept d d'"
  by (simp add: process_kept_def process_same_def)

lemma insert_audit_entry_kept: "insert_audit_entry e e' d p c op fp k s r = Inr (i, d') \<Longrightarrow> process_kept d d'"
  by (drule insert_audit_entry_ok(4)) (simp add: process_kept_def process_same_def)

lemma record_delivery_fresh_kept:
  assumes "record_delivery_fresh fp now c d = Inr (r, d')"
  shows "process_kept d d' \<or> process_closes d d'"
proof -
  obtain attempt campaign b nxt d1 d2 d3 x p q op k sub n audit where
    d3: "(if b then and_then (revision_sql nxt) (\<lambda>rg. Inr (d2\<lparr>campaigns := update_row (at_campaign_id attempt)
        (\<lambda>g. g\<lparr>ca_lifecycle := CAMPAIGN_COMPLETED, ca_revision := rg\<rparr>) (campaigns d2)\<rparr>)) else Inr d2) = Inr d3"
    and d2: "update_ticket_state d1 attempt 3 x None None now = Inr d2"
    and d': "insert_audit d3 p q op fp k sub n = Inr (audit, d')"
    and c: "lock_campaign d (at_campaign_id attempt) = Inr campaign" "cm_lifecycle campaign = CAMPAIGN_RUNNING"
    and d1: "process_kept d d1"
    using assms unfolding record_delivery_fresh_def Let_def
    apply clarsimp
    subgoal premises p by (rule p(1), (rule p)+) (use p(2-) in \<open>simp_all add: process_kept_def process_same_def\<close>)
    done
  obtain g where "get_row (campaigns d) (at_campaign_id attempt) = Some g" "ca_lifecycle g = CAMPAIGN_RUNNING"
    using c by (auto elim: lock_campaignE)
  moreover have k2: "process_kept d d2" using d1 update_ticket_state_kept(1) [OF d2] process_kept_trans by blast
  ultimately have "process_kept d2 d3 \<or> process_closes d2 d3"
    using complete_in_delivery_cases [OF d3] by (simp add: process_kept_def process_same_def)
  then show ?thesis using k2 insert_audit_entry_kept [OF d' [unfolded insert_audit_def]] process_kept_trans process_kept_closes process_closes_kept by blast
qed

section \<open>The ticket authority\<close>

lemma insert_ticket_audit_kept: "insert_ticket_audit d p c op fp k s r = Inr (i, d') \<Longrightarrow> process_kept d d'"
  unfolding insert_ticket_audit_def by (rule insert_audit_entry_kept)

lemma ticket_frame_kept: "ticket_frame d d' \<Longrightarrow> process_kept d d'"
  unfolding ticket_frame_def by (erule ssubst) (simp add: process_kept_def process_same_def)

lemma move_attempt_kept: "move_attempt d i a st failed p c op fp sub = Inr (r, d') \<Longrightarrow> process_kept d d'"
  unfolding move_attempt_def by (auto simp: Let_def case_prod_unfold process_kept_def process_same_def dest!: insert_ticket_audit_kept)

lemma submit_ticket_proposal_fresh_kept: "submit_ticket_proposal_fresh fp application c d = Inr (r, d') \<Longrightarrow> process_kept d d'"
  by (erule submit_ticket_proposal_freshE) (drule insert_ticket_audit_kept, simp add: process_kept_def process_same_def)

lemma sponsor_ticket_revision_fresh_kept: "sponsor_ticket_revision_fresh fp now c d = Inr (r, d') \<Longrightarrow> process_kept d d'"
  by (erule sponsor_ticket_revision_freshE)
    (blast dest: insert_ticket_audit_kept update_ticket_states_frame(1) intro: ticket_frame_kept process_kept_trans)

lemma claim_sponsored_ticket_fresh_kept: "claim_sponsored_ticket_fresh fp now c d = Inr (r, d') \<Longrightarrow> process_kept d d'"
  by (erule claim_sponsored_ticket_freshE)
    (blast dest: insert_ticket_audit_kept claim_transition_frame(1) intro: ticket_frame_kept process_kept_trans)

lemma attempt_release_fresh_kept:
  assumes "attempt_release_fresh fp now c d = Inr (r, d')"
  shows "process_kept d d'"
  using assms
proof (rule attempt_release_freshE)
  fix a cl dm d1 nxt ra na
  assume "d1 = d\<lparr>ticket_attempts := update_row (rt_ticket_attempt_id c) (\<lambda>a. a\<lparr>
         ta_released := Some (now, rt_reason c), ta_revision := ra\<rparr>) (ticket_attempts d)\<rparr>"
    and u: "update_requalification_and_ticket_state d1 (al_ticket a) (fst (snd (release_transition cl))) nxt
       (fst (snd (snd (release_transition cl)))) (rt_requalification c) (snd (snd (snd (release_transition cl)))) now = Inr dm"
    and "insert_ticket_audit dm (rt_principal c) (rt_command_id c) ATTEMPT_RELEASE_OPERATION fp
       (release_subject cl) (rt_ticket_attempt_id c) na = Inr (rx_audit_log_id r, d')"
  then have "process_kept d d1" "process_kept d1 dm" "process_kept dm d'"
    by (simp_all add: process_kept_def process_same_def ticket_frame_kept [OF update_requalification_frame(1) [OF u], unfolded process_kept_def process_same_def]
        insert_ticket_audit_kept [unfolded process_kept_def process_same_def])
  then show ?thesis using process_kept_trans by blast
qed

lemma complete_campaign_fresh_kept:
  assumes "complete_campaign_fresh fp c d = Inr (r, d')"
  shows "process_closes d d'"
  using assms
proof (rule complete_campaign_freshE)
  fix g dm i
  assume "get_row (campaigns d) (cp_campaign_id c) = Some g" "ca_lifecycle g = CAMPAIGN_RUNNING"
    and "dm = d\<lparr>campaigns := update_row (cp_campaign_id c)
        (\<lambda>g. g\<lparr>ca_lifecycle := CAMPAIGN_COMPLETED, ca_revision := uint r\<rparr>) (campaigns d)\<rparr>"
    and "insert_ticket_audit dm (cp_principal c) (cp_command_id c) COMPLETE_CAMPAIGN_OPERATION fp
       CAMPAIGN_COMPLETED_SUBJECT (cp_campaign_id c) r = Inr (i, d')"
  then have "process_closes d dm" "process_kept dm d'"
    by (auto simp: process_closes_def dest: insert_ticket_audit_kept)
  then show ?thesis by (rule process_closes_kept)
qed

end
