(* ===== verification/Factory_Run.thy ===== *)
theory Factory_Run
  imports Factory_Frames
begin

text \<open>
  The factory as a transition system: the sixteen commands of the ticket and the decision authority, the
  eleven requests of the process authority, and everything else, which writes neither.  A run of the
  factory is a run of the kernel, and it keeps the invariants of all three authorities.
\<close>

section \<open>Commands of the other authorities\<close>

lemma audited_kept:
  assumes "audited (find_audit_entry e e' d p c op fp) replay fresh d = Inr (r, d')"
    and "fresh = Inr (r, d') \<Longrightarrow> process_kept d d'"
  shows "process_kept d d' \<or> process_closes d d'"
  using assms(1) by (rule audited_cases) (use assms(2) in auto)

lemma submit_ticket_proposal_transition_kept:
  "submit_ticket_proposal_transition fp c d = Inr (r, d') \<Longrightarrow> process_kept d d'"
  unfolding submit_ticket_proposal_transition_def by (auto dest: submit_ticket_proposal_fresh_kept)

lemma fail_ticket_attempt_fresh_kept: "fail_ticket_attempt_fresh fp now c d = Inr (r, d') \<Longrightarrow> process_kept d d'"
  unfolding fail_ticket_attempt_fresh_def by (auto dest: move_attempt_kept)

lemma command_step_process:
  assumes "command_step hash now c d = Some d'"
  shows "process_kept d d' \<or> process_closes d d'"
  using assms
proof (cases c)
  case (SubmitCandidate x)
  then obtain r where "submit_candidate_cmd hash now x d = Inr (r, d')" using assms by auto
  then show ?thesis by (rule audited_kept [OF submit_candidate_cmd_audited]) (rule submit_candidate_fresh_kept)
next
  case (RecordValidation x)
  then obtain r where "record_validation_cmd hash now x d = Inr (r, d')" using assms by auto
  then show ?thesis by (rule audited_kept [OF record_validation_cmd_audited]) (rule record_validation_fresh_kept)
next
  case (AttachCandidateCommit x)
  then obtain r where "attach_candidate_commit_cmd hash x d = Inr (r, d')" using assms by auto
  then show ?thesis by (rule audited_kept [OF attach_candidate_commit_cmd_audited]) (rule attach_candidate_commit_fresh_kept)
next
  case (SubmitQualityReview x)
  then obtain r where "submit_quality_review_cmd hash x d = Inr (r, d')" using assms by auto
  then show ?thesis by (rule audited_kept [OF submit_quality_review_cmd_audited]) (rule submit_quality_review_fresh_kept)
next
  case (SponsorTicket x)
  then obtain r where "sponsor_ticket_cmd hash now x d = Inr (r, d')" using assms by auto
  then show ?thesis by (rule audited_kept [OF sponsor_ticket_cmd_audited]) (rule sponsor_ticket_fresh_kept)
next
  case (ReleaseByDecision x)
  then obtain r where "release_ticket_attempt_cmd hash now x d = Inr (r, d')" using assms by auto
  then show ?thesis by (rule audited_kept [OF release_ticket_attempt_cmd_audited]) (rule release_fresh_kept)
next
  case (DecideCandidate x)
  then obtain r where "decide_candidate_cmd hash now x d = Inr (r, d')" using assms by auto
  then show ?thesis by (rule audited_kept [OF decide_candidate_cmd_audited]) (rule decide_candidate_fresh_kept)
next
  case (RecordDelivery x)
  then obtain r where "record_delivery_cmd hash now x d = Inr (r, d')" using assms by auto
  then show ?thesis by (rule audited_cases [OF record_delivery_cmd_audited]) (auto dest: record_delivery_fresh_kept)
next
  case (SubmitTicketProposal x)
  then obtain r where "submit_ticket_proposal_cmd hash x d = Inr (r, d')" using assms by auto
  then show ?thesis by (rule audited_kept [OF submit_ticket_proposal_cmd_audited]) (rule submit_ticket_proposal_transition_kept)
next
  case (SponsorTicketRevision x)
  then obtain r where "sponsor_ticket_revision_cmd hash now x d = Inr (r, d')" using assms by auto
  then show ?thesis by (rule audited_kept [OF sponsor_ticket_revision_cmd_audited]) (rule sponsor_ticket_revision_fresh_kept)
next
  case (ClaimSponsoredTicket x)
  then obtain r where "claim_sponsored_ticket_cmd hash now x d = Inr (r, d')" using assms by auto
  then show ?thesis by (rule audited_kept [OF claim_sponsored_ticket_cmd_audited]) (rule claim_sponsored_ticket_fresh_kept)
next
  case (FailTicketAttempt x)
  then obtain r where "fail_ticket_attempt_cmd hash now x d = Inr (r, d')" using assms by auto
  then show ?thesis by (rule audited_kept [OF fail_ticket_attempt_cmd_audited]) (rule fail_ticket_attempt_fresh_kept)
next
  case (RetryQualityAttempt x)
  then obtain r where "retry_quality_attempt_cmd hash now x d = Inr (r, d')" using assms by auto
  then show ?thesis
    by (rule audited_kept [OF retry_quality_attempt_cmd_audited]) (erule retry_quality_attempt_freshE, erule move_attempt_kept)
next
  case (RetryEngineeringAttempt x)
  then obtain r where "retry_engineering_attempt_cmd hash x d = Inr (r, d')" using assms by auto
  then show ?thesis
    by (rule audited_kept [OF retry_engineering_attempt_cmd_audited]) (erule retry_engineering_attempt_freshE, erule move_attempt_kept)
next
  case (ReleaseTicketAttempt x)
  then obtain r where "attempt_release_cmd hash now x d = Inr (r, d')" using assms by auto
  then show ?thesis by (rule audited_kept [OF attempt_release_cmd_audited]) (rule attempt_release_fresh_kept)
next
  case (CompleteCampaignAtTarget x)
  then obtain r where "complete_campaign_at_delivery_target_cmd hash x d = Inr (r, d')" using assms by auto
  then show ?thesis by (rule complete_campaign_cmd_cases) (auto dest: complete_campaign_fresh_kept)
qed

section \<open>Requests of the process authority\<close>

text \<open>What the kernel is given from outside: the hash, the conversion of a deadline, and what admission reads.\<close>

record factory_environment =
  fe_hash :: "byte list \<Rightarrow> content_digest"
  fe_timestamp :: "int \<Rightarrow> int"
  fe_admission :: admission_environment

datatype process_request =
    StartCampaign start_campaign
  | AdmitCancellation cancel_campaign
  | FinishCancellation cancel_campaign reconciled_session_cancellation
  | CancelCampaign cancel_campaign
  | FailCampaign fail_campaign
  | ReserveAssignment
  | CreateAssignment create_assignment
  | StartSession start_session
  | TerminalSession terminal_command
  | StartEffect ident ident effect_start_request
  | SettleEffect ident ident effect_settle_request

fun process_step :: "factory_environment \<Rightarrow> int \<Rightarrow> process_request \<Rightarrow> db \<Rightarrow> db option" where
  "process_step env now (StartCampaign c) d = committed_db (start_campaign_cmd (fe_hash env) (fe_timestamp env) now c d)"
| "process_step env now (AdmitCancellation c) d = committed_db (admit_campaign_cancellation (fe_hash env) c d)"
| "process_step env now (FinishCancellation c x) d = committed_db (finish_campaign_cancellation (fe_hash env) c x d)"
| "process_step env now (CancelCampaign c) d = committed_db (cancel_campaign_cmd (fe_hash env) c d)"
| "process_step env now (FailCampaign c) d = committed_db (fail_campaign_cmd (fe_hash env) c d)"
| "process_step env now ReserveAssignment d = committed_db (reserve_assignment_identity d)"
| "process_step env now (CreateAssignment c) d = committed_db (create_assignment_cmd (fe_hash env) (fe_admission env) now c d)"
| "process_step env now (StartSession c) d = committed_db (start_session_cmd (fe_hash env) now c d)"
| "process_step env now (TerminalSession c) d = committed_db (terminal_session_cmd (fe_hash env) now c d)"
| "process_step env now (StartEffect s a q) d = committed_db (provider_effect_start s a q d)"
| "process_step env now (SettleEffect s a q) d = committed_db (provider_effect_settle s a q d)"

fun request_allowed :: "process_request \<Rightarrow> db \<Rightarrow> bool" where
  "request_allowed (CreateAssignment c) d = identity_reserved c d"
| "request_allowed _ d = True"

lemma reserve_assignment_identity_ok:
  assumes "reserve_assignment_identity d = Inr (r, d')"
  shows "d' = d\<lparr>assignments := (assignments d)\<lparr>next_id := next_id (assignments d) + 1\<rparr>\<rparr>"
    and "r = next_id (assignments d)" "0 < r"
  using assms by (auto simp: reserve_assignment_identity_def identifier_new_def process_contract_def split: if_splits)

lemma reserve_assignment_identity_keeps:
  assumes "reserve_assignment_identity d = Inr (r, d')" "process_inv d"
  shows "process_inv d' \<and> authority_frame d d'"
proof -
  have "get_row (assignments d') = get_row (assignments d)"
    using reserve_assignment_identity_ok(1) [OF assms(1)] by (simp add: get_row_def fun_eq_iff)
  moreover have "table_ok (assignments d')"
    using reserve_assignment_identity_ok(1) [OF assms(1)] process_inv_tables(2) [OF assms(2)] by (auto simp: table_ok_def)
  ultimately show ?thesis using assms(2) reserve_assignment_identity_ok(1) [OF assms(1)]
    by (simp add: process_inv_def process_tables_def process_keys_def process_rows_def session_ok_def
        assignment_ok_def effect_ok_def spent_def authority_frame_def audit_extends_def audit_lookup_def)
qed

lemma process_step_keeps:
  assumes "process_step env now q d = Some d'" "request_allowed q d" "process_inv d"
  shows "process_inv d' \<and> authority_frame d d'"
proof (cases q)
  case (StartCampaign c)
  then show ?thesis using assms start_campaign.keeps start_campaign.frame by (fastforce simp: anything_def)
next
  case (AdmitCancellation c)
  then show ?thesis using assms admit_cancellation.keeps admit_cancellation.frame by (fastforce simp: anything_def)
next
  case (FinishCancellation c x)
  then obtain r where "finish_campaign_cancellation (fe_hash env) c x d = Inr (r, d')" using assms(1) by auto
  then show ?thesis
    using finish_cancellation.keeps [where c = "(c, x)"] finish_cancellation.frame [where c = "(c, x)"] assms(3)
    by (fastforce simp: anything_def)
next
  case (CancelCampaign c)
  then show ?thesis using assms cancel_campaign.keeps cancel_campaign.frame by (fastforce simp: anything_def)
next
  case (FailCampaign c)
  then show ?thesis using assms fail_campaign.keeps fail_campaign.frame by (fastforce simp: anything_def)
next
  case ReserveAssignment
  then show ?thesis using assms reserve_assignment_identity_keeps by auto
next
  case (CreateAssignment c)
  then show ?thesis using assms create_assignment.keeps create_assignment.frame by fastforce
next
  case (StartSession c)
  then show ?thesis using assms start_session.keeps start_session.frame by (fastforce simp: anything_def)
next
  case (TerminalSession c)
  then show ?thesis using assms terminal_session.keeps terminal_session.frame by (fastforce simp: anything_def)
next
  case (StartEffect s a e)
  then obtain r where "provider_effect_start s a e d = Inr (r, d')" using assms(1) by auto
  then show ?thesis using provider_effect_start_keeps effect_start_frame assms(3) by blast
next
  case (SettleEffect s a e)
  then obtain r where "provider_effect_settle s a e d = Inr (r, d')" using assms(1) by auto
  then show ?thesis using provider_effect_settle_keeps effect_settle_frame assms(3) by blast
qed

section \<open>The transition system\<close>

inductive factory_step :: "factory_environment \<Rightarrow> kernel_state \<Rightarrow> kernel_state \<Rightarrow> bool" for env where
  command: "clock s \<le> now \<Longrightarrow> command_step (fe_hash env) now c (store s) = Some d' \<Longrightarrow>
     factory_step env s \<lparr>clock = now, store = d'\<rparr>"
| request: "clock s \<le> now \<Longrightarrow> request_allowed q (store s) \<Longrightarrow> process_step env now q (store s) = Some d' \<Longrightarrow>
     factory_step env s \<lparr>clock = now, store = d'\<rparr>"
| elsewhere: "clock s \<le> now \<Longrightarrow> protocol_same (store s) d' \<Longrightarrow> process_same (store s) d' \<Longrightarrow> tables_ok d' \<Longrightarrow>
     keeps_rows (audit_log (store s)) (audit_log d') \<Longrightarrow> audit_extends (store s) d' \<Longrightarrow>
     factory_step env s \<lparr>clock = now, store = d'\<rparr>"

inductive_cases factory_stepE: "factory_step env s s'"

inductive factory_run :: "factory_environment \<Rightarrow> kernel_state \<Rightarrow> kernel_state \<Rightarrow> bool" for env where
  stop: "factory_run env s s"
| go: "factory_run env s s' \<Longrightarrow> factory_step env s' s'' \<Longrightarrow> factory_run env s s''"

definition factory_reachable :: "factory_environment \<Rightarrow> kernel_state \<Rightarrow> bool" where
  "factory_reachable env s \<longleftrightarrow> (\<exists>t. factory_run env \<lparr>clock = t, store = empty_db\<rparr> s)"

definition factory_inv :: "kernel_state \<Rightarrow> bool" where
  "factory_inv s \<longleftrightarrow> kernel_inv s \<and> process_inv (store s)"

text \<open>A request of the process authority is a step of the other stores of the kernel.\<close>

lemma request_is_other_store:
  assumes "process_step env now q d = Some d'" "request_allowed q d" "process_inv d" "tables_ok d"
  shows "protocol_same d d'" "tables_ok d'" "keeps_rows (audit_log d) (audit_log d')" "audit_extends d d'"
proof -
  have inv: "process_inv d'" and f: "authority_frame d d'" using process_step_keeps [OF assms(1-3)] by blast+
  show "protocol_same d d'" "audit_extends d d'"
    using f by (simp_all add: authority_frame_def protocol_same_def evidence_same_def tickets_same_def)
  have log: "table_ok (audit_log d)" using assms(4) by (simp add: tables_ok_def)
  show "keeps_rows (audit_log d) (audit_log d')"
    using f tbl.get_ins_old [OF log] by (auto simp: authority_frame_def keeps_rows_def)
  have "table_ok (audit_log d')" using f tbl.wf_ins log by (auto simp: authority_frame_def)
  then show "tables_ok d'"
    using f process_inv_tables [OF inv] assms(4) by (simp add: authority_frame_def tables_ok_def)
qed

lemma factory_step_refines:
  assumes "factory_step env s s'" "factory_inv s"
  shows "kernel_step (fe_hash env) s s' \<and> factory_inv s'"
  using assms(1)
proof (rule factory_stepE)
  have inv: "kernel_inv s" "process_inv (store s)" "tables_ok (store s)"
    using assms(2) by (simp_all add: factory_inv_def kernel_inv_def evidence_inv_tables)
  show ?thesis if s': "s' = \<lparr>clock = now, store = d'\<rparr>" "clock s \<le> now"
      and run: "command_step (fe_hash env) now c (store s) = Some d'" for now c d'
  proof -
    have "kernel_step (fe_hash env) s s'" unfolding s'(1) using s'(2) run by (rule kernel_step.command)
    moreover have "process_inv d'"
      using command_step_process [OF run] process_kept_inv process_closes_inv inv(2) by blast
    ultimately show ?thesis using kernel_step_inv inv(1) s'(1) by (auto simp: factory_inv_def)
  qed
  show ?thesis if s': "s' = \<lparr>clock = now, store = d'\<rparr>" "clock s \<le> now"
      and run: "request_allowed q (store s)" "process_step env now q (store s) = Some d'" for now q d'
  proof -
    note other = request_is_other_store [OF run(2,1) inv(2,3)]
    have "kernel_step (fe_hash env) s s'" unfolding s'(1) using s'(2) other by (rule kernel_step.other_store)
    then show ?thesis using kernel_step_inv inv(1) s'(1) process_step_keeps [OF run(2,1) inv(2)] by (auto simp: factory_inv_def)
  qed
  show ?thesis if s': "s' = \<lparr>clock = now, store = d'\<rparr>" "clock s \<le> now"
      and other: "protocol_same (store s) d'" "process_same (store s) d'" "tables_ok d'"
        "keeps_rows (audit_log (store s)) (audit_log d')" "audit_extends (store s) d'" for now d'
  proof -
    have "kernel_step (fe_hash env) s s'"
      unfolding s'(1) using s'(2) other(1,3-5) by (rule kernel_step.other_store)
    moreover have "process_inv d'"
      using process_same_inv [OF other(2) _ inv(2)] other(3) by (simp add: tables_ok_def)
    ultimately show ?thesis using kernel_step_inv inv(1) s'(1) by (auto simp: factory_inv_def)
  qed
qed

lemma factory_run_refines:
  "factory_run env s s' \<Longrightarrow> factory_inv s \<Longrightarrow> kernel_run (fe_hash env) s s' \<and> factory_inv s'"
  by (induction rule: factory_run.induct) (auto dest: factory_step_refines intro: kernel_run.intros)

lemma process_inv_empty: "process_inv empty_db"
  by (simp add: process_inv_def process_tables_def process_keys_def process_rows_def unique_key_def empty_db_def)

lemma factory_inv_empty: "factory_inv \<lparr>clock = t, store = empty_db\<rparr>"
  by (simp add: factory_inv_def kernel_inv_empty process_inv_empty)

lemma factory_reachable_inv:
  assumes "factory_reachable env s"
  shows "reachable (fe_hash env) s" "process_inv (store s)" "tables_ok (store s)"
proof -
  have "reachable (fe_hash env) s \<and> factory_inv s"
    using assms factory_run_refines factory_inv_empty unfolding factory_reachable_def reachable_def by blast
  then show "reachable (fe_hash env) s" "process_inv (store s)" "tables_ok (store s)"
    by (simp_all add: factory_inv_def kernel_inv_def evidence_inv_tables)
qed

lemma factory_run_trans: "factory_run env b c \<Longrightarrow> factory_run env a b \<Longrightarrow> factory_run env a c"
  by (induction rule: factory_run.induct) (auto intro: factory_run.go)

lemma factory_reachable_run: "factory_reachable env s \<Longrightarrow> factory_run env s s' \<Longrightarrow> factory_reachable env s'"
  using factory_run_trans unfolding factory_reachable_def by blast

end
