(* ===== verification/Factory_History.thy ===== *)
theory Factory_History
  imports Factory_Run
begin

text \<open>
  What a run of the factory never takes back of the tables of the process authority: settled sessions and
  effects stay as they are, costs only grow, a frozen cost stays frozen, and what an assignment was
  admitted for stays.
\<close>

section \<open>Rows that evolve\<close>

definition rows_evolve :: "('r \<Rightarrow> 'r \<Rightarrow> bool) \<Rightarrow> 'r table \<Rightarrow> 'r table \<Rightarrow> bool" where
  "rows_evolve R t t' \<longleftrightarrow> (\<forall>i x. get_row t i = Some x \<longrightarrow> (\<exists>y. get_row t' i = Some y \<and> R x y))"

locale evolution =
  fixes R :: "'r \<Rightarrow> 'r \<Rightarrow> bool"
  assumes reflexive: "R x x"
    and transitive: "R x y \<Longrightarrow> R y z \<Longrightarrow> R x z"
begin

lemma same: "rows_evolve R t t"
  by (simp add: rows_evolve_def reflexive)

lemma next_same: "rows_evolve R t (t\<lparr>next_id := n\<rparr>)"
  by (simp add: rows_evolve_def get_row_def reflexive)

lemma trans: "rows_evolve R a b \<Longrightarrow> rows_evolve R b c \<Longrightarrow> rows_evolve R a c"
  unfolding rows_evolve_def using transitive by blast

lemma insert: "table_ok t \<Longrightarrow> rows_evolve R t (insert_row x t)"
  by (auto simp: rows_evolve_def intro: tbl.get_ins_old reflexive)

lemma insert_at: "rows_evolve R t (insert_at i x t)"
  by (auto simp: rows_evolve_def get_insert_at reflexive)

lemma update: "(\<And>x. get_row t i = Some x \<Longrightarrow> R x (f x)) \<Longrightarrow> rows_evolve R t (update_row i f t)"
  by (auto simp: rows_evolve_def tbl.get_upd reflexive)

end

definition session_evolves :: "session_row \<Rightarrow> session_row \<Rightarrow> bool" where
  "session_evolves s s' \<longleftrightarrow> (se_lifecycle s \<noteq> SESSION_RUNNING \<longrightarrow> s' = s)
     \<and> s' = s\<lparr>se_lifecycle := se_lifecycle s', se_terminal := se_terminal s', se_revision := se_revision s'\<rparr>"

definition effect_evolves :: "provider_effect_row \<Rightarrow> provider_effect_row \<Rightarrow> bool" where
  "effect_evolves e e' \<longleftrightarrow> (pe_state e \<noteq> 0 \<longrightarrow> e' = e) \<and> e' = e\<lparr>pe_state := pe_state e', pe_settlement := pe_settlement e'\<rparr>"

definition assignment_evolves :: "assignment_row \<Rightarrow> assignment_row \<Rightarrow> bool" where
  "assignment_evolves a a' \<longleftrightarrow> a' = a\<lparr>as_lifecycle := as_lifecycle a', as_revision := as_revision a'\<rparr>
     \<and> as_lifecycle a \<le> as_lifecycle a'"

definition campaign_evolves :: "campaign_row \<Rightarrow> campaign_row \<Rightarrow> bool" where
  "campaign_evolves g g' \<longleftrightarrow>
     g' = g\<lparr>ca_lifecycle := ca_lifecycle g', ca_revision := ca_revision g',
            ca_measured_cost_micro_usd := ca_measured_cost_micro_usd g', ca_cost_state := ca_cost_state g',
            ca_failure_reason := ca_failure_reason g'\<rparr>
     \<and> ca_measured_cost_micro_usd g \<le> ca_measured_cost_micro_usd g' \<and> ca_cost_state g \<le> ca_cost_state g'
     \<and> (ca_lifecycle g \<noteq> CAMPAIGN_RUNNING \<longrightarrow> ca_lifecycle g' = ca_lifecycle g \<or> ca_lifecycle g' = CAMPAIGN_FAILED)"

lemma campaign_evolvesD:
  assumes "campaign_evolves g g'"
  shows "ca_aggregate_budget_micro_usd g' = ca_aggregate_budget_micro_usd g" "ca_deadline g' = ca_deadline g"
    "ca_delivery_target g' = ca_delivery_target g" "ca_measured_cost_micro_usd g \<le> ca_measured_cost_micro_usd g'"
    "ca_cost_state g \<le> ca_cost_state g'" "ca_lifecycle g \<noteq> CAMPAIGN_RUNNING \<Longrightarrow> ca_lifecycle g' \<noteq> CAMPAIGN_RUNNING"
  using assms unfolding campaign_evolves_def by (cases g; cases g'; auto)+

interpretation sessions: evolution session_evolves
proof
  show "session_evolves x y \<Longrightarrow> session_evolves y z \<Longrightarrow> session_evolves x z" for x y z
    unfolding session_evolves_def by (cases x; cases y; cases z) auto
qed (simp add: session_evolves_def)

interpretation effects: evolution effect_evolves
proof
  show "effect_evolves x y \<Longrightarrow> effect_evolves y z \<Longrightarrow> effect_evolves x z" for x y z
    unfolding effect_evolves_def by (cases x; cases y; cases z) auto
qed (simp add: effect_evolves_def)

interpretation assignments: evolution assignment_evolves
proof
  show "assignment_evolves x y \<Longrightarrow> assignment_evolves y z \<Longrightarrow> assignment_evolves x z" for x y z
    unfolding assignment_evolves_def by (cases x; cases y; cases z) auto
qed (simp add: assignment_evolves_def)

interpretation campaigns: evolution campaign_evolves
proof
  show "campaign_evolves x y \<Longrightarrow> campaign_evolves y z \<Longrightarrow> campaign_evolves x z" for x y z
    unfolding campaign_evolves_def by (cases x; cases y; cases z) auto
qed (simp add: campaign_evolves_def)

definition process_grows :: "db \<Rightarrow> db \<Rightarrow> bool" where
  "process_grows d d' \<longleftrightarrow> rows_evolve campaign_evolves (campaigns d) (campaigns d')
     \<and> rows_evolve assignment_evolves (assignments d) (assignments d')
     \<and> rows_evolve session_evolves (sessions d) (sessions d')
     \<and> rows_evolve effect_evolves (provider_effects d) (provider_effects d')"

lemmas grows_same = campaigns.same assignments.same sessions.same effects.same

lemma process_grows_same: "process_same d d' \<Longrightarrow> process_grows d d'"
  by (simp add: process_same_def process_grows_def grows_same)

lemma process_grows_refl [simp]: "process_grows d d"
  by (simp add: process_grows_same)

lemma process_grows_trans: "process_grows a b \<Longrightarrow> process_grows b c \<Longrightarrow> process_grows a c"
  using campaigns.trans assignments.trans sessions.trans effects.trans unfolding process_grows_def by blast

lemma process_audit_grows:
  "process_insert_audit d1 p c op fp k s r = Inr (i, d') \<Longrightarrow> process_grows d d1 \<Longrightarrow> process_grows d d'"
  by (drule process_audit(1)) (auto simp: process_grows_def)

section \<open>Commands of the other authorities\<close>

lemma process_closes_grows: "process_closes d d' \<Longrightarrow> process_grows d d'"
  unfolding process_closes_def process_grows_def
  by (auto simp: grows_same intro!: campaigns.update simp: campaign_evolves_def)

lemma command_step_grows: "command_step hash now c d = Some d' \<Longrightarrow> process_grows d d'"
  using command_step_process process_closes_grows process_grows_same unfolding process_kept_def by blast

section \<open>Requests of the process authority\<close>

lemma start_campaign_fresh_grows:
  assumes "start_campaign_fresh timestamp fp now c d = Inr (r, d')" "process_inv d"
  shows "process_grows d d'"
  using assms(1)
  by (rule start_campaign_fresh_cases)
    (erule process_audit_grows, simp add: process_grows_def grows_same campaigns.insert process_inv_tables [OF assms(2)])

lemma closes_campaign_grows:
  assumes "closes_campaign p q op fp i l reason nxt r d d'"
    and "get_row (campaigns d) i = Some g" "ca_lifecycle g = CAMPAIGN_RUNNING"
  shows "process_grows d d'"
proof -
  obtain v k where 1: "process_insert_audit (d\<lparr>campaigns := update_row i v (campaigns d)\<rparr>) p q op fp CAMPAIGN_SUBJECT i nxt = Inr (k, d')"
    "\<And>g. v g = g\<lparr>ca_lifecycle := l, ca_failure_reason := (if l = CAMPAIGN_FAILED then reason else ca_failure_reason g),
              ca_revision := uint nxt\<rparr>"
    using assms(1) unfolding closes_campaign_def by blast
  have "rows_evolve campaign_evolves (campaigns d) (update_row i v (campaigns d))"
    by (rule campaigns.update) (use assms(2,3) 1(2) in \<open>simp add: campaign_evolves_def\<close>)
  then show ?thesis by (intro process_audit_grows [OF 1(1)]) (simp add: process_grows_def grows_same)
qed

lemma cancel_campaign_grows:
  assumes "cancel_campaign_in_transaction fp c current d = Inr (r, d')"
    "get_row (campaigns d) (cc_campaign_id c) = Some g" "ca_lifecycle g = CAMPAIGN_RUNNING"
  shows "process_grows d d'"
  using cancel_campaign_closes [OF assms(1)] closes_campaign_grows [OF _ assms(2,3)] by blast

lemma admit_cancellation_fresh_grows: "admit_cancellation_fresh fp c d = Inr (r, d') \<Longrightarrow> process_grows d d'"
  by (erule admit_cancellation_fresh_cases) (auto dest: cancel_campaign_grows)

lemma finish_cancellation_fresh_grows: "finish_cancellation_fresh fp c x d = Inr (r, d') \<Longrightarrow> process_grows d d'"
  by (erule finish_cancellation_fresh_cases) (auto dest: cancel_campaign_grows)

lemma fail_campaign_fresh_grows: "fail_campaign_fresh fp c d = Inr (r, d') \<Longrightarrow> process_grows d d'"
  using fail_campaign_fresh_closes closes_campaign_grows by blast

lemma create_assignment_fresh_grows:
  assumes "create_assignment_fresh hash env fp now w c d = Inr (r, d')"
  shows "process_grows d d'"
  using assms
  by (rule create_assignment_fresh_cases)
    (erule process_audit_grows, simp add: process_grows_def grows_same assignments.insert_at campaigns.update campaign_evolves_def)

lemma start_session_fresh_grows:
  assumes "start_session_fresh fp now c d = Inr (r, d')" "process_inv d"
  shows "process_grows d d'"
  using assms(1)
proof (rule start_session_fresh_cases)
  fix a g nxt s k
  let ?d1 = "d\<lparr>sessions := insert_row s (sessions d),
        assignments := update_row (ss_assignment_id c)
             (\<lambda>a. a\<lparr>as_lifecycle := SESSION_RUNNING, as_revision := uint nxt\<rparr>) (assignments d)\<rparr>"
  assume "get_row (assignments d) (ss_assignment_id c) = Some a" "as_lifecycle a = ASSIGNMENT_PREPARED"
    and audit: "process_insert_audit ?d1 (ss_principal c) (ss_command_id c) SESSION_START fp SESSION_SUBJECT (next_id (sessions d)) revision_initial = Inr (k, d')"
  then have "rows_evolve assignment_evolves (assignments d) (assignments ?d1)"
    by (auto simp: assignment_evolves_def intro!: assignments.update)
  then show ?thesis
    by (intro process_audit_grows [OF audit])
      (simp add: process_grows_def grows_same sessions.insert process_inv_tables [OF assms(2)])
qed

text \<open>A settlement: the session leaves \<open>Running\<close>, the assignment follows it, and the cost grows.\<close>

lemma settled_campaign_evolves:
  assumes "settled g state v tot life" "campaign_cost_ok g" "ca_cost_state g = COST_KNOWN"
  shows "campaign_evolves g (g\<lparr>ca_measured_cost_micro_usd := uint tot, ca_cost_state := max state (ca_cost_state g),
      ca_lifecycle := life, ca_failure_reason := reason, ca_revision := r\<rparr>)"
proof -
  have "0 \<le> (case v of None \<Rightarrow> 0 | Some x \<Rightarrow> uint x)" by (cases v) simp_all
  then show ?thesis using assms by (auto simp: settled_def campaign_evolves_def)
qed

lemma terminal_session_fresh_grows:
  assumes "terminal_session_fresh fp now c d = Inr (r, d')" "process_inv d"
  shows "process_grows d d'"
  using assms(1)
proof (rule terminal_session_fresh_cases)
  fix s :: session_row and a :: assignment_row and g :: campaign_row and state v life and m :: session_terminal_columns and k and nxt cnxt tot :: "64 word"
  let ?l = "session_state_code (session_state_of (tr_stop_reason (tc_report c)))"
  let ?g = "\<lambda>g. g\<lparr>ca_measured_cost_micro_usd := uint tot, ca_cost_state := max state (ca_cost_state g), ca_lifecycle := life,
               ca_failure_reason := campaign_failure_reason life state, ca_revision := uint cnxt\<rparr>"
  let ?a = "\<lambda>a. if as_lifecycle a = SESSION_RUNNING
               then a\<lparr>as_lifecycle := assignment_state_code (session_state_of (tr_stop_reason (tc_report c))),
                 as_revision := as_revision a + 1\<rparr> else a"
  let ?s = "\<lambda>s. s\<lparr>se_lifecycle := ?l, se_terminal := Some m, se_revision := uint nxt\<rparr>"
  let ?d1 = "d\<lparr>sessions := update_row (tc_session_id c) ?s (sessions d),
           assignments := update_row (se_assignment_id s) ?a (assignments d),
           campaigns := update_row (se_campaign_id s) ?g (campaigns d)\<rparr>"
  assume audit: "process_insert_audit ?d1 (tc_principal c) (tc_command_id c) SESSION_TERMINAL fp SESSION_SUBJECT (tc_session_id c) nxt = Inr (k, d')"
    and s: "get_row (sessions d) (tc_session_id c) = Some s" "se_lifecycle s = SESSION_RUNNING"
    and g: "get_row (campaigns d) (se_campaign_id s) = Some g"
    and cost: "settle_cost (tr_stop_reason (tc_report c)) (evidence_cost (tc_evidence c)) g (word_of_int (ca_aggregate_budget_micro_usd g))
      (word_of_int (ca_measured_cost_micro_usd g)) = Inr (state, v, tot, life)"
  have known: "ca_cost_state g = COST_KNOWN"
    using process_invD(3) [OF assms(2) s(1)] s(2) g by (auto simp: session_ok_def session_funded_def)
  have ok: "campaign_cost_ok g" by (rule process_invD(5) [OF assms(2) g])
  have "rows_evolve campaign_evolves (campaigns d) (campaigns ?d1)"
    using g settled_campaign_evolves [OF settle_cost_settled [OF cost ok known] ok known] by (auto intro!: campaigns.update)
  moreover have "rows_evolve assignment_evolves (assignments d) (assignments ?d1)"
    using session_codes(1) [of "tr_stop_reason (tc_report c)"] by (auto simp: assignment_evolves_def session_codes(3) intro!: assignments.update)
  moreover have "rows_evolve session_evolves (sessions d) (sessions ?d1)"
    using s by (auto simp: session_evolves_def intro!: sessions.update)
  ultimately show ?thesis
    by (intro process_audit_grows [OF audit]) (simp add: process_grows_def grows_same)
qed

lemma provider_effect_start_grows:
  assumes "provider_effect_start session_id assignment_id q d = Inr (r, d')" "process_inv d"
  shows "process_grows d d'"
  using assms(1) by (rule provider_effect_start_cases)
    (simp_all add: process_grows_def grows_same effects.insert process_inv_tables [OF assms(2)])

lemma provider_effect_settle_grows:
  assumes "provider_effect_settle session_id assignment_id q d = Inr (r, d')" "process_inv d"
  shows "process_grows d d'"
  using assms(1)
proof (cases rule: provider_effect_settle_cases)
  case (settles i e s settlement)
  have "get_row (provider_effects d) i = Some e"
    using find_row_Some [OF settles(2) [unfolded find_effect_def] process_inv_tables(4) [OF assms(2)]] by blast
  then have "rows_evolve effect_evolves (provider_effects d) (provider_effects d')"
    unfolding settles(1) using settles(6) by (auto simp: effect_evolves_def intro!: effects.update)
  then show ?thesis by (simp add: settles(1) process_grows_def grows_same)
qed simp

lemma process_step_grows:
  assumes "process_step env now q d = Some d'" "process_inv d"
  shows "process_grows d d'"
proof (cases q)
  case (StartCampaign c)
  then show ?thesis using assms
    by (auto simp: start_campaign_cmd_def Let_def dest!: audited_process_cases dest: start_campaign_fresh_grows)
next
  case (AdmitCancellation c)
  then show ?thesis using assms
    by (auto simp: admit_campaign_cancellation_def Let_def dest!: audited_process_cases dest: admit_cancellation_fresh_grows)
next
  case (FinishCancellation c x)
  then show ?thesis using assms
    by (auto simp: finish_campaign_cancellation_def Let_def dest!: audited_process_cases dest: finish_cancellation_fresh_grows)
next
  case (CancelCampaign c)
  then obtain x where "admit_campaign_cancellation (fe_hash env) c d = Inr (x, d')"
    using assms(1) unfolding cancel_campaign_cmd_def
    by (clarsimp simp: cancel_campaign_cmd_def split: campaign_cancellation_admission.splits) (metis campaign_cancellation_admission.exhaust)
  then show ?thesis
    by (auto simp: admit_campaign_cancellation_def Let_def dest!: audited_process_cases dest: admit_cancellation_fresh_grows)
next
  case (FailCampaign c)
  then show ?thesis using assms
    by (auto simp: fail_campaign_cmd_def Let_def dest!: audited_process_cases dest: fail_campaign_fresh_grows)
next
  case ReserveAssignment
  then obtain r where "reserve_assignment_identity d = Inr (r, d')" using assms(1) by auto
  from reserve_assignment_identity_ok(1) [OF this] show ?thesis
    by (simp add: process_grows_def grows_same assignments.next_same)
next
  case (CreateAssignment c)
  then obtain r where "create_assignment_cmd (fe_hash env) (fe_admission env) now c d = Inr (r, d')" using assms(1) by auto
  then show ?thesis
    by (rule create_assignment_cmd_cases)
      (auto dest: create_assignment_replay_keeps(1) create_assignment_fresh_grows intro: process_grows_same)
next
  case (StartSession c)
  then show ?thesis using assms
    by (auto simp: start_session_cmd_def Let_def dest!: audited_process_cases dest: start_session_fresh_grows)
next
  case (TerminalSession c)
  then show ?thesis using assms
    by (auto simp: terminal_session_cmd_def Let_def dest!: audited_process_cases dest: terminal_session_fresh_grows)
next
  case (StartEffect s a e)
  then show ?thesis using assms by (auto dest: provider_effect_start_grows)
next
  case (SettleEffect s a e)
  then show ?thesis using assms by (auto dest: provider_effect_settle_grows)
qed

section \<open>Runs\<close>

lemma factory_step_grows:
  assumes "factory_step env s s'" "factory_inv s"
  shows "process_grows (store s) (store s') \<and> clock s \<le> clock s'"
  using assms(1)
  by (rule factory_stepE)
    (use assms(2) in \<open>auto simp: factory_inv_def dest: command_step_grows process_step_grows process_grows_same\<close>)

lemma factory_run_grows:
  assumes "factory_run env s s'" "factory_reachable env s"
  shows "process_grows (store s) (store s') \<and> clock s \<le> clock s'"
  using assms
proof (induction rule: factory_run.induct)
  case (go s s' s'')
  have "factory_reachable env s'" using go.prems go.hyps(1) by (rule factory_reachable_run)
  then have "factory_inv s'"
    using factory_run_refines factory_inv_empty unfolding factory_reachable_def by blast
  from factory_step_grows [OF go.hyps(2) this] show ?case using go.IH [OF go.prems] process_grows_trans by force
qed simp

end
