(* ===== verification/Factory_Pilot.thy ===== *)
theory Factory_Pilot
  imports Factory_History Pilot
begin

text \<open>
  One factory run from the start of a campaign to a delivery, evaluated: a Product, an Engineering and a
  Quality assignment are admitted, run and settled, with one provider effect, around the commands of the
  pilot.  The hash is one that tells single bytes apart, an artifact is one byte, and the JSON library
  knows the three packets.
\<close>

section \<open>Environment\<close>

definition factory_hash :: "byte list \<Rightarrow> content_digest" where
  "factory_hash bs = replicate 32 (case bs of [b] \<Rightarrow> b | _ \<Rightarrow> 0)"

text \<open>The packets of the three assignments: role, attempt, candidate and terminal operation.\<close>

definition mission_role :: "int \<Rightarrow> assignment_role" where
  "mission_role i = (if i = 1 then ProductResearch else if i = 2 then Engineering else Quality)"

definition mission_operation :: "int \<Rightarrow> terminal_operation" where
  "mission_operation i = (if i = 1 then OpWorkComplete else if i = 2 then OpCandidateSubmit else OpQualitySubmitReview)"

definition mission_allowance :: "int \<Rightarrow> 64 word" where
  "mission_allowance i = (if i = 1 then 100 else if i = 2 then 97 else 93)"

definition mission_digest :: "int \<Rightarrow> content_digest" where
  "mission_digest i = pilot_digest (50 + i)"

definition mission_packet :: "int \<Rightarrow> assignment_packet" where
  "mission_packet i =
     \<lparr>format_version = 2, pk_campaign_id = 1, pk_assignment_id = i, pk_kernel_build_id = pilot_digest 9,
      pk_application_revision_id = 1, assignment_role = mission_role i, target = ''t'',
      pk_ticket_attempt_id = (if i = 1 then None else Some 1), pk_candidate_id = (if i = 3 then Some 1 else None),
      system_prompt_artifact_id = 21, assignment_prompt_artifact_id = 22, required_read_manifest_artifact_id = 4,
      policy_digest = pilot_digest 65, policy_byte_limit = 10, policy_bytes = [65],
      policy_entrypoint = FactoryPolicy, workspace_root = ''/w'', staging_root = ''/s'',
      model = sample_model, limits = \<lparr>wall_limit = 1, output_byte_limit = 1\<rparr>, runtime = sample_runtime,
      required_reads = [\<lparr>rx_path = ''README'', rx_digest = pilot_digest 1, rx_reason = ''why''\<rparr>],
      assignment_evidence = (if i = 1 then [] else [\<lparr>ev_role = TicketProposal, ev_artifact_id = 1,
        ev_digest = pilot_digest 1, ev_byte_length = 1\<rparr>]),
      terminal_operations = [mission_operation i], remaining_campaign_allowance = mission_allowance i, pk_revision = 0,
      packet_digest = mission_digest i\<rparr>"

definition mission_wire :: "int \<Rightarrow> packet_wire" where
  "mission_wire i =
     \<lparr>w_format_version = 2, w_campaign_id = 1, w_assignment_id = i, w_application_revision_id = 1,
      w_kernel_build_id = digest_hex (pilot_digest 9), w_assignment_role = role_name (mission_role i), w_target = ''t'',
      w_repository_base_identity = digest_hex (pilot_digest 1), w_factory_base_identity = digest_hex (pilot_digest 1),
      w_ticket_attempt_id = (if i = 1 then None else Some 1), w_candidate_id = (if i = 3 then Some 1 else None),
      w_system_prompt_artifact_id = 21, w_assignment_prompt_artifact_id = 22, w_required_read_manifest_artifact_id = 4,
      w_system_prompt_digest = digest_hex (pilot_digest 21), w_assignment_prompt_digest = digest_hex (pilot_digest 22),
      w_system_prompt_bytes_b64 = ''FQ=='', w_assignment_prompt_bytes_b64 = ''Fg=='',
      w_policy_digest = digest_hex (pilot_digest 65), w_policy_byte_limit = 10, w_policy_bytes_b64 = ''QQ=='',
      w_policy_entrypoint = ''factory_policy'', w_workspace_root = ''/w'', w_staging_root = ''/s'',
      w_model = \<lparr>mw_provider = ''p'', mw_model_id = ''m'', mw_thinking_level = ''low'', mw_context_token_limit = 1,
        mw_output_token_limit = 1, mw_price_input = 0, mw_price_output = 0, mw_price_cache_read = 0,
        mw_price_cache_write = 0, mw_capability_flags = []\<rparr>,
      w_limits = \<lparr>lw_wall_limit_millis = 1, lw_output_byte_limit = 1\<rparr>,
      w_runtime = \<lparr>rw_host_executable = ''/bin/host'', rw_core_head = replicate 40 (CHR ''a''),
        rw_core_source_digest = digest_hex (replicate 32 0), rw_rust_toolchain = ''nightly'', rw_credential_env = ''KEY''\<rparr>,
      w_required_reads = [\<lparr>dw_path = ''README'', dw_digest = digest_hex (pilot_digest 1), dw_reason = ''why''\<rparr>],
      w_assignment_evidence = (if i = 1 then [] else [\<lparr>ew_role = wire_name TicketProposal, ew_artifact_id = 1,
        ew_digest = digest_hex (pilot_digest 1), ew_byte_length = 1\<rparr>]),
      w_tools = [''work_complete''], w_terminal_operations = [terminal_operation_name (mission_operation i)],
      w_remaining_campaign_allowance = mission_allowance i, w_aggregate_revision = 0,
      w_packet_digest = digest_hex (mission_digest i)\<rparr>"

text \<open>The canonical JSON of packet \<open>i\<close> is the byte \<open>10 + i\<close>, and \<open>50 + i\<close> without its digest.\<close>

definition mission_bytes :: "int \<Rightarrow> byte list" where
  "mission_bytes i = [word_of_int (10 + i)]"

definition factory_json :: json_library where
  "factory_json =
     \<lparr>decode_json = (\<lambda>bs. if bs = [11] then Inr (mission_wire 1) else if bs = [12] then Inr (mission_wire 2)
        else if bs = [13] then Inr (mission_wire 3) else Inl ''EOF''),
      print_json = (\<lambda>w. [word_of_int ((if w_packet_digest w = [] then 50 else 10) + w_assignment_id w)])\<rparr>"

definition factory_env :: factory_environment where
  "factory_env = \<lparr>fe_hash = factory_hash, fe_timestamp = (\<lambda>t. t),
     fe_admission = \<lparr>en_cas = (\<lambda>k. case k of [] \<Rightarrow> None | b # _ \<Rightarrow> Some [b]), en_json = factory_json,
       en_scoped = (\<lambda>_ _. False)\<rparr>\<rparr>"

definition factory_seed :: db where
  "factory_seed = empty_db\<lparr>
     artifacts := \<lparr>rows = map (\<lambda>i. (i, \<lparr>ar_digest = pilot_digest i, ar_byte_length = 1\<rparr>)) [1, 2, 3, 4, 5, 11, 12, 13, 21, 22],
       next_id = 23\<rparr>,
     kernel_builds := \<lparr>rows = [(1, \<lparr>kb_build_digest = pilot_digest 9, kb_is_current = True\<rparr>)], next_id = 2\<rparr>,
     application_revisions := \<lparr>rows = [(1, \<lparr>ap_application_key = ''xsh'', ap_aggregate_revision = 0,
       ap_ticket_low_water = 1, ap_ticket_target = 2, ap_ticket_maximum = Some 3, ap_proposal_maximum = 2,
       ap_repository_id = 1, ap_is_active = True\<rparr>)], next_id = 2\<rparr>,
     offices := \<lparr>rows = map (\<lambda>r. (r + 1, \<lparr>of_application_revision_id = 1, of_assignment_role = Some r, of_lifecycle = 1\<rparr>)) [0, 1, 2],
       next_id = 4\<rparr>\<rparr>"

section \<open>Requests\<close>

definition mission_start_campaign :: start_campaign where
  "mission_start_campaign = \<lparr>cs_principal = ''operator'', cs_command_id = ''g1'', cs_expected_application_revision = 0,
     cs_application_revision_id = 1, cs_aggregate_budget = 100, cs_deadline_unix_millis = 1000, cs_delivery_target = 1\<rparr>"

definition mission_create :: "int \<Rightarrow> aggregate_revision \<Rightarrow> create_assignment" where
  "mission_create i revision = \<lparr>na_principal = ''kernel'', na_command_id = ''a'' @ decimal_of_int i,
     na_expected_campaign_revision = revision, na_identity = i, na_packet = mission_packet i,
     na_packet_bytes = mission_bytes i,
     na_packet_artifact = \<lparr>cas_digest = pilot_digest (10 + i), cas_byte_length = 1\<rparr>,
     na_required_read_manifest_artifact_id = 4, na_attempt_ordinal = word_of_int i, na_harness = None\<rparr>"

definition mission_start :: "int \<Rightarrow> start_session" where
  "mission_start i = \<lparr>ss_principal = ''kernel'', ss_command_id = ''s'' @ decimal_of_int i,
     ss_expected_assignment_revision = 0, ss_assignment_id = i, ss_packet_digest = mission_digest i,
     ss_custody = \<lparr>pid = 7, pgid = 7, started_at_unix_millis = 5\<rparr>\<rparr>"

definition mission_effect_start :: effect_start_request where
  "mission_effect_start = \<lparr>ps_client_command_id = effect_command_id ''start'' 1 1 ''run'' 1, ps_expected_revision = 0,
     ps_core_run_id = ''run'', ps_effect_id = 1, ps_harness_snapshot_id = ''h'', ps_harness_revision_id = ''r'',
     ps_model_harness_profile_id = ''p'', ps_provider_surface_digest = digest_hex (pilot_digest 1),
     ps_provider = ''p'', ps_model = ''m'', ps_request_fingerprint = digest_hex (pilot_digest 2)\<rparr>"

definition mission_effect_settle :: effect_settle_request where
  "mission_effect_settle = \<lparr>pt_client_command_id = effect_command_id ''settle'' 1 1 ''run'' 1, pt_expected_revision = 0,
     pt_core_run_id = ''run'', pt_effect_id = 1, pt_outcome = ''settled'', pt_stop_reason = ''stop'',
     pt_context_overflow = False, pt_input_tokens = Some 1, pt_output_tokens = Some 1, pt_cache_read_tokens = None,
     pt_cache_write_tokens = None, pt_reasoning_tokens = None, pt_reported_cost_micro_usd = Some 3, pt_failure_class = None\<rparr>"

definition mission_terminal :: "int \<Rightarrow> 64 word \<Rightarrow> terminal_command" where
  "mission_terminal i cost = \<lparr>tc_principal = ''kernel'', tc_command_id = ''t'' @ decimal_of_int i, tc_session_id = i,
     tc_report = \<lparr>tr_packet_digest = mission_digest i, tr_expected_session_revision = 0,
       tr_operation = Some (mission_operation i), tr_stop_reason = StopCompleted, tr_report_digest = pilot_digest 1\<rparr>,
     tc_evidence = \<lparr>ve_transcript_artifact_id = 5, ve_execution_summary_artifact_id = Some 5, ve_stdout_artifact_id = 5,
       ve_stderr_artifact_id = 5, ve_partial_transcript_artifact_id = None, ve_required_read_assertion_artifact_id = 5,
       ve_required_read_expected_count = 1, ve_required_read_satisfied_count = 1,
       ve_usage = Some \<lparr>input_tokens = Some 1, output_tokens = Some 1, cache_read_tokens = None, cache_write_tokens = None,
         reasoning_tokens = None, reported_cost_micro_usd = Some cost\<rparr>\<rparr>\<rparr>"

section \<open>Events\<close>

datatype factory_event = OnKernel kernel_command | OnProcess process_request

fun happen :: "int \<Rightarrow> factory_event \<Rightarrow> db \<Rightarrow> db option" where
  "happen now (OnKernel c) d = command_step factory_hash now c d"
| "happen now (OnProcess q) d = (if request_allowed q d then process_step factory_env now q d else None)"

fun play_events :: "int \<Rightarrow> factory_event list \<Rightarrow> db \<Rightarrow> db option" where
  "play_events now [] d = Some d"
| "play_events now (e # es) d = (case happen now e d of None \<Rightarrow> None | Some d' \<Rightarrow> play_events now es d')"

lemma factory_env_hash [simp]: "fe_hash factory_env = factory_hash"
  by (simp add: factory_env_def)

lemma play_events_run:
  "play_events now es d = Some d' \<Longrightarrow> factory_run factory_env \<lparr>clock = now, store = d\<rparr> \<lparr>clock = now, store = d'\<rparr>"
proof (induction es arbitrary: d)
  case (Cons e es)
  then obtain m where m: "happen now e d = Some m" "play_events now es m = Some d'" by (auto split: option.splits)
  have "factory_step factory_env \<lparr>clock = now, store = d\<rparr> \<lparr>clock = now, store = m\<rparr>"
  proof (cases e)
    case (OnKernel c)
    then show ?thesis using m(1) factory_step.command [of "\<lparr>clock = now, store = d\<rparr>" now factory_env c m] by simp
  next
    case (OnProcess q)
    then show ?thesis using m(1) factory_step.request [of "\<lparr>clock = now, store = d\<rparr>" now q factory_env m]
      by (simp split: if_splits)
  qed
  then show ?case using Cons.IH [OF m(2)] factory_run_trans factory_run.intros by blast
qed (simp add: factory_run.stop)

lemma factory_seed_step: "factory_step env \<lparr>clock = 0, store = empty_db\<rparr> \<lparr>clock = 5, store = factory_seed\<rparr>"
proof -
  have "tables_ok factory_seed" by (simp add: tables_ok_def factory_seed_def table_ok_def empty_db_def empty_table_def)
  then show ?thesis
    using factory_step.elsewhere [of "\<lparr>clock = 0, store = empty_db\<rparr>" 5 factory_seed env]
    by (simp add: protocol_same_def evidence_same_def tickets_same_def process_same_def factory_seed_def empty_db_def
        keeps_rows_def audit_extends_def audit_lookup_def)
qed

lemma play_events_reachable:
  "play_events 5 es factory_seed = Some d \<Longrightarrow> factory_reachable factory_env \<lparr>clock = 5, store = d\<rparr>"
  using play_events_run factory_seed_step factory_run_trans factory_run.intros unfolding factory_reachable_def by blast

end
