(* ===== verification/Mission_Packets.thy ===== *)
theory Mission_Packets
  imports Factory_Pilot
begin

text \<open>
  The three packets of the factory pilot pass the admission: proved once for all three, so that the run is
  evaluated without parsing them again.
\<close>

section \<open>The wire\<close>

lemma unsigned_is_validated:
  assumes "validate_assignment_packet_wire hash w False = Inr ()"
  shows "validate_assignment_packet_wire hash w True = Inr ()"
    and "validate_assignment_packet_wire hash (w\<lparr>w_packet_digest := []\<rparr>) True = Inr ()"
  using assms
  by (simp_all add: validate_assignment_packet_wire_def validate_wire_identity_def validate_wire_policy_def
      validate_wire_session_def validate_wire_closure_def wire_target_shape_def)

lemma hex_digit_lower:
  fixes v :: byte
  assumes "v < 16"
  shows "lower_hex (char_of (unat (hex_digit v)))"
proof -
  have n: "unat v < 16" using assms by (simp add: word_less_nat_alt)
  have "unat (hex_digit v) = (if unat v < 10 then unat v + 48 else unat v + 87)"
    using n by (simp add: hex_digit_def word_less_nat_alt unat_word_ariths)
  then show ?thesis using n
    by (auto simp: lower_hex_def is_ascii_hexdigit_def is_ascii_digit_def is_ascii_uppercase_def)
qed

lemma digest_hex_valid: "digest_ok d \<Longrightarrow> validate_digest f (digest_hex d) = Inr ()"
proof -
  have "list_all lower_hex (digest_hex d)" unfolding digest_hex_def hex_encode_def
    by (induction d) (simp_all add: hex_digit_lower nibbles_of_byte)
  then show "digest_ok d \<Longrightarrow> validate_digest f (digest_hex d) = Inr ()"
    by (simp add: validate_digest_def digest_hex_def digest_ok_def)
qed

lemma pilot_digest_ok [simp]: "digest_ok (pilot_digest i)"
  by (simp add: pilot_digest_def digest_ok_def)

lemma mission_digest_ok [simp]: "digest_ok (mission_digest i)"
  by (simp add: mission_digest_def)

lemma prompt_bytes:
  "wire_validate_base64 f ''FQ=='' = Inr ()" "wire_validate_base64 f ''Fg=='' = Inr ()"
  "wire_decode_base64 f ''QQ=='' = Inr [65]" 
  "decode_base64 ''FQ=='' = Some [21]" "decode_base64 ''Fg=='' = Some [22]" "decode_base64 ''QQ=='' = Some [65]"
proof -
  have "validate_base64 ''FQ==''" "validate_base64 ''Fg==''" "validate_base64 ''QQ==''" "strict_decode_base64 ''QQ=='' = Some [65]"
    by code_simp+
  then show "wire_validate_base64 f ''FQ=='' = Inr ()" "wire_validate_base64 f ''Fg=='' = Inr ()" "wire_decode_base64 f ''QQ=='' = Inr [65]"
    by (simp_all add: wire_validate_base64_def wire_decode_base64_def)
  show "decode_base64 ''FQ=='' = Some [21]" "decode_base64 ''Fg=='' = Some [22]" "decode_base64 ''QQ=='' = Some [65]"
    by code_simp+
qed

lemma factory_hash_byte: "factory_hash [b] = replicate 32 b"
  by (simp add: factory_hash_def)

lemma mission_cases: "i = 1 \<or> i = 2 \<or> i = 3 \<Longrightarrow> 0 < (i :: int)"
  by auto

lemma core_ok: "runtime_identity_validate sample_runtime = Inr ()" "list_all lower_hex (replicate 40 (CHR ''a''))"
  "credential_name_valid ''KEY''" "utf8_valid [65]" "tool_parse ''work_complete'' = Some WorkComplete" "is_ok (policy_entrypoint_parse ''factory_policy'')"
  by code_simp+

lemma mission_packet_valid:
  assumes "i = 1 \<or> i = 2 \<or> i = 3"
  shows "assignment_packet_validate factory_hash (mission_packet i) = Inr ()"
  using core_ok(1,4) assms
  by (auto simp: assignment_packet_validate_def mission_packet_def ASSIGNMENT_PACKET_V2_FORMAT_def mission_role_def mission_operation_def
      MAX_POLICY_ARTIFACT_BYTES_def MAX_SESSION_OUTPUT_BYTES_def assignment_evidence_validate_def factory_hash_byte pilot_digest_def)

lemma mission_wire_valid:
  assumes "i = 1 \<or> i = 2 \<or> i = 3"
  shows "validate_assignment_packet_wire factory_hash (mission_wire i) False = Inr ()"
proof -
  have d: "digest_hex (factory_hash [65]) = digest_hex (pilot_digest 65)" by (simp add: factory_hash_byte pilot_digest_def)
  have z: "digest_ok (replicate 32 0)" by (simp add: digest_ok_def)
  have 1: "validate_wire_identity False (mission_wire i) = Inr ()"
    using assms z
    by (auto simp: validate_wire_identity_def mission_wire_def ASSIGNMENT_PACKET_V2_FORMAT_def digest_hex_valid wire_target_shape_def
      bounded_packet_text_def mission_role_def role_parse_def)
  have 2: "validate_wire_policy factory_hash (mission_wire i) = Inr ()"
    using core_ok by (simp add: validate_wire_policy_def mission_wire_def prompt_bytes d MAX_POLICY_ARTIFACT_BYTES_def)
  have t: "terminal_operation_parse (terminal_operation_name x) = Some x" "terminal_operation_name x \<noteq> []" for x
    by simp (cases x; simp)
  have l: "thinking_parse ''low'' = Some ThinkingLow" by simp
  have 3: "validate_wire_session (mission_wire i) = Inr ()"
    by (simp add: validate_wire_session_def mission_wire_def MAX_SESSION_OUTPUT_BYTES_def mission_allowance_def
        validate_unique_strings_def t t(2) [THEN not_sym] l core_ok(5) del: terminal_operation_parse_name thinking_parse_name)
  have c: "validate_credential_environment f ''KEY'' = Inr ()" for f
    unfolding validate_credential_environment_def using core_ok(3) by (simp only: require_eq_Inr)
  have n: "parse_wire_name (wire_name x) = Inr x" for x by (simp add: wire_name_parses)
  have 4: "validate_wire_closure (mission_wire i) = Inr ()"
    using assms by (auto simp: validate_wire_closure_def mission_wire_def bounded_packet_text_def digest_hex_valid c
       n [of TicketProposal, simplified] core_ok(2) mission_role_def)
  show ?thesis using 1 2 3 4 by (simp add: validate_assignment_packet_wire_def)
qed


lemma mission_wire_maps:
  assumes "i = 1 \<or> i = 2 \<or> i = 3"
  shows "verify_wire_domain_mapping (mission_wire i) (mission_packet i) = Inr ()"
proof -
  have "same_identity (mission_wire i) (mission_packet i) (pilot_digest 9) (mission_digest i)"
    by (simp add: same_identity_def mission_wire_def mission_packet_def)
  moreover have "same_model (w_model (mission_wire i)) (model (mission_packet i))"
    by (simp add: same_model_def mission_wire_def mission_packet_def sample_model_def)
  moreover have "same_limits_and_runtime (mission_wire i) (mission_packet i)"
    by (simp add: same_limits_and_runtime_def mission_wire_def mission_packet_def sample_runtime_def)
  moreover have "list_all2 same_read (w_required_reads (mission_wire i)) (required_reads (mission_packet i))"
    "list_all2 evidence_matches (w_assignment_evidence (mission_wire i)) (assignment_evidence (mission_packet i))"
    "list_all2 (\<lambda>x y. x = terminal_operation_name y) (w_terminal_operations (mission_wire i)) (terminal_operations (mission_packet i))"
    by (simp_all add: same_read_def evidence_matches_def mission_wire_def mission_packet_def)
  moreover have "policy_entrypoint_parse ''factory_policy'' = Inr FactoryPolicy" by code_simp
  moreover have "w_kernel_build_id (mission_wire i) = digest_hex (pilot_digest 9)"
    "w_packet_digest (mission_wire i) = digest_hex (mission_digest i)" "w_policy_bytes_b64 (mission_wire i) = ''QQ==''"
    "w_policy_digest (mission_wire i) = digest_hex (pilot_digest 65)" "w_policy_entrypoint (mission_wire i) = ''factory_policy''"
    "rw_credential_env (w_runtime (mission_wire i)) = ''KEY''" "w_policy_byte_limit (mission_wire i) = 10"
    by (simp_all add: mission_wire_def)
  moreover have "credential_env (runtime (mission_packet i)) = ''KEY''" "policy_digest (mission_packet i) = pilot_digest 65"
    "policy_byte_limit (mission_packet i) = 10" "policy_bytes (mission_packet i) = [65]" "policy_entrypoint (mission_packet i) = FactoryPolicy"
    by (simp_all add: mission_packet_def sample_runtime_def)
  moreover have "digest_from_str (digest_hex (pilot_digest k)) = Inr (pilot_digest k)"
      "digest_from_str (digest_hex (mission_digest k)) = Inr (mission_digest k)" for k
    by (simp_all add: digest_from_str_hex)
  ultimately show ?thesis
    by (simp add: verify_wire_domain_mapping_def prompt_bytes del: digest_from_str_hex)
qed

lemma mission_json:
  assumes "i = 1 \<or> i = 2 \<or> i = 3"
  shows "decode_json factory_json (mission_bytes i) = Inr (mission_wire i)" "print_json factory_json (mission_wire i) = mission_bytes i"
    "print_json factory_json (mission_wire i\<lparr>w_packet_digest := []\<rparr>) = [word_of_int (50 + i)]"
proof -
  have "digest_hex (mission_digest i) \<noteq> []" by (simp add: digest_hex_def mission_digest_def pilot_digest_def flip: length_0_conv)
  then show "print_json factory_json (mission_wire i) = mission_bytes i"
    by (simp add: factory_json_def mission_bytes_def mission_wire_def)
qed (use assms in \<open>auto simp: factory_json_def mission_bytes_def mission_wire_def\<close>)

lemma mission_verified:
  assumes "i = 1 \<or> i = 2 \<or> i = 3"
  shows "verify_assignment_packet factory_hash factory_json (mission_bytes i) (digest_hex (mission_digest i)) = Inr (mission_wire i)"
proof -
  note valid = mission_wire_valid [OF assms]
  have "utf8_valid [11] \<and> utf8_valid [12] \<and> utf8_valid [13]" by code_simp
  then have "utf8_valid (mission_bytes i)" using assms by (auto simp: mission_bytes_def)
  moreover have "digest_from_str (digest_hex (mission_digest i)) = Inr (mission_digest i)" by (simp add: digest_from_str_hex)
  moreover have "w_packet_digest (mission_wire i) = digest_hex (mission_digest i)" by (simp add: mission_wire_def)
  moreover have "factory_hash [word_of_int (50 + i)] = mission_digest i" by (simp add: factory_hash_byte mission_digest_def pilot_digest_def)
  ultimately show ?thesis
    using valid unsigned_is_validated [OF valid] mission_json [OF assms]
    by (simp add: verify_assignment_packet_def parse_assignment_packet_def canonical_assignment_packet_json_def
        unsigned_assignment_packet_digest_def)
qed

lemma mission_admitted:
  assumes "i = 1 \<or> i = 2 \<or> i = 3"
  shows "create_assignment_checked factory_hash (fe_admission factory_env) (mission_create i r) = Inr (mission_wire i)"
proof -
  have "process_validate_command ''kernel'' ''a1'' = Inr () \<and> process_validate_command ''kernel'' ''a2'' = Inr ()
    \<and> process_validate_command ''kernel'' ''a3'' = Inr () \<and> decimal_of_int 1 = ''1'' \<and> decimal_of_int 2 = ''2'' \<and> decimal_of_int 3 = ''3''"
    by code_simp
  then have "process_validate_command ''kernel'' (''a'' @ decimal_of_int i) = Inr ()" using assms by auto
  moreover have "packet_digest (mission_packet i) = mission_digest i" "pk_assignment_id (mission_packet i) = i"
     "pk_campaign_id (mission_packet i) = 1" "required_read_manifest_artifact_id (mission_packet i) = 4"
     "w_assignment_id (mission_wire i) = i" by (simp_all add: mission_packet_def mission_wire_def)
  moreover have "cas_read factory_hash (en_cas (fe_admission factory_env)) (pilot_digest (10 + i)) = Inr (mission_bytes i)"
    by (simp add: cas_read_def factory_env_def pilot_digest_def factory_hash_byte mission_bytes_def numeral_eq_Suc)
  ultimately show ?thesis
    using assms mission_packet_valid [OF assms] mission_verified [OF assms] mission_wire_maps [OF assms]
    by (auto simp: create_assignment_checked_def mission_create_def Let_def process_contract_def factory_env_def)
qed

section \<open>Evaluating an admission\<close>

text \<open>The fresh admission reads only the two prompts of the wire packet.\<close>

definition prompt_wire :: packet_wire where
  "prompt_wire =
     \<lparr>w_format_version = 2, w_campaign_id = 1, w_assignment_id = 1, w_application_revision_id = 1, w_kernel_build_id = [],
      w_assignment_role = [], w_target = [], w_repository_base_identity = [], w_factory_base_identity = [],
      w_ticket_attempt_id = None, w_candidate_id = None,
      w_system_prompt_artifact_id = 21, w_assignment_prompt_artifact_id = 22, w_required_read_manifest_artifact_id = 4,
      w_system_prompt_digest = digest_hex (pilot_digest 21), w_assignment_prompt_digest = digest_hex (pilot_digest 22),
      w_system_prompt_bytes_b64 = ''FQ=='', w_assignment_prompt_bytes_b64 = ''Fg=='',
      w_policy_digest = [], w_policy_byte_limit = 10, w_policy_bytes_b64 = [], w_policy_entrypoint = [],
      w_workspace_root = [], w_staging_root = [],
      w_model = \<lparr>mw_provider = [], mw_model_id = [], mw_thinking_level = [], mw_context_token_limit = 1,
        mw_output_token_limit = 1, mw_price_input = 0, mw_price_output = 0, mw_price_cache_read = 0,
        mw_price_cache_write = 0, mw_capability_flags = []\<rparr>,
      w_limits = \<lparr>lw_wall_limit_millis = 1, lw_output_byte_limit = 1\<rparr>,
      w_runtime = \<lparr>rw_host_executable = [], rw_core_head = [], rw_core_source_digest = [], rw_rust_toolchain = [],
        rw_credential_env = []\<rparr>,
      w_required_reads = [], w_assignment_evidence = [], w_tools = [], w_terminal_operations = [],
      w_remaining_campaign_allowance = 0, w_aggregate_revision = 0, w_packet_digest = []\<rparr>"

lemma fresh_reads_prompts:
  assumes "\<And>d. verify_prompt_artifacts hash w d = verify_prompt_artifacts hash v d"
  shows "create_assignment_fresh hash env fp now w c d = create_assignment_fresh hash env fp now v c d"
  unfolding create_assignment_fresh_def assms ..

lemma mission_prompts: "verify_prompt_artifacts hash (mission_wire i) d = verify_prompt_artifacts hash prompt_wire d"
  by (simp add: verify_prompt_artifacts_def mission_wire_def prompt_wire_def)

definition admit_mission :: "int \<Rightarrow> aggregate_revision \<Rightarrow> int \<Rightarrow> db \<Rightarrow> (assignment_receipt \<times> db) process_result" where
  "admit_mission i r now d =
     (let c = mission_create i r; fingerprint = factory_hash (create_assignment_preimage c) in
     and_then (process_find_audit d (na_principal c) (na_command_id c) ASSIGNMENT_CREATE fingerprint) (\<lambda>found. case found of
         Some receipt \<Rightarrow> create_assignment_replay (fe_admission factory_env) c receipt d
       | None \<Rightarrow> create_assignment_fresh factory_hash (fe_admission factory_env) fingerprint now prompt_wire c d))"

lemma admit_mission:
  assumes "i = 1 \<or> i = 2 \<or> i = 3"
  shows "create_assignment_cmd factory_hash (fe_admission factory_env) now (mission_create i r) d = admit_mission i r now d"
  unfolding create_assignment_cmd_def admit_mission_def Let_def mission_admitted [OF assms]
  by (simp only: and_then.simps fresh_reads_prompts [OF mission_prompts])

section \<open>Evaluating a run\<close>

datatype mission_event = Event factory_event | Admit int aggregate_revision

fun event_of :: "mission_event \<Rightarrow> factory_event" where
  "event_of (Event e) = e"
| "event_of (Admit i r) = OnProcess (CreateAssignment (mission_create i r))"

fun mission_step :: "int \<Rightarrow> mission_event \<Rightarrow> db \<Rightarrow> db option" where
  "mission_step now (Event e) d = happen now e d"
| "mission_step now (Admit i r) d = (if (i = 1 \<or> i = 2 \<or> i = 3) \<and> i < next_id (assignments d)
     then committed_db (admit_mission i r now d) else None)"

fun mission_play :: "int \<Rightarrow> mission_event list \<Rightarrow> db \<Rightarrow> db option" where
  "mission_play now [] d = Some d"
| "mission_play now (e # es) d = (case mission_step now e d of None \<Rightarrow> None | Some d' \<Rightarrow> mission_play now es d')"

lemma mission_identity [simp]: "na_identity (mission_create i r) = i"
  by (simp add: mission_create_def)

lemma mission_step_happens:
  assumes "mission_step now e d = Some d'"
  shows "happen now (event_of e) d = Some d'"
proof (cases e)
  case (Admit i r)
  then have "i = 1 \<or> i = 2 \<or> i = 3" "i < next_id (assignments d)" "committed_db (admit_mission i r now d) = Some d'"
    using assms by (auto split: if_splits)
  then show ?thesis using Admit by (auto simp: admit_mission identity_reserved_def)
qed (use assms in simp)

lemma mission_play_plays: "mission_play now es d = Some d' \<Longrightarrow> play_events now (map event_of es) d = Some d'"
  by (induction es arbitrary: d) (auto split: option.splits dest: mission_step_happens)

end
