(* ===== verification/Mission.thy ===== *)
theory Mission
  imports Mission_Packets
begin

text \<open>
  The run of the factory pilot in stretches, evaluated once with what is needed of the database after each: an assignment
  identity is reserved, the assignment is admitted, its session has run with one effect, the session is settled,
  the candidate is decided for delivery after two more sessions, and it is delivered.
\<close>

section \<open>Stretches\<close>

definition opening_events :: "mission_event list" where
  "opening_events = [Event (OnProcess (StartCampaign mission_start_campaign)), Event (OnProcess ReserveAssignment)]"

definition session_events :: "mission_event list" where
  "session_events = [Event (OnProcess (StartSession (mission_start 1))),
     Event (OnProcess (StartEffect 1 1 mission_effect_start)), Event (OnProcess (SettleEffect 1 1 mission_effect_settle))]"

definition settlement :: mission_event where
  "settlement = Event (OnProcess (TerminalSession (mission_terminal 1 3)))"

definition engineering_events :: "mission_event list" where
  "engineering_events = [Event (OnKernel (SubmitTicketProposal pilot_propose)),
     Event (OnKernel (SponsorTicketRevision pilot_sponsor)),
     Event (OnKernel (ClaimSponsoredTicket (pilot_claim\<lparr>cl_expected_campaign_revision := 2\<rparr>))),
     Event (OnProcess ReserveAssignment), Admit 2 2, Event (OnProcess (StartSession (mission_start 2))),
     Event (OnProcess (TerminalSession (mission_terminal 2 4))),
     Event (OnKernel (SubmitCandidate (pilot_submit\<lparr>sc_engineering_session_id := 2\<rparr>))),
     Event (OnKernel (RecordValidation (pilot_validate ''c5'' HardCandidate 0 1 2))),
     Event (OnKernel (AttachCandidateCommit pilot_attach))]"

definition quality_events :: "mission_event list" where
  "quality_events = [Event (OnProcess ReserveAssignment), Admit 3 4, Event (OnProcess (StartSession (mission_start 3))),
     Event (OnProcess (TerminalSession (mission_terminal 3 5))),
     Event (OnKernel (RecordValidation (pilot_validate ''c7'' QualityFullSuite 2 2 3))),
     Event (OnKernel (SubmitQualityReview (pilot_review\<lparr>qr_quality_session_id := 3\<rparr>))),
     Event (OnKernel (DecideCandidate pilot_decide))]"

definition mission_deliver :: record_delivery where
  "mission_deliver = pilot_deliver\<lparr>dv_expected_campaign_revision := 6, dv_factory_cost_micro_usd := 12\<rparr>"

definition mission_reserved :: db where
  "mission_reserved = the (mission_play 5 opening_events factory_seed)"

definition mission_prepared :: db where
  "mission_prepared = the (mission_play 5 [Admit 1 0] mission_reserved)"

definition mission_opened :: db where
  "mission_opened = the (mission_play 5 session_events mission_prepared)"

definition mission_settled :: db where
  "mission_settled = the (mission_play 5 [settlement] mission_opened)"

definition mission_decided :: db where
  "mission_decided = the (mission_play 5 (engineering_events @ quality_events) mission_settled)"

definition mission_delivered :: db where
  "mission_delivered = the (mission_play 5 [Event (OnKernel (RecordDelivery mission_deliver))] mission_decided)"

section \<open>What is evaluated of them\<close>

definition unrecorded :: "string \<Rightarrow> db \<Rightarrow> bool" where
  "unrecorded command_id d = (audit_lookup d ''kernel'' command_id = None)"

definition opened_facts :: "db \<Rightarrow> bool" where
  "opened_facts d = (map_option (\<lambda>x. (se_lifecycle x, se_campaign_id x, se_assignment_id x)) (get_row (sessions d) 1) = Some (SESSION_RUNNING, 1, 1)
     \<and> map_option pe_state (get_row (provider_effects d) 1) = Some 1 \<and> unrecorded ''t1'' d)"

definition settled_facts :: "db \<Rightarrow> bool" where
  "settled_facts d = (map_option (\<lambda>x. (se_lifecycle x, session_cost x)) (get_row (sessions d) 1) = Some (SESSION_SUCCEEDED, 3)
     \<and> map_option (\<lambda>g. (ca_measured_cost_micro_usd g, ca_cost_state g)) (get_row (campaigns d) 1) = Some (3, COST_KNOWN)
     \<and> mission_step 5 settlement d \<noteq> None)"

definition decided_facts :: "db \<Rightarrow> bool" where
  "decided_facts d = (map_option (\<lambda>g. (ca_measured_cost_micro_usd g, ca_cost_state g)) (get_row (campaigns d) 1) = Some (12, COST_KNOWN)
     \<and> map_option cr_ticket_attempt_id (get_row (candidates d) 1) = Some 1
     \<and> map_option ta_campaign_id (get_row (ticket_attempts d) 1) = Some 1 \<and> unrecorded ''c10'' d)"

fun stretches :: "(mission_event list \<times> (db \<Rightarrow> bool)) list \<Rightarrow> db \<Rightarrow> bool" where
  "stretches [] d = True"
| "stretches ((es, p) # rest) d = (case mission_play 5 es d of None \<Rightarrow> False | Some d' \<Rightarrow> p d' \<and> stretches rest d')"

lemma stretches_Cons: "stretches ((es, p) # rest) d \<longleftrightarrow> (\<exists>d'. mission_play 5 es d = Some d' \<and> p d' \<and> stretches rest d')"
  by (auto split: option.splits)

lemma evaluated_mission:
  "stretches [(opening_events, unrecorded ''a1''), ([Admit 1 0], \<lambda>d. True), (session_events, opened_facts), ([settlement], settled_facts),
     (engineering_events @ quality_events, decided_facts), ([Event (OnKernel (RecordDelivery mission_deliver))], \<lambda>d. True)] factory_seed"
  by code_simp

lemma mission_plays:
  "mission_play 5 opening_events factory_seed = Some mission_reserved" "unrecorded ''a1'' mission_reserved"
  "mission_play 5 [Admit 1 0] mission_reserved = Some mission_prepared"
  "mission_play 5 session_events mission_prepared = Some mission_opened" "opened_facts mission_opened"
  "mission_play 5 [settlement] mission_opened = Some mission_settled" "settled_facts mission_settled"
  "mission_play 5 (engineering_events @ quality_events) mission_settled = Some mission_decided" "decided_facts mission_decided"
  "mission_play 5 [Event (OnKernel (RecordDelivery mission_deliver))] mission_decided = Some mission_delivered"
  using evaluated_mission unfolding stretches_Cons mission_reserved_def mission_prepared_def mission_opened_def mission_settled_def
    mission_decided_def mission_delivered_def
  by (auto simp del: mission_play.simps)

definition at_five :: "db \<Rightarrow> kernel_state" where
  "at_five d = \<lparr>clock = 5, store = d\<rparr>"

lemma at_five_sel [simp]: "store (at_five d) = d" "clock (at_five d) = 5"
  by (simp_all add: at_five_def)

lemma mission_play_run: "mission_play 5 es d = Some e \<Longrightarrow> factory_run factory_env (at_five d) (at_five e)"
  unfolding at_five_def by (rule play_events_run [OF mission_play_plays])

lemma mission_runs:
  "factory_run factory_env (at_five mission_reserved) (at_five mission_prepared)"
  "factory_run factory_env (at_five mission_prepared) (at_five mission_opened)"
  "factory_run factory_env (at_five mission_opened) (at_five mission_settled)"
  "factory_run factory_env (at_five mission_settled) (at_five mission_decided)"
  by (rule mission_play_run, rule mission_plays)+

lemma mission_reachable:
  "factory_reachable factory_env (at_five mission_reserved)" "factory_reachable factory_env (at_five mission_opened)"
  "factory_reachable factory_env (at_five mission_settled)" "factory_reachable factory_env (at_five mission_decided)"
proof -
  show 1: "factory_reachable factory_env (at_five mission_reserved)"
    unfolding at_five_def by (rule play_events_reachable [OF mission_play_plays [OF mission_plays(1)]])
  show 2: "factory_reachable factory_env (at_five mission_opened)"
    by (rule factory_reachable_run [OF factory_reachable_run [OF 1 mission_runs(1)] mission_runs(2)])
  show 3: "factory_reachable factory_env (at_five mission_settled)" by (rule factory_reachable_run [OF 2 mission_runs(3)])
  show "factory_reachable factory_env (at_five mission_decided)" by (rule factory_reachable_run [OF 3 mission_runs(4)])
qed

end
