(* ===== verification/Decision_Guarantees.thy ===== *)
theory Decision_Guarantees
  imports Pilot_Runs
begin

text \<open>
  What single commands of the Quality, delivery and Architect authority guarantee when they commit: the
  guards that held, the rows they leave, and the decision the schema makes impossible.
\<close>

section \<open>Committed commands ran their transition\<close>

lemma decide_candidate_ran:
  assumes "decide_candidate_cmd hash now c d = Inr (r, d')" "\<not> dr_was_idempotent_retry r"
  shows "decide_candidate_fresh (hash (candidate_decision_preimage c)) now c d = Inr (r, d')"
  using decide_candidate_cmd_audited [OF assms(1)]
  by (rule audited_cases) (use assms(2) decide_candidate_replay_retry in blast)+

lemma record_delivery_ran:
  assumes "record_delivery_cmd hash now c d = Inr (r, d')" "\<not> dy_was_idempotent_retry r"
  shows "record_delivery_fresh (hash (delivery_preimage c)) now c d = Inr (r, d')"
  using record_delivery_cmd_audited [OF assms(1)]
  by (rule audited_cases) (use assms(2) record_delivery_replay_retry in blast)+

lemma attach_candidate_commit_ran:
  assumes "attach_candidate_commit_cmd hash c d = Inr (r, d')" "\<not> cr_receipt_was_idempotent_retry r"
  shows "attach_candidate_commit_fresh (hash (commit_preimage c)) c d = Inr (r, d')"
  using attach_candidate_commit_cmd_audited [OF assms(1)]
  by (rule audited_cases) (use assms(2) attach_candidate_commit_replay_retry in blast)+

section \<open>Decisions\<close>

lemma load_reviewE:
  assumes "load_review d i = Inr v"
  obtains r where "get_row (reviews d) i = Some r" "re_candidate_id r = rw_candidate_id v" "re_verdict r = rw_verdict v"
  using assms that by (force simp: load_review_def)

text \<open>
  C11. A candidate decision takes effect as it says.  Only a validated candidate with a commit, a passed hard
  validation, a passed full suite and a review of its own is decided; a Deliver carries the exact
  rejection override if and only if the review rejects, the other decisions carry none; a Rework is the first
  of its attempt; and candidate and attempt take exactly the lifecycle, stage and rework count of the decision.
\<close>

theorem decision_takes_effect:
  assumes "decide_candidate_cmd hash now c d = Inr (r, d')" "\<not> dr_was_idempotent_retry r"
    and "i = cd_candidate_id (dc_request c)" "q = cd_decision (dc_request c)"
  shows "\<exists>x rv a a' x'. get_row (candidates d) i = Some x \<and> cr_lifecycle x = CANDIDATE_VALIDATED \<and> cr_commit x \<noteq> None
     \<and> validation_passed d i HardCandidate \<and> validation_passed d i QualityFullSuite
     \<and> get_row (reviews d) (cd_review_id (dc_request c)) = Some rv \<and> re_candidate_id rv = i
     \<and> (if q = Deliver
        then re_verdict rv = REVIEW_REJECT \<longleftrightarrow> quality_rejection_override (dc_request c) = Some (cd_review_id (dc_request c))
        else quality_rejection_override (dc_request c) = None)
     \<and> get_row (ticket_attempts d) (cr_ticket_attempt_id x) = Some a \<and> ta_stage a = ATTEMPT_AWAITING_ARCHITECT
     \<and> (q = Rework \<longrightarrow> ta_rework_ordinal a = 0)
     \<and> get_row (ticket_attempts d') (cr_ticket_attempt_id x) = Some a'
     \<and> ta_rework_ordinal a' = ta_rework_ordinal a + (if q = Rework then 1 else 0)
     \<and> get_row (candidates d') i = Some x' \<and> (cr_lifecycle x', ta_stage a') = decision_transition q"
  using decide_candidate_ran [OF assms(1,2)]
proof (rule decide_candidate_freshE)
  fix cv attempt rv row rc ra
  let ?n = "decision_transition (cd_decision (dc_request c))"
  let ?f = "\<lambda>a. a\<lparr>ta_stage := snd ?n,
        ta_rework_ordinal := ta_rework_ordinal a + (if cd_decision (dc_request c) = Rework then 1 else 0),
        ta_failed := (if snd ?n = ATTEMPT_FAILED
                      then Some (now, ''architect rejected reviewed candidate'') else ta_failed a), ta_revision := ra\<rparr>"
  assume cv: "load_candidate d (cd_candidate_id (dc_request c)) = Inr cv" "cv_lifecycle cv = CANDIDATE_VALIDATED"
      "cv_candidate_commit cv \<noteq> None"
    and at: "lock_candidate_attempt d (cv_ticket_attempt_id cv) = Inr attempt" "at_stage attempt = ATTEMPT_AWAITING_ARCHITECT"
    and v: "validation_passed d (cd_candidate_id (dc_request c)) HardCandidate"
      "validation_passed d (cd_candidate_id (dc_request c)) QualityFullSuite"
    and rv: "load_review d (cd_review_id (dc_request c)) = Inr rv" "rw_candidate_id rv = cd_candidate_id (dc_request c)"
      "cd_decision (dc_request c) = Deliver \<Longrightarrow>
       rw_verdict rv = REVIEW_REJECT \<longleftrightarrow> quality_rejection_override (dc_request c) = Some (cd_review_id (dc_request c))"
      "cd_decision (dc_request c) \<noteq> Deliver \<Longrightarrow> quality_rejection_override (dc_request c) = None"
    and rework: "cd_decision (dc_request c) = Rework \<Longrightarrow> at_rework_ordinal attempt = 0"
    and cs: "candidates d' = update_row (cd_candidate_id (dc_request c)) (\<lambda>x. x\<lparr>cr_lifecycle := fst ?n, cr_revision := rc\<rparr>) (candidates d)"
    and ta: "ticket_attempts d' = update_row (at_id attempt) ?f (ticket_attempts d)"
  obtain x where x: "get_row (candidates d) i = Some x" "cr_ticket_attempt_id x = cv_ticket_attempt_id cv"
      "cr_lifecycle x = CANDIDATE_VALIDATED" "cr_commit x \<noteq> None"
    by (rule load_candidateE [OF cv(1)]) (use cv(2,3) assms(3) in auto)
  obtain w where w: "get_row (reviews d) (cd_review_id (dc_request c)) = Some w" "re_candidate_id w = i" "re_verdict w = rw_verdict rv"
    by (rule load_reviewE [OF rv(1)]) (use rv(2) assms(3) in auto)
  obtain a where a: "get_row (ticket_attempts d) (at_id attempt) = Some a" "at_id attempt = cr_ticket_attempt_id x"
      "ta_stage a = ATTEMPT_AWAITING_ARCHITECT" "ta_rework_ordinal a = at_rework_ordinal attempt"
    using at lock_candidate_attempt_stage [OF at(1)] lock_candidate_attemptE [OF at(1)] x(2) by fastforce
  have "get_row (ticket_attempts d') (cr_ticket_attempt_id x) = Some (?f a)" using a(1,2) by (simp add: ta tbl.get_upd)
  moreover have "get_row (candidates d') i = Some (x\<lparr>cr_lifecycle := fst ?n, cr_revision := rc\<rparr>)"
    using x(1) assms(3) by (simp add: cs tbl.get_upd)
  moreover have "if q = Deliver
        then re_verdict w = REVIEW_REJECT \<longleftrightarrow> quality_rejection_override (dc_request c) = Some (cd_review_id (dc_request c))
        else quality_rejection_override (dc_request c) = None"
    using rv(3,4) w(3) assms(4) by presburger
  moreover have "q = Rework \<longrightarrow> ta_rework_ordinal a = 0" using rework a(4) assms(4) by simp
  ultimately show ?thesis
    using x(1,3,4) v [folded assms(3)] w(1,2) a(1,3) a(2) assms(4)
    by (intro exI [of _ x] exI [of _ w] exI [of _ a] exI [of _ "?f a"] exI [of _ "x\<lparr>cr_lifecycle := fst ?n, cr_revision := rc\<rparr>"] conjI)
      simp_all
qed

theorem decision_takes_effect_witness:
  "\<exists>x. get_row (candidates reviewed) 1 = Some x \<and> cr_lifecycle x = CANDIDATE_VALIDATED"
proof -
  obtain r d' where ok: "decide_candidate_cmd pilot_hash 6 pilot_decide reviewed = Inr (r, d')"
    using runs(14) by (cases "decide_candidate_cmd pilot_hash 6 pilot_decide reviewed") (auto simp: reviewed_facts_def accepts_def)
  have "\<not> dr_was_idempotent_retry r"
    using dc_command.replayed [OF ok] runs(14) by (auto simp: pilot_decide_def reviewed_facts_def)
  from decision_takes_effect [OF ok this refl refl] show ?thesis by (auto simp: pilot_decide_def)
qed

text \<open>
  C30. A candidate whose review rejects can only be delivered, over that rejection: no Rework and no Reject of it
  ever commits, because the decision row would record an override that the schema allows on a Deliver alone.
\<close>

theorem rejected_candidate_is_never_sent_back:
  assumes "get_row (reviews d) (cd_review_id (dc_request c)) = Some rv" "re_verdict rv = REVIEW_REJECT"
    and "cd_decision (dc_request c) \<noteq> Deliver"
  shows "\<not> (\<exists>r d'. decide_candidate_cmd hash now c d = Inr (r, d') \<and> \<not> (dr_was_idempotent_retry r \<and> d' = d))"
proof
  assume "\<exists>r d'. decide_candidate_cmd hash now c d = Inr (r, d') \<and> \<not> (dr_was_idempotent_retry r \<and> d' = d)"
  then obtain r d' where ok: "decide_candidate_cmd hash now c d = Inr (r, d')" and "\<not> (dr_was_idempotent_retry r \<and> d' = d)"
    by blast
  then have "\<not> dr_was_idempotent_retry r" using dc_command.replayed [where hash = hash and now = now] by blast
  with ok have "decide_candidate_fresh (hash (candidate_decision_preimage c)) now c d = Inr (r, d')"
    by (rule decide_candidate_ran)
  then show False
  proof (rule decide_candidate_freshE)
    fix cv attempt v row rc ra
    assume "load_review d (cd_review_id (dc_request c)) = Inr v"
      and row: "de_kind row = decision_code (cd_decision (dc_request c))"
        "de_overrides_quality_rejection row \<longleftrightarrow> rw_verdict v = REVIEW_REJECT" "decision_row_ok row"
    then have "rw_verdict v = REVIEW_REJECT" using assms(1,2) by (auto elim: load_reviewE)
    then have "decision_code (cd_decision (dc_request c)) = DECISION_DELIVER" using row by (simp add: decision_row_ok_def)
    then show False using assms(3) by (cases "cd_decision (dc_request c)") simp_all
  qed
qed

text \<open>In the run of the pilot with a rejecting review a Rework and a Reject fail.\<close>

theorem rejected_candidate_is_never_sent_back_witness:
  "\<not> accepts (DecideCandidate (send_back Rework)) rejected
   \<and> \<not> (\<exists>r d'. decide_candidate_cmd pilot_hash 6 (send_back Rework) rejected = Inr (r, d')
        \<and> \<not> (dr_was_idempotent_retry r \<and> d' = rejected))"
proof
  obtain rv where rv: "get_row (reviews rejected) 1 = Some rv" "re_verdict rv = REVIEW_REJECT"
    using runs(16) by (auto simp: rejected_facts_def)
  have c: "cd_review_id (dc_request (send_back Rework)) = 1" "cd_decision (dc_request (send_back Rework)) \<noteq> Deliver"
    by (simp_all add: send_back_def pilot_decide_def)
  show "\<not> (\<exists>r d'. decide_candidate_cmd pilot_hash 6 (send_back Rework) rejected = Inr (r, d')
        \<and> \<not> (dr_was_idempotent_retry r \<and> d' = rejected))"
    by (rule rejected_candidate_is_never_sent_back [OF _ rv(2) c(2)]) (simp add: c(1) rv(1))
qed (use runs(16) in \<open>auto simp: rejected_facts_def\<close>)

end
