(* ===== verification/Factory_Guarantees.thy ===== *)
theory Factory_Guarantees
  imports Mission Decision_Guarantees
begin

text \<open>
  What the composition of the three authorities guarantees: runs of the factory refine runs of the
  kernel, money is accounted for exactly, and what is settled stays settled.  Each property has a witness
  in the run of \<open>Mission\<close>.
\<close>

section \<open>Refinement\<close>

text \<open>
  C2. The factory refines the kernel.  Every run of the factory, with the requests of the process authority
  between the commands of the ticket and the decision authority, is a run of the kernel in which the
  requests are writes of other stores: whatever is proved of every run of the kernel holds of the
  factory, and the invariants of all authorities hold throughout.
\<close>

theorem factory_refines_the_kernel:
  assumes "factory_reachable env s" "factory_run env s s'"
  shows "kernel_run (fe_hash env) s s' \<and> reachable (fe_hash env) s' \<and> factory_inv s'"
proof -
  have "factory_inv s"
    using assms(1) factory_run_refines factory_inv_empty unfolding factory_reachable_def by blast
  then show ?thesis
    using factory_run_refines [OF assms(2)] factory_reachable_inv(1) [OF factory_reachable_run [OF assms]] by blast
qed

theorem factory_refines_the_kernel_witness:
  "kernel_run factory_hash (at_five mission_opened) (at_five mission_settled) \<and> factory_inv (at_five mission_settled)"
  using factory_refines_the_kernel [OF mission_reachable(2) mission_runs(3)] by simp

section \<open>Money\<close>

text \<open>
  C6. The measured cost of a campaign is the sum of the costs of its sessions.  It is never negative, and as
  long as it is known it is within the budget and every settled session has a known cost; a campaign
  that exceeded its budget has failed.
\<close>

theorem campaign_cost_is_the_sum_of_its_sessions:
  assumes "factory_reachable env s" "get_row (campaigns (store s)) i = Some g"
  shows "ca_measured_cost_micro_usd g
      = sum_list (map (\<lambda>(_, x). if se_campaign_id x = i then session_cost x else 0) (rows (sessions (store s))))
    \<and> 0 \<le> ca_measured_cost_micro_usd g
    \<and> (ca_cost_state g = COST_KNOWN \<longrightarrow> ca_measured_cost_micro_usd g \<le> ca_aggregate_budget_micro_usd g
         \<and> (\<forall>j x m. get_row (sessions (store s)) j = Some x \<and> se_campaign_id x = i \<and> se_terminal x = Some m
              \<longrightarrow> sm_cost_state m = COST_KNOWN \<and> sm_cost_micro_usd m = Some (session_cost x)))
    \<and> (ca_cost_state g = COST_EXCEEDED \<longrightarrow> ca_lifecycle g = CAMPAIGN_FAILED)"
proof -
  note inv = factory_reachable_inv(2) [OF assms(1)]
  have cost: "campaign_cost_ok g" "ca_measured_cost_micro_usd g = spent (store s) i"
    using process_invD(5,6) [OF inv assms(2)] by blast+
  have "sm_cost_state m = COST_KNOWN \<and> sm_cost_micro_usd m = Some (session_cost x)"
    if "ca_cost_state g = COST_KNOWN" "get_row (sessions (store s)) j = Some x" "se_campaign_id x = i" "se_terminal x = Some m" for j x m
    using process_invD(3) [OF inv that(2)] that assms(2)
    by (auto simp: session_ok_def session_funded_def session_state_ok_def session_cost_def)
  then show ?thesis using cost by (auto simp: campaign_cost_ok_def spent_def charge_def)
qed

lemma mission_decided_campaign:
  obtains g where "get_row (campaigns mission_decided) 1 = Some g" "ca_measured_cost_micro_usd g = 12" "ca_cost_state g = COST_KNOWN"
  using mission_plays(9) by (auto simp: decided_facts_def)

theorem campaign_cost_is_the_sum_of_its_sessions_witness:
  "sum_list (map (\<lambda>(_, x). if se_campaign_id x = 1 then session_cost x else 0) (rows (sessions mission_decided))) = 12"
proof -
  obtain g where g: "get_row (campaigns mission_decided) 1 = Some g" "ca_measured_cost_micro_usd g = 12"
    by (rule mission_decided_campaign)
  then show ?thesis using campaign_cost_is_the_sum_of_its_sessions [OF mission_reachable(4), of 1 g] by simp
qed

lemma record_delivery_fresh_row:
  assumes "record_delivery_fresh fp now c d = Inr (r, d')"
  shows "\<exists>x. deliveries d' = insert_row x (deliveries d) \<and> dl_factory_cost_micro_usd x = uint (dv_factory_cost_micro_usd c)"
  using assms unfolding record_delivery_fresh_def Let_def
  by (clarsimp simp: insert_audit_def case_prod_unfold update_ticket_state_def update_ticket_state_parts_def
      dest!: insert_audit_entry_ok(4)) (auto split: if_splits)

lemma record_delivery_fresh_cost:
  assumes "record_delivery_fresh fp now c d = Inr (r, d')"
  obtains x cv attempt campaign where "deliveries d' = insert_row x (deliveries d)" "dl_candidate_id x = dv_candidate_id c"
    "load_candidate d (dv_candidate_id c) = Inr cv" "lock_candidate_attempt d (cv_ticket_attempt_id cv) = Inr attempt"
    "lock_campaign d (at_campaign_id attempt) = Inr campaign" "cm_cost_state campaign = COST_KNOWN"
    "dl_factory_cost_micro_usd x = uint (cm_factory_cost_micro_usd campaign)" "\<not> paid_session_active d"
proof -
  obtain y where y: "deliveries d' = insert_row y (deliveries d)" "dl_factory_cost_micro_usd y = uint (dv_factory_cost_micro_usd c)"
    using record_delivery_fresh_row [OF assms] by blast
  have "insert_row y t = insert_row x t \<Longrightarrow> x = y" for x and t :: "delivery_row table"
    by (cases t) (simp add: insert_row_def)
  then show thesis using that y by (metis record_delivery_freshE [OF assms])
qed

lemma lock_candidate_attempt_campaign:
  "lock_candidate_attempt d i = Inr a \<Longrightarrow> \<exists>ta. get_row (ticket_attempts d) i = Some ta \<and> ta_campaign_id ta = at_campaign_id a"
  unfolding lock_candidate_attempt_def Let_def by (auto simp: identifier_new_def contract_err_def split: if_splits)

text \<open>
  C3. A delivery states its exact cost: the sum of the costs of all sessions of the campaign of its attempt,
  every one of which is settled at a known cost when the delivery is recorded.
\<close>

theorem delivery_cost_is_exact:
  assumes "factory_reachable env s" "record_delivery_cmd (fe_hash env) now c (store s) = Inr (r, d')" "\<not> dy_was_idempotent_retry r"
  shows "\<exists>x k a. get_row (deliveries d') (next_id (deliveries (store s))) = Some x \<and> dl_candidate_id x = dv_candidate_id c
    \<and> get_row (candidates (store s)) (dv_candidate_id c) = Some k
    \<and> get_row (ticket_attempts (store s)) (cr_ticket_attempt_id k) = Some a
    \<and> dl_factory_cost_micro_usd x = spent (store s) (ta_campaign_id a)
    \<and> (\<forall>j y. get_row (sessions (store s)) j = Some y \<and> se_campaign_id y = ta_campaign_id a \<longrightarrow>
         (\<exists>m. se_terminal y = Some m \<and> sm_cost_state m = COST_KNOWN \<and> sm_cost_micro_usd m = Some (session_cost y)))"
  using record_delivery_ran [OF assms(2,3)]
proof (rule record_delivery_fresh_cost)
  fix x cv attempt campaign
  let ?d = "store s"
  note inv = factory_reachable_inv(2) [OF assms(1)]
  have tabs: "table_ok (deliveries ?d)" "table_ok (sessions ?d)"
    using factory_reachable_inv(3) [OF assms(1)] by (simp_all add: tables_ok_def)
  assume x: "deliveries d' = insert_row x (deliveries ?d)" "dl_candidate_id x = dv_candidate_id c"
    and cv: "load_candidate ?d (dv_candidate_id c) = Inr cv" "lock_candidate_attempt ?d (cv_ticket_attempt_id cv) = Inr attempt"
    and cm: "lock_campaign ?d (at_campaign_id attempt) = Inr campaign" "cm_cost_state campaign = COST_KNOWN"
    and cost: "dl_factory_cost_micro_usd x = uint (cm_factory_cost_micro_usd campaign)"
    and quiet: "\<not> paid_session_active ?d"
  obtain k where k: "get_row (candidates ?d) (dv_candidate_id c) = Some k" "cr_ticket_attempt_id k = cv_ticket_attempt_id cv"
    using cv(1) by (rule load_candidateE)
  obtain a where a: "get_row (ticket_attempts ?d) (cr_ticket_attempt_id k) = Some a" "ta_campaign_id a = at_campaign_id attempt"
    using lock_candidate_attempt_campaign [OF cv(2)] k(2) by auto
  obtain g where g: "get_row (campaigns ?d) (ta_campaign_id a) = Some g" "ca_cost_state g = COST_KNOWN"
      "cm_factory_cost_micro_usd campaign = word_of_int (ca_measured_cost_micro_usd g)"
    using cm a(2) by (auto elim!: lock_campaignE)
  have "uint (word_of_int (ca_measured_cost_micro_usd g) :: 64 word) = ca_measured_cost_micro_usd g"
    using process_invD(5) [OF inv g(1)] by (simp add: campaign_cost_ok_def I64_MAX_def uint_word_of_int)
  then have "dl_factory_cost_micro_usd x = spent ?d (ta_campaign_id a)"
    using cost g(3) process_invD(6) [OF inv g(1)] by simp
  moreover have "\<exists>m. se_terminal y = Some m \<and> sm_cost_state m = COST_KNOWN \<and> sm_cost_micro_usd m = Some (session_cost y)"
    if y: "get_row (sessions ?d) j = Some y" "se_campaign_id y = ta_campaign_id a" for j y
  proof -
    have "se_lifecycle y \<noteq> SESSION_RUNNING" using quiet y(1) by (auto simp: paid_session_active_def tbl.ex_get tabs(2))
    then show ?thesis
      using process_invD(3) [OF inv y(1)] y g(1,2)
      by (auto simp: session_ok_def session_funded_def session_state_ok_def session_cost_def)
  qed
  ultimately show ?thesis
    using x k a by (intro exI [of _ x] exI [of _ k] exI [of _ a]) (simp add: tbl.get_ins_new [OF tabs(1)], blast)
qed

text \<open>The pilot delivers at a cost of 12, from three sessions.\<close>

lemma mission_delivers:
  obtains r where "record_delivery_cmd factory_hash 5 mission_deliver mission_decided = Inr (r, mission_delivered)"
    "\<not> dy_was_idempotent_retry r"
proof -
  obtain r where r: "record_delivery_cmd factory_hash 5 mission_deliver mission_decided = Inr (r, mission_delivered)"
    using mission_plays(10) by (auto split: option.splits)
  have "audit_lookup mission_decided (dv_principal mission_deliver) (dv_command_id mission_deliver) = None"
    using mission_plays(9) by (simp add: decided_facts_def unrecorded_def mission_deliver_def pilot_deliver_def)
  then have "\<not> dy_was_idempotent_retry r" using dv_command.replayed [OF r] by auto
  then show thesis using r that by blast
qed

theorem delivery_cost_is_exact_witness:
  "\<exists>x. get_row (deliveries mission_delivered) (next_id (deliveries mission_decided)) = Some x \<and> dl_factory_cost_micro_usd x = 12"
proof -
  obtain r where r: "record_delivery_cmd (fe_hash factory_env) 5 mission_deliver (store (at_five mission_decided)) = Inr (r, mission_delivered)"
      "\<not> dy_was_idempotent_retry r"
    using mission_delivers by auto
  obtain g where g: "get_row (campaigns (store (at_five mission_decided))) 1 = Some g" "ca_measured_cost_micro_usd g = 12"
    by (rule mission_decided_campaign) simp
  have "spent mission_decided 1 = 12"
    using process_invD(6) [OF factory_reachable_inv(2) [OF mission_reachable(4)] g(1)] g(2) by simp
  moreover have "dv_candidate_id mission_deliver = 1" by (simp add: mission_deliver_def pilot_deliver_def)
  moreover have "map_option cr_ticket_attempt_id (get_row (candidates mission_decided) 1) = Some 1"
      "map_option ta_campaign_id (get_row (ticket_attempts mission_decided) 1) = Some 1"
    using mission_plays(9) by (simp_all add: decided_facts_def)
  ultimately show ?thesis using delivery_cost_is_exact [OF mission_reachable(4) r] by auto
qed

section \<open>Sessions\<close>

text \<open>
  C18. One paid session at a time: at most one session runs in the whole factory, and at most one campaign;
  the running session is of a campaign whose cost is known.
\<close>

theorem one_paid_session_at_a_time:
  assumes "factory_reachable env s" "get_row (sessions (store s)) i = Some x" "se_lifecycle x = SESSION_RUNNING"
  shows "(\<forall>j y. get_row (sessions (store s)) j = Some y \<and> se_lifecycle y = SESSION_RUNNING \<longrightarrow> j = i)
    \<and> (\<exists>g. get_row (campaigns (store s)) (se_campaign_id x) = Some g \<and> ca_cost_state g = COST_KNOWN
         \<and> (\<forall>k h. get_row (campaigns (store s)) k = Some h \<and> ca_lifecycle h = CAMPAIGN_RUNNING \<and> ca_lifecycle g = CAMPAIGN_RUNNING
              \<longrightarrow> k = se_campaign_id x))"
proof -
  note inv = factory_reachable_inv(2) [OF assms(1)]
  have u: "unique_key (get_row (sessions (store s))) running_session_key" "unique_key (get_row (campaigns (store s))) running_campaign_key"
    using process_invD(2) [OF inv] by (simp_all add: process_keys_def)
  obtain g where g: "get_row (campaigns (store s)) (se_campaign_id x) = Some g" "ca_cost_state g = COST_KNOWN"
    using process_invD(3) [OF inv assms(2)] assms(3) by (auto simp: session_ok_def session_funded_def)
  have "j = i" if "get_row (sessions (store s)) j = Some y" "se_lifecycle y = SESSION_RUNNING" for j y
    using unique_keyD [OF u(1) that(1) assms(2)] that(2) assms(3) by (simp add: running_session_key_def)
  moreover have "k = se_campaign_id x"
    if "get_row (campaigns (store s)) k = Some h" "ca_lifecycle h = CAMPAIGN_RUNNING" "ca_lifecycle g = CAMPAIGN_RUNNING" for k h
    using unique_keyD [OF u(2) that(1) g(1)] that(2,3) by (simp add: running_campaign_key_def)
  ultimately show ?thesis using g by blast
qed

lemma mission_session:
  obtains x where "get_row (sessions mission_opened) 1 = Some x" "se_lifecycle x = SESSION_RUNNING" "se_campaign_id x = 1" "se_assignment_id x = 1"
  using mission_plays(5) by (auto simp: opened_facts_def)

theorem one_paid_session_at_a_time_witness:
  "\<exists>g. get_row (campaigns mission_opened) 1 = Some g \<and> ca_cost_state g = COST_KNOWN"
proof -
  obtain x where "get_row (sessions (store (at_five mission_opened))) 1 = Some x" "se_lifecycle x = SESSION_RUNNING" "se_campaign_id x = 1"
    by (rule mission_session) simp
  then show ?thesis using one_paid_session_at_a_time [OF mission_reachable(2), of 1 x] by auto
qed

text \<open>
  C19. The process tables are well formed: a session carries the campaign, build, application revision,
  office, role, model and lifecycle of its assignment, has its terminal columns exactly when it no longer runs
  and no amount exactly when its cost is unknown; an assignment that left \<open>Prepared\<close> has a session; and an
  effect belongs to a session of its assignment and is settled exactly when it is no longer started.
\<close>

theorem process_tables_are_well_formed:
  assumes "factory_reachable env s"
  shows "(\<forall>i x. get_row (sessions (store s)) i = Some x \<longrightarrow>
        (\<exists>a. get_row (assignments (store s)) (se_assignment_id x) = Some a \<and> session_of_assignment x a)
        \<and> session_state_ok x)
    \<and> (\<forall>i a. get_row (assignments (store s)) i = Some a \<and> as_lifecycle a \<noteq> ASSIGNMENT_PREPARED \<longrightarrow>
        (\<exists>!j. \<exists>x. get_row (sessions (store s)) j = Some x \<and> se_assignment_id x = i))
    \<and> (\<forall>i e. get_row (provider_effects (store s)) i = Some e \<longrightarrow> effect_ok (store s) e)"
proof -
  note inv = factory_reachable_inv(2) [OF assms]
  have u: "unique_key (get_row (sessions (store s))) (\<lambda>x. Some (se_assignment_id x))"
    using process_invD(2) [OF inv] by (simp add: process_keys_def)
  have "\<exists>!j. \<exists>x. get_row (sessions (store s)) j = Some x \<and> se_assignment_id x = i"
    if a: "get_row (assignments (store s)) i = Some a" "as_lifecycle a \<noteq> ASSIGNMENT_PREPARED" for i a
  proof -
    obtain j x where "get_row (sessions (store s)) j = Some x" "se_assignment_id x = i"
      using process_invD(4) [OF inv a(1)] a(2) by (auto simp: assignment_ok_def)
    then show ?thesis using unique_keyD [OF u] by (intro ex1I [of _ j]) auto
  qed
  then show ?thesis using process_invD(3,7) [OF inv] by (simp add: session_ok_def)
qed

theorem process_tables_are_well_formed_witness:
  "\<exists>a x. get_row (assignments mission_opened) 1 = Some a \<and> get_row (sessions mission_opened) 1 = Some x \<and> session_of_assignment x a"
proof -
  obtain x where x: "get_row (sessions mission_opened) 1 = Some x" "se_assignment_id x = 1" by (rule mission_session) simp
  then obtain a where "get_row (assignments mission_opened) 1 = Some a" "session_of_assignment x a"
    using process_tables_are_well_formed [OF mission_reachable(2)] by fastforce
  then show ?thesis using x(1) by blast
qed

text \<open>
  C10. What is settled is final.  However the factory runs on, a settled session and a settled provider
  effect do not change, an assignment keeps everything it was admitted with, and a campaign keeps its
  bounds, never gets cheaper, never returns to a known cost and never runs again.
\<close>

theorem settled_facts_are_final:
  assumes "factory_reachable env s" "factory_run env s s'"
  shows "(\<forall>i x. get_row (sessions (store s)) i = Some x \<and> se_lifecycle x \<noteq> SESSION_RUNNING
            \<longrightarrow> get_row (sessions (store s')) i = Some x)
    \<and> (\<forall>i e. get_row (provider_effects (store s)) i = Some e \<and> pe_state e \<noteq> 0
            \<longrightarrow> get_row (provider_effects (store s')) i = Some e)
    \<and> (\<forall>i a. get_row (assignments (store s)) i = Some a \<longrightarrow> (\<exists>a'. get_row (assignments (store s')) i = Some a'
            \<and> a' = a\<lparr>as_lifecycle := as_lifecycle a', as_revision := as_revision a'\<rparr> \<and> as_lifecycle a \<le> as_lifecycle a'))
    \<and> (\<forall>i g. get_row (campaigns (store s)) i = Some g \<longrightarrow> (\<exists>g'. get_row (campaigns (store s')) i = Some g'
            \<and> ca_aggregate_budget_micro_usd g' = ca_aggregate_budget_micro_usd g \<and> ca_deadline g' = ca_deadline g
            \<and> ca_delivery_target g' = ca_delivery_target g
            \<and> ca_measured_cost_micro_usd g \<le> ca_measured_cost_micro_usd g' \<and> ca_cost_state g \<le> ca_cost_state g'
            \<and> (ca_lifecycle g \<noteq> CAMPAIGN_RUNNING \<longrightarrow> ca_lifecycle g' \<noteq> CAMPAIGN_RUNNING)))"
proof -
  have grows: "process_grows (store s) (store s')" using factory_run_grows [OF assms(2,1)] by blast
  have "\<exists>g'. get_row (campaigns (store s')) i = Some g' \<and> campaign_evolves g g'" if "get_row (campaigns (store s)) i = Some g" for i g
    using grows that by (simp add: process_grows_def rows_evolve_def)
  then have "\<exists>g'. get_row (campaigns (store s')) i = Some g'
            \<and> ca_aggregate_budget_micro_usd g' = ca_aggregate_budget_micro_usd g \<and> ca_deadline g' = ca_deadline g
            \<and> ca_delivery_target g' = ca_delivery_target g
            \<and> ca_measured_cost_micro_usd g \<le> ca_measured_cost_micro_usd g' \<and> ca_cost_state g \<le> ca_cost_state g'
            \<and> (ca_lifecycle g \<noteq> CAMPAIGN_RUNNING \<longrightarrow> ca_lifecycle g' \<noteq> CAMPAIGN_RUNNING)"
    if "get_row (campaigns (store s)) i = Some g" for i g
    using that campaign_evolvesD by blast
  moreover have "get_row (sessions (store s')) i = Some x"
    if "get_row (sessions (store s)) i = Some x" "se_lifecycle x \<noteq> SESSION_RUNNING" for i x
    using grows that by (fastforce simp: process_grows_def rows_evolve_def session_evolves_def)
  moreover have "get_row (provider_effects (store s')) i = Some e"
    if "get_row (provider_effects (store s)) i = Some e" "pe_state e \<noteq> 0" for i e
    using grows that by (fastforce simp: process_grows_def rows_evolve_def effect_evolves_def)
  moreover have "\<exists>a'. get_row (assignments (store s')) i = Some a'
            \<and> a' = a\<lparr>as_lifecycle := as_lifecycle a', as_revision := as_revision a'\<rparr> \<and> as_lifecycle a \<le> as_lifecycle a'"
    if "get_row (assignments (store s)) i = Some a" for i a
    using grows that unfolding process_grows_def rows_evolve_def assignment_evolves_def by blast
  ultimately show ?thesis by blast
qed

theorem settled_facts_are_final_witness:
  "get_row (sessions mission_settled) 1 \<noteq> None \<and> get_row (sessions mission_decided) 1 = get_row (sessions mission_settled) 1"
proof -
  obtain x where x: "get_row (sessions (store (at_five mission_settled))) 1 = Some x" "se_lifecycle x = SESSION_SUCCEEDED"
    using mission_plays(7) by (auto simp: settled_facts_def)
  then have "get_row (sessions (store (at_five mission_decided))) 1 = Some x"
    using settled_facts_are_final [OF mission_reachable(3) mission_runs(4)] by simp
  then show ?thesis using x(1) by simp
qed

section \<open>Restart\<close>

text \<open>The Engineering packet of the pilot is rebuilt from its wire form.\<close>

theorem restart_rebuilds_the_admitted_packet_witness:
  "assignment_packet_from_wire factory_hash (mission_wire 2) = Inr (mission_packet 2)"
proof -
  have "is_ok (absolute_host_path_parse ''/w'') \<and> is_ok (absolute_host_path_parse ''/s'') \<and> is_ok (absolute_host_path_parse ''/bin/host'')
    \<and> is_ok (repository_relative_path_parse ''README'')" by code_simp
  then have "packet_typed (mission_packet 2)"
    by (simp add: packet_typed_def mission_packet_def sample_runtime_def digest_ok_def pilot_digest_def mission_digest_def)
  then show ?thesis
    using restart_rebuilds_the_admitted_packet [OF mission_wire_valid [of 2]] mission_wire_maps [of 2] mission_packet_valid [of 2] by simp
qed

end
