(* ===== verification/Session_Guarantees.thy ===== *)
theory Session_Guarantees
  imports Mission
begin

text \<open>
  What single requests of the process authority guarantee when they commit: an admission its sealed packet, a
  settlement its charge, and each of them that it takes effect once.
\<close>

section \<open>Committed requests ran their transition\<close>

lemma audited_fresh:
  assumes "audited (process_find_audit d p c op fp) replay fresh d = Inr (r, d')"
    and "\<And>rc r. replay rc = Inr r \<Longrightarrow> retried r" "\<not> retried r"
  shows "fresh = Inr (r, d')"
  using assms(1) unfolding process_find_audit_def by (rule audited_cases) (use assms(2,3) in blast)+

lemma terminal_session_ran:
  assumes "terminal_session_cmd hash now c d = Inr (r, d')" "\<not> tx_was_idempotent_retry r"
  shows "terminal_session_fresh (hash (terminal_preimage c)) now c d = Inr (r, d')"
proof (rule audited_fresh [where retried = tx_was_idempotent_retry])
  show "audited (process_find_audit d (tc_principal c) (tc_command_id c) SESSION_TERMINAL (hash (terminal_preimage c)))
      (terminal_replay c d) (terminal_session_fresh (hash (terminal_preimage c)) now c d) d = Inr (r, d')"
    using assms(1) by (auto simp: terminal_session_cmd_def Let_def)
  show "tx_was_idempotent_retry x" if "terminal_replay c d rc = Inr x" for rc x
    using that by (auto simp: terminal_replay_def)
qed (rule assms(2))

lemma create_assignment_ran:
  assumes "create_assignment_cmd hash env now c d = Inr (r, d')" "\<not> ax_was_idempotent_retry r"
  obtains w where "create_assignment_checked hash env c = Inr w"
    "create_assignment_fresh hash env (hash (create_assignment_preimage c)) now w c d = Inr (r, d')"
  using assms(1)
proof (rule create_assignment_cmd_cases)
  fix receipt
  assume "create_assignment_replay env c receipt d = Inr (r, d')"
  then have "ax_was_idempotent_retry r" by (auto simp: create_assignment_replay_def)
  with assms(2) show thesis by contradiction
qed (rule that)

lemma create_assignment_audited:
  assumes "create_assignment_cmd hash env now c d = Inr (r, d')"
  obtains (replay) receipt where "audit_lookup d (na_principal c) (na_command_id c) \<noteq> None"
      "create_assignment_replay env c receipt d = Inr (r, d')"
    | (fresh) w where "audit_lookup d (na_principal c) (na_command_id c) = None"
      "create_assignment_fresh hash env (hash (create_assignment_preimage c)) now w c d = Inr (r, d')"
proof -
  obtain w found where
    f: "process_find_audit d (na_principal c) (na_command_id c) ASSIGNMENT_CREATE (hash (create_assignment_preimage c)) = Inr found"
    and rest: "(case found of Some receipt \<Rightarrow> create_assignment_replay env c receipt d
       | None \<Rightarrow> create_assignment_fresh hash env (hash (create_assignment_preimage c)) now w c d) = Inr (r, d')"
    using assms unfolding create_assignment_cmd_def Let_def by auto
  have "found = None \<longleftrightarrow> audit_lookup d (na_principal c) (na_command_id c) = None"
    using f find_audit_entry_None unfolding process_find_audit_def by (metis sum.inject(2))
  then show thesis using that rest by (cases found) auto
qed

lemma create_assignment_fresh_if_new:
  assumes "create_assignment_cmd hash env now c d = Inr (r, d')" "audit_lookup d (na_principal c) (na_command_id c) = None"
  shows "\<exists>fp w. create_assignment_fresh hash env fp now w c d = Inr (r, d')"
  using assms(1) by (rule create_assignment_audited) (use assms(2) in auto)

section \<open>Settlement\<close>

lemma terminal_session_fresh_rows:
  assumes "terminal_session_fresh fp now c d = Inr (r, d')"
  obtains s a g state v tot life m nxt cnxt where
    "get_row (sessions d) (tc_session_id c) = Some s" "se_lifecycle s = SESSION_RUNNING"
    "get_row (assignments d) (se_assignment_id s) = Some a" "get_row (campaigns d) (se_campaign_id s) = Some g"
    "terminal_report_allowed (tc_report c) (tc_evidence c) (as_terminal_operations_mask a) = Inr ()"
    "settle_cost (tr_stop_reason (tc_report c)) (evidence_cost (tc_evidence c)) g (word_of_int (ca_aggregate_budget_micro_usd g))
      (word_of_int (ca_measured_cost_micro_usd g)) = Inr (state, v, tot, life)"
    "terminal_columns now c state v = Inr m" "uint tot \<le> I64_MAX"
    "get_row (sessions d') (tc_session_id c)
      = Some (s\<lparr>se_lifecycle := session_state_code (session_state_of (tr_stop_reason (tc_report c))), se_terminal := Some m, se_revision := uint (nxt :: 64 word)\<rparr>)"
    "get_row (campaigns d') (se_campaign_id s) = Some (g\<lparr>ca_measured_cost_micro_usd := uint tot,
        ca_cost_state := max state (ca_cost_state g), ca_lifecycle := life, ca_failure_reason := campaign_failure_reason life state,
        ca_revision := uint (cnxt :: 64 word)\<rparr>)"
  using assms
proof (rule terminal_session_fresh_cases)
  fix s :: session_row and a :: assignment_row and g :: campaign_row and state v life and m :: session_terminal_columns and k and nxt cnxt tot :: "64 word"
  assume 1: "get_row (sessions d) (tc_session_id c) = Some s" "se_lifecycle s = SESSION_RUNNING"
    "get_row (assignments d) (se_assignment_id s) = Some a" "get_row (campaigns d) (se_campaign_id s) = Some g"
    "terminal_report_allowed (tc_report c) (tc_evidence c) (as_terminal_operations_mask a) = Inr ()"
    "settle_cost (tr_stop_reason (tc_report c)) (evidence_cost (tc_evidence c)) g (word_of_int (ca_aggregate_budget_micro_usd g))
      (word_of_int (ca_measured_cost_micro_usd g)) = Inr (state, v, tot, life)"
    "terminal_columns now c state v = Inr m" "uint tot \<le> I64_MAX"
  assume "process_insert_audit (d\<lparr>
           sessions := update_row (tc_session_id c) (\<lambda>s. s\<lparr>se_lifecycle := session_state_code (session_state_of (tr_stop_reason (tc_report c))),
               se_terminal := Some m, se_revision := uint nxt\<rparr>) (sessions d),
           assignments := update_row (se_assignment_id s) (\<lambda>a. if as_lifecycle a = SESSION_RUNNING
               then a\<lparr>as_lifecycle := assignment_state_code (session_state_of (tr_stop_reason (tc_report c))),
                 as_revision := as_revision a + 1\<rparr> else a) (assignments d),
           campaigns := update_row (se_campaign_id s) (\<lambda>g. g\<lparr>ca_measured_cost_micro_usd := uint tot,
               ca_cost_state := max state (ca_cost_state g), ca_lifecycle := life,
               ca_failure_reason := campaign_failure_reason life state, ca_revision := uint cnxt\<rparr>) (campaigns d)\<rparr>)
       (tc_principal c) (tc_command_id c) SESSION_TERMINAL fp SESSION_SUBJECT (tc_session_id c) nxt = Inr (k, d')"
  from process_audit(1) [OF this] obtain b where "sessions d' = update_row (tc_session_id c) (\<lambda>s. s\<lparr>se_lifecycle :=
        session_state_code (session_state_of (tr_stop_reason (tc_report c))), se_terminal := Some m, se_revision := uint nxt\<rparr>) (sessions d)"
      "campaigns d' = update_row (se_campaign_id s) (\<lambda>g. g\<lparr>ca_measured_cost_micro_usd := uint tot,
               ca_cost_state := max state (ca_cost_state g), ca_lifecycle := life,
               ca_failure_reason := campaign_failure_reason life state, ca_revision := uint cnxt\<rparr>) (campaigns d)" by auto
  then have rows: "get_row (sessions d') (tc_session_id c)
      = Some (s\<lparr>se_lifecycle := session_state_code (session_state_of (tr_stop_reason (tc_report c))), se_terminal := Some m, se_revision := uint nxt\<rparr>)"
    "get_row (campaigns d') (se_campaign_id s) = Some (g\<lparr>ca_measured_cost_micro_usd := uint tot,
        ca_cost_state := max state (ca_cost_state g), ca_lifecycle := life, ca_failure_reason := campaign_failure_reason life state,
        ca_revision := uint cnxt\<rparr>)" by (simp_all add: tbl.get_upd 1)
  show thesis by (rule that) (rule 1 rows)+
qed

text \<open>What the cost of a session does to its campaign, on amounts.\<close>

definition campaign_charged :: "stop_reason \<Rightarrow> terminal_cost \<Rightarrow> campaign_row \<Rightarrow> campaign_row \<Rightarrow> bool" where
  "campaign_charged reason cost g g' \<longleftrightarrow> (case cost of
       CostUnknown \<Rightarrow> ca_measured_cost_micro_usd g' = ca_measured_cost_micro_usd g \<and> ca_cost_state g' = COST_UNKNOWN
         \<and> ca_lifecycle g' = (if reason = StopCancelled then ca_lifecycle g else CAMPAIGN_FAILED)
     | CostExceeded v \<Rightarrow> False
     | CostKnown v \<Rightarrow> ca_measured_cost_micro_usd g' = ca_measured_cost_micro_usd g + uint v
         \<and> (if reason = StopCostLimit \<or> ca_aggregate_budget_micro_usd g < ca_measured_cost_micro_usd g + uint v
            then ca_cost_state g' = COST_EXCEEDED \<and> ca_lifecycle g' = CAMPAIGN_FAILED
            else ca_cost_state g' = COST_KNOWN \<and> ca_lifecycle g' = ca_lifecycle g))"

lemma settle_cost_charges:
  assumes "settle_cost reason (evidence_cost e) g (word_of_int (ca_aggregate_budget_micro_usd g))
      (word_of_int (ca_measured_cost_micro_usd g)) = Inr (state, v, tot, life)"
    and "campaign_cost_ok g" "ca_cost_state g = COST_KNOWN"
  shows "campaign_charged reason (evidence_cost e) g (g\<lparr>ca_measured_cost_micro_usd := uint tot,
        ca_cost_state := max state (ca_cost_state g), ca_lifecycle := life, ca_failure_reason := f, ca_revision := r\<rparr>)"
    and "v = (case evidence_cost e of CostKnown x \<Rightarrow> Some x | _ \<Rightarrow> None)"
proof -
  have r: "0 \<le> x \<Longrightarrow> x \<le> I64_MAX \<Longrightarrow> uint (word_of_int x :: 64 word) = x" for x
    by (simp add: I64_MAX_def uint_word_of_int)
  show "campaign_charged reason (evidence_cost e) g (g\<lparr>ca_measured_cost_micro_usd := uint tot,
        ca_cost_state := max state (ca_cost_state g), ca_lifecycle := life, ca_failure_reason := f, ca_revision := r\<rparr>)"
    and "v = (case evidence_cost e of CostKnown x \<Rightarrow> Some x | _ \<Rightarrow> None)"
    using assms evidence_cost_not_exceeded [of e]
    by (cases "evidence_cost e"; auto simp: settle_cost_def campaign_charged_def campaign_cost_ok_def checked_add_uint r
        word_less_def not_less split: if_splits)+
qed


text \<open>The first session of the pilot is settled at 3 of its budget of 100.\<close>

lemma audited_first:
  assumes "audited (process_find_audit d p c op fp) replay fresh d = Inr (r, d')" "audit_lookup d p c = None"
  shows "fresh = Inr (r, d')"
  using assms(1) unfolding process_find_audit_def
proof (rule audited_cases)
  fix rc
  assume "find_audit_entry (ProcessIdempotencyConflict p c) ProcessRevisionOutOfRange d p c op fp = Inr (Some rc)"
  then show ?thesis
    using find_audit_entry_None [of "ProcessIdempotencyConflict p c" ProcessRevisionOutOfRange d p c op fp] assms(2) by auto
qed

lemma mission_settles:
  obtains r where "terminal_session_cmd factory_hash 5 (mission_terminal 1 3) mission_opened = Inr (r, mission_settled)"
    "\<not> tx_was_idempotent_retry r"
proof -
  obtain r where r: "terminal_session_cmd factory_hash 5 (mission_terminal 1 3) mission_opened = Inr (r, mission_settled)"
    using mission_plays(6) by (auto simp: settlement_def split: option.splits)
  have id: "tc_principal (mission_terminal 1 3) = ''kernel'' \<and> tc_command_id (mission_terminal 1 3) = ''t1''" by code_simp
  have "audit_lookup mission_opened ''kernel'' ''t1'' = None"
    using mission_plays(5) by (simp add: opened_facts_def unrecorded_def)
  then have "terminal_session_fresh (factory_hash (terminal_preimage (mission_terminal 1 3))) 5 (mission_terminal 1 3) mission_opened
      = Inr (r, mission_settled)"
    using r id by (auto simp: terminal_session_cmd_def Let_def dest: audited_first)
  then have "\<not> tx_was_idempotent_retry r" by (rule terminal_session_fresh_cases) simp
  then show thesis using r that by blast
qed


section \<open>Admission\<close>

lemma digest_hex_inject: "digest_hex a = digest_hex b \<longleftrightarrow> a = b"
proof
  assume "digest_hex a = digest_hex b"
  then have "bytes_of (digest_hex a) = bytes_of (digest_hex b)" by simp
  then have "hex_encode a = hex_encode b" by (simp add: digest_hex_def bytes_of_chars)
  then have "hex_pairs (hex_encode a) = hex_pairs (hex_encode b)" by simp
  then show "a = b" by (simp add: hex_pairs_encode)
qed simp

lemma create_assignment_checked_ok:
  assumes "create_assignment_checked hash env c = Inr w"
  shows "decode_json (en_json env) (na_packet_bytes c) = Inr w" "print_json (en_json env) w = na_packet_bytes c"
    "hash (print_json (en_json env) (w\<lparr>w_packet_digest := []\<rparr>)) = packet_digest (na_packet c)"
    "verify_wire_domain_mapping w (na_packet c) = Inr ()" "assignment_packet_validate hash (na_packet c) = Inr ()"
    "en_cas env (cas_digest (na_packet_artifact c)) = Some (na_packet_bytes c)"
    "hash (na_packet_bytes c) = cas_digest (na_packet_artifact c)" "pk_assignment_id (na_packet c) = na_identity c"
proof -
  have w: "verify_assignment_packet hash (en_json env) (na_packet_bytes c) (digest_hex (packet_digest (na_packet c))) = Inr w"
    and checks: "verify_wire_domain_mapping w (na_packet c) = Inr ()" "assignment_packet_validate hash (na_packet c) = Inr ()"
      "pk_assignment_id (na_packet c) = na_identity c"
    and cas: "cas_read hash (en_cas env) (cas_digest (na_packet_artifact c)) = Inr (na_packet_bytes c)"
    using assms by (clarsimp simp: create_assignment_checked_def Let_def process_contract_def)+
  show "decode_json (en_json env) (na_packet_bytes c) = Inr w" "print_json (en_json env) w = na_packet_bytes c"
    using w by (auto simp: verify_assignment_packet_def Let_def parse_assignment_packet_def canonical_assignment_packet_json_def)
  show "hash (print_json (en_json env) (w\<lparr>w_packet_digest := []\<rparr>)) = packet_digest (na_packet c)"
    using w by (auto simp: verify_assignment_packet_def Let_def unsigned_assignment_packet_digest_def canonical_assignment_packet_json_def
        digest_from_str_hex digest_hex_inject)
  show "en_cas env (cas_digest (na_packet_artifact c)) = Some (na_packet_bytes c)" "hash (na_packet_bytes c) = cas_digest (na_packet_artifact c)"
    using cas by (simp_all add: cas_read_def split: option.splits if_splits)
  show "verify_wire_domain_mapping w (na_packet c) = Inr ()" "assignment_packet_validate hash (na_packet c) = Inr ()"
    "pk_assignment_id (na_packet c) = na_identity c" by (fact checks)+
qed

text \<open>
  C8. An admitted assignment is its sealed packet.  The bytes in the object store are the canonical JSON of a
  wire packet whose unsigned form has the digest of the typed packet, and the two agree field by field; the
  campaign runs before its deadline at a known cost, and the allowance of the packet is exactly what is left
  of its budget; the target of the packet exists; and the row that is written is new, prepared and pinned to
  that digest.
\<close>

theorem admitted_assignment_is_its_sealed_packet:
  assumes "factory_reachable env s" "create_assignment_cmd (fe_hash env) (fe_admission env) now c (store s) = Inr (r, d')"
    and "\<not> ax_was_idempotent_retry r"
  shows "\<exists>w g a. print_json (en_json (fe_admission env)) w = na_packet_bytes c
    \<and> en_cas (fe_admission env) (cas_digest (na_packet_artifact c)) = Some (na_packet_bytes c)
    \<and> fe_hash env (na_packet_bytes c) = cas_digest (na_packet_artifact c)
    \<and> fe_hash env (print_json (en_json (fe_admission env)) (w\<lparr>w_packet_digest := []\<rparr>)) = packet_digest (na_packet c)
    \<and> verify_wire_domain_mapping w (na_packet c) = Inr () \<and> assignment_packet_validate (fe_hash env) (na_packet c) = Inr ()
    \<and> get_row (campaigns (store s)) (pk_campaign_id (na_packet c)) = Some g \<and> ca_lifecycle g = CAMPAIGN_RUNNING
    \<and> now < ca_deadline g \<and> ca_cost_state g = COST_KNOWN
    \<and> uint (remaining_campaign_allowance (na_packet c)) = ca_aggregate_budget_micro_usd g - ca_measured_cost_micro_usd g
    \<and> assignment_target_exists (store s) (na_packet c)
    \<and> get_row (assignments (store s)) (na_identity c) = None \<and> pk_assignment_id (na_packet c) = na_identity c
    \<and> get_row (assignments d') (na_identity c) = Some a \<and> as_lifecycle a = ASSIGNMENT_PREPARED
    \<and> as_packet_digest a = packet_digest (na_packet c) \<and> as_campaign_id a = pk_campaign_id (na_packet c)"
  using assms(2,3)
proof (rule create_assignment_ran)
  fix w
  assume w: "create_assignment_checked (fe_hash env) (fe_admission env) c = Inr w"
  assume "create_assignment_fresh (fe_hash env) (fe_admission env) (fe_hash env (create_assignment_preimage c)) now w c (store s) = Inr (r, d')"
  then show ?thesis
  proof (rule create_assignment_fresh_cases)
    fix a :: assignment_row and g :: campaign_row and h :: unit and t :: "harness_row table" and nxt remaining :: "64 word" and artifact k
    let ?d = "store s" and ?p = "na_packet c"
    assume audit: "process_insert_audit (?d\<lparr>assignments := insert_at (na_identity c) a (assignments ?d), harness_compilations := t,
        campaigns := update_row (pk_campaign_id ?p) (\<lambda>g. g\<lparr>ca_revision := uint nxt\<rparr>) (campaigns ?d)\<rparr>)
      (na_principal c) (na_command_id c) ASSIGNMENT_CREATE (fe_hash env (create_assignment_preimage c)) ASSIGNMENT_SUBJECT (na_identity c) revision_initial = Inr (k, d')"
      and g: "get_row (campaigns ?d) (pk_campaign_id ?p) = Some g" "ca_lifecycle g = CAMPAIGN_RUNNING" "now < ca_deadline g" "ca_cost_state g = COST_KNOWN"
      and a: "assignment_row_of c ?d remaining artifact = Inr a" "assignment_row_ok ?d (na_identity c) a"
      and allowance: "remaining_campaign_allowance ?p = remaining"
        "remaining = word_of_int (ca_aggregate_budget_micro_usd g) - word_of_int (ca_measured_cost_micro_usd g)"
      and target: "assignment_target_exists ?d ?p"
    have "campaign_cost_ok g" by (rule process_invD(5) [OF factory_reachable_inv(2) [OF assms(1)] g(1)])
    then have bounds: "0 \<le> ca_measured_cost_micro_usd g" "ca_measured_cost_micro_usd g \<le> ca_aggregate_budget_micro_usd g"
        "ca_aggregate_budget_micro_usd g < 2 ^ 64"
      using g(4) by (simp_all add: campaign_cost_ok_def I64_MAX_def)
    have "remaining = word_of_int (ca_aggregate_budget_micro_usd g - ca_measured_cost_micro_usd g)"
      using allowance(2) by simp
    moreover have "uint (word_of_int (ca_aggregate_budget_micro_usd g - ca_measured_cost_micro_usd g) :: 64 word)
        = ca_aggregate_budget_micro_usd g - ca_measured_cost_micro_usd g"
      by (subst uint_word_of_int) (use bounds in simp)
    ultimately have left: "uint (remaining_campaign_allowance ?p) = ca_aggregate_budget_micro_usd g - ca_measured_cost_micro_usd g"
      using allowance(1) by (simp only:)
    have new: "get_row (assignments ?d) (na_identity c) = None" using a(2) by (simp add: assignment_row_ok_def)
    obtain b where "d' = ?d\<lparr>assignments := insert_at (na_identity c) a (assignments ?d), harness_compilations := t,
        campaigns := update_row (pk_campaign_id ?p) (\<lambda>g. g\<lparr>ca_revision := uint nxt\<rparr>) (campaigns ?d),
        audit_log := insert_row b (audit_log ?d)\<rparr>"
      using process_audit(1) [OF audit] by auto
    then have "get_row (assignments d') (na_identity c) = Some a" using new by (simp add: get_insert_at)
    moreover have "as_lifecycle a = ASSIGNMENT_PREPARED" "as_packet_digest a = packet_digest ?p" "as_campaign_id a = pk_campaign_id ?p"
      using a(1) by (auto simp: assignment_row_of_def Let_def)
    ultimately show ?thesis using create_assignment_checked_ok [OF w] g left new target by blast
  qed
qed

text \<open>The Product assignment of the pilot.\<close>

lemma mission_admits:
  obtains r where "create_assignment_cmd factory_hash (fe_admission factory_env) 5 (mission_create 1 0) mission_reserved = Inr (r, mission_prepared)"
    "\<not> ax_was_idempotent_retry r"
proof -
  obtain r where r: "create_assignment_cmd factory_hash (fe_admission factory_env) 5 (mission_create 1 0) mission_reserved = Inr (r, mission_prepared)"
    using mission_plays(3) by (auto simp: admit_mission split: option.splits if_splits)
  have id: "decimal_of_int 1 = ''1''" by code_simp
  have "audit_lookup mission_reserved (na_principal (mission_create 1 0)) (na_command_id (mission_create 1 0)) = None"
    using mission_plays(2) id by (simp add: unrecorded_def mission_create_def)
  then obtain fp w where "create_assignment_fresh factory_hash (fe_admission factory_env) fp 5 w (mission_create 1 0) mission_reserved
      = Inr (r, mission_prepared)"
    using r create_assignment_fresh_if_new by blast
  then have "\<not> ax_was_idempotent_retry r" by (rule create_assignment_fresh_cases) simp
  then show thesis using r that by blast
qed

theorem admitted_assignment_is_its_sealed_packet_witness:
  "\<exists>a. get_row (assignments mission_prepared) 1 = Some a \<and> as_lifecycle a = ASSIGNMENT_PREPARED \<and> as_packet_digest a = mission_digest 1"
proof -
  obtain r where r: "create_assignment_cmd (fe_hash factory_env) (fe_admission factory_env) 5 (mission_create 1 0) (store (at_five mission_reserved))
      = Inr (r, mission_prepared)" "\<not> ax_was_idempotent_retry r"
    using mission_admits by auto
  have "packet_digest (na_packet (mission_create 1 0)) = mission_digest 1" by (simp add: mission_create_def mission_packet_def)
  then show ?thesis using admitted_assignment_is_its_sealed_packet [OF mission_reachable(1) r] by auto
qed

section \<open>Once\<close>

text \<open>The requests that are recorded in the audit log, with their identity.\<close>

fun request_command :: "process_request \<Rightarrow> (string \<times> string) option" where
  "request_command (StartCampaign c) = Some (cs_principal c, cs_command_id c)"
| "request_command (FinishCancellation c x) = Some (cc_principal c, cc_command_id c)"
| "request_command (FailCampaign c) = Some (cf_principal c, cf_command_id c)"
| "request_command (CreateAssignment c) = Some (na_principal c, na_command_id c)"
| "request_command (StartSession c) = Some (ss_principal c, ss_command_id c)"
| "request_command (TerminalSession c) = Some (tc_principal c, tc_command_id c)"
| "request_command _ = None"

lemma process_audit_recorded: "process_insert_audit d p c op fp k s r = Inr (i, d') \<Longrightarrow> audit_lookup d' p c \<noteq> None"
  unfolding process_insert_audit_def by (drule insert_audit_entry_lookup(1)) auto

lemma audited_recorded:
  assumes "audited (process_find_audit d p c op fp) replay fresh d = Inr (r, d')"
    and "fresh = Inr (r, d') \<Longrightarrow> audit_lookup d' p c \<noteq> None"
  shows "audit_lookup d' p c \<noteq> None"
  using assms(1) unfolding process_find_audit_def
proof (rule audited_cases)
  fix rc
  assume f: "find_audit_entry (ProcessIdempotencyConflict p c) ProcessRevisionOutOfRange d p c op fp = Inr (Some rc)" and "d' = d"
  then show ?thesis using find_audit_entry_None [of "ProcessIdempotencyConflict p c" ProcessRevisionOutOfRange d p c op fp] by auto
qed (rule assms(2))

lemma audited_replays:
  "audited (process_find_audit d p c op fp) replay fresh d = Inr (r, d') \<Longrightarrow> audit_lookup d p c \<noteq> None \<Longrightarrow> d' = d"
  unfolding process_find_audit_def by (auto elim: audited_cases)

lemmas command_defs = start_campaign_cmd_def finish_campaign_cancellation_def fail_campaign_cmd_def start_session_cmd_def
  terminal_session_cmd_def Let_def

lemma start_campaign_records: "start_campaign_fresh timestamp fp now c d = Inr (r, d') \<Longrightarrow> audit_lookup d' (cs_principal c) (cs_command_id c) \<noteq> None"
  by (erule start_campaign_fresh_cases) (rule process_audit_recorded)

lemma closes_campaign_records: "closes_campaign p q op fp i l reason nxt r d d' \<Longrightarrow> audit_lookup d' p q \<noteq> None"
  unfolding closes_campaign_def using process_audit_recorded by blast

lemma finish_cancellation_records: "finish_cancellation_fresh fp c x d = Inr (r, d') \<Longrightarrow> audit_lookup d' (cc_principal c) (cc_command_id c) \<noteq> None"
  by (erule finish_cancellation_fresh_cases) (blast dest: cancel_campaign_closes closes_campaign_records)

lemma fail_campaign_records: "fail_campaign_fresh fp c d = Inr (r, d') \<Longrightarrow> audit_lookup d' (cf_principal c) (cf_command_id c) \<noteq> None"
  by (blast dest: fail_campaign_fresh_closes closes_campaign_records)

lemma start_session_records: "start_session_fresh fp now c d = Inr (r, d') \<Longrightarrow> audit_lookup d' (ss_principal c) (ss_command_id c) \<noteq> None"
  by (erule start_session_fresh_cases) (rule process_audit_recorded)

lemma terminal_session_records: "terminal_session_fresh fp now c d = Inr (r, d') \<Longrightarrow> audit_lookup d' (tc_principal c) (tc_command_id c) \<noteq> None"
  by (erule terminal_session_fresh_cases) (rule process_audit_recorded)

lemma create_assignment_fresh_records:
  "create_assignment_fresh hash env fp now w c d = Inr (r, d') \<Longrightarrow> audit_lookup d' (na_principal c) (na_command_id c) \<noteq> None"
  by (erule create_assignment_fresh_cases) (rule process_audit_recorded)

lemma create_assignment_records:
  assumes "create_assignment_cmd hash env now c d = Inr (r, d')"
  shows "audit_lookup d' (na_principal c) (na_command_id c) \<noteq> None"
  using assms
proof (cases rule: create_assignment_audited)
  case (replay receipt)
  then have "audit_extends d d'" using create_assignment_replay_keeps(2) by (auto simp: authority_frame_def)
  then show ?thesis using replay(1) by (auto simp: audit_extends_def)
qed (rule create_assignment_fresh_records)

lemma create_assignment_replays:
  assumes "create_assignment_cmd hash env now c d = Inr (r, d')" "audit_lookup d (na_principal c) (na_command_id c) \<noteq> None"
  shows "process_same d d' \<and> audit_log d' = audit_log d"
  using assms(1)
proof (cases rule: create_assignment_audited)
  case (replay receipt)
  then show ?thesis
    by (auto simp: create_assignment_replay_def process_same_def elim!: persist_optional_harness_cases)
qed (use assms(2) in simp)

lemma request_recorded:
  assumes "process_step env now q d = Some d'" "request_command q = Some (p, c)"
  shows "audit_lookup d' p c \<noteq> None"
proof (cases q)
  case (StartCampaign x)
  then show ?thesis using assms by (auto simp: command_defs dest!: audited_recorded dest: start_campaign_records)
next
  case (FinishCancellation x y)
  then show ?thesis using assms by (auto simp: command_defs dest!: audited_recorded dest: finish_cancellation_records)
next
  case (FailCampaign x)
  then show ?thesis using assms by (auto simp: command_defs dest!: audited_recorded dest: fail_campaign_records)
next
  case (CreateAssignment x)
  then show ?thesis using assms create_assignment_records by fastforce
next
  case (StartSession x)
  then show ?thesis using assms by (auto simp: command_defs dest!: audited_recorded dest: start_session_records)
next
  case (TerminalSession x)
  then show ?thesis using assms by (auto simp: command_defs dest!: audited_recorded dest: terminal_session_records)
qed (use assms in simp_all)

lemma recorded_request_replays:
  assumes "process_step env now q d = Some d'" "request_command q = Some (p, c)" "audit_lookup d p c \<noteq> None"
  shows "process_same d d' \<and> audit_log d' = audit_log d"
proof (cases q)
  case (CreateAssignment x)
  then show ?thesis using assms create_assignment_replays by fastforce
qed (use assms in \<open>auto simp: command_defs process_same_def dest!: audited_replays\<close>)

text \<open>
  C13. A recorded request takes effect once.  Once a campaign start, failure or finished cancellation, an
  admission, a session start or a settlement has committed, the same request never again changes a campaign, an
  assignment, a session, an effect or the audit log, however long the factory runs in between: nothing is
  paid or charged twice.
\<close>

theorem request_takes_effect_once:
  assumes "factory_reachable env s" "clock s \<le> now" "request_allowed q (store s)" "request_command q = Some (p, c)"
    and "process_step env now q (store s) = Some d'" "factory_run env \<lparr>clock = now, store = d'\<rparr> t"
    and "process_step env later q (store t) = Some e"
  shows "process_same (store t) e \<and> audit_log e = audit_log (store t)"
proof -
  let ?s' = "\<lparr>clock = now, store = d'\<rparr>"
  have "factory_run env s ?s'"
    using factory_run.go [OF factory_run.stop factory_step.request [OF assms(2,3,5)]] .
  then have "factory_reachable env ?s'" by (rule factory_reachable_run [OF assms(1)])
  then have inv: "factory_inv ?s'"
    using factory_run_refines factory_inv_empty unfolding factory_reachable_def by blast
  then have "kernel_grows ?s' t"
    using factory_run_refines [OF assms(6)] kernel_run_inv by (auto simp: factory_inv_def)
  then have "audit_extends d' (store t)" by (simp add: kernel_grows_def)
  moreover have "audit_lookup d' p c \<noteq> None" by (rule request_recorded [OF assms(5,4)])
  ultimately have "audit_lookup (store t) p c \<noteq> None" by (auto simp: audit_extends_def)
  then show ?thesis by (rule recorded_request_replays [OF assms(7,4)])
qed

text \<open>The settlement of the pilot, sent again.\<close>

theorem request_takes_effect_once_witness:
  "\<exists>e. process_step factory_env 5 (TerminalSession (mission_terminal 1 3)) mission_settled = Some e
     \<and> process_same mission_settled e \<and> audit_log e = audit_log mission_settled"
proof -
  let ?q = "TerminalSession (mission_terminal 1 3)"
  obtain r where "terminal_session_cmd factory_hash 5 (mission_terminal 1 3) mission_opened = Inr (r, mission_settled)"
    by (rule mission_settles)
  then have first: "process_step factory_env 5 ?q (store (at_five mission_opened)) = Some mission_settled" by simp
  obtain e where e: "process_step factory_env 5 ?q (store (at_five mission_settled)) = Some e"
    using mission_plays(7) by (auto simp: settled_facts_def settlement_def)
  have "factory_run factory_env \<lparr>clock = 5, store = mission_settled\<rparr> (at_five mission_settled)"
    by (simp add: at_five_def factory_run.stop)
  from request_takes_effect_once [OF mission_reachable(2) _ _ _ first this e]
  have "process_same mission_settled e \<and> audit_log e = audit_log mission_settled" by simp
  then show ?thesis using e unfolding at_five_sel by blast
qed

end
