(* ===== verification/Spec2Isabelle.thy ===== *)
theory Spec2Isabelle
  imports Scheduler_Guarantees Recovery Factory_Guarantees Session_Guarantees
begin

text \<open>
  A model of the factory kernel's durable authority.
\<close>

section \<open>Evidence\<close>

definition passed_on_tree :: "db \<Rightarrow> int \<Rightarrow> candidate_row \<Rightarrow> validation_scope \<Rightarrow> bool" where
  "passed_on_tree d i c scope =
     exists_row (\<lambda>_ v. va_candidate_id v = i \<and> va_scope v = scope_code scope
       \<and> va_lifecycle v = VALIDATION_PASSED \<and> va_pristine_tree v = cr_candidate_tree c) (validations d)"

lemma evidence_chainD:
  assumes "evidence_chain d"
  shows "get_row (candidates d) i = Some c \<Longrightarrow> candidate_backed d i c"
    and "get_row (validations d) i = Some v \<Longrightarrow> validation_backed d v"
    and "get_row (architect_decisions d) i = Some x \<Longrightarrow> decision_backed d x"
    and "get_row (deliveries d) i = Some l \<Longrightarrow> delivery_backed d l"
  using assms by (simp_all add: evidence_chain_def)

lemma passed_on_treeI:
  assumes "evidence_inv d" "validation_passed d i scope" "get_row (candidates d) i = Some c"
  shows "passed_on_tree d i c scope"
proof -
  have t: "table_ok (validations d)" using assms(1) by (simp add: evidence_inv_def tables_ok_def)
  then obtain k v where v: "get_row (validations d) k = Some v" "va_candidate_id v = i" "va_scope v = scope_code scope"
      "va_lifecycle v = VALIDATION_PASSED"
    using assms(2) by (auto simp: validation_passed_def tbl.ex_get)
  moreover have "va_pristine_tree v = cr_candidate_tree c"
    using assms(1,3) v(2) evidence_chainD(2) [OF _ v(1)] by (auto simp: evidence_inv_def validation_backed_def)
  ultimately show ?thesis by (auto simp: passed_on_tree_def tbl.ex_get t)
qed

text \<open>
  C1. A delivery is backed by its whole chain of evidence: its candidate is delivered, carries exactly the
  delivered commit, tree and base, passed hard validation and the full suite on that very tree, and an
  Architect decision to deliver names a Quality review of the candidate; the decision overrides the
  review exactly when the review rejects.
\<close>

theorem delivery_has_its_evidence:
  assumes "reachable hash s" "get_row (deliveries (store s)) k = Some x"
  shows "\<exists>c m y n r. get_row (candidates (store s)) (dl_candidate_id x) = Some c
     \<and> cr_lifecycle c = CANDIDATE_DELIVERED \<and> cr_commit c = Some (dl_candidate_commit x)
     \<and> cr_candidate_tree c = dl_resulting_tree x \<and> cr_base_commit c = dl_expected_old_commit x
     \<and> passed_on_tree (store s) (dl_candidate_id x) c HardCandidate
     \<and> passed_on_tree (store s) (dl_candidate_id x) c QualityFullSuite
     \<and> get_row (architect_decisions (store s)) m = Some y \<and> de_kind y = DECISION_DELIVER
     \<and> de_candidate_id y = Some (dl_candidate_id x) \<and> de_review_id y = Some n
     \<and> get_row (reviews (store s)) n = Some r \<and> re_candidate_id r = dl_candidate_id x
     \<and> (de_overrides_quality_rejection y \<longleftrightarrow> re_verdict r = REVIEW_REJECT)"
proof -
  let ?d = "store s" and ?i = "dl_candidate_id x"
  note inv = reachableD(1) [OF assms(1)]
  then have chain: "evidence_chain ?d" and t: "table_ok (architect_decisions ?d)"
    by (simp_all add: evidence_inv_def tables_ok_def)
  obtain c where c: "get_row (candidates ?d) ?i = Some c" "cr_lifecycle c = CANDIDATE_DELIVERED"
      "cr_commit c = Some (dl_candidate_commit x)" "cr_candidate_tree c = dl_resulting_tree x"
      "cr_base_commit c = dl_expected_old_commit x"
    using evidence_chainD(4) [OF chain assms(2)] by (auto simp: delivery_backed_def)
  have b: "validation_passed ?d ?i HardCandidate" "validation_passed ?d ?i QualityFullSuite" "deliver_decision_exists ?d ?i"
    using evidence_chainD(1) [OF chain c(1)] c(2) by (auto simp: candidate_backed_def)
  obtain m y where y: "get_row (architect_decisions ?d) m = Some y" "de_candidate_id y = Some ?i" "de_kind y = DECISION_DELIVER"
    using b(3) by (auto simp: deliver_decision_exists_def tbl.ex_get t)
  then obtain n r where r: "de_review_id y = Some n" "get_row (reviews ?d) n = Some r" "re_candidate_id r = ?i"
      "de_overrides_quality_rejection y \<longleftrightarrow> re_verdict r = REVIEW_REJECT"
    using evidence_chainD(3) [OF chain y(1)] by (auto simp: decision_backed_def)
  show ?thesis
    using c passed_on_treeI [OF inv b(1) c(1)] passed_on_treeI [OF inv b(2) c(1)] y r by blast
qed

lemma pilot_end_delivery:
  "get_row (deliveries pilot_end) 1 = Some \<lparr>dl_candidate_id = 1, dl_candidate_commit = pilot_oid CHR ''e'',
     dl_expected_old_commit = pilot_oid CHR ''a'', dl_resulting_commit = pilot_oid CHR ''e'',
     dl_resulting_tree = pilot_oid CHR ''d'', dl_factory_cost_micro_usd = 7, dl_receipt_artifact_id = 5\<rparr>"
  by (simp add: pilot_end_def get_row_def)

theorem delivery_has_its_evidence_witness:
  "\<exists>c. get_row (candidates (store pilot_delivered)) 1 = Some c \<and> cr_lifecycle c = CANDIDATE_DELIVERED
     \<and> passed_on_tree (store pilot_delivered) 1 c QualityFullSuite"
  using delivery_has_its_evidence [OF pilot_delivered_reachable, of 1] pilot_end_delivery
  by (auto simp: pilot_delivered_def)

text \<open>
  C4. Evidence is append-only.  However the kernel runs on, validations, reviews, decisions, deliveries and
  audit rows stay as they were; a candidate keeps its sealed fields, keeps a commit once attached, and does
  not change at all once delivered.
\<close>

theorem evidence_is_append_only:
  assumes "reachable hash s" "kernel_run hash s s'"
  shows "keeps_rows (validations (store s)) (validations (store s')) \<and> keeps_rows (reviews (store s)) (reviews (store s'))
     \<and> keeps_rows (architect_decisions (store s)) (architect_decisions (store s'))
     \<and> keeps_rows (deliveries (store s)) (deliveries (store s')) \<and> keeps_rows (audit_log (store s)) (audit_log (store s'))
     \<and> (\<forall>i c. get_row (candidates (store s)) i = Some c \<longrightarrow>
          (\<exists>c'. get_row (candidates (store s')) i = Some c'
             \<and> c' = c\<lparr>cr_commit := cr_commit c', cr_ref := cr_ref c', cr_lifecycle := cr_lifecycle c',
                      cr_revision := cr_revision c'\<rparr>
             \<and> (cr_commit c = None \<or> cr_commit c' = cr_commit c)
             \<and> (cr_lifecycle c = CANDIDATE_DELIVERED \<longrightarrow> c' = c)))"
  using reachable_run [OF assms] unfolding kernel_grows_def evidence_grows_def candidate_evolves_def by fastforce

theorem evidence_is_append_only_witness:
  "keeps_rows (validations (store pilot_claimed)) (validations (store pilot_delivered))"
  using evidence_is_append_only [OF pilot_claimed_reachable pilot_runs] by simp

section \<open>Tickets and attempts\<close>

text \<open>
  C9. One engineering ticket at a time: of the ticket revisions of one application revision at most one is
  in flight, and at most one that is not blocked has a given reproducer.
\<close>

theorem one_ticket_in_flight:
  assumes "reachable hash s" "get_row (ticket_revisions (store s)) i = Some x" "get_row (ticket_revisions (store s)) j = Some y"
    and "tr_application_revision_id x = tr_application_revision_id y"
    and "tr_lifecycle x = TICKET_IN_FLIGHT \<and> tr_lifecycle y = TICKET_IN_FLIGHT
      \<or> tr_reproducer_artifact_id x = tr_reproducer_artifact_id y
         \<and> tr_lifecycle x \<noteq> TICKET_BLOCKED \<and> tr_lifecycle y \<noteq> TICKET_BLOCKED"
  shows "i = j"
proof -
  have "unique_key (get_row (ticket_revisions (store s))) in_flight_key"
    "unique_key (get_row (ticket_revisions (store s))) live_reproducer_key"
    using reachableD(2) [OF assms(1)] by (simp_all add: ticket_inv_def)
  from unique_keyD [OF this(1) assms(2,3)] unique_keyD [OF this(2) assms(2,3)] show ?thesis
    using assms(4,5) by (auto simp: in_flight_key_def live_reproducer_key_def)
qed

definition pilot_ticket :: ticket_revision_row where
  "pilot_ticket = the (get_row (ticket_revisions pilot_mid) 1)"

lemma pilot_ticket_row: "get_row (ticket_revisions (store pilot_claimed)) 1 = Some pilot_ticket"
  "tr_lifecycle pilot_ticket = TICKET_IN_FLIGHT" "tr_application_revision_id pilot_ticket = 1"
  by (simp_all add: pilot_ticket_def pilot_claimed_def pilot_mid_def get_row_def)

theorem one_ticket_in_flight_witness: "(1 :: int) = 1 \<and> tr_lifecycle pilot_ticket = TICKET_IN_FLIGHT"
  using one_ticket_in_flight [OF pilot_claimed_reachable pilot_ticket_row(1) pilot_ticket_row(1)] pilot_ticket_row(2) by simp

text \<open>
  C17. A ticket and its revision move in lockstep: every ticket revision is the current one of its ticket,
  with the same lifecycle and the same optimistic revision, and never superseded.
\<close>

theorem ticket_and_revision_agree:
  assumes "reachable hash s" "get_row (ticket_revisions (store s)) i = Some x"
  shows "\<exists>t. get_row (tickets (store s)) (tr_ticket_id x) = Some t \<and> ti_current_ticket_revision_id t = i
     \<and> ti_lifecycle t = tr_lifecycle x \<and> ti_revision t = tr_revision x
     \<and> 0 \<le> tr_lifecycle x \<and> tr_lifecycle x \<le> TICKET_REJECTED \<and> tr_lifecycle x \<noteq> TICKET_SUPERSEDED"
  using reachableD(2) [OF assms(1)] assms(2) by (fastforce simp: ticket_inv_def ticket_linked_def reached_state_def)

theorem ticket_and_revision_agree_witness:
  "\<exists>t. get_row (tickets (store pilot_claimed)) (tr_ticket_id pilot_ticket) = Some t
     \<and> ti_lifecycle t = tr_lifecycle pilot_ticket"
  using ticket_and_revision_agree [OF pilot_claimed_reachable pilot_ticket_row(1)] by blast

text \<open>
  C16. A ticket is owned by exactly one unreleased attempt while it is in flight, delivered or rejected, and
  by none otherwise; an attempt is reworked at most once.
\<close>

theorem owned_ticket_has_one_attempt:
  assumes "reachable hash s" "get_row (ticket_revisions (store s)) i = Some x"
  shows "if tr_lifecycle x = TICKET_IN_FLIGHT \<or> tr_lifecycle x = TICKET_DELIVERED \<or> tr_lifecycle x = TICKET_REJECTED
     then \<exists>!j. \<exists>a. get_row (ticket_attempts (store s)) j = Some a \<and> ta_ticket_revision_id a = i
                    \<and> ta_released a = None \<and> 0 \<le> ta_rework_ordinal a \<and> ta_rework_ordinal a \<le> 1
     else \<not> unreleased_attempt_exists (store s) i"
proof -
  let ?d = "store s"
  note inv = reachableD(2) [OF assms(1)]
  have t: "table_ok (ticket_attempts ?d)" and u: "unique_key (get_row (ticket_attempts ?d)) unreleased_key"
    and o: "unreleased_attempt_exists ?d i \<longleftrightarrow> owned_state (tr_lifecycle x)"
    using inv assms(2) by (auto simp: ticket_inv_def tables_ok_def)
  show ?thesis
  proof (cases "owned_state (tr_lifecycle x)")
    case True
    then obtain j a where a: "get_row (ticket_attempts ?d) j = Some a" "ta_ticket_revision_id a = i" "ta_released a = None"
      using o by (auto simp: unreleased_attempt_exists_def tbl.ex_get t)
    have "\<exists>!j. \<exists>a. get_row (ticket_attempts ?d) j = Some a \<and> ta_ticket_revision_id a = i
                    \<and> ta_released a = None \<and> 0 \<le> ta_rework_ordinal a \<and> ta_rework_ordinal a \<le> 1"
    proof (rule ex1I [of _ j])
      show "\<exists>a. get_row (ticket_attempts ?d) j = Some a \<and> ta_ticket_revision_id a = i
                    \<and> ta_released a = None \<and> 0 \<le> ta_rework_ordinal a \<and> ta_rework_ordinal a \<le> 1"
        using a attempt_ordinal_ok [OF inv a(1)] by blast
    next
      fix k
      assume "\<exists>b. get_row (ticket_attempts ?d) k = Some b \<and> ta_ticket_revision_id b = i
                    \<and> ta_released b = None \<and> 0 \<le> ta_rework_ordinal b \<and> ta_rework_ordinal b \<le> 1"
      then obtain b where "get_row (ticket_attempts ?d) k = Some b" "ta_ticket_revision_id b = i" "ta_released b = None"
        by blast
      then show "k = j" using unique_keyD [OF u, of k b j a] a by (simp add: unreleased_key_def)
    qed
    then show ?thesis using True by (simp add: owned_state_def)
  qed (use o in \<open>simp add: owned_state_def\<close>)
qed

theorem owned_ticket_has_one_attempt_witness:
  "\<exists>!j. \<exists>a. get_row (ticket_attempts (store pilot_claimed)) j = Some a \<and> ta_ticket_revision_id a = 1
                    \<and> ta_released a = None \<and> 0 \<le> ta_rework_ordinal a \<and> ta_rework_ordinal a \<le> 1"
  using owned_ticket_has_one_attempt [OF pilot_claimed_reachable pilot_ticket_row(1)] pilot_ticket_row(2) by simp

text \<open>
  C15. The stage of an attempt and the lifecycle of its newest candidate fit: an attempt with no candidate is
  in Engineering or has ended, and otherwise the newest candidate has the one lifecycle its stage acts on.
\<close>

theorem stage_fits_newest_candidate:
  assumes "reachable hash s" "get_row (ticket_attempts (store s)) j = Some a"
  shows "case newest_candidate (store s) j of
      None \<Rightarrow> ta_stage a = ATTEMPT_ENGINEERING \<or> ta_stage a = ATTEMPT_FAILED \<or> ta_stage a = ATTEMPT_CANCELLED
    | Some (i, c) \<Rightarrow> stage_fits (ta_stage a) (cr_lifecycle c)"
proof -
  have "table_ok (candidates (store s))" using reachableD(4) [OF assms(1)] by (simp add: tables_ok_def)
  then show ?thesis by (rule newest_of_staged [OF _ stage_inv_attempt [OF reachableD(3) [OF assms(1)] assms(2)]])
qed

lemma pilot_attempt_row: "\<exists>a. get_row (ticket_attempts (store pilot_claimed)) 1 = Some a \<and> ta_stage a = ATTEMPT_QUALITY"
  by (simp add: pilot_claimed_def pilot_mid_def get_row_def)

theorem stage_fits_newest_candidate_witness:
  "case newest_candidate (store pilot_claimed) 1 of None \<Rightarrow> False | Some (i, c) \<Rightarrow> stage_fits ATTEMPT_QUALITY (cr_lifecycle c)"
proof -
  obtain a where "get_row (ticket_attempts (store pilot_claimed)) 1 = Some a" "ta_stage a = ATTEMPT_QUALITY"
    using pilot_attempt_row by blast
  then show ?thesis
    using stage_fits_newest_candidate [OF pilot_claimed_reachable, of 1 a] by (auto split: option.splits)
qed

end
